(* ===== verification/N3iwf_Prelude.thy ===== *)
theory N3iwf_Prelude
  imports Main "HOL-Library.Word" "HOL-Library.Sublist"
begin

unbundle bit_operations_syntax

text \<open>
  Shared vocabulary of the development: machine integers and octet strings, the outcome of a
  Go call (a value, a returned error, a panic), sequencing of such calls over an explicit
  state, Go slices and \<open>encoding/binary\<close>'s big-endian readers and writers, and the locales that
  several components use as interfaces (fixed-width codecs, framed streams, keyed pools and
  transition systems).
\<close>

section \<open>Types\<close>

type_synonym byte = "8 word"
type_synonym u8 = "8 word"
type_synonym u16 = "16 word"
type_synonym u32 = "32 word"
type_synonym u64 = "64 word"
type_synonym octets = "byte list"

named_theorems go_simps \<open>unfolding of the Go sequencing combinators\<close>
named_theorems codec_simps \<open>encode/decode laws of the wire formats\<close>
named_theorems frame_simps \<open>fields of the state that an operation leaves alone\<close>

section \<open>Outcomes of Go calls\<close>

text \<open>
  A Go function returns a value, returns an error, or does not return: it panics (\<open>NilPointer\<close>,
  \<open>IndexRange\<close>, \<open>ClosedChannel\<close> for a send on a closed channel) or runs for ever (\<open>NoReturn\<close>). An error carries its message, a call that does not
  return the reason.
\<close>

datatype go_panic = NilPointer | IndexRange | NoReturn | ClosedChannel

datatype 'a gores = Val 'a | Err string | Crash go_panic

definition is_Crash :: "'a gores \<Rightarrow> bool" where
  "is_Crash r = (case r of Crash _ \<Rightarrow> True | _ \<Rightarrow> False)"

lemma is_Crash_simps [simp]:
  "is_Crash (Val a) = False" "is_Crash (Err e) = False" "is_Crash (Crash p) = True"
  by (simp_all add: is_Crash_def)

text \<open>
  A stateful call returns its outcome together with the state it leaves behind (a panic or an
  error does not undo what was written before it). \<open>gbind\<close> is the sequencing of a call whose
  error is returned at once (\<open>if err != nil { return err }\<close>); \<open>gtry\<close> the sequencing of a call
  whose error is only logged. What does not return always propagates.
\<close>

definition gbind ::
  "'a gores \<times> 'w \<Rightarrow> ('a \<Rightarrow> 'w \<Rightarrow> 'b gores \<times> 'w) \<Rightarrow> 'b gores \<times> 'w" where
  "gbind r f = (case r of (Val a, w) \<Rightarrow> f a w | (Err e, w) \<Rightarrow> (Err e, w) | (Crash p, w) \<Rightarrow> (Crash p, w))"

definition gtry ::
  "'a gores \<times> 'w \<Rightarrow> ('a option \<Rightarrow> 'w \<Rightarrow> 'b gores \<times> 'w) \<Rightarrow> 'b gores \<times> 'w" where
  "gtry r f = (case r of (Val a, w) \<Rightarrow> f (Some a) w | (Err e, w) \<Rightarrow> f None w | (Crash p, w) \<Rightarrow> (Crash p, w))"

lemma gbind_simps [simp, go_simps]:
  "gbind (Val a, w) f = f a w"
  "gbind (Err e, w) f = (Err e, w)"
  "gbind (Crash p, w) f = (Crash p, w)"
  by (simp_all add: gbind_def)

lemma gtry_simps [simp, go_simps]:
  "gtry (Val a, w) f = f (Some a) w"
  "gtry (Err e, w) f = f None w"
  "gtry (Crash p, w) f = (Crash p, w)"
  by (simp_all add: gtry_def)

lemma gbind_cases:
  assumes "gbind r f = (x, w')"
  obtains (Val) a w where "r = (Val a, w)" "f a w = (x, w')"
    | (Err) e where "r = (Err e, w')" "x = Err e"
    | (Crash) p where "r = (Crash p, w')" "x = Crash p"
  using assms by (cases r; cases "fst r") auto

lemma is_Crash_gbind:
  "is_Crash (fst (gbind r f)) = (is_Crash (fst r) \<or> (\<exists>a w. r = (Val a, w) \<and> is_Crash (fst (f a w))))"
  by (cases r; cases "fst r") auto

text \<open>
  The loop \<open>for _, x := range xs { body }\<close> whose body may return from the function with an
  error or panic: the body is run on the elements in order, threading the state.
\<close>

fun gloop :: "('x \<Rightarrow> 'w \<Rightarrow> unit gores \<times> 'w) \<Rightarrow> 'x list \<Rightarrow> 'w \<Rightarrow> unit gores \<times> 'w" where
  "gloop f [] w = (Val (), w)"
| "gloop f (x # xs) w = gbind (f x w) (\<lambda>_. gloop f xs)"

lemma gloop_append: "gloop f (xs @ ys) w = gbind (gloop f xs w) (\<lambda>_. gloop f ys)"
proof (induction xs arbitrary: w)
  case (Cons x xs)
  then show ?case
    by (cases "f x w"; cases "fst (f x w)") auto
qed simp

lemma gloop_invariant:
  assumes "P w" and "\<And>x w. x \<in> set xs \<Longrightarrow> P w \<Longrightarrow> P (snd (f x w))"
  shows "P (snd (gloop f xs w))"
  using assms
proof (induction xs arbitrary: w)
  case (Cons x xs)
  have P1: "P (snd (f x w))"
    using Cons.prems by simp
  show ?case
  proof (cases "f x w")
    case (Pair r w1)
    with P1 have "P w1" by simp
    with Pair Cons show ?thesis by (cases r) auto
  qed
qed simp

section \<open>Slices\<close>

text \<open>
  \<open>s[i:]\<close> panics when \<open>i > len(s)\<close>, \<open>s[:j]\<close> when \<open>j > cap(s)\<close> (the slices here are never
  re-sliced above their length), \<open>s[i:j]\<close> when either is out of order, \<open>s[i]\<close> when \<open>i >= len(s)\<close>.
\<close>

definition slice_from :: "nat \<Rightarrow> 'a list \<Rightarrow> 'a list gores" where
  "slice_from i s = (if i \<le> length s then Val (drop i s) else Crash IndexRange)"

definition slice_to :: "nat \<Rightarrow> 'a list \<Rightarrow> 'a list gores" where
  "slice_to j s = (if j \<le> length s then Val (take j s) else Crash IndexRange)"

definition slice_range :: "nat \<Rightarrow> nat \<Rightarrow> 'a list \<Rightarrow> 'a list gores" where
  "slice_range i j s = (if i \<le> j \<and> j \<le> length s then Val (take (j - i) (drop i s)) else Crash IndexRange)"

definition index_at :: "nat \<Rightarrow> 'a list \<Rightarrow> 'a gores" where
  "index_at i s = (if i < length s then Val (s ! i) else Crash IndexRange)"

text \<open>Sequencing of pure calls (no state).\<close>

definition pbind :: "'a gores \<Rightarrow> ('a \<Rightarrow> 'b gores) \<Rightarrow> 'b gores" where
  "pbind r f = (case r of Val a \<Rightarrow> f a | Err e \<Rightarrow> Err e | Crash p \<Rightarrow> Crash p)"

lemma pbind_simps [simp, go_simps]:
  "pbind (Val a) f = f a" "pbind (Err e) f = Err e" "pbind (Crash p) f = Crash p"
  by (simp_all add: pbind_def)

lemma slice_from_ok [simp]: "i \<le> length s \<Longrightarrow> slice_from i s = Val (drop i s)"
  by (simp add: slice_from_def)

lemma slice_to_ok [simp]: "j \<le> length s \<Longrightarrow> slice_to j s = Val (take j s)"
  by (simp add: slice_to_def)

lemma slice_range_ok [simp]: "i \<le> j \<Longrightarrow> j \<le> length s \<Longrightarrow> slice_range i j s = Val (take (j - i) (drop i s))"
  by (simp add: slice_range_def)

lemma index_at_ok [simp]: "i < length s \<Longrightarrow> index_at i s = Val (s ! i)"
  by (simp add: index_at_def)

section \<open>Big-endian integers\<close>

definition PutUint16 :: "u16 \<Rightarrow> octets" where
  "PutUint16 v = [ucast (drop_bit 8 v), ucast v]"

definition PutUint32 :: "u32 \<Rightarrow> octets" where
  "PutUint32 v = [ucast (drop_bit 24 v), ucast (drop_bit 16 v), ucast (drop_bit 8 v), ucast v]"

definition PutUint64 :: "u64 \<Rightarrow> octets" where
  "PutUint64 v = [ucast (drop_bit 56 v), ucast (drop_bit 48 v), ucast (drop_bit 40 v),
     ucast (drop_bit 32 v), ucast (drop_bit 24 v), ucast (drop_bit 16 v), ucast (drop_bit 8 v), ucast v]"

definition Uint16 :: "octets \<Rightarrow> u16" where
  "Uint16 b = (ucast (b ! 1)) OR push_bit 8 (ucast (b ! 0))"

definition Uint32 :: "octets \<Rightarrow> u32" where
  "Uint32 b = ucast (b ! 3) OR push_bit 8 (ucast (b ! 2)) OR push_bit 16 (ucast (b ! 1))
     OR push_bit 24 (ucast (b ! 0))"

definition Uint64 :: "octets \<Rightarrow> u64" where
  "Uint64 b = ucast (b ! 7) OR push_bit 8 (ucast (b ! 6)) OR push_bit 16 (ucast (b ! 5))
     OR push_bit 24 (ucast (b ! 4)) OR push_bit 32 (ucast (b ! 3)) OR push_bit 40 (ucast (b ! 2))
     OR push_bit 48 (ucast (b ! 1)) OR push_bit 56 (ucast (b ! 0))"

lemma length_PutUint [simp]:
  "length (PutUint16 v) = 2" "length (PutUint32 w) = 4" "length (PutUint64 x) = 8"
  by (simp_all add: PutUint16_def PutUint32_def PutUint64_def)

lemma Uint16_PutUint16: "Uint16 (PutUint16 v @ r) = v"
  by (rule bit_word_eqI)
    (auto simp: Uint16_def PutUint16_def bit_simps bit_word_ucast_iff)

lemma octet_bit_cases:
  assumes "n < 8 * Suc k"
  obtains q r where "q \<le> k" "r < 8" "n = 8 * q + r"
proof
  show "n div 8 \<le> k" "n mod 8 < 8" "n = 8 * (n div 8) + n mod 8"
    using assms by auto
qed

lemma Uint32_PutUint32: "Uint32 (PutUint32 v @ r) = v"
proof (rule bit_word_eqI)
  fix n assume "n < LENGTH(32)"
  then obtain q k where qk: "q \<le> 3" "k < 8" "n = 8 * q + k"
    using octet_bit_cases [of n 3] by auto
  from \<open>q \<le> 3\<close> have "q \<in> {0, 1, 2, 3}"
    by auto
  with qk show "bit (Uint32 (PutUint32 v @ r)) n = bit v n"
    by (elim insertE; simp add: Uint32_def PutUint32_def bit_simps)
qed

lemma Uint64_PutUint64: "Uint64 (PutUint64 v @ r) = v"
proof (rule bit_word_eqI)
  fix n assume "n < LENGTH(64)"
  then obtain q k where qk: "q \<le> 7" "k < 8" "n = 8 * q + k"
    using octet_bit_cases [of n 7] by auto
  from \<open>q \<le> 7\<close> have "q \<in> {0, 1, 2, 3, 4, 5, 6, 7}"
    by auto
  with qk show "bit (Uint64 (PutUint64 v @ r)) n = bit v n"
    by (elim insertE; simp add: Uint64_def PutUint64_def bit_simps)
qed

lemma PutUint16_Uint16:
  assumes "length b = 2" shows "PutUint16 (Uint16 b) = b"
proof -
  obtain x y where b: "b = [x, y]"
    using assms by (cases b; cases "tl b") auto
  have "ucast (drop_bit 8 (Uint16 b)) = x"
    by (rule bit_word_eqI) (auto simp: b Uint16_def bit_simps dest: bit_imp_le_length)
  moreover have "ucast (Uint16 b) = y"
    by (rule bit_word_eqI) (auto simp: b Uint16_def bit_simps)
  ultimately show ?thesis by (simp add: PutUint16_def b)
qed

lemma PutUint32_Uint32:
  assumes "length b = 4" shows "PutUint32 (Uint32 b) = b"
proof -
  obtain p q x y where b: "b = [p, q, x, y]"
    using assms by (auto simp: numeral_eq_Suc length_Suc_conv)
  have "ucast (drop_bit 24 (Uint32 b)) = p" "ucast (drop_bit 16 (Uint32 b)) = q" "ucast (drop_bit 8 (Uint32 b)) = x"
    by ((rule bit_word_eqI, auto simp: b Uint32_def bit_simps dest: bit_imp_le_length)[1])+
  moreover have "ucast (Uint32 b) = y"
    by (rule bit_word_eqI) (auto simp: b Uint32_def bit_simps)
  ultimately show ?thesis by (simp add: PutUint32_def b)
qed

section \<open>Interfaces shared by the components\<close>

text \<open>
  A fixed-width field of a wire format: what is written is \<open>width\<close> octets long and is read back
  whatever follows it.
\<close>

locale field_codec =
  fixes width :: nat
    and put :: "'v \<Rightarrow> octets"
    and get :: "octets \<Rightarrow> 'v"
  assumes length_put: "length (put v) = width"
    and get_put: "get (put v @ r) = v"
begin

lemma get_put_exact: "get (put v) = v"
  using get_put [of v "[]"] by simp

lemma put_inject: "put v = put v' \<longleftrightarrow> v = v'"
  using get_put_exact by metis

lemma put_append_inject: "put v @ r = put v' @ r' \<longleftrightarrow> v = v' \<and> r = r'"
  using length_put get_put by (metis append_eq_append_conv)

lemma drop_put: "drop width (put v @ r) = r"
  by (simp add: length_put)

lemma take_put: "take width (put v @ r) = put v"
  by (simp add: length_put)

end

interpretation be16: field_codec 2 PutUint16 Uint16
  by unfold_locales (simp_all add: Uint16_PutUint16)

interpretation be32: field_codec 4 PutUint32 Uint32
  by unfold_locales (simp_all add: Uint32_PutUint32)

interpretation be64: field_codec 8 PutUint64 Uint64
  by unfold_locales (simp_all add: Uint64_PutUint64)

lemmas [codec_simps] = be16.get_put be16.get_put_exact be32.get_put be32.get_put_exact
  be64.get_put be64.get_put_exact be16.drop_put be32.drop_put be64.drop_put
  be16.take_put be32.take_put be64.take_put

text \<open>
  A framing of messages on a byte stream: \<open>unframe\<close> takes the first complete frame off the
  stream, \<open>receive\<close> is the receiving loop, which stops at the first incomplete frame. \<open>fits\<close>
  says which messages the frame's length field can describe.
\<close>

locale framed_stream =
  fixes fits :: "'m \<Rightarrow> bool"
    and frame :: "'m \<Rightarrow> 'b list"
    and unframe :: "'b list \<Rightarrow> ('m \<times> 'b list) option"
    and receive :: "'b list \<Rightarrow> 'm list"
  assumes unframe_frame: "fits m \<Longrightarrow> unframe (frame m @ r) = Some (m, r)"
    and unframe_short: "fits m \<Longrightarrow> n < length (frame m) \<Longrightarrow> unframe (take n (frame m)) = None"
    and unframe_empty: "unframe [] = None"
    and receive_None: "unframe s = None \<Longrightarrow> receive s = []"
    and receive_Some: "unframe s = Some (m, r) \<Longrightarrow> receive s = m # receive r"
begin

lemma receive_frames:
  "list_all fits ms \<Longrightarrow> receive (concat (map frame ms) @ r) = ms @ receive r"
  by (induction ms) (auto simp: receive_Some [OF unframe_frame])

text \<open>Whatever part of the stream has arrived, what is delivered is a prefix of what was sent.\<close>

lemma receive_cut:
  "list_all fits ms \<Longrightarrow> prefix (receive (take n (concat (map frame ms)))) ms"
proof (induction ms arbitrary: n)
  case Nil
  show ?case by (simp add: receive_None unframe_empty)
next
  case (Cons m ms)
  show ?case
  proof (cases "n < length (frame m)")
    case True
    with Cons.prems show ?thesis
      using receive_None [OF unframe_short [of m n]] by simp
  next
    case False
    with Cons show ?thesis
      by (auto simp: receive_Some [OF unframe_frame])
  qed
qed

end

text \<open>
  A transition system with an invariant: what every step keeps holds in every state reachable
  from one that has it.
\<close>

locale step_invariant =
  fixes step :: "'s \<Rightarrow> 's \<Rightarrow> bool"
    and inv :: "'s \<Rightarrow> bool"
  assumes step_inv: "inv s \<Longrightarrow> step s t \<Longrightarrow> inv t"
begin

lemma reachable_inv: "step\<^sup>*\<^sup>* s t \<Longrightarrow> inv s \<Longrightarrow> inv t"
  by (induction rule: rtranclp_induct) (auto intro: step_inv)

end

end
