(* ===== verification/Eap5g.thy ===== *)
theory Eap5g
  imports N3iwf_Prelude
begin

text \<open>
  The EAP-5G vendor data of TS 24.502 9.3.2.2.2 (\<open>UnmarshalEAP5GData\<close>,
  \<open>src/internal/ngap/eap5g.go\<close>, with the constants of \<open>src/internal/ngap/message/types.go\<close>): the
  access-network parameters and the NAS PDU a UE sends. Every slice expression and index of the
  source is one that can panic here, and the offsets are computed in the source's integer types
  (\<open>uint8\<close> for a parameter, \<open>uint16\<close> for the whole field). The loop over the parameters need not
  end, so it is a partial function whose value is \<open>None\<close> when it does not return. The APER
  decoders are the parameters \<open>aper\<close>.
\<close>

section \<open>Types and constants\<close>

record BitString =
  bs_Bytes :: octets
  bs_BitLength :: nat

record GUAMI =
  guami_PLMNIdentity :: octets
  guami_AMFRegionID :: BitString
  guami_AMFSetID :: BitString
  guami_AMFPointer :: BitString

record SNSSAI =
  sst :: octets
  sd :: "octets option"

record ANParameters =
  anp_GUAMI :: "GUAMI option"
  anp_SelectedPLMNID :: "octets option"
  anp_RequestedNSSAI :: "SNSSAI list option"
  anp_EstablishmentCause :: "u64 option"

definition ANParameters_new :: ANParameters where
  "ANParameters_new = \<lparr>anp_GUAMI = None, anp_SelectedPLMNID = None, anp_RequestedNSSAI = None,
     anp_EstablishmentCause = None\<rparr>"

record aper_lib =
  aper_Unmarshal_GUAMI :: "octets \<Rightarrow> GUAMI option"
  aper_Unmarshal_PLMNIdentity :: "octets \<Rightarrow> octets option"

definition ANParametersTypeGUAMI :: u8 where "ANParametersTypeGUAMI = 1"
definition ANParametersTypeSelectedPLMNID :: u8 where "ANParametersTypeSelectedPLMNID = 2"
definition ANParametersTypeRequestedNSSAI :: u8 where "ANParametersTypeRequestedNSSAI = 3"
definition ANParametersTypeEstablishmentCause :: u8 where "ANParametersTypeEstablishmentCause = 4"

definition ANParametersLenGUAMI :: nat where "ANParametersLenGUAMI = 6"
definition ANParametersLenPLMNID :: nat where "ANParametersLenPLMNID = 3"
definition ANParametersLenEstCause :: nat where "ANParametersLenEstCause = 1"

definition EstablishmentCauseEmergency :: u8 where "EstablishmentCauseEmergency = 0"
definition EstablishmentCauseHighPriorityAccess :: u8 where "EstablishmentCauseHighPriorityAccess = 1"
definition EstablishmentCauseMO_Signalling :: u8 where "EstablishmentCauseMO_Signalling = 3"
definition EstablishmentCauseMO_Data :: u8 where "EstablishmentCauseMO_Data = 4"
definition EstablishmentCauseMPS_PriorityAccess :: u8 where "EstablishmentCauseMPS_PriorityAccess = 8"
definition EstablishmentCauseMCS_PriorityAccess :: u8 where "EstablishmentCauseMCS_PriorityAccess = 9"

lemmas an_types = ANParametersTypeGUAMI_def ANParametersTypeSelectedPLMNID_def
  ANParametersTypeRequestedNSSAI_def ANParametersTypeEstablishmentCause_def

lemmas an_lens = ANParametersLenGUAMI_def ANParametersLenPLMNID_def ANParametersLenEstCause_def

lemmas an_causes = EstablishmentCauseEmergency_def EstablishmentCauseHighPriorityAccess_def
  EstablishmentCauseMO_Signalling_def EstablishmentCauseMO_Data_def
  EstablishmentCauseMPS_PriorityAccess_def EstablishmentCauseMCS_PriorityAccess_def

section \<open>The parser\<close>

text \<open>The value of a parameter: \<open>anParameterField[2:]\<close>, bound check, \<open>[:parameterLength]\<close>.\<close>

definition parameter_value :: "u8 \<Rightarrow> octets \<Rightarrow> octets gores" where
  "parameter_value parameterLength field =
     pbind (slice_from 2 field) (\<lambda>v.
       if length v < unat parameterLength then Err ''error formatting''
       else slice_to (unat parameterLength) v)"

text \<open>The loop over the S-NSSAIs of a requested NSSAI.\<close>

definition snssai_item :: "octets \<Rightarrow> SNSSAI gores" where
  "snssai_item v =
     (if length v = 1 then Val \<lparr>sst = [v ! 0], sd = None\<rparr>
      else if length v = 4 then Val \<lparr>sst = [v ! 0], sd = Some [v ! 1, v ! 2, v ! 3]\<rparr>
      else Err ''error formatting'')"

lemma unat_add_u8: "unat (a + b :: u8) = (unat a + unat b) mod 256"
  by (simp add: unat_word_ariths)

lemma unat_u8_less: "unat (n :: u8) < 256"
  using unsigned_less [of n] by simp

lemma snssai_item_Val_length: "snssai_item v = Val item \<Longrightarrow> length v = 1 \<or> length v = 4"
  by (auto simp: snssai_item_def split: if_splits)

lemma snssai_step_length:
  assumes "2 \<le> length v" "\<not> length (drop 1 v) < unat (v ! 0)"
    and "snssai_item (take (unat (v ! 0)) (drop 1 v)) = Val item"
  shows "unat (1 + v ! 0) = Suc (unat (v ! 0))" "Suc (unat (v ! 0)) \<le> length v"
proof -
  have "unat (v ! 0) = 1 \<or> unat (v ! 0) = 4"
    using snssai_item_Val_length [OF assms(3)] assms(1,2) by auto
  then show "unat (1 + v ! 0) = Suc (unat (v ! 0))"
    by (auto simp: unat_add_u8)
  show "Suc (unat (v ! 0)) \<le> length v"
    using assms(1,2) by auto
qed

function parse_snssais :: "octets \<Rightarrow> SNSSAI list \<Rightarrow> SNSSAI list gores" where
  "parse_snssais v acc =
     (if length v \<ge> 2 then
        let snssaiLength = v ! 0; rest = drop 1 v in
        if length rest < unat snssaiLength then Err ''error formatting''
        else
          case snssai_item (take (unat snssaiLength) rest) of
            Val item \<Rightarrow>
              (case slice_from (unat (1 + snssaiLength)) v of
                 Val v' \<Rightarrow> parse_snssais v' (acc @ [item])
               | Err e \<Rightarrow> Err e
               | Crash p \<Rightarrow> Crash p)
          | Err e \<Rightarrow> Err e
          | Crash p \<Rightarrow> Crash p
      else Val acc)"
  by pat_completeness auto

termination
proof (relation "measure (\<lambda>(v, _). length v)", goal_cases)
  case (2 v acc n rest item v')
  then have "unat (1 + v ! 0) = Suc (unat (v ! 0))" "Suc (unat (v ! 0)) \<le> length v"
    using snssai_step_length [of v item] by auto
  with 2 show ?case by auto
qed simp

declare parse_snssais.simps [simp del]

definition establishment_cause :: "u8 \<Rightarrow> u8" where
  "establishment_cause b =
     (let establishmentCause = b AND 0x0F in
      if establishmentCause = EstablishmentCauseEmergency
       \<or> establishmentCause = EstablishmentCauseHighPriorityAccess
       \<or> establishmentCause = EstablishmentCauseMO_Signalling
       \<or> establishmentCause = EstablishmentCauseMO_Data
       \<or> establishmentCause = EstablishmentCauseMPS_PriorityAccess
       \<or> establishmentCause = EstablishmentCauseMCS_PriorityAccess
      then establishmentCause else EstablishmentCauseMO_Data)"

text \<open>The switch on the parameter type: the parameters read so far, updated.\<close>

definition an_parameter ::
  "aper_lib \<Rightarrow> u8 \<Rightarrow> u8 \<Rightarrow> octets \<Rightarrow> ANParameters \<Rightarrow> ANParameters gores" where
  "an_parameter aper parameterType parameterLength field params =
     (if parameterType = ANParametersTypeGUAMI then
        if parameterLength \<noteq> 0 then
          pbind (parameter_value parameterLength field) (\<lambda>v.
            if length v \<noteq> ANParametersLenGUAMI then Err ''unmatched GUAMI length''
            else case aper_Unmarshal_GUAMI aper (0 # v) of
                   None \<Rightarrow> Err ''unmarshal failed when decoding GUAMI''
                 | Some g \<Rightarrow> Val (params\<lparr>anp_GUAMI := Some g\<rparr>))
        else Val params
      else if parameterType = ANParametersTypeSelectedPLMNID then
        if parameterLength \<noteq> 0 then
          pbind (parameter_value parameterLength field) (\<lambda>v.
            if length v \<noteq> ANParametersLenPLMNID then Err ''unmatched PLMN ID length''
            else case aper_Unmarshal_PLMNIdentity aper (0 # v) of
                   None \<Rightarrow> Err ''unmarshal failed when decoding PLMN''
                 | Some p \<Rightarrow> Val (params\<lparr>anp_SelectedPLMNID := Some p\<rparr>))
        else Val params
      else if parameterType = ANParametersTypeRequestedNSSAI then
        if parameterLength \<noteq> 0 then
          pbind (parameter_value parameterLength field) (\<lambda>v.
            pbind (parse_snssais v []) (\<lambda>l.
              Val (params\<lparr>anp_RequestedNSSAI := Some l\<rparr>)))
        else Val params
      else if parameterType = ANParametersTypeEstablishmentCause then
        if parameterLength \<noteq> 0 then
          pbind (parameter_value parameterLength field) (\<lambda>v.
            if length v \<noteq> ANParametersLenEstCause then Err ''unmatched Establishment Cause length''
            else pbind (index_at 0 v) (\<lambda>b.
              Val (params\<lparr>anp_EstablishmentCause := Some (ucast (establishment_cause b))\<rparr>)))
        else Val params
      else Val params)"

text \<open>
  The body of the loop, up to the shift of \<open>anParameterField\<close>. Both the bound check and the shift
  compute \<open>2+parameterLength\<close> in \<open>uint8\<close>.
\<close>

definition an_step :: "aper_lib \<Rightarrow> octets \<Rightarrow> ANParameters \<Rightarrow> (ANParameters \<times> octets) gores" where
  "an_step aper field params =
     pbind (index_at 0 field) (\<lambda>parameterType.
     pbind (index_at 1 field) (\<lambda>parameterLength.
       if unat (2 + parameterLength) > length field
       then Err ''malformed AN-parameter with parameter length exceeds remaining data bounds''
       else
         pbind (an_parameter aper parameterType parameterLength field params) (\<lambda>params'.
         pbind (slice_from (unat (2 + parameterLength)) field) (\<lambda>field'.
           Val (params', field')))))"

partial_function (option) parse_an_parameters ::
  "aper_lib \<Rightarrow> octets \<Rightarrow> ANParameters \<Rightarrow> ANParameters gores option" where
  "parse_an_parameters aper field params =
     (if length field \<ge> 2 then
        case an_step aper field params of
          Val (params', field') \<Rightarrow> parse_an_parameters aper field' params'
        | Err e \<Rightarrow> Some (Err e)
        | Crash p \<Rightarrow> Some (Crash p)
      else Some (Val params))"

text \<open>The closure that reads the AN-parameters; nil when the field is empty.\<close>

definition an_parameters :: "aper_lib \<Rightarrow> u16 \<Rightarrow> octets \<Rightarrow> ANParameters option gores option" where
  "an_parameters aper anParameterLength codedData =
     (if anParameterLength = 0 then Some (Val None)
      else
        case slice_from 2 codedData of
          Val f \<Rightarrow>
            (if length f < unat anParameterLength then Some (Err ''error formatting'')
             else case slice_to (unat anParameterLength) f of
                    Val f' \<Rightarrow> map_option (\<lambda>r. pbind r (\<lambda>p. Val (Some p)))
                               (parse_an_parameters aper f' ANParameters_new)
                  | Err e \<Rightarrow> Some (Err e) | Crash p \<Rightarrow> Some (Crash p))
        | Err e \<Rightarrow> Some (Err e) | Crash p \<Rightarrow> Some (Crash p))"

text \<open>What follows the AN-parameters: the NAS PDU.\<close>

definition eap5g_nas :: "u16 \<Rightarrow> octets \<Rightarrow> octets gores" where
  "eap5g_nas anParameterLength codedData =
     pbind (slice_from (unat (2 + anParameterLength)) codedData) (\<lambda>d.
       if length d < 2 then Err ''error formatting''
       else
         let nasPDULength = Uint16 (take 2 d) in
         if nasPDULength = 0 then Err ''no NAS PDU''
         else
           pbind (slice_from 2 d) (\<lambda>f.
             if length f < unat nasPDULength then Err ''error formatting''
             else slice_to (unat nasPDULength) f))"

definition UnmarshalEAP5GData ::
  "aper_lib \<Rightarrow> octets \<Rightarrow> (ANParameters option \<times> octets) gores option" where
  "UnmarshalEAP5GData aper codedData0 =
     (if length codedData0 < 2 then Some (Err ''no data to decode'')
      else
        let codedData = drop 2 codedData0 in
        if length codedData < 2 then Some (Err ''error formatting'')
        else
          let anParameterLength = Uint16 (take 2 codedData); field = drop 2 codedData in
          if length field < unat anParameterLength then Some (Err ''error formatting'')
          else
            map_option (\<lambda>r. pbind r (\<lambda>anParameters.
                pbind (eap5g_nas anParameterLength codedData) (\<lambda>nasPDU.
                  Val (anParameters, nasPDU))))
              (an_parameters aper anParameterLength codedData))"

section \<open>Progress of the loop\<close>

lemma unat_shift_u8:
  "unat (2 + n :: u8) = (if unat n \<ge> 254 then unat n - 254 else unat n + 2)"
proof -
  have "(2 + unat n) mod 256 = (if unat n \<ge> 254 then unat n - 254 else unat n + 2)"
    using unat_u8_less [of n] by (cases "254 \<le> unat n") (simp_all add: le_mod_geq less_imp_diff_less)
  then show ?thesis by (simp add: unat_add_u8)
qed

lemma parameter_value_no_crash: "2 \<le> length field \<Longrightarrow> \<not> is_Crash (parameter_value n field)"
  by (auto simp: parameter_value_def slice_to_def)

lemma parse_snssais_no_crash: "\<not> is_Crash (parse_snssais v acc)"
proof (induction v acc rule: parse_snssais.induct)
  case (1 v acc)
  show ?case
  proof (cases "2 \<le> length v \<and> \<not> length (drop 1 v) < unat (v ! 0)")
    case True
    then show ?thesis
    proof (cases "snssai_item (take (unat (v ! 0)) (drop 1 v))")
      case (Val item)
      then have "slice_from (unat (1 + v ! 0)) v = Val (drop (unat (1 + v ! 0)) v)"
        using True snssai_step_length [of v item] by simp
      with 1 True Val show ?thesis
        by (subst parse_snssais.simps) (auto simp: Let_def)
    next
      case (Crash p)
      then show ?thesis by (auto simp: snssai_item_def split: if_splits)
    qed (subst parse_snssais.simps, simp add: Let_def)
  qed (subst parse_snssais.simps, auto simp: Let_def)
qed

lemma is_Crash_pbind: "is_Crash (pbind r f) = (is_Crash r \<or> (\<exists>a. r = Val a \<and> is_Crash (f a)))"
  by (cases r) auto

lemma index_at_head:
  assumes "2 \<le> length v"
  shows "index_at 0 v = Val (v ! 0)" "index_at 1 v = Val (v ! 1)"
  using assms by (auto simp: index_at_def)

lemma an_parameter_no_crash:
  assumes "2 \<le> length field"
  shows "\<not> is_Crash (an_parameter aper t n field params)"
  using parameter_value_no_crash [OF assms, of n]
  by (simp add: an_parameter_def is_Crash_pbind an_lens parse_snssais_no_crash split: option.split)

lemma an_step_Val:
  assumes "an_step aper field params = Val (params', field')" "2 \<le> length field"
  shows "field' = drop (unat (2 + field ! 1)) field" "unat (2 + field ! 1) \<le> length field"
    "an_parameter aper (field ! 0) (field ! 1) field params = Val params'"
  using assms
  by (auto simp: an_step_def index_at_head [simplified] pbind_def slice_from_def
      split: if_splits gores.splits)

lemma an_step_no_crash:
  assumes "2 \<le> length field"
  shows "\<not> is_Crash (an_step aper field params)"
  using assms an_parameter_no_crash [OF assms]
  by (auto simp: an_step_def index_at_head [simplified] is_Crash_pbind)

lemma parse_an_parameters_no_crash:
  assumes "parse_an_parameters aper field params = Some r"
  shows "\<not> is_Crash r"
proof (induction rule: parse_an_parameters.raw_induct [OF _ assms])
  case (1 f aper field params r)
  show ?case
  proof (cases "2 \<le> length field")
    case True
    with 1 an_step_no_crash [OF True, of aper params] show ?thesis
      by (auto split: gores.splits)
  qed (use 1 in auto)
qed

lemma shift_pos: "n < 256 \<Longrightarrow> n \<noteq> 254 \<Longrightarrow> 0 < (n + 2) mod (256 :: nat)"
  by (cases "n = 255") auto

text \<open>
  The walk of the loop over the type and length octets alone: it moves on by \<open>2+n\<close> octets modulo 256,
  so by one octet for a length of 255, and meets a length octet that is 254.
\<close>

function meets_254 :: "octets \<Rightarrow> bool" where
  "meets_254 field =
     (if length field < 2 then False
      else
        let n = unat (field ! 1); shift = (n + 2) mod 256 in
        if n = 254 then True else if shift > length field then False else meets_254 (drop shift field))"
  by pat_completeness auto

termination
proof (relation "measure length", goal_cases)
  case (2 field n shift)
  then have "0 < shift" using shift_pos [of n] unat_u8_less [of "field ! 1"] by simp
  with 2 show ?case by simp
qed simp

declare meets_254.simps [simp del]

lemma parse_an_parameters_returns:
  "\<not> meets_254 field \<Longrightarrow> \<exists>r. parse_an_parameters aper field params = Some r"
proof (induction field arbitrary: params rule: meets_254.induct)
  case (1 field)
  show ?case
  proof (cases "2 \<le> length field")
    case True
    have shift: "unat (2 + field ! 1) = (unat (field ! 1) + 2) mod 256"
      by (simp add: unat_add_u8 add.commute)
    show ?thesis
    proof (cases "an_step aper field params")
      case (Val pf)
      obtain params' field' where pf: "pf = (params', field')" by (cases pf)
      have "field' = drop ((unat (field ! 1) + 2) mod 256) field" "(unat (field ! 1) + 2) mod 256 \<le> length field"
        using an_step_Val(1,2) [of aper field params params' field'] Val pf True by (simp_all only: shift)
      moreover from this have "unat (field ! 1) \<noteq> 254" "\<not> meets_254 field'"
        using 1(2) True by (subst (asm) meets_254.simps; simp add: Let_def not_less split: if_splits)+
      ultimately have "\<exists>r. parse_an_parameters aper field' params' = Some r"
        using 1(1) [OF _ refl refl, of params'] True by simp
      then show ?thesis by (subst parse_an_parameters.simps) (simp add: True Val pf)
    qed (subst parse_an_parameters.simps, simp add: True)+
  qed (subst parse_an_parameters.simps, simp)
qed

lemma parse_an_parameters_diverges:
  assumes "t \<notin> {ANParametersTypeGUAMI, ANParametersTypeSelectedPLMNID,
      ANParametersTypeRequestedNSSAI, ANParametersTypeEstablishmentCause}"
  shows "parse_an_parameters aper (t # 254 # rest) params = None"
proof -
  have step: "an_step aper (t # 254 # rest) params = Val (params, t # 254 # rest)" for aper params
    using assms by (simp add: an_step_def an_parameter_def)
  have False if "parse_an_parameters aper (t # 254 # rest) params = Some r" for r
  proof -
    have "field \<noteq> t # 254 # rest" if "parse_an_parameters aper field params = Some r" for field params r
    proof (induction rule: parse_an_parameters.raw_induct [OF _ that])
      case (1 f aper field params r)
      show ?case
      proof
        assume "field = t # 254 # rest"
        with 1 step have "f aper field params = Some r" by simp
        with 1(1) \<open>field = t # 254 # rest\<close> show False by blast
      qed
    qed
    with that show False by blast
  qed
  then show ?thesis by (cases "parse_an_parameters aper (t # 254 # rest) params") auto
qed

lemma unat_shift_u16: "unat (2 + n :: u16) \<le> 2 + unat n"
  by (simp add: unat_word_ariths)

lemma eap5g_nas_no_crash:
  assumes "unat n + 2 \<le> length d" shows "\<not> is_Crash (eap5g_nas n d)"
  using assms unat_shift_u16 [of n]
  by (auto simp: eap5g_nas_def is_Crash_pbind slice_from_def slice_to_def Let_def)

lemma an_parameters_no_crash:
  assumes "unat n + 2 \<le> length d" "an_parameters aper n d = Some r"
  shows "\<not> is_Crash r"
  using assms parse_an_parameters_no_crash
  by (auto simp: an_parameters_def is_Crash_pbind split: if_splits)

section \<open>The encoding a UE uses\<close>

text \<open>
  The AN-parameters as a UE encodes them: type, length, value. A reference encoding for the
  round trip; nothing in the program encodes AN-parameters.
\<close>

datatype an_tlv =
    TLV_GUAMI octets
  | TLV_PLMN octets
  | TLV_NSSAI "SNSSAI list"
  | TLV_Cause u8

definition enc_snssai :: "SNSSAI \<Rightarrow> octets" where
  "enc_snssai s = (case sd s of None \<Rightarrow> 1 # sst s | Some d \<Rightarrow> 4 # sst s @ d)"

fun tlv_value :: "an_tlv \<Rightarrow> octets" where
  "tlv_value (TLV_GUAMI g) = g"
| "tlv_value (TLV_PLMN p) = p"
| "tlv_value (TLV_NSSAI l) = concat (map enc_snssai l)"
| "tlv_value (TLV_Cause c) = [c]"

fun tlv_type :: "an_tlv \<Rightarrow> u8" where
  "tlv_type (TLV_GUAMI _) = ANParametersTypeGUAMI"
| "tlv_type (TLV_PLMN _) = ANParametersTypeSelectedPLMNID"
| "tlv_type (TLV_NSSAI _) = ANParametersTypeRequestedNSSAI"
| "tlv_type (TLV_Cause _) = ANParametersTypeEstablishmentCause"

definition enc_tlv :: "an_tlv \<Rightarrow> octets" where
  "enc_tlv t = tlv_type t # of_nat (length (tlv_value t)) # tlv_value t"

definition snssai_wf :: "SNSSAI \<Rightarrow> bool" where
  "snssai_wf s = (length (sst s) = 1 \<and> (case sd s of None \<Rightarrow> True | Some d \<Rightarrow> length d = 3))"

fun tlv_ok :: "aper_lib \<Rightarrow> an_tlv \<Rightarrow> bool" where
  "tlv_ok aper (TLV_GUAMI g) = (length g = 6 \<and> aper_Unmarshal_GUAMI aper (0 # g) \<noteq> None)"
| "tlv_ok aper (TLV_PLMN p) = (length p = 3 \<and> aper_Unmarshal_PLMNIdentity aper (0 # p) \<noteq> None)"
| "tlv_ok aper (TLV_NSSAI l) = (l \<noteq> [] \<and> list_all snssai_wf l \<and> length (tlv_value (TLV_NSSAI l)) < 254)"
| "tlv_ok aper (TLV_Cause c) = True"

fun apply_tlv :: "aper_lib \<Rightarrow> an_tlv \<Rightarrow> ANParameters \<Rightarrow> ANParameters" where
  "apply_tlv aper (TLV_GUAMI g) p = p\<lparr>anp_GUAMI := aper_Unmarshal_GUAMI aper (0 # g)\<rparr>"
| "apply_tlv aper (TLV_PLMN i) p = p\<lparr>anp_SelectedPLMNID := aper_Unmarshal_PLMNIdentity aper (0 # i)\<rparr>"
| "apply_tlv aper (TLV_NSSAI l) p = p\<lparr>anp_RequestedNSSAI := Some l\<rparr>"
| "apply_tlv aper (TLV_Cause c) p = p\<lparr>anp_EstablishmentCause := Some (ucast (establishment_cause c))\<rparr>"

lemma enc_snssai_wf:
  assumes "snssai_wf s"
  obtains n v where "enc_snssai s = n # v" "length v = unat n" "snssai_item v = Val s" "unat n \<in> {1, 4}"
proof (cases "sd s")
  case None
  with assms that [of 1 "sst s"] show ?thesis
    by (cases s) (auto simp: enc_snssai_def snssai_wf_def snssai_item_def length_Suc_conv)
next
  case (Some d)
  with assms that [of 4 "sst s @ d"] show ?thesis
    by (cases s) (auto simp: enc_snssai_def snssai_wf_def snssai_item_def length_Suc_conv numeral_3_eq_3)
qed

lemma parse_snssais_enc:
  "list_all snssai_wf l \<Longrightarrow> parse_snssais (concat (map enc_snssai l)) acc = Val (acc @ l)"
proof (induction l arbitrary: acc)
  case Nil
  show ?case by (simp add: parse_snssais.simps)
next
  case (Cons s l)
  then obtain n v where e: "enc_snssai s = n # v" "length v = unat n" "snssai_item v = Val s" "unat n \<in> {1, 4}"
    using enc_snssai_wf [of s] by auto
  then have "unat (1 + n) = Suc (length v)" by (auto simp: unat_add_u8)
  with Cons e show ?case by (subst parse_snssais.simps) (auto simp: Let_def)
qed

lemma enc_snssai_nonempty: "enc_snssai s \<noteq> []"
  by (auto simp: enc_snssai_def split: option.splits)

lemma tlv_value_length:
  assumes "tlv_ok aper t" shows "0 < length (tlv_value t)" "length (tlv_value t) < 254"
  using assms enc_snssai_nonempty by (cases t; auto simp: neq_Nil_conv)+

lemma unat_len_u8: "n < 256 \<Longrightarrow> unat (of_nat n :: u8) = n"
  by (simp add: unat_of_nat)

lemma parameter_value_tlv:
  assumes "length v < 256"
  shows "parameter_value (of_nat (length v)) (a # b # v @ r) = Val v"
  using assms by (simp add: parameter_value_def unat_len_u8)

lemma an_parameter_tlv:
  assumes "tlv_ok aper t" "n \<noteq> 0" "parameter_value n field = Val (tlv_value t)"
  shows "an_parameter aper (tlv_type t) n field params = Val (apply_tlv aper t params)"
  using assms by (cases t) (auto simp: an_parameter_def an_types an_lens parse_snssais_enc)

lemma an_step_tlv:
  assumes "tlv_ok aper t"
  shows "an_step aper (enc_tlv t @ r) params = Val (apply_tlv aper t params, r)"
proof -
  have len: "0 < length (tlv_value t)" "length (tlv_value t) < 254"
    using tlv_value_length [OF assms] .
  have n: "unat (of_nat (length (tlv_value t)) :: u8) = length (tlv_value t)"
    using len by (simp add: unat_len_u8)
  then have nz: "(of_nat (length (tlv_value t)) :: u8) \<noteq> 0"
    using len by (metis less_numeral_extra(3) unsigned_0)
  have shift: "unat (2 + of_nat (length (tlv_value t)) :: u8) = length (tlv_value t) + 2"
    using len n by (simp add: unat_shift_u8)
  have "parameter_value (of_nat (length (tlv_value t))) (enc_tlv t @ r) = Val (tlv_value t)"
    using len parameter_value_tlv [of "tlv_value t"] by (simp add: enc_tlv_def)
  from an_parameter_tlv [OF assms nz this]
  have "an_parameter aper (tlv_type t) (of_nat (length (tlv_value t))) (enc_tlv t @ r) params =
      Val (apply_tlv aper t params)" .
  with shift show ?thesis by (simp add: an_step_def enc_tlv_def)
qed

lemma parse_an_parameters_after:
  "list_all (tlv_ok aper) ts \<Longrightarrow>
   parse_an_parameters aper (concat (map enc_tlv ts) @ r) params = parse_an_parameters aper r (fold (apply_tlv aper) ts params)"
proof (induction ts arbitrary: params)
  case (Cons t ts)
  then show ?case
    by (subst parse_an_parameters.simps) (simp add: an_step_tlv, simp add: enc_tlv_def)
qed simp

lemma parse_an_parameters_tlvs:
  "list_all (tlv_ok aper) ts \<Longrightarrow>
   parse_an_parameters aper (concat (map enc_tlv ts)) params = Some (Val (fold (apply_tlv aper) ts params))"
  using parse_an_parameters_after [of aper ts "[]" params] by (simp add: parse_an_parameters.simps [of aper "[]"])

lemma pbind_assoc: "pbind (pbind r f) g = pbind r (\<lambda>a. pbind (f a) g)"
  by (cases r) simp_all

lemma parse_254_error:
  assumes "t \<in> {ANParametersTypeGUAMI, ANParametersTypeSelectedPLMNID, ANParametersTypeEstablishmentCause}"
  shows "\<exists>e. parse_an_parameters aper (t # 254 # after) params = Some (Err e)"
proof -
  have "parameter_value 254 (t # 254 # after) = (if length after < 254 then Err ''error formatting'' else Val (take 254 after))"
    by (simp add: parameter_value_def)
  then have "\<exists>e. an_step aper (t # 254 # after) params = Err e"
    using assms by (auto simp: an_step_def an_parameter_def an_lens an_types)
  then show ?thesis by (subst parse_an_parameters.simps) auto
qed

definition enc_eap5g :: "octets \<Rightarrow> an_tlv list \<Rightarrow> octets \<Rightarrow> octets" where
  "enc_eap5g hdr ts nas =
     hdr @ PutUint16 (of_nat (length (concat (map enc_tlv ts)))) @ concat (map enc_tlv ts)
       @ PutUint16 (of_nat (length nas)) @ nas"

lemma unat_len_u16: "n < 65536 \<Longrightarrow> unat (of_nat n :: u16) = n"
  by (simp add: unat_of_nat)

lemma an_parameters_tlvs:
  assumes "list_all (tlv_ok aper) ts" and len: "length (concat (map enc_tlv ts)) < 65534"
  shows "an_parameters aper (of_nat (length (concat (map enc_tlv ts))))
      (PutUint16 (of_nat (length (concat (map enc_tlv ts)))) @ concat (map enc_tlv ts) @ r) =
    Some (Val (if ts = [] then None else Some (fold (apply_tlv aper) ts ANParameters_new)))"
proof -
  let ?f = "concat (map enc_tlv ts)"
  have n: "unat (of_nat (length ?f) :: u16) = length ?f" using len by (simp add: unat_len_u16)
  have "(of_nat (length ?f) :: u16) = 0 \<longleftrightarrow> length ?f = 0"
    using n by (auto simp: word_unat_eq_iff)
  also have "\<dots> \<longleftrightarrow> ts = []" by (cases ts) (auto simp: enc_tlv_def)
  finally show ?thesis
    using n parse_an_parameters_tlvs [OF assms(1)] by (auto simp: an_parameters_def codec_simps)
qed

lemma eap5g_nas_enc:
  assumes "unat n = length f" "length f < 65534" "0 < length nas" "length nas < 65536"
  shows "eap5g_nas n (PutUint16 n @ f @ PutUint16 (of_nat (length nas)) @ nas @ r) = Val nas"
proof -
  have "unat (2 + n) = 2 + length f"
    using assms by (simp add: unat_word_ariths)
  moreover have "unat (of_nat (length nas) :: u16) = length nas"
    using assms by (simp add: unat_len_u16)
  moreover from this have "(of_nat (length nas) :: u16) \<noteq> 0"
    using assms by (metis less_numeral_extra(3) unsigned_0)
  ultimately show ?thesis
    by (simp add: eap5g_nas_def codec_simps Let_def)
qed

section \<open>Properties\<close>

text \<open>The AN-parameter field of vendor data.\<close>

definition an_field :: "octets \<Rightarrow> octets" where
  "an_field d = take (unat (Uint16 (take 2 (drop 2 d)))) (drop 4 d)"

text \<open>
  C19: Whatever a UE puts in the vendor data, the parser does not panic; and it returns (a result or an
  error) unless the loop over the announced AN-parameter field comes to a parameter whose length octet is 254. Other
  occurrences of 254, in the values or the types, do no harm, nor does a length octet of 255.
\<close>

theorem EAP5G_returns_without_panic:
  "case UnmarshalEAP5GData aper d of None \<Rightarrow> meets_254 (an_field d) | Some r \<Rightarrow> \<not> is_Crash r"
proof (cases "length d < 4 \<or> length (drop 4 d) < unat (Uint16 (take 2 (drop 2 d)))")
  case True
  then show ?thesis by (auto simp: UnmarshalEAP5GData_def Let_def)
next
  case False
  let ?d = "drop 2 d" and ?n = "Uint16 (take 2 (drop 2 d))"
  from False have len: "unat ?n + 2 \<le> length ?d" by auto
  have sl: "slice_from 2 ?d = Val (drop 4 d)" using False by (subst slice_from_ok) auto
  have run: "UnmarshalEAP5GData aper d =
      map_option (\<lambda>r. pbind r (\<lambda>p. pbind (eap5g_nas ?n ?d) (\<lambda>nas. Val (p, nas)))) (an_parameters aper ?n ?d)"
    using False by (auto simp: UnmarshalEAP5GData_def Let_def)
  show ?thesis
  proof (cases "an_parameters aper ?n ?d")
    case None
    then have "parse_an_parameters aper (an_field d) ANParameters_new = None"
      using False sl by (auto simp: an_parameters_def an_field_def split: if_splits)
    then have "meets_254 (an_field d)"
      using parse_an_parameters_returns [of "an_field d" aper ANParameters_new] by auto
    with None run show ?thesis by simp
  next
    case (Some r)
    with run an_parameters_no_crash [OF len Some] eap5g_nas_no_crash [OF len] show ?thesis
      by (auto simp: is_Crash_pbind)
  qed
qed

text \<open>
  C38: What a length octet of 254 does. \<open>2+parameterLength\<close> is computed in \<open>uint8\<close> and is 0, so the bound check
  passes. If the parameter has an unsupported type, wherever in the AN-parameter field it comes, after any
  well-formed parameters and before anything at all, the loop never moves on and the parser does not
  return; if its type is GUAMI, selected PLMN or establishment cause, the parser returns an error. (A requested
  NSSAI is not covered.) The vendor data that make the parser hang can be six octets long.
\<close>

theorem EAP5G_diverges:
  assumes "length hdr = 2" "list_all (tlv_ok aper) ts" "t \<noteq> ANParametersTypeRequestedNSSAI"
    and "field = concat (map enc_tlv ts) @ [t, 254] @ after" "length field < 65536"
  shows "if t \<in> {ANParametersTypeGUAMI, ANParametersTypeSelectedPLMNID, ANParametersTypeEstablishmentCause}
    then \<exists>e. UnmarshalEAP5GData aper (hdr @ PutUint16 (of_nat (length field)) @ field @ rest) = Some (Err e)
    else UnmarshalEAP5GData aper (hdr @ PutUint16 (of_nat (length field)) @ field @ rest) = None"
proof -
  let ?n = "of_nat (length field) :: u16"
  have n: "unat ?n = length field" using assms(5) by (simp add: unat_len_u16)
  moreover have "0 < length field" using assms(4) by simp
  ultimately have "?n \<noteq> 0" by (metis less_numeral_extra(3) unsigned_0)
  then have "an_parameters aper ?n (PutUint16 ?n @ field @ rest) =
      map_option (\<lambda>r. pbind r (\<lambda>p. Val (Some p))) (parse_an_parameters aper (t # 254 # after) (fold (apply_tlv aper) ts ANParameters_new))"
    using n parse_an_parameters_after [OF assms(2), of "t # 254 # after" ANParameters_new]
    by (simp add: an_parameters_def codec_simps assms(4))
  then have run: "UnmarshalEAP5GData aper (hdr @ PutUint16 ?n @ field @ rest) =
      map_option (\<lambda>r. pbind r (\<lambda>p. pbind (eap5g_nas ?n (PutUint16 ?n @ field @ rest)) (\<lambda>nas. Val (Some p, nas))))
        (parse_an_parameters aper (t # 254 # after) (fold (apply_tlv aper) ts ANParameters_new))"
    using n assms(1) by (simp add: UnmarshalEAP5GData_def codec_simps Let_def option.map_comp comp_def pbind_assoc)
  show ?thesis
  proof (cases "t \<in> {ANParametersTypeGUAMI, ANParametersTypeSelectedPLMNID, ANParametersTypeEstablishmentCause}")
    case True
    obtain e where "parse_an_parameters aper (t # 254 # after) (fold (apply_tlv aper) ts ANParameters_new) = Some (Err e)"
      using parse_254_error [OF True] by blast
    with True run show ?thesis by simp
  next
    case False
    with assms(3) run parse_an_parameters_diverges [of t aper after] show ?thesis by simp
  qed
qed

theorem EAP5G_diverges_witness:
  "UnmarshalEAP5GData \<lparr>aper_Unmarshal_GUAMI = \<lambda>_. None, aper_Unmarshal_PLMNIdentity = \<lambda>_. None\<rparr>
     ([1, 0] @ PutUint16 (of_nat (length [4, 1, 3, 9, 254])) @ [4, 1, 3, 9, 254] @ []) = None"
  using EAP5G_diverges [of "[1, 0]" "\<lparr>aper_Unmarshal_GUAMI = \<lambda>_. None, aper_Unmarshal_PLMNIdentity = \<lambda>_. None\<rparr>"
      "[TLV_Cause 3]" 9 "[4, 1, 3, 9, 254]" "[]" "[]"]
  by (simp add: an_types enc_tlv_def)

lemma eap5g_parses:
  assumes "length hdr = 2" "list_all (tlv_ok aper) ts" "length (concat (map enc_tlv ts)) < 65534"
    and "0 < length nas" "length nas < 65536"
  shows "UnmarshalEAP5GData aper (enc_eap5g hdr ts nas) =
    Some (Val (if ts = [] then None else Some (fold (apply_tlv aper) ts ANParameters_new), nas))"
proof -
  let ?f = "concat (map enc_tlv ts)"
  let ?n = "of_nat (length ?f) :: u16"
  have "unat ?n = length ?f" using assms by (simp add: unat_len_u16)
  then show ?thesis
    using assms an_parameters_tlvs [OF assms(2,3), of "PutUint16 (of_nat (length nas)) @ nas"]
      eap5g_nas_enc [of ?n ?f nas "[]"]
    by (simp add: UnmarshalEAP5GData_def enc_eap5g_def codec_simps Let_def)
qed

text \<open>
  C18: Well-formed vendor data are read back: for AN-parameters with values of legal length (fewer
  than 254 octets each, fewer than 65534 in all) that the APER decoder accepts, and a non-empty
  NAS PDU of fewer than 65536 octets, the parser returns exactly the parameters, the last one of
  each type winning, no parameters at all for an empty field, and exactly the NAS PDU.
\<close>

theorem EAP5G_roundtrip:
  assumes "length hdr = 2" "list_all (tlv_ok aper) ts" "length (concat (map enc_tlv ts)) < 65534"
    and "0 < length nas" "length nas < 65536"
  shows "UnmarshalEAP5GData aper (enc_eap5g hdr ts nas) =
    Some (Val (if ts = [] then None else Some (fold (apply_tlv aper) ts ANParameters_new), nas))"
  using assms by (rule eap5g_parses)

theorem EAP5G_roundtrip_witness:
  "UnmarshalEAP5GData \<lparr>aper_Unmarshal_GUAMI = \<lambda>_. None, aper_Unmarshal_PLMNIdentity = \<lambda>b. Some (tl b)\<rparr>
     (enc_eap5g [1, 0] [TLV_PLMN [2, 248, 57], TLV_NSSAI [\<lparr>sst = [1], sd = None\<rparr>], TLV_Cause 3] [126, 0]) =
   Some (Val (Some \<lparr>anp_GUAMI = None, anp_SelectedPLMNID = Some [2, 248, 57],
       anp_RequestedNSSAI = Some [\<lparr>sst = [1], sd = None\<rparr>], anp_EstablishmentCause = Some 3\<rparr>, [126, 0]))"
  using EAP5G_roundtrip
    [of "[1, 0]" "\<lparr>aper_Unmarshal_GUAMI = \<lambda>_. None, aper_Unmarshal_PLMNIdentity = \<lambda>b. Some (tl b)\<rparr>"
      "[TLV_PLMN [2, 248, 57], TLV_NSSAI [\<lparr>sst = [1], sd = None\<rparr>], TLV_Cause 3]" "[126, 0]"]
  by (simp add: enc_tlv_def enc_snssai_def snssai_wf_def ANParameters_new_def establishment_cause_def an_causes)

end
