(* ===== verification/Ngap_Types.thy ===== *)
theory Ngap_Types
  imports Eap5g
begin

text \<open>
  The values of the NGAP library (TS 38.413) that the contexts and the events of the N3IWF store:
  procedure codes, protocol IE identifiers, causes and criticality diagnostics. They are data of a
  library, so identifiers and enumerated values are names here, and only their being different
  matters; \<open>Other\<close> constructors stand for the values the program does not name.
\<close>

datatype Criticality = CriticalityReject | CriticalityIgnore | CriticalityNotify

datatype TriggeringMessage = TriggeringInitiatingMessage | TriggeringSuccessfulOutcome | TriggeringUnsuccessfullOutcome

datatype TypeOfError = NotUnderstood | Missing

datatype ProcedureCode =
    ProcAMFConfigurationUpdate | ProcAMFStatusIndication | ProcDownlinkNASTransport
  | ProcDownlinkRANConfigurationTransfer | ProcDownlinkRANStatusTransfer | ProcErrorIndication
  | ProcInitialContextSetup | ProcInitialUEMessage | ProcLocationReportingControl
  | ProcNASNonDeliveryIndication | ProcNGReset | ProcNGSetup | ProcOverloadStart | ProcOverloadStop
  | ProcPDUSessionResourceModify | ProcPDUSessionResourceModifyIndication
  | ProcPDUSessionResourceNotify | ProcPDUSessionResourceRelease | ProcPDUSessionResourceSetup
  | ProcRANConfigurationUpdate | ProcUEContextModification | ProcUEContextRelease
  | ProcUEContextReleaseRequest | ProcUERadioCapabilityCheck | ProcUETNLABindingRelease
  | ProcUplinkNASTransport | ProcOther int

datatype ProtocolIE =
    IdAllowedNSSAI | IdAMFName | IdAMFOverloadResponse | IdAMFSetID
  | IdAMFTNLAssociationFailedToSetupList | IdAMFTNLAssociationSetupList | IdAMFTNLAssociationToAddList
  | IdAMFTNLAssociationToRemoveList | IdAMFTNLAssociationToUpdateList
  | IdAMFTrafficLoadReductionIndication | IdAMFUENGAPID | IdCause
  | IdCoreNetworkAssistanceInformation | IdCriticalityDiagnostics | IdEmergencyFallbackIndicator
  | IdFiveGSTMSI | IdGlobalRANNodeID | IdGUAMI | IdIMSVoiceSupportIndicator | IdIndexToRFSP
  | IdMaskedIMEISV | IdNASPDU | IdNetworkInstance | IdNewAMFUENGAPID | IdOldAMF
  | IdOverloadStartNSSAIList | IdPDUSessionAggregateMaximumBitRate
  | IdPDUSessionResourceFailedToModifyListModCfm | IdPDUSessionResourceFailedToModifyListModRes
  | IdPDUSessionResourceFailedToSetupListCxtFail | IdPDUSessionResourceFailedToSetupListCxtRes
  | IdPDUSessionResourceFailedToSetupListSURes | IdPDUSessionResourceListCxtRelCpl
  | IdPDUSessionResourceListCxtRelReq | IdPDUSessionResourceModifyListModCfm
  | IdPDUSessionResourceModifyListModInd | IdPDUSessionResourceModifyListModReq
  | IdPDUSessionResourceModifyListModRes | IdPDUSessionResourceNotifyList
  | IdPDUSessionResourceReleasedListNot | IdPDUSessionResourceReleasedListRelRes
  | IdPDUSessionResourceSetupListCxtReq | IdPDUSessionResourceSetupListCxtRes
  | IdPDUSessionResourceSetupListSUReq | IdPDUSessionResourceSetupListSURes
  | IdPDUSessionResourceToReleaseListRelCmd | IdPDUSessionType | IdPLMNSupportList
  | IdQosFlowAddOrModifyRequestList | IdQosFlowSetupRequestList | IdQosFlowToReleaseList
  | IdRANNodeName | IdRANPagingPriority | IdRANUENGAPID | IdRelativeAMFCapacity | IdResetType
  | IdRRCEstablishmentCause | IdSecurityIndication | IdSecurityKey | IdServedGUAMIList
  | IdSupportedTAList | IdTimeToWait | IdTraceActivation | IdUEAggregateMaximumBitRate
  | IdUEAssociatedLogicalNGConnectionList | IdUEContextRequest | IdUENGAPIDs | IdUERadioCapability
  | IdUESecurityCapabilities | IdULNGUUPTNLInformation | IdULNGUUPTNLModifyList
  | IdUserLocationInformation | IdOther int

section \<open>Causes\<close>

datatype CausePresent =
    CausePresentNothing | CausePresentRadioNetwork | CausePresentTransport | CausePresentNas
  | CausePresentProtocol | CausePresentMisc | CausePresentOther int

text \<open>The enumerated values the program names, of the groups radio network, transport and protocol.\<close>

datatype CauseValue =
    RadioConnectionWithUeLost | UnknownLocalUENGAPID | InconsistentRemoteUENGAPID
  | MultiplePDUSessionIDInstances | UnknownPDUSessionID | UnkownQosFlowID
  | TransportResourceUnavailable
  | AbstractSyntaxErrorReject | AbstractSyntaxErrorFalselyConstructedMessage | SemanticError
  | ProtocolUnspecified | CauseValueOther int

record Cause =
  cause_Present :: CausePresent
  cause_RadioNetwork :: "CauseValue option"
  cause_Transport :: "CauseValue option"
  cause_Nas :: "CauseValue option"
  cause_Protocol :: "CauseValue option"
  cause_Misc :: "CauseValue option"

section \<open>Criticality diagnostics\<close>

record CriticalityDiagnosticsIEItem =
  cdi_IECriticality :: Criticality
  cdi_IEID :: ProtocolIE
  cdi_TypeOfError :: TypeOfError

record CriticalityDiagnostics =
  cd_ProcedureCode :: "ProcedureCode option"
  cd_TriggeringMessage :: "TriggeringMessage option"
  cd_ProcedureCriticality :: "Criticality option"
  cd_IEsCriticalityDiagnostics :: "CriticalityDiagnosticsIEItem list option"

end
