(* ===== verification/World.thy ===== *)
theory World
  imports Ngap_Types "HOL-Library.AList"
begin

text \<open>
  The state of the N3IWF (\<open>src/internal/context\<close>): the structs of a UE on the NGAP side and on the
  IKE side, of a PDU session, an AMF and the security associations, the events the NGAP and IKE
  servers send each other, and the pools of \<open>N3IWFContext\<close>. Go pointers to structs that several
  parts of the program share are addresses (natural numbers) into one store per type; a nil
  pointer is \<open>None\<close>. Values of library types that the program only stores and passes on (capability
  lists, rates and so on) are octet strings.
\<close>

section \<open>Go maps\<close>

text \<open>
  A Go map or \<open>sync.Map\<close> is an association list whose order stands for the order in which
  \<open>range\<close> visits it, which Go leaves open: the theorems hold for every list.
\<close>

type_synonym ('k, 'v) gomap = "('k \<times> 'v) list"

definition gm_load :: "('k, 'v) gomap \<Rightarrow> 'k \<Rightarrow> 'v option" where
  "gm_load m k = map_of m k"

definition gm_store :: "'k \<Rightarrow> 'v \<Rightarrow> ('k, 'v) gomap \<Rightarrow> ('k, 'v) gomap" where
  "gm_store k v m = AList.update k v m"

definition gm_delete :: "'k \<Rightarrow> ('k, 'v) gomap \<Rightarrow> ('k, 'v) gomap" where
  "gm_delete k m = AList.delete k m"

text \<open>\<open>LoadOrStore\<close>: the value now in the map, whether it was there before, the map.\<close>

definition gm_load_or_store :: "'k \<Rightarrow> 'v \<Rightarrow> ('k, 'v) gomap \<Rightarrow> 'v \<times> bool \<times> ('k, 'v) gomap" where
  "gm_load_or_store k v m =
     (case gm_load m k of Some v' \<Rightarrow> (v', True, m) | None \<Rightarrow> (v, False, gm_store k v m))"

definition gm_values :: "('k, 'v) gomap \<Rightarrow> 'v list" where
  "gm_values m = map snd m"

text \<open>The contract of a pool.\<close>

locale keyed_pool =
  fixes load :: "'m \<Rightarrow> 'k \<Rightarrow> 'v option"
    and store :: "'k \<Rightarrow> 'v \<Rightarrow> 'm \<Rightarrow> 'm"
    and delete :: "'k \<Rightarrow> 'm \<Rightarrow> 'm"
    and wf :: "'m \<Rightarrow> bool"
  assumes load_store: "load (store k v m) k' = (if k' = k then Some v else load m k')"
    and load_delete: "load (delete k m) k' = (if k' = k then None else load m k')"
    and wf_store: "wf m \<Longrightarrow> wf (store k v m)"
    and wf_delete: "wf m \<Longrightarrow> wf (delete k m)"
begin

lemma load_store_same: "load (store k v m) k = Some v"
  by (simp add: load_store)

lemma load_delete_same: "load (delete k m) k = None"
  by (simp add: load_delete)

lemma delete_undoes_store:
  "load m k = None \<Longrightarrow> load (delete k (store k v m)) = load m"
  by (auto simp: load_store load_delete)

text \<open>What every value of a pool satisfies still holds of every value after a store or a delete.\<close>

lemma store_all:
  assumes "\<forall>k v. load m k = Some v \<longrightarrow> P k v" "P k v"
  shows "\<forall>k' v'. load (store k v m) k' = Some v' \<longrightarrow> P k' v'"
  using assms by (auto simp: load_store)

lemma delete_all:
  assumes "\<forall>k v. load m k = Some v \<longrightarrow> P k v"
  shows "\<forall>k' v'. load (delete k m) k' = Some v' \<longrightarrow> P k' v'"
  using assms by (auto simp: load_delete)

end

interpretation pool: keyed_pool gm_load gm_store gm_delete "\<lambda>m. distinct (map fst m)"
  by unfold_locales
    (auto simp: gm_load_def gm_store_def gm_delete_def update_conv' delete_conv' distinct_update
      distinct_delete)

lemmas [simp] = pool.load_store pool.load_delete

lemma gm_load_Nil [simp]: "gm_load [] k = None"
  by (simp add: gm_load_def)

lemma gm_load_or_store_simps [simp]:
  "gm_load m k = Some v' \<Longrightarrow> gm_load_or_store k v m = (v', True, m)"
  "gm_load m k = None \<Longrightarrow> gm_load_or_store k v m = (v, False, gm_store k v m)"
  by (simp_all add: gm_load_or_store_def)

lemma gm_load_values: "gm_load m k = Some v \<Longrightarrow> v \<in> set (gm_values m)"
  unfolding gm_load_def gm_values_def by (metis map_of_SomeD image_eqI snd_conv set_map)

section \<open>Addresses\<close>

text \<open>
  \<open>net.IP\<close> is its octets; \<open>String()\<close> is the dotted decimal form of an IPv4 address (four octets, or
  sixteen with the IPv4-in-IPv6 prefix), the form of RFC 5952 of an IPv6 address (the first longest run
  of two or more zero groups is left out), and the octets in hexadecimal behind a question mark for
  any other length.
\<close>

type_synonym ip = octets

function dec_digits :: "nat \<Rightarrow> string" where
  "dec_digits n = (if n < 10 then [char_of (48 + n)] else dec_digits (n div 10) @ [char_of (48 + n mod 10)])"
  by pat_completeness auto
termination by (relation "measure id") auto

declare dec_digits.simps [simp del]

definition dotted :: "byte \<Rightarrow> byte \<Rightarrow> byte \<Rightarrow> byte \<Rightarrow> string" where
  "dotted a b c d = dec_digits (unat a) @ ''.'' @ dec_digits (unat b) @ ''.'' @ dec_digits (unat c)
     @ ''.'' @ dec_digits (unat d)"

definition hex_digit :: "nat \<Rightarrow> char" where
  "hex_digit n = char_of (if n < 10 then 48 + n else 87 + n)"

function hex_digits :: "nat \<Rightarrow> string" where
  "hex_digits n = (if n < 16 then [hex_digit n] else hex_digits (n div 16) @ [hex_digit (n mod 16)])"
  by pat_completeness auto
termination by (relation "measure id") auto

declare hex_digits.simps [simp del]

fun colons :: "string list \<Rightarrow> string" where
  "colons [] = []"
| "colons [g] = g"
| "colons (g # gs) = g @ '':'' @ colons gs"

definition zero_run :: "nat list \<Rightarrow> nat \<times> nat" where
  "zero_run gs =
     foldl (\<lambda>(s, e) i. let l = length (takeWhile (\<lambda>g. g = 0) (drop i gs))
              in if l \<ge> 2 \<and> l > e - s then (i, i + l) else (s, e)) (255, 255) [0..<8]"

definition ip6_String :: "ip \<Rightarrow> string" where
  "ip6_String a =
     (let gs = map (\<lambda>i. unat (a ! (2 * i)) * 256 + unat (a ! (2 * i + 1))) [0..<8];
          (s, e) = zero_run gs
      in if s = 255 then colons (map hex_digits gs)
         else colons (map hex_digits (take s gs)) @ ''::'' @ colons (map hex_digits (drop e gs)))"

definition ip_String :: "ip \<Rightarrow> string" where
  "ip_String a =
     (if a = [] then ''<nil>''
      else if length a = 4 then dotted (a ! 0) (a ! 1) (a ! 2) (a ! 3)
      else if length a = 16 \<and> take 12 a = replicate 10 0 @ [0xFF, 0xFF]
      then dotted (a ! 12) (a ! 13) (a ! 14) (a ! 15)
      else if length a = 16 then ip6_String a
      else ''?'' @ concat (map (\<lambda>b. [hex_digit (unat b div 16), hex_digit (unat b mod 16)]) a))"

record UDPAddr =
  udp_IP :: ip
  udp_Port :: int

record IPNet =
  net_IP :: ip
  net_Mask :: octets

record UDPSocketInfo =
  sock_Conn :: nat
  sock_N3IWFAddr :: UDPAddr
  sock_UEAddr :: UDPAddr

section \<open>Values of the IKE and netlink libraries\<close>

record Transform =
  tr_Type :: u8
  tr_ID :: u16
  tr_AttributePresent :: bool
  tr_AttributeFormat :: u8
  tr_AttributeType :: u16
  tr_AttributeValue :: u16
  tr_VariableLengthAttributeValue :: octets

record Proposal =
  pr_ProposalNumber :: u8
  pr_ProtocolID :: u8
  pr_SPI :: octets
  pr_EncryptionAlgorithm :: "Transform list"
  pr_PseudorandomFunction :: "Transform list"
  pr_IntegrityAlgorithm :: "Transform list"
  pr_DiffieHellmanGroup :: "Transform list"
  pr_ExtendedSequenceNumbers :: "Transform list"

record TrafficSelector =
  ts_TSType :: u8
  ts_IPProtocolID :: u8
  ts_StartPort :: u16
  ts_EndPort :: u16
  ts_StartAddress :: octets
  ts_EndAddress :: octets

text \<open>
  The key object of a child SA: its algorithms (by transform identifier, no integrity algorithm
  when the proposal had none) and the four keys.
\<close>

record ChildSAKey =
  ck_EncrKInfo :: u16
  ck_IntegKInfo :: "u16 option"
  ck_NeedESN :: bool
  ck_InitiatorToResponderEncryptionKey :: octets
  ck_ResponderToInitiatorEncryptionKey :: octets
  ck_InitiatorToResponderIntegrityKey :: octets
  ck_ResponderToInitiatorIntegrityKey :: octets

record link =
  link_Name :: string
  link_Index :: int

record XfrmStateAlgo =
  algo_Name :: string
  algo_Key :: octets
  algo_TruncateLen :: int

record XfrmStateEncap =
  encap_SrcPort :: int
  encap_DstPort :: int

record XfrmState =
  xs_Src :: ip
  xs_Dst :: ip
  xs_Spi :: int
  xs_Ifid :: int
  xs_Auth :: "XfrmStateAlgo option"
  xs_Crypt :: XfrmStateAlgo
  xs_ESN :: bool
  xs_ReplayWindow :: int
  xs_Encap :: "XfrmStateEncap option"

datatype xfrm_dir = XFRM_DIR_IN | XFRM_DIR_OUT

record XfrmPolicyTmpl =
  xt_Src :: ip
  xt_Dst :: ip
  xt_Spi :: int

record XfrmPolicy =
  xp_Src :: IPNet
  xp_Dst :: IPNet
  xp_Proto :: u8
  xp_Dir :: xfrm_dir
  xp_Ifid :: int
  xp_Tmpl :: XfrmPolicyTmpl

section \<open>Structs of the context package\<close>

type_synonym addr = nat

text \<open>Errors carried by events (\<open>EvtError\<close>).\<close>

datatype EvtError = ErrNil | ErrRadioConnWithUeLost | ErrTransportResourceUnavailable | ErrAMFSelection

record GTPConnectionInfo =
  gtp_UPFIPAddr :: string
  gtp_UPFUDPAddr :: string
  gtp_IncomingTEID :: u32
  gtp_OutgoingTEID :: u32

record QosFlow =
  qf_Identifier :: int
  qf_Parameters :: octets

record PDUSession =
  ps_Id :: int
  ps_Type :: "int option"
  ps_Ambr :: "octets option"
  ps_Snssai :: SNSSAI
  ps_NetworkInstance :: "octets option"
  ps_SecurityCipher :: bool
  ps_SecurityIntegrity :: bool
  ps_MaximumIntegrityDataRateUplink :: "int option"
  ps_MaximumIntegrityDataRateDownlink :: "int option"
  ps_GTPConnInfo :: "GTPConnectionInfo option"
  ps_QFIList :: "u8 list"
  ps_QosFlows :: "(int, QosFlow) gomap"

text \<open>
  An item of a setup or failed-to-setup list: the session and its encoded transfer. A procedure
  code that was never assigned is \<open>None\<close>.
\<close>

type_synonym transfer_item = "int \<times> octets"

record PDUSessionSetupTemporaryData =
  tmp_UnactivatedPDUSession :: "addr list"
  tmp_NGAPProcedureCode :: "ProcedureCode option"
  tmp_SetupListCxtRes :: "transfer_item list option"
  tmp_FailedListCxtRes :: "transfer_item list option"
  tmp_SetupListSURes :: "transfer_item list option"
  tmp_FailedListSURes :: "transfer_item list option"
  tmp_FailedErrStr :: "EvtError list"
  tmp_Index :: nat

record RanUe =
  ru_RanUeNgapId :: int
  ru_AmfUeNgapId :: int
  ru_IPAddrv4 :: string
  ru_IPAddrv6 :: string
  ru_PortNumber :: int
  ru_MaskedIMEISV :: "octets option"
  ru_Guti :: string
  ru_AMF :: "addr option"
  ru_SecurityCapabilities :: "octets option"
  ru_PduSessionList :: "(int, addr) gomap"
  ru_TemporaryPDUSessionSetupData :: "addr option"
  ru_Guami :: "GUAMI option"
  ru_IndexToRfsp :: int
  ru_Ambr :: "octets option"
  ru_AllowedNssai :: "SNSSAI list option"
  ru_RadioCapability :: "octets option"
  ru_CoreNetworkAssistanceInformation :: "octets option"
  ru_IMSVoiceSupported :: int
  ru_RRCEstablishmentCause :: int
  ru_PduSessionReleaseList :: "transfer_item list"
  ru_UeCtxRelState :: bool
  ru_PduSessResRelState :: bool
  ru_TemporaryCachedNASMessage :: "octets option"
  ru_IsNASTCPConnEstablished :: bool
  ru_IsNASTCPConnEstablishedComplete :: bool
  ru_TCPConnection :: "nat option"

record IkeUe =
  iu_IPSecInnerIP :: ip
  iu_IPSecInnerIPAddr :: "string option"
  iu_N3IWFIKESecurityAssociation :: "addr option"
  iu_N3IWFChildSecurityAssociation :: "(u32, addr) gomap"
  iu_TemporaryExchangeMsgIDChildSAMapping :: "(u32, addr) gomap"
  iu_Kn3iwf :: octets
  iu_IKEConnection :: "UDPSocketInfo option"
  iu_PduSessionListLen :: int

record IkeMsgTemporaryData =
  itm_SecurityAssociation :: "Proposal list option"
  itm_TrafficSelectorInitiator :: "TrafficSelector list option"
  itm_TrafficSelectorResponder :: "TrafficSelector list option"

record IKESecurityAssociation =
  isa_IKESAKey :: "octets option"
  isa_RemoteSPI :: u64
  isa_LocalSPI :: u64
  isa_InitiatorMessageID :: u32
  isa_ResponderMessageID :: u32
  isa_ConcatenatedNonce :: octets
  isa_State :: u8
  isa_InitiatorID :: "octets option"
  isa_InitiatorCertificate :: "octets option"
  isa_IKEAuthResponseSA :: "Proposal list option"
  isa_TrafficSelectorInitiator :: "TrafficSelector list option"
  isa_TrafficSelectorResponder :: "TrafficSelector list option"
  isa_LastEAPIdentifier :: u8
  isa_IKEConnection :: "UDPSocketInfo option"
  isa_ResponderSignedOctets :: octets
  isa_InitiatorSignedOctets :: octets
  isa_UeBehindNAT :: bool
  isa_N3iwfBehindNAT :: bool
  isa_IkeUE :: "addr option"
  isa_TemporaryIkeMsg :: "IkeMsgTemporaryData option"
  isa_DPDReqRetransTimer :: bool
  isa_CurrentRetryTimes :: int
  isa_IKESAClosed :: bool
  isa_IsUseDPD :: bool

record ChildSecurityAssociation =
  csa_InboundSPI :: u32
  csa_OutboundSPI :: u32
  csa_XfrmIface :: "link option"
  csa_XfrmStateList :: "XfrmState list"
  csa_XfrmPolicyList :: "XfrmPolicy list"
  csa_PeerPublicIPAddr :: ip
  csa_LocalPublicIPAddr :: ip
  csa_SelectedIPProtocol :: u8
  csa_TrafficSelectorLocal :: IPNet
  csa_TrafficSelectorRemote :: IPNet
  csa_ChildSAKey :: "ChildSAKey option"
  csa_EnableEncapsulate :: bool
  csa_N3IWFPort :: int
  csa_NATPort :: int
  csa_PDUSessionIds :: "int list"
  csa_IkeUE :: "addr option"
  csa_LocalIsInitiator :: bool

record AMFTNLAssociationItem =
  tnl_Ipv4 :: string
  tnl_Ipv6 :: string
  tnl_TNLAssociationUsage :: "int option"
  tnl_TNLAddressWeightFactor :: "int option"

record SliceOverloadItem =
  so_SNssaiList :: "SNSSAI list"
  so_Action :: "int option"
  so_TrafficInd :: "int option"

record AMFOverloadContent =
  oc_Action :: "int option"
  oc_TrafficInd :: "int option"
  oc_NSSAIList :: "SliceOverloadItem list"

record PLMNSupportItem =
  pls_PLMNIdentity :: octets
  pls_SliceSupportList :: "SNSSAI list"

record N3IWFAMF =
  amf_SCTPAddr :: string
  amf_SCTPConn :: nat
  amf_AMFName :: "string option"
  amf_ServedGUAMIList :: "GUAMI list option"
  amf_RelativeAMFCapacity :: "int option"
  amf_PLMNSupportList :: "PLMNSupportItem list option"
  amf_AMFTNLAssociationList :: "(string, AMFTNLAssociationItem) gomap"
  amf_AMFOverloadContent :: "AMFOverloadContent option"
  amf_N3iwfRanUeList :: "(int, addr) gomap"

section \<open>Events\<close>

datatype NgapEvt =
    UnmarshalEAP5GDataEvt u64 octets bool int
  | SendInitialUEMessageEvt int string int octets
  | SendPDUSessionResourceSetupResEvt int
  | SendNASMsgEvt int
  | StartTCPSignalNASMsgEvt int
  | NASTCPConnEstablishedCompleteEvt int
  | SendUEContextReleaseRequestEvt int EvtError
  | SendUEContextReleaseCompleteEvt int
  | SendPDUSessionResourceReleaseResEvt int
  | GetNGAPContextEvt int "int list"
  | SendUplinkNASTransportEvt int octets
  | SendInitialContextSetupRespEvt int "transfer_item list option" "transfer_item list option"
      "CriticalityDiagnostics option"
  | SendUEContextReleaseEvt int
  | SendPDUSessionResourceReleaseEvt int "int list"

datatype IkeEvt =
    UnmarshalEAP5GDataResponseEvt u64 int octets
  | SendEAP5GFailureMsgEvt u64 EvtError
  | SendEAPNASMsgEvt u64 octets
  | SendEAPSuccessMsgEvt u64 octets int
  | CreatePDUSessionEvt u64 int "addr option"
  | IKEDeleteRequestEvt u64
  | SendChildSADeleteRequestEvt u64 "int list"
  | IKEContextUpdateEvt u64 octets
  | GetNGAPContextRepEvt u64 "int list" "addr option list"

text \<open>
  A function given to \<open>time.AfterFunc\<close> that has not run yet, with its delay in seconds: the repeated
  NG set-up request on a connection, the repeated RAN configuration update to an AMF.
\<close>

datatype timer = NGSetupRetry string nat nat | RANConfigurationRetry addr nat

section \<open>The context and the stores\<close>

text \<open>
  The pools of \<open>N3IWFContext\<close>, the stores the pointers refer to, the next free address, the event
  queues of the two servers, the pending timers, and the state \<open>ext\<close> of everything outside the program (generators,
  sockets, kernel), which only the functions of the environment change.
\<close>

record 'x world =
  AMFPool :: "(string, addr) gomap"
  AMFReInitAvailableList :: "(string, bool) gomap"
  IKESA :: "(u64, addr) gomap"
  ChildSA :: "(u32, addr) gomap"
  GTPConnectionWithUPF :: "(string, nat) gomap"
  AllocatedUEIPAddress :: "(string, addr) gomap"
  AllocatedUETEID :: "(u32, addr) gomap"
  IKEUePool :: "(u64, addr) gomap"
  RANUePool :: "(int, addr) gomap"
  IKESPIToNGAPId :: "(u64, int) gomap"
  NGAPIdToIKESPI :: "(int, u64) gomap"
  XfrmIfaces :: "(u32, link) gomap"
  XfrmIfaceIdOffsetForUP :: u32
  ranues :: "addr \<rightharpoonup> RanUe"
  ikeues :: "addr \<rightharpoonup> IkeUe"
  ikesas :: "addr \<rightharpoonup> IKESecurityAssociation"
  childsas :: "addr \<rightharpoonup> ChildSecurityAssociation"
  sessions :: "addr \<rightharpoonup> PDUSession"
  tmps :: "addr \<rightharpoonup> PDUSessionSetupTemporaryData"
  amfs :: "addr \<rightharpoonup> N3IWFAMF"
  next_addr :: addr
  ngap_evts :: "NgapEvt list"
  ike_evts :: "IkeEvt list"
  timers :: "timer list"
  ext :: 'x

section \<open>Access through pointers\<close>

text \<open>
  Reading or writing a field through a pointer: nil, or an address that holds nothing, panics.
\<close>

definition deref :: "('x world \<Rightarrow> addr \<rightharpoonup> 'o) \<Rightarrow> addr option \<Rightarrow> 'x world \<Rightarrow> 'o gores \<times> 'x world" where
  "deref sel p w =
     (case p of None \<Rightarrow> (Crash NilPointer, w)
      | Some a \<Rightarrow> (case sel w a of None \<Rightarrow> (Crash NilPointer, w) | Some v \<Rightarrow> (Val v, w)))"

definition modify :: "('x world \<Rightarrow> addr \<rightharpoonup> 'o) \<Rightarrow> ((addr \<rightharpoonup> 'o) \<Rightarrow> 'x world \<Rightarrow> 'x world)
    \<Rightarrow> addr option \<Rightarrow> ('o \<Rightarrow> 'o) \<Rightarrow> 'x world \<Rightarrow> unit gores \<times> 'x world" where
  "modify sel put p f w =
     gbind (deref sel p w) (\<lambda>v w. (Val (), put ((sel w)(the p \<mapsto> f v)) w))"

definition upd_ranue :: "addr option \<Rightarrow> (RanUe \<Rightarrow> RanUe) \<Rightarrow> 'x world \<Rightarrow> unit gores \<times> 'x world" where
  "upd_ranue = modify ranues (\<lambda>h w. w\<lparr>ranues := h\<rparr>)"

definition upd_ikeue :: "addr option \<Rightarrow> (IkeUe \<Rightarrow> IkeUe) \<Rightarrow> 'x world \<Rightarrow> unit gores \<times> 'x world" where
  "upd_ikeue = modify ikeues (\<lambda>h w. w\<lparr>ikeues := h\<rparr>)"

definition upd_ikesa ::
  "addr option \<Rightarrow> (IKESecurityAssociation \<Rightarrow> IKESecurityAssociation) \<Rightarrow> 'x world \<Rightarrow> unit gores \<times> 'x world" where
  "upd_ikesa = modify ikesas (\<lambda>h w. w\<lparr>ikesas := h\<rparr>)"

definition upd_childsa ::
  "addr option \<Rightarrow> (ChildSecurityAssociation \<Rightarrow> ChildSecurityAssociation) \<Rightarrow> 'x world \<Rightarrow> unit gores \<times> 'x world" where
  "upd_childsa = modify childsas (\<lambda>h w. w\<lparr>childsas := h\<rparr>)"

definition upd_session :: "addr option \<Rightarrow> (PDUSession \<Rightarrow> PDUSession) \<Rightarrow> 'x world \<Rightarrow> unit gores \<times> 'x world" where
  "upd_session = modify sessions (\<lambda>h w. w\<lparr>sessions := h\<rparr>)"

definition upd_tmp :: "addr option \<Rightarrow> (PDUSessionSetupTemporaryData \<Rightarrow> PDUSessionSetupTemporaryData)
    \<Rightarrow> 'x world \<Rightarrow> unit gores \<times> 'x world" where
  "upd_tmp = modify tmps (\<lambda>h w. w\<lparr>tmps := h\<rparr>)"

definition upd_amf :: "addr option \<Rightarrow> (N3IWFAMF \<Rightarrow> N3IWFAMF) \<Rightarrow> 'x world \<Rightarrow> unit gores \<times> 'x world" where
  "upd_amf = modify amfs (\<lambda>h w. w\<lparr>amfs := h\<rparr>)"

lemma deref_simps [simp, go_simps]:
  "deref sel None w = (Crash NilPointer, w)"
  "sel w a = Some v \<Longrightarrow> deref sel (Some a) w = (Val v, w)"
  "sel w a = None \<Longrightarrow> deref sel (Some a) w = (Crash NilPointer, w)"
  by (simp_all add: deref_def)

lemma deref_state [simp]: "snd (deref sel p w) = w"
  by (simp add: deref_def split: option.splits)

lemma modify_simps [simp]:
  "modify sel put None f w = (Crash NilPointer, w)"
  "sel w a = Some v \<Longrightarrow> modify sel put (Some a) f w = (Val (), put ((sel w)(a \<mapsto> f v)) w)"
  "sel w a = None \<Longrightarrow> modify sel put (Some a) f w = (Crash NilPointer, w)"
  by (simp_all add: modify_def)

lemmas upd_defs = upd_ranue_def upd_ikeue_def upd_ikesa_def upd_childsa_def upd_session_def
  upd_tmp_def upd_amf_def

text \<open>\<open>SendNgapEvt\<close> and \<open>SendIkeEvt\<close>: an event is put at the end of the other server's queue.\<close>

definition SendNgapEvt :: "NgapEvt \<Rightarrow> 'x world \<Rightarrow> 'x world" where
  "SendNgapEvt e w = w\<lparr>ngap_evts := ngap_evts w @ [e]\<rparr>"

definition SendIkeEvt :: "IkeEvt \<Rightarrow> 'x world \<Rightarrow> 'x world" where
  "SendIkeEvt e w = w\<lparr>ike_evts := ike_evts w @ [e]\<rparr>"

text \<open>The world of a started N3IWF: empty pools and stores.\<close>

definition world_init :: "'x \<Rightarrow> 'x world" where
  "world_init x = \<lparr>AMFPool = [], AMFReInitAvailableList = [], IKESA = [], ChildSA = [],
     GTPConnectionWithUPF = [], AllocatedUEIPAddress = [], AllocatedUETEID = [], IKEUePool = [],
     RANUePool = [], IKESPIToNGAPId = [], NGAPIdToIKESPI = [], XfrmIfaces = [],
     XfrmIfaceIdOffsetForUP = 0, ranues = Map.empty, ikeues = Map.empty, ikesas = Map.empty,
     childsas = Map.empty, sessions = Map.empty, tmps = Map.empty, amfs = Map.empty, next_addr = 0,
     ngap_evts = [], ike_evts = [], timers = [], ext = x\<rparr>"

end
