(* ===== verification/Context.thy ===== *)
theory Context
  imports World
begin

text \<open>
  The operations of \<open>src/internal/context\<close>: the pools of \<open>N3IWFContext\<close> (\<open>context.go\<close>), the UE on the
  NGAP side (\<open>ranue.go\<close>, \<open>n3iwf_ue.go\<close>), the UE on the IKE side and its child SAs (\<open>ikeue.go\<close>), the
  AMF (\<open>amf.go\<close>) and the retry rule of the DPD timer (\<open>timer.go\<close>). The identifier generators, the
  address pool, the random source, sockets, the kernel and the APER and IKE libraries are the
  functions of the environment \<open>ctx_env\<close>.
\<close>

section \<open>The environment\<close>

record 'x ctx_env =
  e_IPSecGatewayAddr :: string
  e_RanUeNgapId_Allocate :: "'x \<Rightarrow> int option \<times> 'x"
  e_TEID_Allocate :: "'x \<Rightarrow> int option \<times> 'x"
  e_TEID_FreeID :: "int \<Rightarrow> 'x \<Rightarrow> 'x"
  e_IP_Allocate :: "'x \<Rightarrow> ip option \<times> 'x"
  e_IP_Release :: "ip \<Rightarrow> 'x \<Rightarrow> bool \<times> 'x"
  e_rand_SPI :: "'x \<Rightarrow> u64 option \<times> 'x"
  e_TCP_Close :: "nat \<Rightarrow> 'x \<Rightarrow> bool \<times> 'x"
  e_XfrmStateDel :: "XfrmState \<Rightarrow> 'x \<Rightarrow> bool \<times> 'x"
  e_XfrmPolicyDel :: "XfrmPolicy \<Rightarrow> 'x \<Rightarrow> bool \<times> 'x"
  e_LinkDel :: "link \<Rightarrow> 'x \<Rightarrow> bool \<times> 'x"
  e_aper_Marshal_GUAMI :: "GUAMI option \<Rightarrow> octets option"
  e_IPAddressToString :: "octets \<Rightarrow> string \<times> string"
  e_NewChildSAKeyByProposal :: "Proposal \<Rightarrow> ChildSAKey option"

text \<open>
  An environment in which nothing can be allocated and every other call succeeds; the evaluations
  of the other theories extend it.
\<close>

definition idle_env :: "'x ctx_env" where
  "idle_env = \<lparr>e_IPSecGatewayAddr = ''10.0.0.1'', e_RanUeNgapId_Allocate = (\<lambda>x. (None, x)),
     e_TEID_Allocate = (\<lambda>x. (None, x)), e_TEID_FreeID = (\<lambda>_ x. x), e_IP_Allocate = (\<lambda>x. (None, x)),
     e_IP_Release = (\<lambda>_ x. (True, x)), e_rand_SPI = (\<lambda>x. (None, x)), e_TCP_Close = (\<lambda>_ x. (True, x)),
     e_XfrmStateDel = (\<lambda>_ x. (True, x)), e_XfrmPolicyDel = (\<lambda>_ x. (True, x)), e_LinkDel = (\<lambda>_ x. (True, x)),
     e_aper_Marshal_GUAMI = (\<lambda>_. None), e_IPAddressToString = (\<lambda>_. ([], [])),
     e_NewChildSAKeyByProposal = (\<lambda>_. None)\<rparr>"

text \<open>A call of the environment that reports success or failure.\<close>

definition ext_call :: "('x \<Rightarrow> bool \<times> 'x) \<Rightarrow> string \<Rightarrow> 'x world \<Rightarrow> unit gores \<times> 'x world" where
  "ext_call f msg w =
     (case f (ext w) of (ok, x) \<Rightarrow> (if ok then Val () else Err msg, w\<lparr>ext := x\<rparr>))"

section \<open>UE contexts and their identifiers\<close>

definition AmfUeNgapIdUnspecified :: int where "AmfUeNgapIdUnspecified = 0xffffffffff"

definition IkeUe_init :: IkeUe where
  "IkeUe_init = \<lparr>iu_IPSecInnerIP = [], iu_IPSecInnerIPAddr = None,
     iu_N3IWFIKESecurityAssociation = None, iu_N3IWFChildSecurityAssociation = [],
     iu_TemporaryExchangeMsgIDChildSAMapping = [], iu_Kn3iwf = [], iu_IKEConnection = None,
     iu_PduSessionListLen = 0\<rparr>"

definition NewN3iwfIkeUe :: "u64 \<Rightarrow> 'x world \<Rightarrow> addr \<times> 'x world" where
  "NewN3iwfIkeUe spi w =
     (let a = next_addr w in
      (a, w\<lparr>ikeues := (ikeues w)(a \<mapsto> IkeUe_init), next_addr := Suc a,
            IKEUePool := gm_store spi a (IKEUePool w)\<rparr>))"

definition PDUSessionSetupTemporaryData_new :: PDUSessionSetupTemporaryData where
  "PDUSessionSetupTemporaryData_new = \<lparr>tmp_UnactivatedPDUSession = [], tmp_NGAPProcedureCode = None,
     tmp_SetupListCxtRes = None, tmp_FailedListCxtRes = None, tmp_SetupListSURes = None,
     tmp_FailedListSURes = None, tmp_FailedErrStr = [], tmp_Index = 0\<rparr>"

text \<open>The UE that \<open>init\<close> leaves behind; its temporary data is the fresh object at \<open>t\<close>.\<close>

definition RanUe_init :: "int \<Rightarrow> addr \<Rightarrow> RanUe" where
  "RanUe_init ranUeNgapId t = \<lparr>ru_RanUeNgapId = ranUeNgapId, ru_AmfUeNgapId = AmfUeNgapIdUnspecified,
     ru_IPAddrv4 = [], ru_IPAddrv6 = [], ru_PortNumber = 0, ru_MaskedIMEISV = None, ru_Guti = [],
     ru_AMF = None, ru_SecurityCapabilities = None, ru_PduSessionList = [],
     ru_TemporaryPDUSessionSetupData = Some t, ru_Guami = None, ru_IndexToRfsp = 0, ru_Ambr = None,
     ru_AllowedNssai = None, ru_RadioCapability = None, ru_CoreNetworkAssistanceInformation = None,
     ru_IMSVoiceSupported = 0, ru_RRCEstablishmentCause = 0, ru_PduSessionReleaseList = [],
     ru_UeCtxRelState = False, ru_PduSessResRelState = False, ru_TemporaryCachedNASMessage = None,
     ru_IsNASTCPConnEstablished = False, ru_IsNASTCPConnEstablishedComplete = False,
     ru_TCPConnection = None\<rparr>"

definition NewN3iwfRanUe :: "('x, 'm) ctx_env_scheme \<Rightarrow> 'x world \<Rightarrow> addr option \<times> 'x world" where
  "NewN3iwfRanUe env w =
     (case e_RanUeNgapId_Allocate env (ext w) of
        (None, x) \<Rightarrow> (None, w\<lparr>ext := x\<rparr>)
      | (Some ranUeNgapId, x) \<Rightarrow>
          let a = next_addr w; t = Suc a in
          (Some a, w\<lparr>ext := x, ranues := (ranues w)(a \<mapsto> RanUe_init ranUeNgapId t),
             tmps := (tmps w)(t \<mapsto> PDUSessionSetupTemporaryData_new), next_addr := Suc t,
             RANUePool := gm_store ranUeNgapId a (RANUePool w)\<rparr>))"

definition DeleteIkeSPIFromNgapId :: "int \<Rightarrow> 'x world \<Rightarrow> 'x world" where
  "DeleteIkeSPIFromNgapId ranUeNgapId w = w\<lparr>NGAPIdToIKESPI := gm_delete ranUeNgapId (NGAPIdToIKESPI w)\<rparr>"

definition DeleteNgapIdFromIkeSPI :: "u64 \<Rightarrow> 'x world \<Rightarrow> 'x world" where
  "DeleteNgapIdFromIkeSPI spi w = w\<lparr>IKESPIToNGAPId := gm_delete spi (IKESPIToNGAPId w)\<rparr>"

definition DeleteRanUe :: "int \<Rightarrow> 'x world \<Rightarrow> 'x world" where
  "DeleteRanUe ranUeNgapId w =
     DeleteIkeSPIFromNgapId ranUeNgapId (w\<lparr>RANUePool := gm_delete ranUeNgapId (RANUePool w)\<rparr>)"

definition DeleteIKEUe :: "u64 \<Rightarrow> 'x world \<Rightarrow> 'x world" where
  "DeleteIKEUe spi w =
     DeleteNgapIdFromIkeSPI spi (w\<lparr>IKEUePool := gm_delete spi (IKEUePool w)\<rparr>)"

definition IkeUePoolLoad :: "u64 \<Rightarrow> 'x world \<Rightarrow> addr option" where
  "IkeUePoolLoad spi w = gm_load (IKEUePool w) spi"

definition RanUePoolLoad :: "int \<Rightarrow> 'x world \<Rightarrow> addr option" where
  "RanUePoolLoad i w = gm_load (RANUePool w) i"

definition IkeSpiNgapIdMapping :: "u64 \<Rightarrow> int \<Rightarrow> 'x world \<Rightarrow> 'x world" where
  "IkeSpiNgapIdMapping spi ranUeNgapId w =
     w\<lparr>IKESPIToNGAPId := gm_store spi ranUeNgapId (IKESPIToNGAPId w),
       NGAPIdToIKESPI := gm_store ranUeNgapId spi (NGAPIdToIKESPI w)\<rparr>"

definition IkeSpiLoad :: "int \<Rightarrow> 'x world \<Rightarrow> u64 option" where
  "IkeSpiLoad ranUeNgapId w = gm_load (NGAPIdToIKESPI w) ranUeNgapId"

definition NgapIdLoad :: "u64 \<Rightarrow> 'x world \<Rightarrow> int option" where
  "NgapIdLoad spi w = gm_load (IKESPIToNGAPId w) spi"

definition RanUeLoadFromIkeSPI :: "u64 \<Rightarrow> 'x world \<Rightarrow> addr gores" where
  "RanUeLoadFromIkeSPI spi w =
     (case gm_load (IKESPIToNGAPId w) spi of
        Some ranNgapId \<Rightarrow>
          (case RanUePoolLoad ranNgapId w of
             None \<Rightarrow> Err ''cannot find RanUE from RanNgapId''
           | Some ranUe \<Rightarrow> Val ranUe)
      | None \<Rightarrow> Err ''cannot find RanNgapId from IkeUe SPI'')"

definition IkeUeLoadFromNgapId :: "int \<Rightarrow> 'x world \<Rightarrow> addr gores" where
  "IkeUeLoadFromNgapId ranUeNgapId w =
     (case gm_load (NGAPIdToIKESPI w) ranUeNgapId of
        Some spi \<Rightarrow>
          (case IkeUePoolLoad spi w of
             None \<Rightarrow> Err ''cannot find IkeUe from spi''
           | Some ikeUe \<Rightarrow> Val ikeUe)
      | None \<Rightarrow> Err ''cannot find SPI from NgapId'')"

section \<open>AMFs\<close>

definition N3IWFAMF_init :: "string \<Rightarrow> nat \<Rightarrow> N3IWFAMF" where
  "N3IWFAMF_init sctpAddr conn = \<lparr>amf_SCTPAddr = sctpAddr, amf_SCTPConn = conn, amf_AMFName = None,
     amf_ServedGUAMIList = None, amf_RelativeAMFCapacity = None, amf_PLMNSupportList = None,
     amf_AMFTNLAssociationList = [], amf_AMFOverloadContent = None, amf_N3iwfRanUeList = []\<rparr>"

definition NewN3iwfAmf :: "string \<Rightarrow> nat \<Rightarrow> 'x world \<Rightarrow> addr \<times> 'x world" where
  "NewN3iwfAmf sctpAddr conn w =
     (let a = next_addr w;
          w1 = w\<lparr>amfs := (amfs w)(a \<mapsto> N3IWFAMF_init sctpAddr conn), next_addr := Suc a\<rparr>;
          (item, loaded, m) = gm_load_or_store sctpAddr a (AMFPool w1)
      in if loaded then (item, w1) else (a, w1\<lparr>AMFPool := m\<rparr>))"

definition DeleteN3iwfAmf :: "string \<Rightarrow> 'x world \<Rightarrow> 'x world" where
  "DeleteN3iwfAmf sctpAddr w = w\<lparr>AMFPool := gm_delete sctpAddr (AMFPool w)\<rparr>"

definition AMFPoolLoad :: "string \<Rightarrow> 'x world \<Rightarrow> addr option" where
  "AMFPoolLoad sctpAddr w = gm_load (AMFPool w) sctpAddr"

definition DeleteAMFReInitAvailableFlag :: "string \<Rightarrow> 'x world \<Rightarrow> 'x world" where
  "DeleteAMFReInitAvailableFlag sctpAddr w =
     w\<lparr>AMFReInitAvailableList := gm_delete sctpAddr (AMFReInitAvailableList w)\<rparr>"

text \<open>The flag (true when absent) and whether it was present.\<close>

definition AMFReInitAvailableListLoad :: "string \<Rightarrow> 'x world \<Rightarrow> bool \<times> bool" where
  "AMFReInitAvailableListLoad sctpAddr w =
     (case gm_load (AMFReInitAvailableList w) sctpAddr of Some flag \<Rightarrow> (flag, True) | None \<Rightarrow> (True, False))"

definition AMFReInitAvailableListStore :: "string \<Rightarrow> bool \<Rightarrow> 'x world \<Rightarrow> 'x world" where
  "AMFReInitAvailableListStore sctpAddr flag w =
     w\<lparr>AMFReInitAvailableList := gm_store sctpAddr flag (AMFReInitAvailableList w)\<rparr>"

text \<open>
  \<open>FindAvalibleAMFByCompareGUAMI\<close>: the encodings of the served and the requested GUAMI are
  compared; a nil \<open>ServedGUAMIList\<close> panics, an encoding error ends the search.
\<close>

fun compare_guamis :: "('x, 'm) ctx_env_scheme \<Rightarrow> GUAMI option \<Rightarrow> GUAMI list \<Rightarrow> bool" where
  "compare_guamis env ue [] = False"
| "compare_guamis env ue (g # gs) =
     (case e_aper_Marshal_GUAMI env (Some g) of None \<Rightarrow> False
      | Some cg \<Rightarrow>
          (case e_aper_Marshal_GUAMI env ue of None \<Rightarrow> False
           | Some cu \<Rightarrow> if cg \<noteq> cu then compare_guamis env ue gs else True))"

definition FindAvalibleAMFByCompareGUAMI ::
  "('x, 'm) ctx_env_scheme \<Rightarrow> N3IWFAMF \<Rightarrow> GUAMI option \<Rightarrow> bool gores" where
  "FindAvalibleAMFByCompareGUAMI env amf ue =
     (case amf_ServedGUAMIList amf of None \<Rightarrow> Crash NilPointer
      | Some gs \<Rightarrow> Val (compare_guamis env ue gs))"

definition FindAvalibleAMFByCompareSelectedPLMNId :: "N3IWFAMF \<Rightarrow> octets option \<Rightarrow> bool gores" where
  "FindAvalibleAMFByCompareSelectedPLMNId amf ue =
     (case ue of None \<Rightarrow> Val False
      | Some plmn \<Rightarrow>
          (case amf_PLMNSupportList amf of None \<Rightarrow> Crash NilPointer
           | Some l \<Rightarrow> Val (list_ex (\<lambda>i. pls_PLMNIdentity i = plmn) l)))"

text \<open>
  \<open>AMFSelection\<close>: the visitor of \<open>AMFPool.Range\<close> over the AMFs in the order of the visit, with the
  default found so far; it stops at the first AMF that serves the GUAMI or the PLMN.
\<close>

fun amf_range :: "('x, 'm) ctx_env_scheme \<Rightarrow> GUAMI option \<Rightarrow> octets option \<Rightarrow> 'x world
    \<Rightarrow> addr option \<Rightarrow> addr list \<Rightarrow> addr option gores" where
  "amf_range env guami plmn w defaultAMF [] = Val defaultAMF"
| "amf_range env guami plmn w defaultAMF (a # as) =
     (case amfs w a of None \<Rightarrow> Crash NilPointer
      | Some amf \<Rightarrow>
          let defaultAMF' = (if defaultAMF = None then Some a else defaultAMF) in
          pbind (FindAvalibleAMFByCompareGUAMI env amf guami) (\<lambda>b.
            if b then Val (Some a)
            else pbind (FindAvalibleAMFByCompareSelectedPLMNId amf plmn) (\<lambda>b.
              if b then Val (Some a) else amf_range env guami plmn w defaultAMF' as)))"

definition AMFSelection ::
  "('x, 'm) ctx_env_scheme \<Rightarrow> GUAMI option \<Rightarrow> octets option \<Rightarrow> 'x world \<Rightarrow> addr option gores" where
  "AMFSelection env guami plmn w = amf_range env guami plmn w None (gm_values (AMFPool w))"

text \<open>\<open>FindUeByAmfUeNgapID\<close> over the UEs attached to the AMF; nil when there is none.\<close>

fun find_amf_ue :: "'x world \<Rightarrow> int \<Rightarrow> addr list \<Rightarrow> addr option gores" where
  "find_amf_ue w i [] = Val None"
| "find_amf_ue w i (a # as) =
     (case ranues w a of None \<Rightarrow> Crash NilPointer
      | Some ue \<Rightarrow> if ru_AmfUeNgapId ue = i then Val (Some a) else find_amf_ue w i as)"

definition FindUeByAmfUeNgapID :: "N3IWFAMF \<Rightarrow> int \<Rightarrow> 'x world \<Rightarrow> addr option gores" where
  "FindUeByAmfUeNgapID amf i w = find_amf_ue w i (gm_values (amf_N3iwfRanUeList amf))"

definition AddAMFTNLAssociationItem ::
  "('x, 'm) ctx_env_scheme \<Rightarrow> octets \<Rightarrow> N3IWFAMF \<Rightarrow> AMFTNLAssociationItem \<times> N3IWFAMF" where
  "AddAMFTNLAssociationItem env info amf =
     (case e_IPAddressToString env info of (v4, v6) \<Rightarrow>
        let item = \<lparr>tnl_Ipv4 = v4, tnl_Ipv6 = v6, tnl_TNLAssociationUsage = None, tnl_TNLAddressWeightFactor = None\<rparr>
        in (item, amf\<lparr>amf_AMFTNLAssociationList := gm_store (v4 @ v6) item (amf_AMFTNLAssociationList amf)\<rparr>))"

definition FindAMFTNLAssociationItem ::
  "('x, 'm) ctx_env_scheme \<Rightarrow> octets \<Rightarrow> N3IWFAMF \<Rightarrow> AMFTNLAssociationItem option" where
  "FindAMFTNLAssociationItem env info amf =
     (case e_IPAddressToString env info of (v4, v6) \<Rightarrow> gm_load (amf_AMFTNLAssociationList amf) (v4 @ v6))"

definition DeleteAMFTNLAssociationItem ::
  "('x, 'm) ctx_env_scheme \<Rightarrow> octets \<Rightarrow> N3IWFAMF \<Rightarrow> N3IWFAMF" where
  "DeleteAMFTNLAssociationItem env info amf =
     (case e_IPAddressToString env info of (v4, v6) \<Rightarrow>
        amf\<lparr>amf_AMFTNLAssociationList := gm_delete (v4 @ v6) (amf_AMFTNLAssociationList amf)\<rparr>)"

text \<open>
  An item of the overload-start NSSAI list: its slices, the action of its response (nil when the
  response or its action is), its traffic reduction.
\<close>

record OverloadStartNSSAIItem =
  osn_SliceOverloadList :: "SNSSAI list"
  osn_SliceOverloadResponse :: "int option option"
  osn_SliceTrafficLoadReductionIndication :: "int option"

definition StartOverload ::
  "int option option \<Rightarrow> int option \<Rightarrow> OverloadStartNSSAIItem list option \<Rightarrow> N3IWFAMF
    \<Rightarrow> AMFOverloadContent option \<times> N3IWFAMF" where
  "StartOverload resp trafloadInd nssai amf =
     (if resp = None \<and> trafloadInd = None \<and> nssai = None then (None, amf)
      else
        let content = \<lparr>oc_Action = (case resp of None \<Rightarrow> None | Some act \<Rightarrow> act),
              oc_TrafficInd = trafloadInd,
              oc_NSSAIList = (case nssai of None \<Rightarrow> []
                | Some items \<Rightarrow> map (\<lambda>item.
                    \<lparr>so_SNssaiList = osn_SliceOverloadList item,
                     so_Action = (case osn_SliceOverloadResponse item of None \<Rightarrow> None | Some act \<Rightarrow> act),
                     so_TrafficInd = osn_SliceTrafficLoadReductionIndication item\<rparr>) items)\<rparr>
        in (Some content, amf\<lparr>amf_AMFOverloadContent := Some content\<rparr>))"

definition StopOverload :: "N3IWFAMF \<Rightarrow> N3IWFAMF" where
  "StopOverload amf = amf\<lparr>amf_AMFOverloadContent := None\<rparr>"

section \<open>IKE security associations, inner addresses and TEIDs\<close>

definition IKESecurityAssociation_new :: IKESecurityAssociation where
  "IKESecurityAssociation_new = \<lparr>isa_IKESAKey = None, isa_RemoteSPI = 0, isa_LocalSPI = 0,
     isa_InitiatorMessageID = 0, isa_ResponderMessageID = 0, isa_ConcatenatedNonce = [],
     isa_State = 0, isa_InitiatorID = None, isa_InitiatorCertificate = None,
     isa_IKEAuthResponseSA = None, isa_TrafficSelectorInitiator = None,
     isa_TrafficSelectorResponder = None, isa_LastEAPIdentifier = 0, isa_IKEConnection = None,
     isa_ResponderSignedOctets = [], isa_InitiatorSignedOctets = [], isa_UeBehindNAT = False,
     isa_N3iwfBehindNAT = False, isa_IkeUE = None, isa_TemporaryIkeMsg = None,
     isa_DPDReqRetransTimer = False, isa_CurrentRetryTimes = 0, isa_IKESAClosed = False,
     isa_IsUseDPD = False\<rparr>"

text \<open>
  The loop that draws SPIs until one is new: the SPI (nil when the random source failed), and the
  world. It need not end, so it is a partial function.
\<close>

partial_function (option) draw_spi ::
  "('x, 'm) ctx_env_scheme \<Rightarrow> addr \<Rightarrow> 'x world \<Rightarrow> (u64 option \<times> 'x world) option" where
  "draw_spi env a w =
     (case e_rand_SPI env (ext w) of
        (None, x) \<Rightarrow> Some (None, w\<lparr>ext := x\<rparr>)
      | (Some spi, x) \<Rightarrow>
          (case gm_load_or_store spi a (IKESA w) of
             (_, duplicate, m) \<Rightarrow>
               if \<not> duplicate then Some (Some spi, w\<lparr>ext := x, IKESA := m\<rparr>)
               else draw_spi env a (w\<lparr>ext := x\<rparr>)))"

definition NewIKESecurityAssociation ::
  "('x, 'm) ctx_env_scheme \<Rightarrow> 'x world \<Rightarrow> addr option gores \<times> 'x world" where
  "NewIKESecurityAssociation env w =
     (let a = next_addr w;
          w1 = w\<lparr>ikesas := (ikesas w)(a \<mapsto> IKESecurityAssociation_new), next_addr := Suc a\<rparr>
      in case draw_spi env a w1 of
           None \<Rightarrow> (Crash NoReturn, w1)
         | Some (None, w2) \<Rightarrow> (Val None, w2)
         | Some (Some spi, w2) \<Rightarrow>
             (Val (Some a), w2\<lparr>ikesas := (ikesas w2)(a \<mapsto> IKESecurityAssociation_new\<lparr>isa_LocalSPI := spi\<rparr>)\<rparr>))"

definition DeleteIKESecurityAssociation :: "u64 \<Rightarrow> 'x world \<Rightarrow> 'x world" where
  "DeleteIKESecurityAssociation spi w = w\<lparr>IKESA := gm_delete spi (IKESA w)\<rparr>"

definition IKESALoad :: "u64 \<Rightarrow> 'x world \<Rightarrow> addr option" where
  "IKESALoad spi w = gm_load (IKESA w) spi"

definition DeleteGTPConnection :: "string \<Rightarrow> 'x world \<Rightarrow> 'x world" where
  "DeleteGTPConnection upfAddr w = w\<lparr>GTPConnectionWithUPF := gm_delete upfAddr (GTPConnectionWithUPF w)\<rparr>"

definition GTPConnectionWithUPFLoad :: "string \<Rightarrow> 'x world \<Rightarrow> nat option" where
  "GTPConnectionWithUPFLoad upfAddr w = gm_load (GTPConnectionWithUPF w) upfAddr"

definition GTPConnectionWithUPFStore :: "string \<Rightarrow> nat \<Rightarrow> 'x world \<Rightarrow> 'x world" where
  "GTPConnectionWithUPFStore upfAddr conn w =
     w\<lparr>GTPConnectionWithUPF := gm_store upfAddr conn (GTPConnectionWithUPF w)\<rparr>"

partial_function (option) NewIPsecInnerUEIP ::
  "('x, 'm) ctx_env_scheme \<Rightarrow> addr \<Rightarrow> 'x world \<Rightarrow> (ip gores \<times> 'x world) option" where
  "NewIPsecInnerUEIP env ikeUe w =
     (case e_IP_Allocate env (ext w) of
        (None, x) \<Rightarrow> Some (Err ''NewIPsecInnerUEIP()'', w\<lparr>ext := x\<rparr>)
      | (Some ueIPAddr, x) \<Rightarrow>
          if ip_String ueIPAddr = e_IPSecGatewayAddr env
          then NewIPsecInnerUEIP env ikeUe (w\<lparr>ext := x\<rparr>)
          else
            (case gm_load_or_store (ip_String ueIPAddr) ikeUe (AllocatedUEIPAddress w) of
               (_, ok, m) \<Rightarrow>
                 if ok then NewIPsecInnerUEIP env ikeUe (w\<lparr>ext := x\<rparr>)
                 else Some (Val ueIPAddr, w\<lparr>ext := x, AllocatedUEIPAddress := m\<rparr>)))"

definition DeleteInternalUEIPAddr :: "string \<Rightarrow> 'x world \<Rightarrow> 'x world" where
  "DeleteInternalUEIPAddr ipAddr w = w\<lparr>AllocatedUEIPAddress := gm_delete ipAddr (AllocatedUEIPAddress w)\<rparr>"

definition AllocatedUEIPAddressLoad :: "string \<Rightarrow> 'x world \<Rightarrow> addr option" where
  "AllocatedUEIPAddressLoad ipAddr w = gm_load (AllocatedUEIPAddress w) ipAddr"

definition NewTEID :: "('x, 'm) ctx_env_scheme \<Rightarrow> addr \<Rightarrow> 'x world \<Rightarrow> u32 \<times> 'x world" where
  "NewTEID env ranUe w =
     (case e_TEID_Allocate env (ext w) of
        (None, x) \<Rightarrow> (0, w\<lparr>ext := x\<rparr>)
      | (Some teid64, x) \<Rightarrow>
          if teid64 < 0 \<or> teid64 > 4294967295 then (0, w\<lparr>ext := x\<rparr>)
          else
            let teid32 = word_of_int teid64 in
            (teid32, w\<lparr>ext := x, AllocatedUETEID := gm_store teid32 ranUe (AllocatedUETEID w)\<rparr>))"

definition DeleteTEID :: "('x, 'm) ctx_env_scheme \<Rightarrow> u32 \<Rightarrow> 'x world \<Rightarrow> 'x world" where
  "DeleteTEID env teid w =
     w\<lparr>ext := e_TEID_FreeID env (uint teid) (ext w), AllocatedUETEID := gm_delete teid (AllocatedUETEID w)\<rparr>"

definition AllocatedUETEIDLoad :: "u32 \<Rightarrow> 'x world \<Rightarrow> addr option" where
  "AllocatedUETEIDLoad teid w = gm_load (AllocatedUETEID w) teid"

section \<open>The UE on the NGAP side\<close>

definition FindPDUSession :: "RanUe \<Rightarrow> int \<Rightarrow> addr option" where
  "FindPDUSession ue pduSessionID = gm_load (ru_PduSessionList ue) pduSessionID"

definition PDUSession_new :: "int \<Rightarrow> SNSSAI \<Rightarrow> PDUSession" where
  "PDUSession_new pduSessionID snssai = \<lparr>ps_Id = pduSessionID, ps_Type = None, ps_Ambr = None,
     ps_Snssai = snssai, ps_NetworkInstance = None, ps_SecurityCipher = False,
     ps_SecurityIntegrity = False, ps_MaximumIntegrityDataRateUplink = None,
     ps_MaximumIntegrityDataRateDownlink = None, ps_GTPConnInfo = None, ps_QFIList = [],
     ps_QosFlows = []\<rparr>"

definition CreatePDUSession :: "addr \<Rightarrow> int \<Rightarrow> SNSSAI \<Rightarrow> 'x world \<Rightarrow> addr gores \<times> 'x world" where
  "CreatePDUSession u pduSessionID snssai w =
     gbind (deref ranues (Some u) w) (\<lambda>ue w.
       if gm_load (ru_PduSessionList ue) pduSessionID \<noteq> None
       then (Err ''PDU Session is already exists'', w)
       else
         let a = next_addr w;
             w1 = w\<lparr>sessions := (sessions w)(a \<mapsto> PDUSession_new pduSessionID snssai), next_addr := Suc a\<rparr>
         in gbind (upd_ranue (Some u)
               (\<lambda>ue. ue\<lparr>ru_PduSessionList := gm_store pduSessionID a (ru_PduSessionList ue)\<rparr>) w1)
             (\<lambda>_ w. (Val a, w)))"

definition DeletePDUSession :: "addr \<Rightarrow> int \<Rightarrow> 'x world \<Rightarrow> unit gores \<times> 'x world" where
  "DeletePDUSession u pduSessionId =
     upd_ranue (Some u) (\<lambda>ue. ue\<lparr>ru_PduSessionList := gm_delete pduSessionId (ru_PduSessionList ue)\<rparr>)"

definition AttachAMF :: "addr \<Rightarrow> string \<Rightarrow> 'x world \<Rightarrow> bool gores \<times> 'x world" where
  "AttachAMF u sctpAddr w =
     (case AMFPoolLoad sctpAddr w of
        Some amf \<Rightarrow>
          gbind (deref ranues (Some u) w) (\<lambda>ue w.
          gbind (upd_amf (Some amf)
            (\<lambda>am. am\<lparr>amf_N3iwfRanUeList := gm_store (ru_RanUeNgapId ue) u (amf_N3iwfRanUeList am)\<rparr>) w) (\<lambda>_ w.
          gbind (upd_ranue (Some u) (\<lambda>ue. ue\<lparr>ru_AMF := Some amf\<rparr>) w) (\<lambda>_ w. (Val True, w))))
      | None \<Rightarrow> (Val False, w))"

definition DetachAMF :: "addr \<Rightarrow> 'x world \<Rightarrow> unit gores \<times> 'x world" where
  "DetachAMF u w =
     gbind (deref ranues (Some u) w) (\<lambda>ue w.
       case ru_AMF ue of None \<Rightarrow> (Val (), w)
       | Some amf \<Rightarrow>
           upd_amf (Some amf)
             (\<lambda>am. am\<lparr>amf_N3iwfRanUeList := gm_delete (ru_RanUeNgapId ue) (amf_N3iwfRanUeList am)\<rparr>) w)"

text \<open>The body of the loop of \<open>Remove\<close>: a session without GTP connection information panics.\<close>

definition free_session_teid :: "('x, 'm) ctx_env_scheme \<Rightarrow> addr \<Rightarrow> 'x world \<Rightarrow> unit gores \<times> 'x world" where
  "free_session_teid env s w =
     gbind (deref sessions (Some s) w) (\<lambda>ps w.
       case ps_GTPConnInfo ps of None \<Rightarrow> (Crash NilPointer, w)
       | Some g \<Rightarrow> (Val (), DeleteTEID env (gtp_IncomingTEID g) w))"

definition RanUe_Remove :: "('x, 'm) ctx_env_scheme \<Rightarrow> addr \<Rightarrow> 'x world \<Rightarrow> unit gores \<times> 'x world" where
  "RanUe_Remove env u w =
     gbind (DetachAMF u w) (\<lambda>_ w.
     gbind (deref ranues (Some u) w) (\<lambda>ue w.
     let w = DeleteRanUe (ru_RanUeNgapId ue) w in
     gbind (gloop (free_session_teid env) (gm_values (ru_PduSessionList ue)) w) (\<lambda>_ w.
       case ru_TCPConnection ue of None \<Rightarrow> (Val (), w)
       | Some c \<Rightarrow> ext_call (e_TCP_Close env c) ''Close TCP conn error'' w)))"

text \<open>\<open>RemoveAllRelatedUe\<close> of an AMF.\<close>

definition RemoveAllRelatedUe :: "('x, 'm) ctx_env_scheme \<Rightarrow> addr \<Rightarrow> 'x world \<Rightarrow> unit gores \<times> 'x world" where
  "RemoveAllRelatedUe env a w =
     gbind (deref amfs (Some a) w) (\<lambda>amf w.
       gloop (RanUe_Remove env) (gm_values (amf_N3iwfRanUeList amf)) w)"

section \<open>The UE on the IKE side\<close>

definition ip_To4 :: "ip \<Rightarrow> ip" where
  "ip_To4 a = (if length a = 4 then a
     else if length a = 16 \<and> take 12 a = replicate 10 0 @ [0xFF, 0xFF] then drop 12 a else [])"

definition DeleteChildSAXfrm :: "('x, 'm) ctx_env_scheme \<Rightarrow> addr \<Rightarrow> 'x world \<Rightarrow> unit gores \<times> 'x world" where
  "DeleteChildSAXfrm env c w =
     gbind (deref childsas (Some c) w) (\<lambda>child w.
     gbind (gloop (\<lambda>s. ext_call (e_XfrmStateDel env s) ''Delete xfrmstate'') (csa_XfrmStateList child) w) (\<lambda>_ w.
     gbind (gloop (\<lambda>p. ext_call (e_XfrmPolicyDel env p) ''Delete xfrmPolicy'') (csa_XfrmPolicyList child) w) (\<lambda>_ w.
     gbind (case csa_XfrmIface child of None \<Rightarrow> (Val (), w)
        | Some iface \<Rightarrow>
            if link_Name iface = ''xfrmi-default'' then (Val (), w)
            else
              gbind (ext_call (e_LinkDel env iface) ''Delete interface'' w) (\<lambda>_ w.
                case csa_XfrmStateList child of [] \<Rightarrow> (Crash IndexRange, w)
                | st # _ \<Rightarrow>
                    if xs_Ifid st < 0 \<or> xs_Ifid st > 4294967295
                    then (Err ''DeleteChildSAXfrm Ifid has out of uint32 range value'', w)
                    else (Val (), w\<lparr>XfrmIfaces := gm_delete (word_of_int (xs_Ifid st)) (XfrmIfaces w)\<rparr>))) (\<lambda>_ w.
       upd_childsa (Some c) (\<lambda>child. child\<lparr>csa_XfrmStateList := [], csa_XfrmPolicyList := []\<rparr>) w))))"

definition DeleteChildSA :: "('x, 'm) ctx_env_scheme \<Rightarrow> addr \<Rightarrow> addr \<Rightarrow> 'x world \<Rightarrow> unit gores \<times> 'x world" where
  "DeleteChildSA env u c w =
     gbind (DeleteChildSAXfrm env c w) (\<lambda>_ w.
     gbind (deref childsas (Some c) w) (\<lambda>child w.
       upd_ikeue (Some u) (\<lambda>ue. ue\<lparr>iu_N3IWFChildSecurityAssociation :=
          gm_delete (csa_InboundSPI child) (iu_N3IWFChildSecurityAssociation ue)\<rparr>) w))"

text \<open>
  The send on \<open>IKESAClosedCh\<close> meets the goroutine of \<open>StartDPD\<close>, which receives it and closes the channel
  (\<open>isa_IKESAClosed\<close>); a send on the closed channel panics.
\<close>

definition IkeUe_Remove :: "('x, 'm) ctx_env_scheme \<Rightarrow> addr \<Rightarrow> 'x world \<Rightarrow> unit gores \<times> 'x world" where
  "IkeUe_Remove env u w =
     gbind (deref ikeues (Some u) w) (\<lambda>ue w.
     gbind (deref ikesas (iu_N3IWFIKESecurityAssociation ue) w) (\<lambda>sa w.
     gbind (if isa_IsUseDPD sa
            then if isa_IKESAClosed sa then (Crash ClosedChannel, w)
            else upd_ikesa (iu_N3IWFIKESecurityAssociation ue) (\<lambda>sa. sa\<lparr>isa_IKESAClosed := True\<rparr>) w
            else (Val (), w)) (\<lambda>_ w.
     let w = DeleteInternalUEIPAddr (ip_String (iu_IPSecInnerIP ue))
               (DeleteIKESecurityAssociation (isa_LocalSPI sa) w) in
     gbind (ext_call (e_IP_Release env (ip_To4 (iu_IPSecInnerIP ue))) ''N3IWFIkeUe Remove()'' w) (\<lambda>_ w.
     gbind (gloop (DeleteChildSA env u) (gm_values (iu_N3IWFChildSecurityAssociation ue)) w) (\<lambda>_ w.
       (Val (), DeleteIKEUe (isa_LocalSPI sa) w))))))"

definition ChildSecurityAssociation_new :: ChildSecurityAssociation where
  "ChildSecurityAssociation_new = \<lparr>csa_InboundSPI = 0, csa_OutboundSPI = 0, csa_XfrmIface = None,
     csa_XfrmStateList = [], csa_XfrmPolicyList = [], csa_PeerPublicIPAddr = [],
     csa_LocalPublicIPAddr = [], csa_SelectedIPProtocol = 0,
     csa_TrafficSelectorLocal = \<lparr>net_IP = [], net_Mask = []\<rparr>,
     csa_TrafficSelectorRemote = \<lparr>net_IP = [], net_Mask = []\<rparr>, csa_ChildSAKey = None,
     csa_EnableEncapsulate = False, csa_N3IWFPort = 0, csa_NATPort = 0, csa_PDUSessionIds = [],
     csa_IkeUE = None, csa_LocalIsInitiator = False\<rparr>"

text \<open>
  \<open>String\<close> of a child SA, for the log. Of it only whether it panics is modelled: it calls \<open>TransformID\<close> on
  \<open>EncrKInfo\<close> and on \<open>IntegKInfo\<close>, and \<open>IntegKInfo\<close> is nil for a child SA without integrity.
\<close>

definition ChildSecurityAssociation_String :: "addr \<Rightarrow> 'x world \<Rightarrow> unit gores \<times> 'x world" where
  "ChildSecurityAssociation_String c w =
     gbind (deref childsas (Some c) w) (\<lambda>child w.
       case csa_ChildSAKey child of None \<Rightarrow> (Crash NilPointer, w)
       | Some k \<Rightarrow> (case ck_IntegKInfo k of None \<Rightarrow> (Crash NilPointer, w) | Some _ \<Rightarrow> (Val (), w)))"

definition CreateHalfChildSA :: "addr \<Rightarrow> u32 \<Rightarrow> u32 \<Rightarrow> int \<Rightarrow> 'x world \<Rightarrow> unit gores \<times> 'x world" where
  "CreateHalfChildSA u msgID inboundSPI pduSessionID w =
     (let c = next_addr w;
          w = w\<lparr>childsas := (childsas w)(c \<mapsto> ChildSecurityAssociation_new\<lparr>csa_InboundSPI := inboundSPI,
                  csa_PDUSessionIds := [pduSessionID], csa_IkeUE := Some u\<rparr>), next_addr := Suc c\<rparr>
      in upd_ikeue (Some u) (\<lambda>ue. ue\<lparr>iu_TemporaryExchangeMsgIDChildSAMapping :=
            gm_store msgID c (iu_TemporaryExchangeMsgIDChildSAMapping ue)\<rparr>) w)"

text \<open>Record the child SA in the UE context and in the N3IWF context, under its inbound SPI.\<close>

definition record_childsa :: "addr \<Rightarrow> addr \<Rightarrow> 'x world \<Rightarrow> addr gores \<times> 'x world" where
  "record_childsa u c w =
     gbind (deref childsas (Some c) w) (\<lambda>child w.
     gbind (upd_ikeue (Some u) (\<lambda>ue. ue\<lparr>iu_N3IWFChildSecurityAssociation :=
          gm_store (csa_InboundSPI child) c (iu_N3IWFChildSecurityAssociation ue)\<rparr>) w) (\<lambda>_ w.
       (Val c, w\<lparr>ChildSA := gm_store (csa_InboundSPI child) c (ChildSA w)\<rparr>)))"

definition CompleteChildSA :: "('x, 'm) ctx_env_scheme \<Rightarrow> addr \<Rightarrow> u32 \<Rightarrow> u32 \<Rightarrow> Proposal list option
    \<Rightarrow> 'x world \<Rightarrow> addr gores \<times> 'x world" where
  "CompleteChildSA env u msgID outboundSPI chosen w =
     gbind (deref ikeues (Some u) w) (\<lambda>ue w.
       case gm_load (iu_TemporaryExchangeMsgIDChildSAMapping ue) msgID of
         None \<Rightarrow> (Err ''there's not a half child SA created by the exchange'', w)
       | Some c \<Rightarrow>
           gbind (upd_ikeue (Some u) (\<lambda>ue. ue\<lparr>iu_TemporaryExchangeMsgIDChildSAMapping :=
                gm_delete msgID (iu_TemporaryExchangeMsgIDChildSAMapping ue)\<rparr>) w) (\<lambda>_ w.
             case chosen of
               None \<Rightarrow> (Err ''chosenSecurityAssociation is nil'', w)
             | Some [] \<Rightarrow> (Err ''no proposal'', w)
             | Some (p # _) \<Rightarrow>
                 gbind (upd_childsa (Some c) (\<lambda>child. child\<lparr>csa_OutboundSPI := outboundSPI,
                      csa_ChildSAKey := e_NewChildSAKeyByProposal env p\<rparr>) w) (\<lambda>_ w.
                   case e_NewChildSAKeyByProposal env p of
                     None \<Rightarrow> (Err ''CompleteChildSA'', w)
                   | Some _ \<Rightarrow> record_childsa u c w)))"

section \<open>The DPD retransmission timer\<close>

text \<open>
  One tick of the timer started by \<open>NewDPDPeriodicTimer\<close>: the new retry count and whether
  \<open>cancelFunc\<close> is called (and the timer ends). The count is an \<open>int32\<close>, whose addition wraps around.
  The parameter \<open>maxRetryTimes\<close> is not used.
\<close>

definition dpd_tick :: "int \<Rightarrow> IKESecurityAssociation \<Rightarrow> IKESecurityAssociation \<times> bool" where
  "dpd_tick maxRetryTimes sa =
     (let sa = sa\<lparr>isa_CurrentRetryTimes := signed_take_bit 31 (isa_CurrentRetryTimes sa + 1)\<rparr>
      in (sa, isa_CurrentRetryTimes sa > 0))"

end
