(* ===== verification/Ike_Select.thy ===== *)
theory Ike_Select
  imports Context
begin

text \<open>
  The decisions of the IKE server that need no state: which transforms the kernel supports, the
  choice of an IKE proposal (\<open>SelectProposal\<close>) and of an ESP proposal (the loop of \<open>HandleIKEAUTH\<close>),
  NAT detection, the non-ESP marker on port 4500 and the message-ID window
  (\<open>src/internal/ike/handler.go\<close>, \<open>dispatcher.go\<close>, \<open>server.go\<close>). Transform, notification and exchange
  numbers are the IANA numbers of RFC 7296 that the IKE library's constants name; its transform
  decoders and SHA-1 are parameters.
\<close>

section \<open>Numbers of RFC 7296\<close>

abbreviation TypeEncryptionAlgorithm :: u8 where "TypeEncryptionAlgorithm \<equiv> 1"
abbreviation TypePseudorandomFunction :: u8 where "TypePseudorandomFunction \<equiv> 2"
abbreviation TypeIntegrityAlgorithm :: u8 where "TypeIntegrityAlgorithm \<equiv> 3"
abbreviation TypeDiffieHellmanGroup :: u8 where "TypeDiffieHellmanGroup \<equiv> 4"
abbreviation TypeExtendedSequenceNumbers :: u8 where "TypeExtendedSequenceNumbers \<equiv> 5"

abbreviation ENCR_DES_IV64 :: u16 where "ENCR_DES_IV64 \<equiv> 1"
abbreviation ENCR_DES :: u16 where "ENCR_DES \<equiv> 2"
abbreviation ENCR_3DES :: u16 where "ENCR_3DES \<equiv> 3"
abbreviation ENCR_RC5 :: u16 where "ENCR_RC5 \<equiv> 4"
abbreviation ENCR_IDEA :: u16 where "ENCR_IDEA \<equiv> 5"
abbreviation ENCR_CAST :: u16 where "ENCR_CAST \<equiv> 6"
abbreviation ENCR_BLOWFISH :: u16 where "ENCR_BLOWFISH \<equiv> 7"
abbreviation ENCR_3IDEA :: u16 where "ENCR_3IDEA \<equiv> 8"
abbreviation ENCR_DES_IV32 :: u16 where "ENCR_DES_IV32 \<equiv> 9"
abbreviation ENCR_NULL :: u16 where "ENCR_NULL \<equiv> 11"
abbreviation ENCR_AES_CBC :: u16 where "ENCR_AES_CBC \<equiv> 12"
abbreviation ENCR_AES_CTR :: u16 where "ENCR_AES_CTR \<equiv> 13"

abbreviation AUTH_NONE :: u16 where "AUTH_NONE \<equiv> 0"
abbreviation AUTH_HMAC_MD5_96 :: u16 where "AUTH_HMAC_MD5_96 \<equiv> 1"
abbreviation AUTH_HMAC_SHA1_96 :: u16 where "AUTH_HMAC_SHA1_96 \<equiv> 2"
abbreviation AUTH_DES_MAC :: u16 where "AUTH_DES_MAC \<equiv> 3"
abbreviation AUTH_KPDK_MD5 :: u16 where "AUTH_KPDK_MD5 \<equiv> 4"
abbreviation AUTH_AES_XCBC_96 :: u16 where "AUTH_AES_XCBC_96 \<equiv> 5"
abbreviation AUTH_HMAC_SHA2_256_128 :: u16 where "AUTH_HMAC_SHA2_256_128 \<equiv> 12"

abbreviation DH_1024_BIT_MODP :: u16 where "DH_1024_BIT_MODP \<equiv> 2"
abbreviation ESN_DISABLE :: u16 where "ESN_DISABLE \<equiv> 0"
abbreviation ESN_ENABLE :: u16 where "ESN_ENABLE \<equiv> 1"

abbreviation NAT_DETECTION_SOURCE_IP :: u16 where "NAT_DETECTION_SOURCE_IP \<equiv> 16388"
abbreviation NAT_DETECTION_DESTINATION_IP :: u16 where "NAT_DETECTION_DESTINATION_IP \<equiv> 16389"

section \<open>Transforms and proposals\<close>

definition isTransformKernelSupported :: "u8 \<Rightarrow> u16 \<Rightarrow> bool \<Rightarrow> u16 \<Rightarrow> bool" where
  "isTransformKernelSupported transformType transformID attributePresent attributeValue =
     (if transformType = TypeEncryptionAlgorithm then
        if transformID = ENCR_DES_IV64 then False
        else if transformID = ENCR_DES then True
        else if transformID = ENCR_3DES then True
        else if transformID = ENCR_RC5 then False
        else if transformID = ENCR_IDEA then False
        else if transformID = ENCR_CAST then
          (if attributePresent then
             if attributeValue = 128 then True else if attributeValue = 256 then False else False
           else False)
        else if transformID = ENCR_BLOWFISH then True
        else if transformID = ENCR_3IDEA then False
        else if transformID = ENCR_DES_IV32 then False
        else if transformID = ENCR_NULL then True
        else if transformID = ENCR_AES_CBC then
          (if attributePresent then
             if attributeValue = 128 then True else if attributeValue = 192 then True
             else if attributeValue = 256 then True else False
           else False)
        else if transformID = ENCR_AES_CTR then
          (if attributePresent then
             if attributeValue = 128 then True else if attributeValue = 192 then True
             else if attributeValue = 256 then True else False
           else False)
        else False
      else if transformType = TypeIntegrityAlgorithm then
        if transformID = AUTH_NONE then False
        else if transformID = AUTH_HMAC_SHA1_96 then True
        else if transformID = AUTH_DES_MAC then False
        else if transformID = AUTH_KPDK_MD5 then False
        else if transformID = AUTH_AES_XCBC_96 then True
        else if transformID = AUTH_HMAC_SHA2_256_128 then True
        else False
      else if transformType = TypeDiffieHellmanGroup then False
      else if transformType = TypeExtendedSequenceNumbers then
        if transformID = ESN_ENABLE then True else if transformID = ESN_DISABLE then True else False
      else False)"

text \<open>The decoders of the IKE library: whether \<open>DecodeTransform\<close> knows a transform.\<close>

record transform_lib =
  dh_DecodeTransform :: "Transform \<Rightarrow> bool"
  encr_DecodeTransform :: "Transform \<Rightarrow> bool"
  integ_DecodeTransform :: "Transform \<Rightarrow> bool"
  prf_DecodeTransform :: "Transform \<Rightarrow> bool"

text \<open>\<open>BuildProposal\<close>: a proposal without transforms.\<close>

definition BuildProposal :: "u8 \<Rightarrow> u8 \<Rightarrow> octets \<Rightarrow> Proposal" where
  "BuildProposal n prot spi = \<lparr>pr_ProposalNumber = n, pr_ProtocolID = prot, pr_SPI = spi,
     pr_EncryptionAlgorithm = [], pr_PseudorandomFunction = [], pr_IntegrityAlgorithm = [],
     pr_DiffieHellmanGroup = [], pr_ExtendedSequenceNumbers = []\<rparr>"

text \<open>
  The four loops of the body of \<open>SelectProposal\<close> keep the first transform that decodes; the
  Diffie-Hellman loop skips group 2. The body \<open>continue\<close>s (\<open>None\<close>) or makes the choice.
\<close>

definition choose_dh :: "transform_lib \<Rightarrow> Transform list \<Rightarrow> Transform option" where
  "choose_dh lib ts =
     foldl (\<lambda>acc t. if tr_ID t = DH_1024_BIT_MODP then acc
                    else if dh_DecodeTransform lib t \<and> acc = None then Some t else acc) None ts"

definition choose_first :: "(Transform \<Rightarrow> bool) \<Rightarrow> Transform list \<Rightarrow> Transform option" where
  "choose_first dec ts = foldl (\<lambda>acc t. if dec t \<and> acc = None then Some t else acc) None ts"

definition select_body :: "transform_lib \<Rightarrow> Proposal \<Rightarrow> Proposal option" where
  "select_body lib proposal =
     (case choose_dh lib (pr_DiffieHellmanGroup proposal) of None \<Rightarrow> None
      | Some d \<Rightarrow>
     case choose_first (encr_DecodeTransform lib) (pr_EncryptionAlgorithm proposal) of None \<Rightarrow> None
      | Some e \<Rightarrow>
     case choose_first (integ_DecodeTransform lib) (pr_IntegrityAlgorithm proposal) of None \<Rightarrow> None
      | Some i \<Rightarrow>
     case choose_first (prf_DecodeTransform lib) (pr_PseudorandomFunction proposal) of None \<Rightarrow> None
      | Some f \<Rightarrow>
          if length (pr_ExtendedSequenceNumbers proposal) > 0 then None
          else Some ((BuildProposal (pr_ProposalNumber proposal) (pr_ProtocolID proposal) [])
                 \<lparr>pr_EncryptionAlgorithm := [e], pr_IntegrityAlgorithm := [i],
                  pr_PseudorandomFunction := [f], pr_DiffieHellmanGroup := [d]\<rparr>))"

fun SelectProposal :: "transform_lib \<Rightarrow> Proposal list \<Rightarrow> Proposal list" where
  "SelectProposal lib [] = []"
| "SelectProposal lib (p # ps) =
     (case select_body lib p of None \<Rightarrow> SelectProposal lib ps | Some c \<Rightarrow> [c])"

text \<open>
  The loop over the ESP proposals in \<open>HandleIKEAUTH\<close>. \<open>first_supported\<close> is the inner loop with its
  \<open>break\<close>.
\<close>

definition first_supported :: "u8 \<Rightarrow> Transform list \<Rightarrow> Transform option" where
  "first_supported ty ts =
     find (\<lambda>t. isTransformKernelSupported ty (tr_ID t) (tr_AttributePresent t) (tr_AttributeValue t)) ts"

text \<open>An optional list: absent, or with a first supported transform, or none of it is supported.\<close>

definition optional_transform :: "u8 \<Rightarrow> Transform list \<Rightarrow> Transform option option" where
  "optional_transform ty ts =
     (if length ts > 0 then (case first_supported ty ts of None \<Rightarrow> None | Some t \<Rightarrow> Some (Some t))
      else Some None)"

definition esp_body :: "Proposal \<Rightarrow> Proposal option" where
  "esp_body proposal =
     (if length (pr_SPI proposal) \<noteq> 4 then None
      else if \<not> length (pr_EncryptionAlgorithm proposal) > 0 then None
      else
        case first_supported TypeEncryptionAlgorithm (pr_EncryptionAlgorithm proposal) of None \<Rightarrow> None
        | Some encr \<Rightarrow>
            if length (pr_PseudorandomFunction proposal) > 0 then None
            else
              case optional_transform TypeIntegrityAlgorithm (pr_IntegrityAlgorithm proposal) of None \<Rightarrow> None
              | Some integ \<Rightarrow>
              case optional_transform TypeDiffieHellmanGroup (pr_DiffieHellmanGroup proposal) of None \<Rightarrow> None
              | Some dh \<Rightarrow>
                  if \<not> length (pr_ExtendedSequenceNumbers proposal) > 0 then None
                  else
                    case first_supported TypeExtendedSequenceNumbers (pr_ExtendedSequenceNumbers proposal) of
                      None \<Rightarrow> None
                    | Some esn \<Rightarrow>
                        if tr_ID encr = ENCR_NULL \<and> integ = None then None
                        else Some ((BuildProposal (pr_ProposalNumber proposal) (pr_ProtocolID proposal) (pr_SPI proposal))
                              \<lparr>pr_EncryptionAlgorithm := [encr], pr_ExtendedSequenceNumbers := [esn],
                               pr_IntegrityAlgorithm := (case integ of None \<Rightarrow> [] | Some t \<Rightarrow> [t]),
                               pr_DiffieHellmanGroup := (case dh of None \<Rightarrow> [] | Some t \<Rightarrow> [t])\<rparr>))"

fun select_esp :: "Proposal list \<Rightarrow> Proposal list" where
  "select_esp [] = []"
| "select_esp (p # ps) = (case esp_body p of None \<Rightarrow> select_esp ps | Some c \<Rightarrow> [c])"

section \<open>NAT traversal\<close>

record Notification =
  n_ProtocolID :: u8
  n_NotifyMessageType :: u16
  n_SPI :: octets
  n_NotificationData :: octets

text \<open>
  \<open>copy(natdData[16:20], addr.IP.To4())\<close> copies nothing when the address is not IPv4; the port is
  converted to \<open>uint16\<close>.
\<close>

definition natd_data :: "u64 \<Rightarrow> u64 \<Rightarrow> UDPAddr \<Rightarrow> octets" where
  "natd_data initiatorSPI responderSPI addr =
     PutUint64 initiatorSPI @ PutUint64 responderSPI
       @ (if length (ip_To4 (udp_IP addr)) = 4 then ip_To4 (udp_IP addr) else [0, 0, 0, 0])
       @ PutUint16 (word_of_int (udp_Port addr))"

definition generateNATDetectHash :: "(octets \<Rightarrow> octets) \<Rightarrow> u64 \<Rightarrow> u64 \<Rightarrow> UDPAddr \<Rightarrow> octets" where
  "generateNATDetectHash sha1 initiatorSPI responderSPI addr = sha1 (natd_data initiatorSPI responderSPI addr)"

definition handleNATDetect :: "(octets \<Rightarrow> octets) \<Rightarrow> u64 \<Rightarrow> u64 \<Rightarrow> Notification list \<Rightarrow> UDPAddr \<Rightarrow> UDPAddr
    \<Rightarrow> bool \<times> bool" where
  "handleNATDetect sha1 initiatorSPI responderSPI notifications ueAddr n3iwfAddr =
     (let srcNatDData = generateNATDetectHash sha1 initiatorSPI responderSPI ueAddr;
          dstNatDData = generateNATDetectHash sha1 initiatorSPI responderSPI n3iwfAddr
      in foldl (\<lambda>(ueBehindNAT, n3iwfBehindNAT) notification.
            if n_NotifyMessageType notification = NAT_DETECTION_SOURCE_IP then
              (if n_NotificationData notification \<noteq> srcNatDData then (True, n3iwfBehindNAT)
               else (ueBehindNAT, n3iwfBehindNAT))
            else if n_NotifyMessageType notification = NAT_DETECTION_DESTINATION_IP then
              (if n_NotificationData notification \<noteq> dstNatDData then (ueBehindNAT, True)
               else (ueBehindNAT, n3iwfBehindNAT))
            else (ueBehindNAT, n3iwfBehindNAT)) (False, False) notifications)"

definition BuildNotification :: "u8 \<Rightarrow> u16 \<Rightarrow> octets \<Rightarrow> octets \<Rightarrow> Notification" where
  "BuildNotification prot ty spi data =
     \<lparr>n_ProtocolID = prot, n_NotifyMessageType = ty, n_SPI = spi, n_NotificationData = data\<rparr>"

text \<open>The two notifications the N3IWF appends to its IKE_SA_INIT response.\<close>

definition buildNATDetectNotifPayload ::
  "(octets \<Rightarrow> octets) \<Rightarrow> IKESecurityAssociation \<Rightarrow> UDPAddr \<Rightarrow> UDPAddr \<Rightarrow> Notification list" where
  "buildNATDetectNotifPayload sha1 ikeSA ueAddr n3iwfAddr =
     [BuildNotification 0 NAT_DETECTION_SOURCE_IP []
        (generateNATDetectHash sha1 (isa_RemoteSPI ikeSA) (isa_LocalSPI ikeSA) n3iwfAddr),
      BuildNotification 0 NAT_DETECTION_DESTINATION_IP []
        (generateNATDetectHash sha1 (isa_RemoteSPI ikeSA) (isa_LocalSPI ikeSA) ueAddr)]"

text \<open>
  \<open>handleNattMsg\<close>: the IKE message without its marker, nothing (keepalives, ESP packets), or an
  error. The handler of ESP packets acts on the world.
\<close>

definition handleNattMsg ::
  "octets \<Rightarrow> UDPAddr \<Rightarrow> UDPAddr \<Rightarrow> (UDPAddr \<Rightarrow> UDPAddr \<Rightarrow> octets \<Rightarrow> 'w \<Rightarrow> unit gores \<times> 'w) option
    \<Rightarrow> 'w \<Rightarrow> octets option gores \<times> 'w" where
  "handleNattMsg msgBuf rAddr lAddr espHandler w =
     (if length msgBuf = 1 \<and> msgBuf ! 0 = 0xFF then (Val None, w)
      else
        let nonEspMarker = [0, 0, 0, 0]; nonEspMarkerLen = length nonEspMarker in
        if length msgBuf < nonEspMarkerLen then (Err ''Received msg is too short'', w)
        else if take nonEspMarkerLen msgBuf \<noteq> nonEspMarker then
          (case espHandler of None \<Rightarrow> (Val None, w)
           | Some h \<Rightarrow> (case h rAddr lAddr msgBuf w of
               (Val _, w') \<Rightarrow> (Val None, w')
             | (Err _, w') \<Rightarrow> (Err ''Handle ESP'', w')
             | (Crash p, w') \<Rightarrow> (Crash p, w')))
        else (Val (Some (drop nonEspMarkerLen msgBuf)), w))"

section \<open>The message-ID window\<close>

definition hasExpectedMessageID :: "bool \<Rightarrow> u32 \<Rightarrow> IKESecurityAssociation \<Rightarrow> bool" where
  "hasExpectedMessageID isResponse messageID ikeSA =
     (if \<not> isResponse then
        (if messageID \<noteq> isa_InitiatorMessageID ikeSA then False else True)
      else if messageID \<noteq> isa_ResponderMessageID ikeSA then False
      else True)"

end
