(* ===== verification/Xfrm.thy ===== *)
theory Xfrm
  imports Ike_Select
begin

text \<open>
  Installing the IPsec state and policies of a child SA in the kernel
  (\<open>src/internal/ike/xfrm/xfrm.go\<close>). The netlink calls are functions of the environment
  \<open>xfrm_env\<close>. The states recorded in \<open>XfrmStateList\<close> share the algorithm objects of the state that was
  passed to netlink (Go copies the struct, not what its pointers refer to), so the key of the
  recorded inbound state changes when the outbound key is written; the kernel has the inbound key
  by then.
\<close>

record 'x xfrm_env = "'x ctx_env" +
  e_XfrmStateAdd :: "XfrmState \<Rightarrow> 'x \<Rightarrow> bool \<times> 'x"
  e_XfrmPolicyAdd :: "XfrmPolicy \<Rightarrow> 'x \<Rightarrow> bool \<times> 'x"
  e_LinkByName :: "string \<Rightarrow> 'x \<Rightarrow> link option \<times> 'x"
  e_LinkAdd :: "string \<Rightarrow> int \<Rightarrow> u32 \<Rightarrow> 'x \<Rightarrow> bool \<times> 'x"
  e_AddrAdd :: "link \<Rightarrow> IPNet \<Rightarrow> 'x \<Rightarrow> bool \<times> 'x"
  e_LinkSetUp :: "link \<Rightarrow> 'x \<Rightarrow> bool \<times> 'x"

definition XFRMEncryptionAlgorithmType_String :: "u16 \<Rightarrow> string" where
  "XFRMEncryptionAlgorithmType_String t =
     (if t = ENCR_DES then ''cbc(des)''
      else if t = ENCR_3DES then ''cbc(des3_ede)''
      else if t = ENCR_CAST then ''cbc(cast5)''
      else if t = ENCR_BLOWFISH then ''cbc(blowfish)''
      else if t = ENCR_NULL then ''ecb(cipher_null)''
      else if t = ENCR_AES_CBC then ''cbc(aes)''
      else if t = ENCR_AES_CTR then ''rfc3686(ctr(aes))''
      else '''')"

definition XFRMIntegrityAlgorithmType_String :: "u16 \<Rightarrow> string" where
  "XFRMIntegrityAlgorithmType_String t =
     (if t = AUTH_HMAC_MD5_96 then ''hmac(md5)''
      else if t = AUTH_HMAC_SHA1_96 then ''hmac(sha1)''
      else if t = AUTH_AES_XCBC_96 then ''xcbc(aes)''
      else if t = AUTH_HMAC_SHA2_256_128 then ''hmac(sha256)''
      else '''')"

definition getTruncateLength :: "u16 \<Rightarrow> int" where
  "getTruncateLength t =
     (if t = AUTH_HMAC_MD5_96 then 96
      else if t = AUTH_HMAC_SHA1_96 then 96
      else if t = AUTH_HMAC_SHA2_256_128 then 128
      else 96)"

text \<open>The keys of the two directions, seen from the N3IWF.\<close>

definition inbound_encr_key :: "bool \<Rightarrow> ChildSAKey \<Rightarrow> octets" where
  "inbound_encr_key n3iwf_is_initiator k =
     (if n3iwf_is_initiator then ck_ResponderToInitiatorEncryptionKey k else ck_InitiatorToResponderEncryptionKey k)"

definition inbound_integ_key :: "bool \<Rightarrow> ChildSAKey \<Rightarrow> octets" where
  "inbound_integ_key n3iwf_is_initiator k =
     (if n3iwf_is_initiator then ck_ResponderToInitiatorIntegrityKey k else ck_InitiatorToResponderIntegrityKey k)"

definition outbound_encr_key :: "bool \<Rightarrow> ChildSAKey \<Rightarrow> octets" where
  "outbound_encr_key n3iwf_is_initiator k =
     (if n3iwf_is_initiator then ck_InitiatorToResponderEncryptionKey k else ck_ResponderToInitiatorEncryptionKey k)"

definition outbound_integ_key :: "bool \<Rightarrow> ChildSAKey \<Rightarrow> octets" where
  "outbound_integ_key n3iwf_is_initiator k =
     (if n3iwf_is_initiator then ck_InitiatorToResponderIntegrityKey k else ck_ResponderToInitiatorIntegrityKey k)"

definition encr_algo :: "ChildSAKey \<Rightarrow> octets \<Rightarrow> XfrmStateAlgo" where
  "encr_algo k key = \<lparr>algo_Name = XFRMEncryptionAlgorithmType_String (ck_EncrKInfo k), algo_Key = key,
     algo_TruncateLen = 0\<rparr>"

definition integ_algo :: "ChildSAKey \<Rightarrow> octets \<Rightarrow> XfrmStateAlgo option" where
  "integ_algo k key = (case ck_IntegKInfo k of None \<Rightarrow> None
     | Some t \<Rightarrow> Some \<lparr>algo_Name = XFRMIntegrityAlgorithmType_String t, algo_Key = key,
                       algo_TruncateLen = getTruncateLength t\<rparr>)"

definition xfrm_state_in :: "bool \<Rightarrow> u32 \<Rightarrow> ChildSecurityAssociation \<Rightarrow> ChildSAKey \<Rightarrow> XfrmState" where
  "xfrm_state_in init xfrmiId child k =
     \<lparr>xs_Src = csa_PeerPublicIPAddr child, xs_Dst = csa_LocalPublicIPAddr child,
      xs_Spi = uint (csa_InboundSPI child), xs_Ifid = uint xfrmiId,
      xs_Auth = integ_algo k (inbound_integ_key init k), xs_Crypt = encr_algo k (inbound_encr_key init k),
      xs_ESN = ck_NeedESN k, xs_ReplayWindow = 32, xs_Encap = None\<rparr>"

definition xfrm_policy_in :: "u32 \<Rightarrow> ChildSecurityAssociation \<Rightarrow> XfrmState \<Rightarrow> XfrmPolicy" where
  "xfrm_policy_in xfrmiId child st =
     \<lparr>xp_Src = csa_TrafficSelectorRemote child, xp_Dst = csa_TrafficSelectorLocal child,
      xp_Proto = csa_SelectedIPProtocol child, xp_Dir = XFRM_DIR_IN, xp_Ifid = uint xfrmiId,
      xp_Tmpl = \<lparr>xt_Src = xs_Src st, xt_Dst = xs_Dst st, xt_Spi = xs_Spi st\<rparr>\<rparr>"

text \<open>The outbound state: other keys and SPI, addresses swapped, UDP encapsulation if enabled.\<close>

definition xfrm_state_out :: "bool \<Rightarrow> ChildSecurityAssociation \<Rightarrow> ChildSAKey \<Rightarrow> XfrmState \<Rightarrow> XfrmState" where
  "xfrm_state_out init child k st =
     st\<lparr>xs_Auth := integ_algo k (outbound_integ_key init k), xs_Crypt := encr_algo k (outbound_encr_key init k),
        xs_Spi := uint (csa_OutboundSPI child), xs_Src := xs_Dst st, xs_Dst := xs_Src st,
        xs_Encap := (if csa_EnableEncapsulate child
          then Some \<lparr>encap_SrcPort = csa_N3IWFPort child, encap_DstPort = csa_NATPort child\<rparr>
          else None)\<rparr>"

definition xfrm_policy_out :: "ChildSecurityAssociation \<Rightarrow> XfrmPolicy \<Rightarrow> XfrmPolicy" where
  "xfrm_policy_out child pol =
     pol\<lparr>xp_Src := xp_Dst pol, xp_Dst := xp_Src pol, xp_Dir := XFRM_DIR_OUT,
         xp_Tmpl := \<lparr>xt_Src = xt_Dst (xp_Tmpl pol), xt_Dst = xt_Src (xp_Tmpl pol),
                     xt_Spi = uint (csa_OutboundSPI child)\<rparr>\<rparr>"

text \<open>
  The recorded inbound state after its algorithm objects were given the outbound keys.
\<close>

definition rekeyed :: "bool \<Rightarrow> ChildSAKey \<Rightarrow> XfrmState \<Rightarrow> XfrmState" where
  "rekeyed init k st =
     st\<lparr>xs_Auth := integ_algo k (outbound_integ_key init k), xs_Crypt := encr_algo k (outbound_encr_key init k)\<rparr>"

definition ApplyXFRMRule ::
  "('x, 'm) xfrm_env_scheme \<Rightarrow> bool \<Rightarrow> u32 \<Rightarrow> addr \<Rightarrow> 'x world \<Rightarrow> unit gores \<times> 'x world" where
  "ApplyXFRMRule env n3iwf_is_initiator xfrmiId c w =
     gbind (deref childsas (Some c) w) (\<lambda>child w.
       case csa_ChildSAKey child of None \<Rightarrow> (Crash NilPointer, w)
       | Some k \<Rightarrow>
           let st = xfrm_state_in n3iwf_is_initiator xfrmiId child k;
               pol = xfrm_policy_in xfrmiId child st;
               st' = xfrm_state_out n3iwf_is_initiator child k st;
               pol' = xfrm_policy_out child pol;
               sts = csa_XfrmStateList child; pols = csa_XfrmPolicyList child
           in
           gbind (ext_call (e_XfrmStateAdd env st) ''Add XFRM state'' w) (\<lambda>_ w.
           gbind (upd_childsa (Some c) (\<lambda>o1. o1\<lparr>csa_XfrmStateList := sts @ [st]\<rparr>) w) (\<lambda>_ w.
           gbind (ext_call (e_XfrmPolicyAdd env pol) ''Add XFRM policy'' w) (\<lambda>_ w.
           gbind (upd_childsa (Some c) (\<lambda>o1. o1\<lparr>csa_XfrmPolicyList := pols @ [pol],
               csa_XfrmStateList := sts @ [rekeyed n3iwf_is_initiator k st]\<rparr>) w) (\<lambda>_ w.
           gbind (ext_call (e_XfrmStateAdd env st') ''Add XFRM state'' w) (\<lambda>_ w.
           gbind (upd_childsa (Some c) (\<lambda>o1. o1\<lparr>csa_XfrmStateList :=
               sts @ [rekeyed n3iwf_is_initiator k st, st']\<rparr>) w) (\<lambda>_ w.
           gbind (ext_call (e_XfrmPolicyAdd env pol') ''Add XFRM policy'' w) (\<lambda>_ w.
             upd_childsa (Some c) (\<lambda>o1. o1\<lparr>csa_XfrmPolicyList := pols @ [pol, pol']\<rparr>) w))))))))"

definition SetupIPsecXfrmi :: "('x, 'm) xfrm_env_scheme \<Rightarrow> string \<Rightarrow> string \<Rightarrow> u32 \<Rightarrow> IPNet \<Rightarrow> 'x world
    \<Rightarrow> link gores \<times> 'x world" where
  "SetupIPsecXfrmi env xfrmIfaceName parentIfaceName xfrmIfaceId xfrmIfaceAddr w =
     (case e_LinkByName env parentIfaceName (ext w) of
        (None, x) \<Rightarrow> (Err ''cannot find parent interface'', w\<lparr>ext := x\<rparr>)
      | (Some parent, x) \<Rightarrow>
          gbind (ext_call (e_LinkAdd env xfrmIfaceName (link_Index parent) xfrmIfaceId) ''LinkAdd'' (w\<lparr>ext := x\<rparr>)) (\<lambda>_ w.
            case e_LinkByName env xfrmIfaceName (ext w) of
              (None, x) \<Rightarrow> (Err ''LinkByName'', w\<lparr>ext := x\<rparr>)
            | (Some xfrmi, x) \<Rightarrow>
                gbind (ext_call (e_AddrAdd env xfrmi xfrmIfaceAddr) ''AddrAdd'' (w\<lparr>ext := x\<rparr>)) (\<lambda>_ w.
                gbind (ext_call (e_LinkSetUp env xfrmi) ''LinkSetUp'' w) (\<lambda>_ w.
                  (Val xfrmi, w)))))"

section \<open>What the kernel is given\<close>

text \<open>A kernel that accepts everything and records the calls.\<close>

datatype xfrm_call = AddState XfrmState | AddPolicy XfrmPolicy

definition records_xfrm :: "('x, 'm) xfrm_env_scheme \<Rightarrow> ('x \<Rightarrow> xfrm_call list) \<Rightarrow> bool" where
  "records_xfrm env log =
     (\<forall>x. (\<forall>s. fst (e_XfrmStateAdd env s x) \<and> log (snd (e_XfrmStateAdd env s x)) = log x @ [AddState s])
        \<and> (\<forall>p. fst (e_XfrmPolicyAdd env p x) \<and> log (snd (e_XfrmPolicyAdd env p x)) = log x @ [AddPolicy p]))"

lemma records_state:
  assumes "records_xfrm env log"
  obtains x' where "e_XfrmStateAdd env s x = (True, x')" "log x' = log x @ [AddState s]"
  using assms unfolding records_xfrm_def by (metis prod.collapse)

lemma records_policy:
  assumes "records_xfrm env log"
  obtains x' where "e_XfrmPolicyAdd env p x = (True, x')" "log x' = log x @ [AddPolicy p]"
  using assms unfolding records_xfrm_def by (metis prod.collapse)

text \<open>
  The names by which the kernel knows the algorithms, the integrity algorithms with the length in bits
  to which their output is truncated. An algorithm that is not in a table gets the default.
\<close>

definition cipher_names :: "(u16 \<times> string) list" where
  "cipher_names = [(ENCR_DES, ''cbc(des)''), (ENCR_3DES, ''cbc(des3_ede)''), (ENCR_CAST, ''cbc(cast5)''),
     (ENCR_BLOWFISH, ''cbc(blowfish)''), (ENCR_NULL, ''ecb(cipher_null)''), (ENCR_AES_CBC, ''cbc(aes)''),
     (ENCR_AES_CTR, ''rfc3686(ctr(aes))'')]"

definition auth_names :: "(u16 \<times> string \<times> int) list" where
  "auth_names = [(AUTH_HMAC_MD5_96, ''hmac(md5)'', 96), (AUTH_HMAC_SHA1_96, ''hmac(sha1)'', 96),
     (AUTH_AES_XCBC_96, ''xcbc(aes)'', 96), (AUTH_HMAC_SHA2_256_128, ''hmac(sha256)'', 128)]"

definition in_table :: "(u16 \<times> 'a) list \<Rightarrow> 'a \<Rightarrow> u16 \<Rightarrow> 'a" where
  "in_table t d i = (case map_of t i of None \<Rightarrow> d | Some v \<Rightarrow> v)"

lemma names_tables:
  "XFRMEncryptionAlgorithmType_String t = in_table cipher_names '''' t"
  "XFRMIntegrityAlgorithmType_String t = fst (in_table auth_names ('''', 96) t)"
  "getTruncateLength t = snd (in_table auth_names ('''', 96) t)"
  by (simp_all add: in_table_def cipher_names_def auth_names_def XFRMEncryptionAlgorithmType_String_def
      XFRMIntegrityAlgorithmType_String_def getTruncateLength_def)

lemma integ_algo_table:
  "integ_algo k key = map_option (\<lambda>t. \<lparr>algo_Name = fst (in_table auth_names ('''', 96) t), algo_Key = key,
     algo_TruncateLen = snd (in_table auth_names ('''', 96) t)\<rparr>) (ck_IntegKInfo k)"
  by (simp add: integ_algo_def names_tables split: option.split)

text \<open>The calls, with the states and policies as the model's helpers build them.\<close>

lemma ApplyXFRMRule_calls:
  assumes kern: "records_xfrm env log"
    and child: "childsas w c = Some child" and key: "csa_ChildSAKey child = Some k"
    and si: "si = xfrm_state_in init ifid child k" and pin: "pin = xfrm_policy_in ifid child si"
    and so: "so = xfrm_state_out init child k si" and pout: "pout = xfrm_policy_out child pin"
  shows "\<exists>x. ApplyXFRMRule env init ifid c w = (Val (), w\<lparr>ext := x, childsas := (childsas w)(c \<mapsto>
       child\<lparr>csa_XfrmStateList := csa_XfrmStateList child @ [rekeyed init k si, so],
         csa_XfrmPolicyList := csa_XfrmPolicyList child @ [pin, pout]\<rparr>)\<rparr>)
    \<and> log x = log (ext w) @ [AddState si, AddPolicy pin, AddState so, AddPolicy pout]"
proof -
  obtain x1 where x1: "e_XfrmStateAdd env si (ext w) = (True, x1)" "log x1 = log (ext w) @ [AddState si]"
    using records_state [OF kern] .
  obtain x2 where x2: "e_XfrmPolicyAdd env pin x1 = (True, x2)" "log x2 = log x1 @ [AddPolicy pin]"
    using records_policy [OF kern] .
  obtain x3 where x3: "e_XfrmStateAdd env so x2 = (True, x3)" "log x3 = log x2 @ [AddState so]"
    using records_state [OF kern] .
  obtain x4 where x4: "e_XfrmPolicyAdd env pout x3 = (True, x4)" "log x4 = log x3 @ [AddPolicy pout]"
    using records_policy [OF kern] .
  show ?thesis
    using child key x1 x2 x3 x4 unfolding pout so pin si
    by (intro exI [of _ x4]) (simp add: ApplyXFRMRule_def Let_def ext_call_def upd_childsa_def)
qed

text \<open>
  C24: With a kernel that accepts the calls, \<open>ApplyXFRMRule\<close> makes exactly four: a state and a policy for
  the traffic from the UE, then a state and a policy for the traffic to it, written out here in full. The
  inbound state has the SPI the N3IWF allocated, runs from the UE to the N3IWF and has the keys with
  which the UE sends: those from responder to initiator if the N3IWF is the initiator, the others if
  not. The outbound state has the UE's SPI, the addresses swapped, the other keys and, behind a NAT,
  encapsulation in UDP from the N3IWF's port to the UE's. The inbound policy is from the remote to
  the local selector, the outbound one the other way round; each has the template of its state. All four
  have the given interface identifier. The child SA ends with the two states and policies appended;
  the recorded inbound state holds the outbound keys, because both share their algorithm objects.
\<close>

theorem ApplyXFRMRule_installs:
  assumes kern: "records_xfrm env log"
    and child: "childsas w c = Some child" and key: "csa_ChildSAKey child = Some k"
    and ue_keys: "(ue_encr, ue_integ) = (if init
        then (ck_ResponderToInitiatorEncryptionKey k, ck_ResponderToInitiatorIntegrityKey k)
        else (ck_InitiatorToResponderEncryptionKey k, ck_InitiatorToResponderIntegrityKey k))"
    and n3iwf_keys: "(n3iwf_encr, n3iwf_integ) = (if init
        then (ck_InitiatorToResponderEncryptionKey k, ck_InitiatorToResponderIntegrityKey k)
        else (ck_ResponderToInitiatorEncryptionKey k, ck_ResponderToInitiatorIntegrityKey k))"
    and crypt: "crypt = (\<lambda>sk. \<lparr>algo_Name = in_table cipher_names '''' (ck_EncrKInfo k), algo_Key = sk, algo_TruncateLen = 0\<rparr>)"
    and auth: "auth = (\<lambda>sk. map_option (\<lambda>t. \<lparr>algo_Name = fst (in_table auth_names ('''', 96) t), algo_Key = sk,
        algo_TruncateLen = snd (in_table auth_names ('''', 96) t)\<rparr>) (ck_IntegKInfo k))"
    and si: "si = \<lparr>xs_Src = csa_PeerPublicIPAddr child, xs_Dst = csa_LocalPublicIPAddr child,
        xs_Spi = uint (csa_InboundSPI child), xs_Ifid = uint ifid, xs_Auth = auth ue_integ, xs_Crypt = crypt ue_encr,
        xs_ESN = ck_NeedESN k, xs_ReplayWindow = 32, xs_Encap = None\<rparr>"
    and so: "so = \<lparr>xs_Src = csa_LocalPublicIPAddr child, xs_Dst = csa_PeerPublicIPAddr child,
        xs_Spi = uint (csa_OutboundSPI child), xs_Ifid = uint ifid, xs_Auth = auth n3iwf_integ, xs_Crypt = crypt n3iwf_encr,
        xs_ESN = ck_NeedESN k, xs_ReplayWindow = 32,
        xs_Encap = (if csa_EnableEncapsulate child
          then Some \<lparr>encap_SrcPort = csa_N3IWFPort child, encap_DstPort = csa_NATPort child\<rparr> else None)\<rparr>"
    and pin: "pin = \<lparr>xp_Src = csa_TrafficSelectorRemote child, xp_Dst = csa_TrafficSelectorLocal child,
        xp_Proto = csa_SelectedIPProtocol child, xp_Dir = XFRM_DIR_IN, xp_Ifid = uint ifid,
        xp_Tmpl = \<lparr>xt_Src = csa_PeerPublicIPAddr child, xt_Dst = csa_LocalPublicIPAddr child,
          xt_Spi = uint (csa_InboundSPI child)\<rparr>\<rparr>"
    and pout: "pout = \<lparr>xp_Src = csa_TrafficSelectorLocal child, xp_Dst = csa_TrafficSelectorRemote child,
        xp_Proto = csa_SelectedIPProtocol child, xp_Dir = XFRM_DIR_OUT, xp_Ifid = uint ifid,
        xp_Tmpl = \<lparr>xt_Src = csa_LocalPublicIPAddr child, xt_Dst = csa_PeerPublicIPAddr child,
          xt_Spi = uint (csa_OutboundSPI child)\<rparr>\<rparr>"
  shows "\<exists>x. ApplyXFRMRule env init ifid c w = (Val (), w\<lparr>ext := x, childsas := (childsas w)(c \<mapsto>
       child\<lparr>csa_XfrmStateList := csa_XfrmStateList child
           @ [si\<lparr>xs_Auth := auth n3iwf_integ, xs_Crypt := crypt n3iwf_encr\<rparr>, so],
         csa_XfrmPolicyList := csa_XfrmPolicyList child @ [pin, pout]\<rparr>)\<rparr>)
    \<and> log x = log (ext w) @ [AddState si, AddPolicy pin, AddState so, AddPolicy pout]"
proof -
  have keys: "ue_encr = inbound_encr_key init k" "ue_integ = inbound_integ_key init k"
    "n3iwf_encr = outbound_encr_key init k" "n3iwf_integ = outbound_integ_key init k"
    using ue_keys n3iwf_keys
    by (auto simp: inbound_encr_key_def inbound_integ_key_def outbound_encr_key_def outbound_integ_key_def split: if_splits)
  have algos: "crypt = encr_algo k" "auth = integ_algo k"
    by (simp_all add: fun_eq_iff crypt auth encr_algo_def integ_algo_table names_tables)
  have "si = xfrm_state_in init ifid child k"
    by (simp add: si xfrm_state_in_def keys algos)
  moreover have "so = xfrm_state_out init child k si"
    by (simp add: so si xfrm_state_out_def keys algos)
  moreover have "pin = xfrm_policy_in ifid child si" "pout = xfrm_policy_out child pin"
    by (simp_all add: pin pout si xfrm_policy_in_def xfrm_policy_out_def)
  moreover have "si\<lparr>xs_Auth := auth n3iwf_integ, xs_Crypt := crypt n3iwf_encr\<rparr> = rekeyed init k si"
    by (simp add: rekeyed_def keys algos)
  ultimately show ?thesis
    using ApplyXFRMRule_calls [OF kern child key] by simp
qed

definition recording_kernel :: "xfrm_call list xfrm_env" where
  "recording_kernel = ctx_env.extend idle_env (xfrm_env.fields
     (\<lambda>s x. (True, x @ [AddState s])) (\<lambda>p x. (True, x @ [AddPolicy p])) (\<lambda>n x. (None, x))
     (\<lambda>_ _ _ x. (True, x)) (\<lambda>_ _ x. (True, x)) (\<lambda>_ x. (True, x)))"

definition demo_childkey :: ChildSAKey where
  "demo_childkey = \<lparr>ck_EncrKInfo = ENCR_AES_CBC, ck_IntegKInfo = Some AUTH_HMAC_SHA1_96, ck_NeedESN = False,
     ck_InitiatorToResponderEncryptionKey = [1], ck_ResponderToInitiatorEncryptionKey = [2],
     ck_InitiatorToResponderIntegrityKey = [3], ck_ResponderToInitiatorIntegrityKey = [4]\<rparr>"

lemma recording_kernel_records: "records_xfrm recording_kernel id"
  by (simp add: records_xfrm_def recording_kernel_def xfrm_env.defs ctx_env.defs idle_env_def)

text \<open>A child SA of which the N3IWF is the initiator, with interface identifier 7.\<close>

definition demo_xfrm_child :: ChildSecurityAssociation where
  "demo_xfrm_child = ChildSecurityAssociation_new\<lparr>csa_InboundSPI := 5, csa_OutboundSPI := 6,
     csa_ChildSAKey := Some demo_childkey, csa_PeerPublicIPAddr := [192, 0, 2, 1], csa_LocalPublicIPAddr := [10, 0, 0, 9]\<rparr>"

theorem ApplyXFRMRule_installs_witness:
  "\<exists>w' si pin so pout. ApplyXFRMRule recording_kernel True 7 0 ((world_init [])\<lparr>childsas := [0 \<mapsto> demo_xfrm_child]\<rparr>) = (Val (), w')
    \<and> ext w' = [AddState si, AddPolicy pin, AddState so, AddPolicy pout]
    \<and> xs_Crypt si = \<lparr>algo_Name = ''cbc(aes)'', algo_Key = [2], algo_TruncateLen = 0\<rparr>
    \<and> xs_Auth so = Some \<lparr>algo_Name = ''hmac(sha1)'', algo_Key = [3], algo_TruncateLen = 96\<rparr>
    \<and> xs_Spi si = 5 \<and> xs_Spi so = 6 \<and> xp_Ifid pout = 7 \<and> xs_Src so = [10, 0, 0, 9]"
proof -
  let ?w = "(world_init [])\<lparr>childsas := [0 \<mapsto> demo_xfrm_child]\<rparr> :: xfrm_call list world"
  have "childsas ?w 0 = Some demo_xfrm_child" "csa_ChildSAKey demo_xfrm_child = Some demo_childkey"
    by (simp_all add: demo_xfrm_child_def)
  from ApplyXFRMRule_installs [OF recording_kernel_records this _ _ refl refl refl refl refl refl,
      of "[2]" "[4]" True "[1]" "[3]" 7]
  show ?thesis
    by (auto simp: demo_childkey_def demo_xfrm_child_def world_init_def in_table_def cipher_names_def auth_names_def)
qed

end
