(* ===== verification/Ike_Handlers.thy ===== *)
theory Ike_Handlers
  imports Xfrm
begin

text \<open>
  The IKE server (\<open>src/internal/ike/handler.go\<close>, \<open>dispatcher.go\<close>, \<open>send.go\<close>, \<open>server.go\<close>): decoding and
  dispatch of a received message, the handlers of the four exchanges, the handlers of the events
  the NGAP server sends, and the messages they send to the UE. The IKE and EAP library (encoding,
  encryption, key derivation, payload builders), the random source and the UDP sockets are the
  functions of the environment \<open>ike_env\<close>; an IKE SA's key object is an opaque octet string. Writing
  to a hash never fails in Go and is not an error path here. Log output is not modelled.
\<close>

section \<open>Messages and environment\<close>

datatype eap_type_data = EapExpanded u32 u32 octets | EapOtherType u8

record EAP =
  eap_Code :: u8
  eap_Identifier :: u8
  eap_TypeData :: "eap_type_data option"

datatype ike_payload =
    PSA "Proposal list"
  | PKE u16 octets
  | PIDi u8 octets
  | PIDr u8 octets
  | PCERT u8 octets
  | PCERTreq u8 octets
  | PAUTH u8 octets
  | PNiNr octets
  | PN Notification
  | PD u8 u8 u16 "u32 list"
  | PTSi "TrafficSelector list"
  | PTSr "TrafficSelector list"
  | PCP u8 "(u16 \<times> octets) list"
  | PEAP EAP
  | POther u8 octets

record IKEMessage =
  im_InitiatorSPI :: u64
  im_ResponderSPI :: u64
  im_ExchangeType :: u8
  im_Response :: bool
  im_Initiator :: bool
  im_MessageID :: u32
  im_Payloads :: "ike_payload list"

record IKEHeader =
  ih_InitiatorSPI :: u64
  ih_ResponderSPI :: u64
  ih_MajorVersion :: u8
  ih_ExchangeType :: u8
  ih_MessageID :: u32

abbreviation IKE_SA_INIT :: u8 where "IKE_SA_INIT \<equiv> 34"
abbreviation IKE_AUTH :: u8 where "IKE_AUTH \<equiv> 35"
abbreviation CREATE_CHILD_SA :: u8 where "CREATE_CHILD_SA \<equiv> 36"
abbreviation INFORMATIONAL :: u8 where "INFORMATIONAL \<equiv> 37"

abbreviation INVALID_IKE_SPI :: u16 where "INVALID_IKE_SPI \<equiv> 4"
abbreviation INVALID_MAJOR_VERSION :: u16 where "INVALID_MAJOR_VERSION \<equiv> 5"
abbreviation NO_PROPOSAL_CHOSEN :: u16 where "NO_PROPOSAL_CHOSEN \<equiv> 14"
abbreviation INVALID_KE_PAYLOAD :: u16 where "INVALID_KE_PAYLOAD \<equiv> 17"
abbreviation AUTHENTICATION_FAILED :: u16 where "AUTHENTICATION_FAILED \<equiv> 24"

abbreviation TypeIKE :: u8 where "TypeIKE \<equiv> 1"
abbreviation TypeESP :: u8 where "TypeESP \<equiv> 3"
abbreviation ID_FQDN :: u8 where "ID_FQDN \<equiv> 2"
abbreviation X509CertificateSignature :: u8 where "X509CertificateSignature \<equiv> 4"
abbreviation RSADigitalSignature :: u8 where "RSADigitalSignature \<equiv> 1"
abbreviation SharedKeyMesageIntegrityCode :: u8 where "SharedKeyMesageIntegrityCode \<equiv> 2"
abbreviation CFG_REPLY :: u8 where "CFG_REPLY \<equiv> 2"
abbreviation INTERNAL_IP4_ADDRESS :: u16 where "INTERNAL_IP4_ADDRESS \<equiv> 1"
abbreviation INTERNAL_IP4_NETMASK :: u16 where "INTERNAL_IP4_NETMASK \<equiv> 2"
abbreviation TS_IPV4_ADDR_RANGE :: u8 where "TS_IPV4_ADDR_RANGE \<equiv> 7"
abbreviation IPProtocolAll :: u8 where "IPProtocolAll \<equiv> 0"
abbreviation IPPROTO_TCP :: u8 where "IPPROTO_TCP \<equiv> 6"
abbreviation IPPROTO_GRE :: u8 where "IPPROTO_GRE \<equiv> 47"

record 'x ike_env = "'x xfrm_env" +
  \<comment> \<open>configuration and context data\<close>
  e_FQDN :: octets
  e_NasTcpPort :: u16
  e_IKEBindAddr :: ip
  e_GatewayIP :: ip
  e_InnerMask :: octets
  e_ResolveIPAddr :: "string \<Rightarrow> string option"
  e_XfrmIfaceId :: u32
  e_XfrmIfaceName :: string
  e_XfrmParentIfaceName :: string
  e_LivenessEnable :: bool
  e_LivenessMaxRetryTimes :: int
  e_N3IWFCertificate :: octets
  \<comment> \<open>the IKE library\<close>
  e_transforms :: transform_lib
  e_EAP5GStop :: u8
  e_EapCodeResponse :: u8
  e_VendorId3GPP :: u32
  e_VendorTypeEAP5G :: u32
  e_ParseHeader :: "octets \<Rightarrow> IKEHeader option"
  e_DecodeDecrypt :: "octets \<Rightarrow> IKEHeader \<Rightarrow> octets option \<Rightarrow> IKEMessage option"
  e_EncodeEncrypt :: "IKEMessage \<Rightarrow> octets option \<Rightarrow> 'x \<Rightarrow> octets option \<times> 'x"
  e_EncodeMessage :: "IKEMessage \<Rightarrow> octets option"
  e_EncodePayloads :: "ike_payload list \<Rightarrow> octets option"
  e_NewIKESAKey :: "Proposal \<Rightarrow> octets \<Rightarrow> octets \<Rightarrow> u64 \<Rightarrow> u64 \<Rightarrow> 'x \<Rightarrow> (octets \<times> octets) option \<times> 'x"
  e_Prf_i :: "octets \<Rightarrow> octets \<Rightarrow> octets"
  e_Prf_r :: "octets \<Rightarrow> octets \<Rightarrow> octets"
  e_PrfInfo :: "octets \<Rightarrow> octets \<Rightarrow> octets \<Rightarrow> octets"
  e_EncrToTransform :: "octets \<Rightarrow> Transform option"
  e_IntegToTransform :: "octets \<Rightarrow> Transform"
  e_GenerateKeyForChildSA :: "ChildSAKey \<Rightarrow> octets option \<Rightarrow> octets \<Rightarrow> ChildSAKey option"
  e_BuildEAP5GStart :: "u8 \<Rightarrow> ike_payload"
  e_BuildEAP5GNAS :: "u8 \<Rightarrow> octets \<Rightarrow> ike_payload option"
  e_BuildEAPSuccess :: "u8 \<Rightarrow> ike_payload"
  e_BuildEAPfailure :: "u8 \<Rightarrow> ike_payload"
  e_BuildNotifyNAS_IP4_ADDRESS :: "string \<Rightarrow> ike_payload"
  e_BuildNotifyNAS_TCP_PORT :: "u16 \<Rightarrow> ike_payload"
  e_BuildNotifyUP_IP4_ADDRESS :: "string \<Rightarrow> ike_payload"
  e_BuildNotify5G_QOS_INFO :: "u8 \<Rightarrow> u8 list \<Rightarrow> ike_payload option"
  \<comment> \<open>hashing, signing, randomness, sockets\<close>
  e_sha1 :: "octets \<Rightarrow> octets"
  e_Sign :: "octets \<Rightarrow> 'x \<Rightarrow> octets option \<times> 'x"
  e_GenerateRandomNumber :: "'x \<Rightarrow> octets option \<times> 'x"
  e_GenerateRandomUint8 :: "'x \<Rightarrow> u8 option \<times> 'x"
  e_rand_uint32 :: "'x \<Rightarrow> u32 option \<times> 'x"
  e_WriteToUDP :: "nat \<Rightarrow> octets \<Rightarrow> UDPAddr \<Rightarrow> 'x \<Rightarrow> nat option \<times> 'x"

definition NewMessage :: "u64 \<Rightarrow> u64 \<Rightarrow> u8 \<Rightarrow> bool \<Rightarrow> bool \<Rightarrow> u32 \<Rightarrow> ike_payload list \<Rightarrow> IKEMessage" where
  "NewMessage iSPI rSPI exch response initiator mId payloads =
     \<lparr>im_InitiatorSPI = iSPI, im_ResponderSPI = rSPI, im_ExchangeType = exch, im_Response = response,
      im_Initiator = initiator, im_MessageID = mId, im_Payloads = payloads\<rparr>"

text \<open>A call of the environment that may fail.\<close>

definition ext_opt :: "('x \<Rightarrow> 'a option \<times> 'x) \<Rightarrow> string \<Rightarrow> 'x world \<Rightarrow> 'a gores \<times> 'x world" where
  "ext_opt f msg w =
     (case f (ext w) of (None, x) \<Rightarrow> (Err msg, w\<lparr>ext := x\<rparr>) | (Some a, x) \<Rightarrow> (Val a, w\<lparr>ext := x\<rparr>))"

text \<open>\<open>if err != nil { log; return }\<close> at the end of a handler: an error ends the handler normally.\<close>

definition handler :: "unit gores \<times> 'w \<Rightarrow> unit gores \<times> 'w" where
  "handler r = gtry r (\<lambda>_ w. (Val (), w))"

section \<open>Sending\<close>

definition SendIKEMessageToUE :: "('x, 'm) ike_env_scheme \<Rightarrow> nat \<Rightarrow> UDPAddr \<Rightarrow> UDPAddr \<Rightarrow> IKEMessage
    \<Rightarrow> octets option \<Rightarrow> 'x world \<Rightarrow> unit gores \<times> 'x world" where
  "SendIKEMessageToUE env udpConn srcAddr dstAddr message ikeSAKey w =
     gbind (ext_opt (e_EncodeEncrypt env message ikeSAKey) ''SendIKEMessageToUE'' w) (\<lambda>pkt w.
     let pkt = (if udp_Port srcAddr = 4500 then replicate 4 0 @ pkt else pkt) in
     gbind (ext_opt (e_WriteToUDP env udpConn pkt dstAddr) ''SendIKEMessageToUE'' w) (\<lambda>n w.
       if n \<noteq> length pkt then (Err ''SendIKEMessageToUE Not all of the data is sent'', w)
       else (Val (), w)))"

definition SendUEInformationExchange :: "('x, 'm) ike_env_scheme \<Rightarrow> IKESecurityAssociation \<Rightarrow> octets option
    \<Rightarrow> ike_payload list \<Rightarrow> bool \<Rightarrow> bool \<Rightarrow> u32 \<Rightarrow> nat \<Rightarrow> UDPAddr \<Rightarrow> UDPAddr \<Rightarrow> 'x world \<Rightarrow> unit gores \<times> 'x world" where
  "SendUEInformationExchange env ikeSA ikeSAKey payload initiator response messageID conn ueAddr n3iwfAddr w =
     handler (SendIKEMessageToUE env conn n3iwfAddr ueAddr
       (NewMessage (isa_RemoteSPI ikeSA) (isa_LocalSPI ikeSA) INFORMATIONAL response initiator messageID payload)
       ikeSAKey w)"

text \<open>Reading through the \<open>IKEConnection\<close> pointer.\<close>

definition conn_of :: "UDPSocketInfo option \<Rightarrow> 'x world \<Rightarrow> UDPSocketInfo gores \<times> 'x world" where
  "conn_of c w = (case c of None \<Rightarrow> (Crash NilPointer, w) | Some i \<Rightarrow> (Val i, w))"

definition SendIKEDeleteRequest :: "('x, 'm) ike_env_scheme \<Rightarrow> u64 \<Rightarrow> 'x world \<Rightarrow> unit gores \<times> 'x world" where
  "SendIKEDeleteRequest env localSPI w =
     (case IkeUePoolLoad localSPI w of None \<Rightarrow> (Val (), w)
      | Some u \<Rightarrow>
          gbind (deref ikeues (Some u) w) (\<lambda>ue w.
          gbind (deref ikesas (iu_N3IWFIKESecurityAssociation ue) w) (\<lambda>sa w.
          gbind (conn_of (iu_IKEConnection ue) w) (\<lambda>c w.
            SendUEInformationExchange env sa (isa_IKESAKey sa) [PD TypeIKE 0 0 []] False False
              (isa_ResponderMessageID sa) (sock_Conn c) (sock_UEAddr c) (sock_N3IWFAddr c) w))))"

text \<open>
  The loops of \<open>SendChildSADeleteRequest\<close>: for each session to release, every child SA of the UE that
  carries it is deleted and its SPI noted. The inner loop ranges over the map while it deletes from
  it; the entries present when the loop starts are visited.
\<close>

definition release_child :: "('x, 'm) ike_env_scheme \<Rightarrow> addr \<Rightarrow> int \<Rightarrow> addr \<Rightarrow> u32 list \<Rightarrow> 'x world
    \<Rightarrow> u32 list gores \<times> 'x world" where
  "release_child env u releaseItem c spis w =
     gbind (deref childsas (Some c) w) (\<lambda>child w.
       case csa_PDUSessionIds child of [] \<Rightarrow> (Crash IndexRange, w)
       | i # _ \<Rightarrow>
           if i \<noteq> releaseItem then (Val spis, w)
           else
             case csa_XfrmStateList child of [] \<Rightarrow> (Crash IndexRange, w)
             | st # _ \<Rightarrow>
                 if xs_Spi st < 0 \<or> xs_Spi st > 4294967295
                 then (Err ''SendChildSADeleteRequest spi out of uint32 range'', w)
                 else gbind (DeleteChildSA env u c w) (\<lambda>_ w.
                        (Val (spis @ [word_of_int (xs_Spi st)]), w)))"

fun release_sessions :: "('x, 'm) ike_env_scheme \<Rightarrow> addr \<Rightarrow> (int \<times> addr) list \<Rightarrow> u32 list \<Rightarrow> 'x world
    \<Rightarrow> u32 list gores \<times> 'x world" where
  "release_sessions env u [] spis w = (Val spis, w)"
| "release_sessions env u ((i, c) # ics) spis w =
     gbind (release_child env u i c spis w) (release_sessions env u ics)"

fun release_list :: "('x, 'm) ike_env_scheme \<Rightarrow> addr \<Rightarrow> int list \<Rightarrow> u32 list \<Rightarrow> 'x world
    \<Rightarrow> u32 list gores \<times> 'x world" where
  "release_list env u [] spis w = (Val spis, w)"
| "release_list env u (i # is) spis w =
     gbind (deref ikeues (Some u) w) (\<lambda>ue w.
     gbind (release_sessions env u (map (Pair i) (gm_values (iu_N3IWFChildSecurityAssociation ue))) spis w)
       (release_list env u is))"

definition SendChildSADeleteRequest :: "('x, 'm) ike_env_scheme \<Rightarrow> addr \<Rightarrow> int list \<Rightarrow> 'x world
    \<Rightarrow> unit gores \<times> 'x world" where
  "SendChildSADeleteRequest env u relaseList w =
     handler (gbind (release_list env u relaseList [] w) (\<lambda>deleteSPIs w.
       gbind (deref ikeues (Some u) w) (\<lambda>ue w.
       gbind (deref ikesas (iu_N3IWFIKESecurityAssociation ue) w) (\<lambda>sa w.
       gbind (conn_of (iu_IKEConnection ue) w) (\<lambda>c w.
         SendUEInformationExchange env sa (isa_IKESAKey sa)
           [PD TypeESP 4 (of_nat (length deleteSPIs)) deleteSPIs] False False
           (isa_ResponderMessageID sa) (sock_Conn c) (sock_UEAddr c) (sock_N3IWFAddr c) w)))))"

section \<open>Reading the payloads of a message\<close>

text \<open>The loops over \<open>message.Payloads\<close> keep the last payload of each type.\<close>

definition last_payload :: "(ike_payload \<Rightarrow> 'a option) \<Rightarrow> ike_payload list \<Rightarrow> 'a option" where
  "last_payload f ps = foldl (\<lambda>acc p. case f p of Some y \<Rightarrow> Some y | None \<Rightarrow> acc) None ps"

definition the_SA :: "ike_payload \<Rightarrow> Proposal list option" where
  "the_SA p = (case p of PSA l \<Rightarrow> Some l | _ \<Rightarrow> None)"

definition the_KE :: "ike_payload \<Rightarrow> (u16 \<times> octets) option" where
  "the_KE p = (case p of PKE g d \<Rightarrow> Some (g, d) | _ \<Rightarrow> None)"

definition the_Nonce :: "ike_payload \<Rightarrow> octets option" where
  "the_Nonce p = (case p of PNiNr d \<Rightarrow> Some d | _ \<Rightarrow> None)"

definition the_Notifications :: "ike_payload list \<Rightarrow> Notification list" where
  "the_Notifications ps = concat (map (\<lambda>p. case p of PN n \<Rightarrow> [n] | _ \<Rightarrow> []) ps)"

definition the_IDi :: "ike_payload \<Rightarrow> (u8 \<times> octets) option" where
  "the_IDi p = (case p of PIDi t d \<Rightarrow> Some (t, d) | _ \<Rightarrow> None)"

definition the_CERT :: "ike_payload \<Rightarrow> octets option" where
  "the_CERT p = (case p of PCERT _ d \<Rightarrow> Some d | _ \<Rightarrow> None)"

definition the_TSi :: "ike_payload \<Rightarrow> TrafficSelector list option" where
  "the_TSi p = (case p of PTSi l \<Rightarrow> Some l | _ \<Rightarrow> None)"

definition the_TSr :: "ike_payload \<Rightarrow> TrafficSelector list option" where
  "the_TSr p = (case p of PTSr l \<Rightarrow> Some l | _ \<Rightarrow> None)"

definition the_EAP :: "ike_payload \<Rightarrow> EAP option" where
  "the_EAP p = (case p of PEAP e \<Rightarrow> Some e | _ \<Rightarrow> None)"

definition the_AUTH :: "ike_payload \<Rightarrow> octets option" where
  "the_AUTH p = (case p of PAUTH _ d \<Rightarrow> Some d | _ \<Rightarrow> None)"

definition the_CP :: "ike_payload \<Rightarrow> (u16 \<times> octets) list option" where
  "the_CP p = (case p of PCP _ l \<Rightarrow> Some l | _ \<Rightarrow> None)"

definition the_Delete :: "ike_payload \<Rightarrow> (u8 \<times> u32 list) option" where
  "the_Delete p = (case p of PD prot _ _ spis \<Rightarrow> Some (prot, spis) | _ \<Rightarrow> None)"

section \<open>IKE_SA_INIT\<close>

text \<open>
  A response that carries one notification, sent outside or inside the SA; the handler ends after it.
\<close>

definition reply_notify :: "('x, 'm) ike_env_scheme \<Rightarrow> nat \<Rightarrow> UDPAddr \<Rightarrow> UDPAddr \<Rightarrow> IKEMessage \<Rightarrow> u8
    \<Rightarrow> octets option \<Rightarrow> u16 \<Rightarrow> octets \<Rightarrow> 'x world \<Rightarrow> unit gores \<times> 'x world" where
  "reply_notify env udpConn n3iwfAddr ueAddr message exch key ty data w =
     handler (SendIKEMessageToUE env udpConn n3iwfAddr ueAddr
       (NewMessage (im_InitiatorSPI message) (im_ResponderSPI message) exch True False (im_MessageID message)
          [PN (BuildNotification 0 ty [] data)]) key w)"

text \<open>
  The response of IKE_SA_INIT, and the octets that both sides will sign. \<open>Val ()\<close> is the path that sets
  \<open>keepIKESA\<close>; every other return is \<open>Err\<close>.
\<close>

definition init_reply :: "('x, 'm) ike_env_scheme \<Rightarrow> nat \<Rightarrow> UDPAddr \<Rightarrow> UDPAddr \<Rightarrow> IKEMessage \<Rightarrow> Proposal list
    \<Rightarrow> u16 \<Rightarrow> octets \<Rightarrow> octets \<Rightarrow> addr \<Rightarrow> IKESecurityAssociation \<Rightarrow> octets \<times> octets \<Rightarrow> 'x world \<Rightarrow> unit gores \<times> 'x world" where
  "init_reply env udpConn n3iwfAddr ueAddr message chooseProposal dhGroup nonceData localNonce s sa keys w =
     (let response = NewMessage (im_InitiatorSPI message) (isa_LocalSPI sa) IKE_SA_INIT True False (im_MessageID message)
           ([PSA chooseProposal, PNiNr localNonce, PKE dhGroup (snd keys)]
            @ map PN (buildNATDetectNotifPayload (e_sha1 env) sa ueAddr n3iwfAddr))
      in case e_EncodeMessage env response of None \<Rightarrow> (Err ''Encoding IKE message failed'', w)
      | Some responseData \<Rightarrow>
      gbind (upd_ikesa (Some s) (\<lambda>sa. sa\<lparr>isa_ResponderSignedOctets := responseData @ nonceData\<rparr>) w) (\<lambda>_ w.
      case e_EncodePayloads env [PIDr ID_FQDN (e_FQDN env)] of None \<Rightarrow> (Err ''Encode IKE payload failed'', w)
      | Some idPayloadData \<Rightarrow>
      gbind (slice_from 4 idPayloadData, w) (\<lambda>idData w.
      gbind (upd_ikesa (Some s) (\<lambda>sa. sa\<lparr>isa_ResponderSignedOctets :=
         isa_ResponderSignedOctets sa @ e_Prf_r env (fst keys) idData\<rparr>) w) (\<lambda>_ w.
        SendIKEMessageToUE env udpConn n3iwfAddr ueAddr response None w))))"

text \<open>From the creation of the IKE SA to the response.\<close>

definition init_respond :: "('x, 'm) ike_env_scheme \<Rightarrow> nat \<Rightarrow> UDPAddr \<Rightarrow> UDPAddr \<Rightarrow> IKEMessage \<Rightarrow> octets
    \<Rightarrow> Proposal list \<Rightarrow> octets \<Rightarrow> u16 \<Rightarrow> octets \<Rightarrow> octets \<Rightarrow> bool \<Rightarrow> bool \<Rightarrow> addr \<Rightarrow> 'x world \<Rightarrow> unit gores \<times> 'x world" where
  "init_respond env udpConn n3iwfAddr ueAddr message realMessage1 chooseProposal keData dhGroup nonceData
     localNonce ueBehindNAT n3iwfBehindNAT s w =
     (let concatenatedNonce = nonceData @ localNonce in
     gbind (upd_ikesa (Some s) (\<lambda>sa. sa\<lparr>isa_RemoteSPI := im_InitiatorSPI message, isa_InitiatorMessageID := 1,
        isa_ResponderMessageID := 0\<rparr>) w) (\<lambda>_ w.
     gbind (deref ikesas (Some s) w) (\<lambda>sa w.
     gbind (ext_opt (e_NewIKESAKey env (hd chooseProposal) keData concatenatedNonce (isa_RemoteSPI sa) (isa_LocalSPI sa))
        ''NewIKESAKey'' w) (\<lambda>keys w.
     gbind (upd_ikesa (Some s) (\<lambda>sa. sa\<lparr>isa_IKESAKey := Some (fst keys),
        isa_ConcatenatedNonce := isa_ConcatenatedNonce sa @ concatenatedNonce,
        isa_UeBehindNAT := ueBehindNAT, isa_N3iwfBehindNAT := n3iwfBehindNAT,
        isa_InitiatorSignedOctets := realMessage1 @ localNonce\<rparr>) w) (\<lambda>_ w.
       init_reply env udpConn n3iwfAddr ueAddr message chooseProposal dhGroup nonceData localNonce s sa keys w)))))"

text \<open>
  The deferred function deletes the SA unless the response was sent; it also runs when the handler
  panics.
\<close>

definition delete_unless_kept :: "addr \<Rightarrow> unit gores \<times> 'x world \<Rightarrow> unit gores \<times> 'x world" where
  "delete_unless_kept s r =
     (case r of (res, w) \<Rightarrow>
        let del = (case ikesas w s of None \<Rightarrow> w | Some sa \<Rightarrow> DeleteIKESecurityAssociation (isa_LocalSPI sa) w) in
        (case res of Val _ \<Rightarrow> (Val (), w)
         | Err e \<Rightarrow> (Val (), del)
         | Crash p \<Rightarrow> if p = NoReturn then (Crash p, w) else (Crash p, del)))"

definition HandleIKESAINIT :: "('x, 'm) ike_env_scheme \<Rightarrow> nat \<Rightarrow> UDPAddr \<Rightarrow> UDPAddr \<Rightarrow> IKEMessage \<Rightarrow> octets
    \<Rightarrow> 'x world \<Rightarrow> unit gores \<times> 'x world" where
  "HandleIKESAINIT env udpConn n3iwfAddr ueAddr message realMessage1 w =
     (if im_MessageID message \<noteq> 0 then (Val (), w)
      else
        let ps = im_Payloads message in
        case last_payload the_SA ps of None \<Rightarrow> (Val (), w)
        | Some proposals \<Rightarrow>
            let chooseProposal = SelectProposal (e_transforms env) proposals in
            if length chooseProposal = 0
            then reply_notify env udpConn n3iwfAddr ueAddr message IKE_SA_INIT None NO_PROPOSAL_CHOSEN [] w
            else
              case last_payload the_KE ps of None \<Rightarrow> (Val (), w)
              | Some (keGroup, keData) \<Rightarrow>
                  let dhGroup = tr_ID (hd (pr_DiffieHellmanGroup (hd chooseProposal))) in
                  if dhGroup \<noteq> keGroup
                  then reply_notify env udpConn n3iwfAddr ueAddr message IKE_SA_INIT None INVALID_KE_PAYLOAD
                         (PutUint16 dhGroup) w
                  else
                    case last_payload the_Nonce ps of None \<Rightarrow> (Val (), w)
                    | Some nonceData \<Rightarrow>
                        handler (gbind (ext_opt (e_GenerateRandomNumber env) ''GenerateRandomNumber'' w) (\<lambda>localNonce w.
                          case handleNATDetect (e_sha1 env) (im_InitiatorSPI message) (im_ResponderSPI message)
                                 (the_Notifications ps) ueAddr n3iwfAddr of
                            (ueBehindNAT, n3iwfBehindNAT) \<Rightarrow>
                              gbind (NewIKESecurityAssociation env w) (\<lambda>sa w.
                                case sa of None \<Rightarrow> (Val (), w)
                                | Some s \<Rightarrow>
                                    delete_unless_kept s
                                      (init_respond env udpConn n3iwfAddr ueAddr message realMessage1 chooseProposal
                                         keData dhGroup nonceData localNonce ueBehindNAT n3iwfBehindNAT s w)))))"

section \<open>IKE_AUTH\<close>

abbreviation PreSignalling :: u8 where "PreSignalling \<equiv> 0"
abbreviation EAPSignalling :: u8 where "EAPSignalling \<equiv> 1"
abbreviation PostSignalling :: u8 where "PostSignalling \<equiv> 2"
abbreviation EndSignalling :: u8 where "EndSignalling \<equiv> 3"
abbreviation HandleCreateChildSA :: u8 where "HandleCreateChildSA \<equiv> 4"

abbreviation CxtTempPDUSessionSetupData :: int where "CxtTempPDUSessionSetupData \<equiv> 0"

text \<open>The key object of an SA; the embedded pointer is nil before IKE_SA_INIT has set it.\<close>

definition sakey_of :: "IKESecurityAssociation \<Rightarrow> 'x world \<Rightarrow> octets gores \<times> 'x world" where
  "sakey_of sa w = (case isa_IKESAKey sa of None \<Rightarrow> (Crash NilPointer, w) | Some k \<Rightarrow> (Val k, w))"

text \<open>
  The loop that draws EAP identifiers until one differs from the last, and the loop that draws
  SPIs until one is not the inbound SPI of a child SA. Neither need end.
\<close>

partial_function (option) draw_identifier ::
  "('x, 'm) ike_env_scheme \<Rightarrow> u8 \<Rightarrow> 'x world \<Rightarrow> (u8 option \<times> 'x world) option" where
  "draw_identifier env lastId w =
     (case e_GenerateRandomUint8 env (ext w) of
        (None, x) \<Rightarrow> Some (None, w\<lparr>ext := x\<rparr>)
      | (Some identifier, x) \<Rightarrow>
          if identifier \<noteq> lastId then Some (Some identifier, w\<lparr>ext := x\<rparr>)
          else draw_identifier env lastId (w\<lparr>ext := x\<rparr>))"

definition new_identifier :: "('x, 'm) ike_env_scheme \<Rightarrow> addr \<Rightarrow> 'x world \<Rightarrow> u8 gores \<times> 'x world" where
  "new_identifier env s w =
     gbind (deref ikesas (Some s) w) (\<lambda>sa w.
       case draw_identifier env (isa_LastEAPIdentifier sa) w of
         None \<Rightarrow> (Crash NoReturn, w)
       | Some (None, w) \<Rightarrow> (Err ''Random number failed'', w)
       | Some (Some identifier, w) \<Rightarrow>
           gbind (upd_ikesa (Some s) (\<lambda>sa. sa\<lparr>isa_LastEAPIdentifier := identifier\<rparr>) w) (\<lambda>_ w. (Val identifier, w)))"

partial_function (option) draw_child_spi ::
  "('x, 'm) ike_env_scheme \<Rightarrow> 'x world \<Rightarrow> (u32 option \<times> 'x world) option" where
  "draw_child_spi env w =
     (case e_rand_uint32 env (ext w) of
        (None, x) \<Rightarrow> Some (None, w\<lparr>ext := x\<rparr>)
      | (Some randomUint32, x) \<Rightarrow>
          if gm_load (ChildSA w) randomUint32 = None then Some (Some randomUint32, w\<lparr>ext := x\<rparr>)
          else draw_child_spi env (w\<lparr>ext := x\<rparr>))"

definition new_child_spi :: "('x, 'm) ike_env_scheme \<Rightarrow> 'x world \<Rightarrow> u32 gores \<times> 'x world" where
  "new_child_spi env w =
     (case draw_child_spi env w of None \<Rightarrow> (Crash NoReturn, w)
      | Some (None, w) \<Rightarrow> (Err ''rand.Read'', w)
      | Some (Some spi, w) \<Rightarrow> (Val spi, w))"

text \<open>
  The response of \<open>case PreSignalling\<close>: identity, certificate, signature and EAP-5G start. A failure
  to sign is only logged: the AUTH payload is then empty.
\<close>

definition auth_start :: "('x, 'm) ike_env_scheme \<Rightarrow> nat \<Rightarrow> UDPAddr \<Rightarrow> UDPAddr \<Rightarrow> IKEMessage \<Rightarrow> addr \<Rightarrow> octets
    \<Rightarrow> 'x world \<Rightarrow> unit gores \<times> 'x world" where
  "auth_start env udpConn n3iwfAddr ueAddr message s key w =
     gbind (deref ikesas (Some s) w) (\<lambda>sa w.
     gtry (ext_opt (e_Sign env (e_sha1 env (isa_ResponderSignedOctets sa))) ''Sign authentication data failed'' w)
       (\<lambda>signed w.
     let signedAuth = (case signed of None \<Rightarrow> [] | Some a \<Rightarrow> a) in
     gbind (new_identifier env s w) (\<lambda>identifier w.
     gbind (upd_ikesa (Some s) (\<lambda>sa. sa\<lparr>isa_State := isa_State sa + 1\<rparr>) w) (\<lambda>_ w.
       SendIKEMessageToUE env udpConn n3iwfAddr ueAddr
         (NewMessage (im_InitiatorSPI message) (im_ResponderSPI message) IKE_AUTH True False (im_MessageID message)
            [PIDr ID_FQDN (e_FQDN env), PCERT X509CertificateSignature (e_N3IWFCertificate env),
             PAUTH RSADigitalSignature signedAuth, e_BuildEAP5GStart env identifier])
         (Some key) w))))"

text \<open>
  \<open>case PreSignalling\<close>. What the certificate request asks for is compared and logged, nothing more.
\<close>

definition auth_pre :: "('x, 'm) ike_env_scheme \<Rightarrow> nat \<Rightarrow> UDPAddr \<Rightarrow> UDPAddr \<Rightarrow> IKEMessage \<Rightarrow> addr
    \<Rightarrow> 'x world \<Rightarrow> unit gores \<times> 'x world" where
  "auth_pre env udpConn n3iwfAddr ueAddr message s w =
     (let ps = im_Payloads message in
      case last_payload the_IDi ps of None \<Rightarrow> (Err ''The initiator identification field is nil'', w)
      | Some (idType, idBytes) \<Rightarrow>
      gbind (upd_ikesa (Some s) (\<lambda>sa. sa\<lparr>isa_InitiatorID := Some (idType # idBytes)\<rparr>) w) (\<lambda>_ w.
      case e_EncodePayloads env [PIDi idType idBytes] of None \<Rightarrow> (Err ''Encoding ID payload message failed'', w)
      | Some idPayloadData \<Rightarrow>
      gbind (deref ikesas (Some s) w) (\<lambda>sa w.
      gbind (sakey_of sa w) (\<lambda>key w.
      gbind (slice_from 4 idPayloadData, w) (\<lambda>idData w.
      gbind (upd_ikesa (Some s) (\<lambda>sa. sa\<lparr>isa_InitiatorSignedOctets := isa_InitiatorSignedOctets sa @ e_Prf_i env key idData,
         isa_InitiatorCertificate := (case last_payload the_CERT ps of None \<Rightarrow> isa_InitiatorCertificate sa
            | Some cert \<Rightarrow> Some cert)\<rparr>) w) (\<lambda>_ w.
      case last_payload the_SA ps of None \<Rightarrow> (Err ''The security association field is nil'', w)
      | Some proposals \<Rightarrow>
      if length (select_esp proposals) = 0
      then reply_notify env udpConn n3iwfAddr ueAddr message IKE_AUTH (Some key) NO_PROPOSAL_CHOSEN [] w
      else
      gbind (upd_ikesa (Some s) (\<lambda>sa. sa\<lparr>isa_IKEAuthResponseSA := Some (select_esp proposals)\<rparr>) w) (\<lambda>_ w.
      case last_payload the_TSi ps of None \<Rightarrow> (Err ''The initiator traffic selector field is nil'', w)
      | Some tsi \<Rightarrow>
      gbind (upd_ikesa (Some s) (\<lambda>sa. sa\<lparr>isa_TrafficSelectorInitiator := Some tsi\<rparr>) w) (\<lambda>_ w.
      case last_payload the_TSr ps of None \<Rightarrow> (Err ''The responder traffic selector field is nil'', w)
      | Some tsr \<Rightarrow>
      gbind (upd_ikesa (Some s) (\<lambda>sa. sa\<lparr>isa_TrafficSelectorResponder := Some tsr\<rparr>) w) (\<lambda>_ w.
        auth_start env udpConn n3iwfAddr ueAddr message s key w)))))))))"

text \<open>\<open>case EAPSignalling\<close>: an EAP-5G message goes to the NGAP server, a 5G-Stop is answered with failure.\<close>

definition auth_eap :: "('x, 'm) ike_env_scheme \<Rightarrow> nat \<Rightarrow> UDPAddr \<Rightarrow> UDPAddr \<Rightarrow> IKEMessage \<Rightarrow> addr
    \<Rightarrow> 'x world \<Rightarrow> unit gores \<times> 'x world" where
  "auth_eap env udpConn n3iwfAddr ueAddr message s w =
     gbind (deref ikesas (Some s) w) (\<lambda>sa w.
     case last_payload the_EAP (im_Payloads message) of None \<Rightarrow> (Err ''EAP is nil'', w)
     | Some e \<Rightarrow>
         if eap_Code e \<noteq> e_EapCodeResponse env then (Err ''code other than response'', w)
         else if eap_Identifier e \<noteq> isa_LastEAPIdentifier sa then (Err ''unmatched identifier'', w)
         else
           case eap_TypeData e of None \<Rightarrow> (Err ''EapTypeData is nil'', w)
           | Some (EapOtherType _) \<Rightarrow> (Err ''type other than EAP expanded'', w)
           | Some (EapExpanded vendorID vendorType vendorData) \<Rightarrow>
               if length vendorData = 0 then (Err ''empty vendor data'', w)
               else if vendorID \<noteq> e_VendorId3GPP env then (Err ''wrong vendor ID'', w)
               else if vendorType \<noteq> e_VendorTypeEAP5G env then (Err ''wrong vendor type'', w)
               else if hd vendorData = e_EAP5GStop env then
                 gbind (ext_opt (e_GenerateRandomUint8 env) ''Generate random uint8 failed'' w) (\<lambda>identifier w.
                   SendIKEMessageToUE env udpConn n3iwfAddr ueAddr
                     (NewMessage (im_InitiatorSPI message) (im_ResponderSPI message) IKE_AUTH True False
                        (im_MessageID message) [e_BuildEAPfailure env identifier]) (isa_IKESAKey sa) w)
               else
                 let ranNgapId = (case NgapIdLoad (isa_LocalSPI sa) w of None \<Rightarrow> 0 | Some i \<Rightarrow> i);
                     w = SendNgapEvt (UnmarshalEAP5GDataEvt (isa_LocalSPI sa) vendorData
                           (isa_IkeUE sa \<noteq> None) ranNgapId) w
                 in upd_ikesa (Some s) (\<lambda>sa. sa\<lparr>isa_IKEConnection :=
                      Some \<lparr>sock_Conn = udpConn, sock_N3IWFAddr = n3iwfAddr, sock_UEAddr = ueAddr\<rparr>\<rparr>) w)"

text \<open>\<open>parseIPAddressInformationToChildSecurityAssociation\<close>: a nil child SA is an error.\<close>

definition parseIPAddressInformationToChildSecurityAssociation :: "('x, 'm) ike_env_scheme \<Rightarrow> addr option \<Rightarrow> ip
    \<Rightarrow> TrafficSelector \<Rightarrow> TrafficSelector \<Rightarrow> 'x world \<Rightarrow> unit gores \<times> 'x world" where
  "parseIPAddressInformationToChildSecurityAssociation env c uePublicIPAddr tsLocal tsRemote w =
     (if c = None then (Err ''childSecurityAssociation is nil'', w)
      else upd_childsa c (\<lambda>child. child\<lparr>csa_PeerPublicIPAddr := uePublicIPAddr,
             csa_LocalPublicIPAddr := e_IKEBindAddr env,
             csa_TrafficSelectorLocal := \<lparr>net_IP = ts_StartAddress tsLocal, net_Mask = [255, 255, 255, 255]\<rparr>,
             csa_TrafficSelectorRemote := \<lparr>net_IP = ts_StartAddress tsRemote, net_Mask = [255, 255, 255, 255]\<rparr>\<rparr>) w)"

definition any_traffic :: "ip \<Rightarrow> TrafficSelector" where
  "any_traffic a = \<lparr>ts_TSType = TS_IPV4_ADDR_RANGE, ts_IPProtocolID = IPProtocolAll, ts_StartPort = 0,
     ts_EndPort = 65535, ts_StartAddress = a, ts_EndAddress = a\<rparr>"

definition child_keys :: "('x, 'm) ike_env_scheme \<Rightarrow> addr \<Rightarrow> octets option \<Rightarrow> octets \<Rightarrow> 'x world \<Rightarrow> unit gores \<times> 'x world" where
  "child_keys env c key nonce w =
     gbind (deref childsas (Some c) w) (\<lambda>child w.
       case csa_ChildSAKey child of None \<Rightarrow> (Crash NilPointer, w)
       | Some k \<Rightarrow>
           (case e_GenerateKeyForChildSA env k key nonce of
              None \<Rightarrow> (Err ''Generate key for child SA failed'', w)
            | Some k' \<Rightarrow> upd_childsa (Some c) (\<lambda>child. child\<lparr>csa_ChildSAKey := Some k'\<rparr>) w))"

definition child_nat :: "bool \<Rightarrow> addr \<Rightarrow> int \<Rightarrow> int \<Rightarrow> 'x world \<Rightarrow> unit gores \<times> 'x world" where
  "child_nat behindNAT c n3iwfPort uePort w =
     (if behindNAT
      then upd_childsa (Some c) (\<lambda>child. child\<lparr>csa_EnableEncapsulate := True, csa_N3IWFPort := n3iwfPort,
             csa_NATPort := uePort\<rparr>) w
      else (Val (), w))"

text \<open>The secret and the AUTH value of RFC 7296 section 2.16, from the key of the UE.\<close>

definition key_pad :: octets where
  "key_pad = map (\<lambda>c. of_char c) ''Key Pad for IKEv2''"

definition auth_value :: "('x, 'm) ike_env_scheme \<Rightarrow> octets \<Rightarrow> octets \<Rightarrow> octets \<Rightarrow> octets" where
  "auth_value env key kn3iwf signedOctets = e_PrfInfo env key (e_PrfInfo env key kn3iwf key_pad) signedOctets"

text \<open>The assignment of the inner address: the address, written to the UE context.\<close>

definition assign_inner_ip :: "('x, 'm) ike_env_scheme \<Rightarrow> addr \<Rightarrow> 'x world \<Rightarrow> ip gores \<times> 'x world" where
  "assign_inner_ip env u w =
     (case NewIPsecInnerUEIP env u w of None \<Rightarrow> (Crash NoReturn, w)
      | Some r \<Rightarrow>
          gbind r (\<lambda>ueIp w.
          let ueIPAddr = ip_To4 ueIp in
          gbind (upd_ikeue (Some u) (\<lambda>ue. ue\<lparr>iu_IPSecInnerIP := ueIPAddr\<rparr>) w) (\<lambda>_ w.
            case e_ResolveIPAddr env (ip_String ueIPAddr) of
              None \<Rightarrow> (Err ''Resolve UE inner IP address failed'', w)
            | Some a \<Rightarrow>
                gbind (upd_ikeue (Some u) (\<lambda>ue. ue\<lparr>iu_IPSecInnerIPAddr := Some a\<rparr>) w) (\<lambda>_ w.
                  (Val ueIPAddr, w)))))"

text \<open>
  The signalling child SA: its inbound SPI, the pair of half and complete child SA under message
  ID 1, its addresses, keys and NAT ports. The SPI the UE chose is read from the response SA and
  then overwritten with the N3IWF's own; the response SA sent is the one with the new SPI.
\<close>

definition auth_child :: "('x, 'm) ike_env_scheme \<Rightarrow> UDPAddr \<Rightarrow> UDPAddr \<Rightarrow> addr \<Rightarrow> addr \<Rightarrow> TrafficSelector \<Rightarrow> TrafficSelector
    \<Rightarrow> 'x world \<Rightarrow> (addr \<times> Proposal list) gores \<times> 'x world" where
  "auth_child env n3iwfAddr ueAddr s u tsi tsr w =
     gbind (new_child_spi env w) (\<lambda>inboundSPI w.
     gbind (deref ikesas (Some s) w) (\<lambda>sa w.
     case isa_IKEAuthResponseSA sa of None \<Rightarrow> (Crash NilPointer, w)
     | Some [] \<Rightarrow> (Crash IndexRange, w)
     | Some (p # ps) \<Rightarrow>
         if length (pr_SPI p) < 4 then (Crash IndexRange, w)
         else
           let outboundSPI = Uint32 (pr_SPI p); responseSA = p\<lparr>pr_SPI := PutUint32 inboundSPI\<rparr> # ps in
           gbind (upd_ikesa (Some s) (\<lambda>sa. sa\<lparr>isa_IKEAuthResponseSA := Some responseSA\<rparr>) w) (\<lambda>_ w.
           gbind (CreateHalfChildSA u 1 inboundSPI (- 1) w) (\<lambda>_ w.
           gbind (CompleteChildSA env u 1 outboundSPI (Some responseSA) w) (\<lambda>c w.
           gbind (parseIPAddressInformationToChildSecurityAssociation env (Some c) (udp_IP ueAddr) tsr tsi w) (\<lambda>_ w.
           gbind (upd_childsa (Some c) (\<lambda>child. child\<lparr>csa_SelectedIPProtocol := IPPROTO_TCP\<rparr>) w) (\<lambda>_ w.
           gbind (child_keys env c (isa_IKESAKey sa) (isa_ConcatenatedNonce sa) w) (\<lambda>_ w.
           gbind (child_nat (isa_UeBehindNAT sa \<or> isa_N3iwfBehindNAT sa) c (udp_Port n3iwfAddr) (udp_Port ueAddr) w) (\<lambda>_ w.
             (Val (c, responseSA), w))))))))))"

text \<open>The rest of \<open>case PostSignalling\<close>, once the AUTH payload has been accepted.\<close>

definition auth_accept :: "('x, 'm) ike_env_scheme \<Rightarrow> nat \<Rightarrow> UDPAddr \<Rightarrow> UDPAddr \<Rightarrow> IKEMessage \<Rightarrow> addr \<Rightarrow> addr \<Rightarrow> octets
    \<Rightarrow> 'x world \<Rightarrow> unit gores \<times> 'x world" where
  "auth_accept env udpConn n3iwfAddr ueAddr message s u localAuth w =
     (let addrRequest = (case last_payload the_CP (im_Payloads message) of None \<Rightarrow> False
            | Some attrs \<Rightarrow> list_ex (\<lambda>(ty, _). ty = INTERNAL_IP4_ADDRESS) attrs)
      in if \<not> addrRequest then (Err ''UE did not send any configuration request for its IP address'', w)
      else
      gbind (assign_inner_ip env u w) (\<lambda>ueIPAddr w.
      let tsi = any_traffic (ip_To4 ueIPAddr); tsr = any_traffic (ip_To4 (ip_To4 (e_GatewayIP env))) in
      gbind (upd_ikesa (Some s) (\<lambda>sa. sa\<lparr>isa_TrafficSelectorInitiator := Some [tsi],
         isa_TrafficSelectorResponder := Some [tsr]\<rparr>) w) (\<lambda>_ w.
      gbind (auth_child env n3iwfAddr ueAddr s u tsi tsr w) (\<lambda>(c, responseSA) w.
      gbind (upd_childsa (Some c) (\<lambda>child. child\<lparr>csa_LocalIsInitiator := False\<rparr>) w) (\<lambda>_ w.
      gbind (ApplyXFRMRule env False (e_XfrmIfaceId env) c w) (\<lambda>_ w.
      gbind (ChildSecurityAssociation_String c w) (\<lambda>_ w.
      gbind (deref ikesas (Some s) w) (\<lambda>sa w.
      gbind (SendIKEMessageToUE env udpConn n3iwfAddr ueAddr
        (NewMessage (im_InitiatorSPI message) (im_ResponderSPI message) IKE_AUTH True False (im_MessageID message)
           [PAUTH SharedKeyMesageIntegrityCode localAuth,
            PCP CFG_REPLY [(INTERNAL_IP4_ADDRESS, ueIPAddr), (INTERNAL_IP4_NETMASK, e_InnerMask env)],
            PSA responseSA, PTSi [tsi], PTSr [tsr],
            e_BuildNotifyNAS_IP4_ADDRESS env (e_IPSecGatewayAddr env),
            e_BuildNotifyNAS_TCP_PORT env (e_NasTcpPort env)])
        (isa_IKESAKey sa) w) (\<lambda>_ w.
      gbind (deref ikeues (Some u) w) (\<lambda>ue w.
      gbind (deref ikesas (iu_N3IWFIKESecurityAssociation ue) w) (\<lambda>uesa w.
      case NgapIdLoad (isa_LocalSPI uesa) w of None \<Rightarrow> (Err ''Cannot get RanNgapId from SPI'', w)
      | Some ranNgapId \<Rightarrow>
          gbind (upd_ikesa (Some s) (\<lambda>sa. sa\<lparr>isa_State := isa_State sa + 1\<rparr>) w) (\<lambda>_ w.
            (Val (), SendNgapEvt (GetNGAPContextEvt ranNgapId [CxtTempPDUSessionSetupData])
                       (SendNgapEvt (StartTCPSignalNASMsgEvt ranNgapId) w))))))))))))))"

text \<open>\<open>case PostSignalling\<close>: the AUTH payload is compared with the value computed from \<open>Kn3iwf\<close>.\<close>

definition auth_post :: "('x, 'm) ike_env_scheme \<Rightarrow> nat \<Rightarrow> UDPAddr \<Rightarrow> UDPAddr \<Rightarrow> IKEMessage \<Rightarrow> addr
    \<Rightarrow> 'x world \<Rightarrow> unit gores \<times> 'x world" where
  "auth_post env udpConn n3iwfAddr ueAddr message s w =
     gbind (deref ikesas (Some s) w) (\<lambda>sa w.
     gbind (sakey_of sa w) (\<lambda>key w.
     gbind (deref ikeues (isa_IkeUE sa) w) (\<lambda>ue w.
       case last_payload the_AUTH (im_Payloads message) of
         None \<Rightarrow> reply_notify env udpConn n3iwfAddr ueAddr message IKE_AUTH (Some key) AUTHENTICATION_FAILED [] w
       | Some authenticationData \<Rightarrow>
           if authenticationData \<noteq> auth_value env key (iu_Kn3iwf ue) (isa_InitiatorSignedOctets sa)
           then reply_notify env udpConn n3iwfAddr ueAddr message IKE_AUTH (Some key) AUTHENTICATION_FAILED [] w
           else auth_accept env udpConn n3iwfAddr ueAddr message s (the (isa_IkeUE sa))
                  (auth_value env key (iu_Kn3iwf ue) (isa_ResponderSignedOctets sa)) w)))"

definition HandleIKEAUTH :: "('x, 'm) ike_env_scheme \<Rightarrow> nat \<Rightarrow> UDPAddr \<Rightarrow> UDPAddr \<Rightarrow> IKEMessage \<Rightarrow> addr option
    \<Rightarrow> 'x world \<Rightarrow> unit gores \<times> 'x world" where
  "HandleIKEAUTH env udpConn n3iwfAddr ueAddr message ikeSA w =
     gbind (upd_ikesa ikeSA (\<lambda>sa. sa\<lparr>isa_InitiatorMessageID := im_MessageID message + 1\<rparr>) w) (\<lambda>_ w.
     gbind (deref ikesas ikeSA w) (\<lambda>sa w.
       let s = the ikeSA in
       if isa_State sa = PreSignalling then handler (auth_pre env udpConn n3iwfAddr ueAddr message s w)
       else if isa_State sa = EAPSignalling then handler (auth_eap env udpConn n3iwfAddr ueAddr message s w)
       else if isa_State sa = PostSignalling then handler (auth_post env udpConn n3iwfAddr ueAddr message s w)
       else (Val (), w)))"

section \<open>CREATE_CHILD_SA and INFORMATIONAL\<close>

text \<open>\<open>net.IP.Equal\<close>: an IPv4 address equals its IPv4-in-IPv6 form.\<close>

definition ip_Equal :: "ip \<Rightarrow> ip \<Rightarrow> bool" where
  "ip_Equal a b =
     (if length a = length b then a = b
      else if length a = 4 \<and> length b = 16 then take 12 b = replicate 10 0 @ [0xFF, 0xFF] \<and> a = drop 12 b
      else if length a = 16 \<and> length b = 4 then take 12 a = replicate 10 0 @ [0xFF, 0xFF] \<and> drop 12 a = b
      else False)"

definition HandleCREATECHILDSA :: "('x, 'm) ike_env_scheme \<Rightarrow> nat \<Rightarrow> UDPAddr \<Rightarrow> UDPAddr \<Rightarrow> IKEMessage \<Rightarrow> addr option
    \<Rightarrow> 'x world \<Rightarrow> unit gores \<times> 'x world" where
  "HandleCREATECHILDSA env udpConn n3iwfAddr ueAddr message ikeSA w =
     handler (
     gbind (deref ikesas ikeSA w) (\<lambda>sa w.
     gbind (conn_of (isa_IKEConnection sa) w) (\<lambda>c w.
       if \<not> ip_Equal (udp_IP (sock_UEAddr c)) (udp_IP ueAddr) \<or> \<not> ip_Equal (udp_IP (sock_N3IWFAddr c)) (udp_IP n3iwfAddr)
       then (Err ''Get unexpteced IP'', w)
       else
         let ps = im_Payloads message in
         case last_payload the_SA ps of None \<Rightarrow> (Err ''The security association field is nil'', w)
         | Some securityAssociation \<Rightarrow>
         case last_payload the_TSi ps of None \<Rightarrow> (Err ''The traffic selector initiator field is nil'', w)
         | Some tsi \<Rightarrow>
         case last_payload the_TSr ps of None \<Rightarrow> (Err ''The traffic selector responder field is nil'', w)
         | Some tsr \<Rightarrow>
         case last_payload the_Nonce ps of None \<Rightarrow> (Err ''The nonce field is nil'', w)
         | Some nonceData \<Rightarrow>
             gbind (upd_ikesa ikeSA (\<lambda>sa. sa\<lparr>isa_ConcatenatedNonce := isa_ConcatenatedNonce sa @ nonceData,
               isa_TemporaryIkeMsg := Some \<lparr>itm_SecurityAssociation = Some securityAssociation,
                 itm_TrafficSelectorInitiator = Some tsi, itm_TrafficSelectorResponder = Some tsr\<rparr>\<rparr>) w) (\<lambda>_ w.
               case NgapIdLoad (isa_LocalSPI sa) w of None \<Rightarrow> (Err ''Cannot get RanNgapID from SPI'', w)
               | Some ranNgapId \<Rightarrow>
                   (Val (), SendNgapEvt (GetNGAPContextEvt ranNgapId [CxtTempPDUSessionSetupData]) w)))))"

text \<open>
  \<open>deleteChildSAFromSPIList\<close>: for each SPI of the UE the first child SA that sends to it is deleted;
  the result is the inbound SPIs and the PDU sessions of the deleted ones.
\<close>

fun find_child :: "'x world \<Rightarrow> u32 \<Rightarrow> addr list \<Rightarrow> addr option gores" where
  "find_child w spi [] = Val None"
| "find_child w spi (c # cs) =
     (case childsas w c of None \<Rightarrow> Crash NilPointer
      | Some child \<Rightarrow> if csa_OutboundSPI child = spi then Val (Some c) else find_child w spi cs)"

fun deleteChildSAFromSPIList :: "('x, 'm) ike_env_scheme \<Rightarrow> addr \<Rightarrow> u32 list \<Rightarrow> u32 list \<Rightarrow> int list \<Rightarrow> 'x world
    \<Rightarrow> (u32 list \<times> int list) gores \<times> 'x world" where
  "deleteChildSAFromSPIList env u [] spis ids w = (Val (spis, ids), w)"
| "deleteChildSAFromSPIList env u (spi # rest) spis ids w =
     gbind (deref ikeues (Some u) w) (\<lambda>ue w.
     gbind (find_child w spi (gm_values (iu_N3IWFChildSecurityAssociation ue)), w) (\<lambda>found w.
       case found of None \<Rightarrow> deleteChildSAFromSPIList env u rest spis ids w
       | Some c \<Rightarrow>
           gbind (deref childsas (Some c) w) (\<lambda>child w.
             case csa_PDUSessionIds child of [] \<Rightarrow> (Err ''Child_SA doesn't have PDU Session ID'', w)
             | i # _ \<Rightarrow>
                 gbind (DeleteChildSA env u c w) (\<lambda>_ w.
                   deleteChildSAFromSPIList env u rest (spis @ [csa_InboundSPI child]) (ids @ [i]) w))))"

definition handleDeletePayload :: "('x, 'm) ike_env_scheme \<Rightarrow> u8 \<times> u32 list \<Rightarrow> bool \<Rightarrow> IKESecurityAssociation
    \<Rightarrow> 'x world \<Rightarrow> ike_payload list gores \<times> 'x world" where
  "handleDeletePayload env payload isResponse sa w =
     gbind (deref ikeues (isa_IkeUE sa) w) (\<lambda>ue w.
     gbind (deref ikesas (iu_N3IWFIKESecurityAssociation ue) w) (\<lambda>uesa w.
       case NgapIdLoad (isa_LocalSPI uesa) w of None \<Rightarrow> (Err ''Cannot get RanNgapId from SPI'', w)
       | Some ranNgapId \<Rightarrow>
           let u = the (isa_IkeUE sa) in
           if fst payload = TypeIKE then
             gbind (if \<not> isResponse then IkeUe_Remove env u w else (Val (), w)) (\<lambda>_ w.
               (Val [], SendNgapEvt (SendUEContextReleaseEvt ranNgapId) w))
           else if fst payload = TypeESP then
             (if \<not> isResponse then
                gbind (deleteChildSAFromSPIList env u (snd payload) [] [] w) (\<lambda>(deletSPIs, deletPduIds) w.
                  (Val [PD TypeESP 4 (of_nat (length deletSPIs)) deletSPIs],
                   SendNgapEvt (SendPDUSessionResourceReleaseEvt ranNgapId deletPduIds) w))
              else (Val [], SendNgapEvt (SendPDUSessionResourceReleaseEvt ranNgapId []) w))
           else (Err ''protocol ID not handled'', w)))"

definition HandleInformational :: "('x, 'm) ike_env_scheme \<Rightarrow> nat \<Rightarrow> UDPAddr \<Rightarrow> UDPAddr \<Rightarrow> IKEMessage \<Rightarrow> addr option
    \<Rightarrow> 'x world \<Rightarrow> unit gores \<times> 'x world" where
  "HandleInformational env udpConn n3iwfAddr ueAddr message ikeSA w =
     handler (
     gbind (deref ikesas ikeSA w) (\<lambda>sa w.
     gbind (deref ikeues (isa_IkeUE sa) w) (\<lambda>ue w.
     gbind (deref ikesas (iu_N3IWFIKESecurityAssociation ue) w) (\<lambda>uesa w.
     gbind (if isa_DPDReqRetransTimer uesa
        then upd_ikesa (iu_N3IWFIKESecurityAssociation ue)
               (\<lambda>sa. sa\<lparr>isa_DPDReqRetransTimer := False, isa_CurrentRetryTimes := 0\<rparr>) w
        else (Val (), w)) (\<lambda>_ w.
     gbind (case last_payload the_Delete (im_Payloads message) of None \<Rightarrow> (Val [], w)
        | Some d \<Rightarrow> handleDeletePayload env d (im_Response message) sa w) (\<lambda>responseIKEPayload w.
       if im_Response message
       then upd_ikesa ikeSA (\<lambda>sa. sa\<lparr>isa_ResponderMessageID := isa_ResponderMessageID sa + 1\<rparr>) w
       else
         gbind (SendUEInformationExchange env sa (isa_IKESAKey sa) responseIKEPayload False True
            (im_MessageID message) udpConn ueAddr n3iwfAddr w) (\<lambda>_ w.
           upd_ikesa ikeSA (\<lambda>sa. sa\<lparr>isa_InitiatorMessageID := isa_InitiatorMessageID sa + 1\<rparr>) w)))))))"

section \<open>Receiving\<close>

text \<open>\<open>recover\<close>: a panic ends the function normally; a call that never returns stays.\<close>

definition recovered :: "unit gores \<times> 'w \<Rightarrow> unit gores \<times> 'w" where
  "recovered r = (case r of (Crash p, w) \<Rightarrow> if p = NoReturn then r else (Val (), w) | _ \<Rightarrow> r)"

definition Dispatch :: "('x, 'm) ike_env_scheme \<Rightarrow> nat \<Rightarrow> UDPAddr \<Rightarrow> UDPAddr \<Rightarrow> IKEMessage \<Rightarrow> octets \<Rightarrow> addr option
    \<Rightarrow> 'x world \<Rightarrow> unit gores \<times> 'x world" where
  "Dispatch env udpConn localAddr remoteAddr ikeMessage msg ikeSA w =
     recovered (
     gbind (if ikeSA \<noteq> None \<and> im_ExchangeType ikeMessage \<noteq> IKE_SA_INIT
            then gbind (deref ikesas ikeSA w) (\<lambda>sa w.
                   (Val (hasExpectedMessageID (im_Response ikeMessage) (im_MessageID ikeMessage) sa), w))
            else (Val True, w)) (\<lambda>expected w.
       if \<not> expected then (Val (), w)
       else if im_ExchangeType ikeMessage = IKE_SA_INIT
       then HandleIKESAINIT env udpConn localAddr remoteAddr ikeMessage msg w
       else if im_ExchangeType ikeMessage = IKE_AUTH
       then HandleIKEAUTH env udpConn localAddr remoteAddr ikeMessage ikeSA w
       else if im_ExchangeType ikeMessage = CREATE_CHILD_SA
       then HandleCREATECHILDSA env udpConn localAddr remoteAddr ikeMessage ikeSA w
       else if im_ExchangeType ikeMessage = INFORMATIONAL
       then HandleInformational env udpConn localAddr remoteAddr ikeMessage ikeSA w
       else (Val (), w)))"

text \<open>A notification sent outside any SA, in an INFORMATIONAL response; the message is then dropped.\<close>

definition reject_header :: "('x, 'm) ike_env_scheme \<Rightarrow> nat \<Rightarrow> UDPAddr \<Rightarrow> UDPAddr \<Rightarrow> IKEHeader \<Rightarrow> u16 \<Rightarrow> string
    \<Rightarrow> 'x world \<Rightarrow> 'a gores \<times> 'x world" where
  "reject_header env udpConn localAddr remoteAddr hdr ty err w =
     gbind (SendIKEMessageToUE env udpConn localAddr remoteAddr
        (NewMessage (ih_InitiatorSPI hdr) (ih_ResponderSPI hdr) INFORMATIONAL True False (ih_MessageID hdr)
           [PN (BuildNotification 0 ty [] [])]) None w) (\<lambda>_ w. (Err err, w))"

definition checkIKEMessage :: "('x, 'm) ike_env_scheme \<Rightarrow> octets \<Rightarrow> nat \<Rightarrow> UDPAddr \<Rightarrow> UDPAddr \<Rightarrow> 'x world
    \<Rightarrow> (IKEMessage \<times> addr option) gores \<times> 'x world" where
  "checkIKEMessage env msg udpConn localAddr remoteAddr w =
     (case e_ParseHeader env msg of None \<Rightarrow> (Err ''IKE msg decode header'', w)
      | Some hdr \<Rightarrow>
          if ih_MajorVersion hdr > 2
          then reject_header env udpConn localAddr remoteAddr hdr INVALID_MAJOR_VERSION
                 ''Received an IKE message with higher major version'' w
          else if ih_ExchangeType hdr = IKE_SA_INIT then
            (case e_DecodeDecrypt env msg hdr None of None \<Rightarrow> (Err ''Decrypt IkeMsg error'', w)
             | Some m \<Rightarrow> (Val (m, None), w))
          else
            (case IKESALoad (ih_ResponderSPI hdr) w of
               None \<Rightarrow> reject_header env udpConn localAddr remoteAddr hdr INVALID_IKE_SPI
                         ''Received an unrecognized SPI message'' w
             | Some s \<Rightarrow>
                 gbind (deref ikesas (Some s) w) (\<lambda>sa w.
                   case e_DecodeDecrypt env msg hdr (isa_IKESAKey sa) of
                     None \<Rightarrow> (Err ''Decrypt IkeMsg error'', w)
                   | Some m \<Rightarrow> (Val (m, Some s), w))))"

text \<open>One datagram in \<open>receiver\<close>: what is queued for the server, if anything.\<close>

definition receive_datagram :: "int \<Rightarrow> octets \<Rightarrow> UDPAddr \<Rightarrow> UDPAddr
    \<Rightarrow> (UDPAddr \<Rightarrow> UDPAddr \<Rightarrow> octets \<Rightarrow> 'w \<Rightarrow> unit gores \<times> 'w) option \<Rightarrow> 'w \<Rightarrow> octets option gores \<times> 'w" where
  "receive_datagram headerLen msgBuf remoteAddr localAddr espHandler w =
     gtry (if udp_Port localAddr = 4500 then handleNattMsg msgBuf remoteAddr localAddr espHandler w
           else (Val (Some msgBuf), w)) (\<lambda>r w.
       case r of Some (Some m) \<Rightarrow> if int (length m) < headerLen then (Val None, w) else (Val (Some m), w)
       | _ \<Rightarrow> (Val None, w))"

text \<open>One packet in the loop of \<open>server\<close>.\<close>

definition serve_packet :: "('x, 'm) ike_env_scheme \<Rightarrow> octets \<Rightarrow> nat \<Rightarrow> UDPAddr \<Rightarrow> UDPAddr \<Rightarrow> 'x world
    \<Rightarrow> unit gores \<times> 'x world" where
  "serve_packet env msg udpConn localAddr remoteAddr w =
     handler (gbind (checkIKEMessage env msg udpConn localAddr remoteAddr w) (\<lambda>(ikeMsg, ikeSA) w.
       Dispatch env udpConn localAddr remoteAddr ikeMsg msg ikeSA w))"

end
