(* ===== verification/Ngap_Build.thy ===== *)
theory Ngap_Build
  imports Ike_Handlers
begin

text \<open>
  The NGAP messages the N3IWF sends (\<open>src/internal/ngap/message/build.go\<close>, \<open>forwardIE.go\<close> and
  \<open>src/internal/util/ngap_convert.go\<close>): one definition per \<open>Build\<close> function, which puts together the
  protocol IEs in the order of the source and hands the PDU to the encoder. The APER encoder and
  decoder, the conversions of \<open>ngapConvert\<close>, sockets and the configuration are the functions of the
  environment \<open>ngap_env\<close>. Metrics and logging are not modelled.
\<close>

section \<open>Messages\<close>

datatype TimeToWait = V1s | V2s | V5s | V10s | V20s | V60s | TimeToWaitOther int

datatype ResetType =
    ResetNothing
  | ResetNGInterface
  | ResetPartOfNGInterface "(int option \<times> int option) list option"

text \<open>The UE a release command names; the pointers inside may be nil.\<close>

datatype UENGAPIDs = UENGAPIDsNothing | UENGAPIDPair "(int \<times> int) option" | UENGAPIDsAMFUENGAPID "int option"

record UserLocationInformationN3IWF =
  uli_IPAddress :: BitString
  uli_PortNumber :: octets

record BroadcastPLMN =
  bp_PLMNIdentity :: octets
  bp_TAISliceSupportList :: "SNSSAI list"

record SupportedTA =
  st_TAC :: octets
  st_BroadcastPLMNList :: "BroadcastPLMN list"

record SetupRequestItem =
  sri_PDUSessionID :: int
  sri_NASPDU :: "octets option"
  sri_SNSSAI :: SNSSAI
  sri_Transfer :: octets

record TNLItem =
  ti_Address :: octets
  ti_Usage :: "int option"
  ti_WeightFactor :: "int option"

text \<open>
  The value of an IE, by its shape; which field of the \<open>Value\<close> struct holds it is said by the
  identifier of the IE, as the open types of the library have it. Values that are only stored are
  octet strings.
\<close>

datatype ie_value =
    VInt int
  | VRequested
  | VTimeToWait TimeToWait
  | VOctets octets
  | VString string
  | VBits BitString
  | VCause Cause
  | VDiagnostics CriticalityDiagnostics
  | VReset ResetType
  | VConnections "(int option \<times> int option) list"
  | VIds "int list"
  | VTransfers "transfer_item list"
  | VNodeID octets BitString
  | VTAList "SupportedTA list"
  | VLocation UserLocationInformationN3IWF
  | VFiveGSTMSI BitString BitString octets
  | VNSSAI "SNSSAI list"
  | VGUAMI GUAMI
  | VGUAMIList "GUAMI list"
  | VPLMNSupport "PLMNSupportItem list"
  | VSetupItems "SetupRequestItem list"
  | VUENGAPIDs UENGAPIDs
  | VTNLItems "TNLItem list"
  | VOverload "int option"
  | VOverloadNSSAI "OverloadStartNSSAIItem list"

text \<open>
  A protocol IE. \<open>ie_Present\<close> says whether the choice field \<open>Value.Present\<close> was set (to the choice
  that the identifier names) or left at zero, \<open>ie_Value\<close> is \<open>None\<close> for a nil pointer.
\<close>

record ngap_ie =
  ie_Id :: ProtocolIE
  ie_Criticality :: Criticality
  ie_Present :: bool
  ie_Value :: "ie_value option"

datatype pdu_kind = PDUNothing | InitiatingMessage | SuccessfulOutcome | UnsuccessfulOutcome

datatype ngap_message =
    NGSetupRequest | NGSetupResponse | NGSetupFailure | MsgNGReset | NGResetAcknowledge
  | InitialContextSetupRequest | InitialContextSetupResponse | InitialContextSetupFailure
  | UEContextModificationRequest | UEContextModificationResponse | UEContextModificationFailure
  | UEContextReleaseCommand | UEContextReleaseComplete | UEContextReleaseRequest
  | InitialUEMessage | DownlinkNASTransport | UplinkNASTransport | NASNonDeliveryIndication
  | PDUSessionResourceSetupRequest | PDUSessionResourceSetupResponse
  | PDUSessionResourceModifyRequest | PDUSessionResourceModifyResponse
  | PDUSessionResourceModifyIndication | PDUSessionResourceModifyConfirm
  | PDUSessionResourceNotify | PDUSessionResourceReleaseCommand | PDUSessionResourceReleaseResponse
  | ErrorIndication | UERadioCapabilityCheckRequest | UERadioCapabilityCheckResponse
  | AMFConfigurationUpdate | AMFConfigurationUpdateAcknowledge | AMFConfigurationUpdateFailure
  | RANConfigurationUpdate | RANConfigurationUpdateAcknowledge | RANConfigurationUpdateFailure
  | OverloadStart | OverloadStop | OtherMessage int

text \<open>
  The struct a PDU points to (an initiating message, a successful or an unsuccessful outcome): its
  procedure, and the message in its \<open>Value\<close> with the IEs (\<open>None\<close> when that pointer is nil).
\<close>

record ngap_outcome =
  out_ProcedureCode :: ProcedureCode
  out_Criticality :: Criticality
  out_Message :: "(ngap_message \<times> ngap_ie list) option"

record NGAPPDU =
  pdu_Present :: pdu_kind
  pdu_Outcome :: "ngap_outcome option"

text \<open>The transfers that are encoded on their own and carried as octet strings.\<close>

datatype ngap_transfer =
    SetupResponseTransfer octets BitString "int list"
  | SetupUnsuccessfulTransfer Cause "CriticalityDiagnostics option"
  | ModifyResponseTransfer "octets option" "octets option" "int list option" "(int \<times> Cause) list option"
  | ModifyUnsuccessfulTransfer Cause "CriticalityDiagnostics option"
  | ReleaseResponseTransfer

text \<open>
  The IEs of a set-up request transfer; the tunnel of the uplink information is its address and
  TEID (\<open>None\<close> when the pointer to the tunnel is nil), the security indication its integrity and
  confidentiality values.
\<close>

datatype ProtectionIndication = ProtectionRequired | ProtectionPreferred | ProtectionNotNeeded | ProtectionOther int

datatype setup_transfer_ie =
    SessionAMBR "octets option"
  | ULTunnel "(octets \<times> octets) option option"
  | SessionType "int option"
  | SessionSecurity "(ProtectionIndication \<times> ProtectionIndication) option"
  | SessionNetworkInstance "octets option"
  | SessionQosFlows "(int \<times> octets) list option"

text \<open>The structs of the configuration (\<open>src/pkg/factory/config.go\<close>) that messages carry.\<close>

record PLMNID =
  Mcc :: string
  Mnc :: string

record GlobalN3IWFID =
  gn_PLMNID :: "PLMNID option"
  gn_N3IWFID :: u16

record SNSSAIItem =
  cfg_SST :: int
  cfg_SD :: string

record BroadcastPLMNItem =
  cfg_PLMNID :: "PLMNID option"
  cfg_TAISliceSupportList :: "SNSSAIItem list"

record SupportedTAItem =
  cfg_TAC :: string
  cfg_BroadcastPLMNList :: "BroadcastPLMNItem list"

section \<open>The environment\<close>

record 'x ngap_env = "'x ike_env" +
  e_GlobalN3iwfId :: GlobalN3IWFID
  e_RanNodeName :: string
  e_SupportedTAList :: "SupportedTAItem list"
  e_GtpBindAddress :: string
  e_aper :: aper_lib
  e_AmfIdToNgap :: "string \<Rightarrow> BitString \<times> BitString \<times> BitString"
  e_IPAddressToNgap :: "string \<Rightarrow> string \<Rightarrow> BitString"
  e_PortNumberToNgap :: "int \<Rightarrow> octets"
  e_ngap_Encoder :: "NGAPPDU \<Rightarrow> octets option"
  e_ngap_Decoder :: "octets \<Rightarrow> NGAPPDU option"
  e_aper_Marshal :: "ngap_transfer \<Rightarrow> octets \<times> bool"
  e_aper_SetupRequestTransfer :: "octets \<Rightarrow> setup_transfer_ie list"
  e_aper_UnmarshalValue :: "octets \<Rightarrow> unit gores"
  e_aper_ModifyConfirmTransfer :: "octets \<Rightarrow> int list option option"
  e_aper_ModifyIndicationUnsuccessfulTransfer :: "octets \<Rightarrow> Cause option"
  e_aper_ReleaseCommandTransfer :: "octets \<Rightarrow> Cause option"
  e_ResolveUDPAddr :: "string \<Rightarrow> string option"
  e_GTPUPort :: string
  e_RemoteAddr :: "nat \<Rightarrow> string"
  e_SCTP_Write :: "nat \<Rightarrow> octets \<Rightarrow> 'x \<Rightarrow> bool \<times> 'x"
  e_TCP_Write :: "nat \<Rightarrow> octets \<Rightarrow> 'x \<Rightarrow> bool \<times> 'x"

section \<open>Conversions\<close>

text \<open>\<open>hex.DecodeString\<close>: the octets before the first error, and whether there was none.\<close>

definition fromHexChar :: "char \<Rightarrow> byte option" where
  "fromHexChar c =
     (let n = of_char c :: nat in
      if 48 \<le> n \<and> n \<le> 57 then Some (of_nat (n - 48))
      else if 97 \<le> n \<and> n \<le> 102 then Some (of_nat (n - 87))
      else if 65 \<le> n \<and> n \<le> 70 then Some (of_nat (n - 55))
      else None)"

fun hex_DecodeString :: "string \<Rightarrow> octets \<times> bool" where
  "hex_DecodeString [] = ([], True)"
| "hex_DecodeString [c] = ([], False)"
| "hex_DecodeString (a # b # s) =
     (case (fromHexChar a, fromHexChar b) of
        (Some x, Some y) \<Rightarrow>
          (case hex_DecodeString s of (bs, ok) \<Rightarrow> ((push_bit 4 x OR y) # bs, ok))
      | _ \<Rightarrow> ([], False))"

text \<open>
  \<open>PlmnIdToNgap\<close>: the digits of a PLMN swapped in each octet, with the filler \<open>f\<close> for a two-digit
  MNC. An index beyond the digits panics; a decoding error is only logged.
\<close>

definition PlmnIdToNgap :: "PLMNID \<Rightarrow> octets gores" where
  "PlmnIdToNgap p =
     pbind (index_at 0 (Mcc p)) (\<lambda>mcc0. pbind (index_at 1 (Mcc p)) (\<lambda>mcc1. pbind (index_at 2 (Mcc p)) (\<lambda>mcc2.
     pbind (index_at 0 (Mnc p)) (\<lambda>mnc0. pbind (index_at 1 (Mnc p)) (\<lambda>mnc1.
       if length (Mnc p) = 2
       then Val (fst (hex_DecodeString [mcc1, mcc0, CHR ''f'', mcc2, mnc1, mnc0]))
       else pbind (index_at 2 (Mnc p)) (\<lambda>mnc2.
         Val (fst (hex_DecodeString [mcc1, mcc0, mnc0, mcc2, mnc2, mnc1]))))))))"

definition N3iwfIdToNgap :: "u16 \<Rightarrow> BitString" where
  "N3iwfIdToNgap n3iwfId = \<lparr>bs_Bytes = PutUint16 n3iwfId, bs_BitLength = 16\<rparr>"

text \<open>The seven \<open>Append\<close> functions of \<open>forwardIE.go\<close>, one per list type, all append an item.\<close>

definition AppendPDUSessionResource :: "transfer_item list \<Rightarrow> int \<Rightarrow> octets \<Rightarrow> transfer_item list" where
  "AppendPDUSessionResource l pduSessionID transfer = l @ [(pduSessionID, transfer)]"

definition GetUserLocationInformation :: "('x, 'm) ngap_env_scheme \<Rightarrow> RanUe \<Rightarrow> UserLocationInformationN3IWF" where
  "GetUserLocationInformation env ue =
     \<lparr>uli_IPAddress = e_IPAddressToNgap env (ru_IPAddrv4 ue) (ru_IPAddrv6 ue),
      uli_PortNumber = e_PortNumberToNgap env (ru_PortNumber ue)\<rparr>"

definition BuildCause :: "CausePresent \<Rightarrow> CauseValue \<Rightarrow> Cause" where
  "BuildCause present value =
     (let c = \<lparr>cause_Present = present, cause_RadioNetwork = None, cause_Transport = None, cause_Nas = None,
         cause_Protocol = None, cause_Misc = None\<rparr>
      in case present of
           CausePresentRadioNetwork \<Rightarrow> c\<lparr>cause_RadioNetwork := Some value\<rparr>
         | CausePresentTransport \<Rightarrow> c\<lparr>cause_Transport := Some value\<rparr>
         | CausePresentNas \<Rightarrow> c\<lparr>cause_Nas := Some value\<rparr>
         | CausePresentProtocol \<Rightarrow> c\<lparr>cause_Protocol := Some value\<rparr>
         | CausePresentMisc \<Rightarrow> c\<lparr>cause_Misc := Some value\<rparr>
         | CausePresentNothing \<Rightarrow> c
         | CausePresentOther _ \<Rightarrow> c)"

section \<open>Protocol IEs\<close>

definition new_ie :: "ProtocolIE \<Rightarrow> Criticality \<Rightarrow> ie_value \<Rightarrow> ngap_ie" where
  "new_ie i c v = \<lparr>ie_Id = i, ie_Criticality = c, ie_Present = True, ie_Value = Some v\<rparr>"

text \<open>A criticality diagnostics IE whose \<open>Value.Present\<close> is left at zero, as several builders write it.\<close>

definition diag_unset :: "CriticalityDiagnostics option \<Rightarrow> ngap_ie" where
  "diag_unset d = \<lparr>ie_Id = IdCriticalityDiagnostics, ie_Criticality = CriticalityIgnore, ie_Present = False,
     ie_Value = map_option VDiagnostics d\<rparr>"

definition opt_diag_unset :: "CriticalityDiagnostics option \<Rightarrow> ngap_ie list" where
  "opt_diag_unset d = (if d = None then [] else [diag_unset d])"

definition opt_ie :: "ProtocolIE \<Rightarrow> Criticality \<Rightarrow> ('a \<Rightarrow> ie_value) \<Rightarrow> 'a option \<Rightarrow> ngap_ie list" where
  "opt_ie i c V x = (case x of None \<Rightarrow> [] | Some v \<Rightarrow> [new_ie i c (V v)])"

text \<open>A list IE that is sent only when the pointer is not nil and the list not empty.\<close>

definition opt_list_ie :: "ProtocolIE \<Rightarrow> Criticality \<Rightarrow> transfer_item list option \<Rightarrow> ngap_ie list" where
  "opt_list_ie i c l = (case l of None \<Rightarrow> [] | Some xs \<Rightarrow> if length xs > 0 then [new_ie i c (VTransfers xs)] else [])"

text \<open>The two identifiers every UE-associated message starts with.\<close>

definition ue_ids :: "Criticality \<Rightarrow> RanUe \<Rightarrow> ngap_ie list" where
  "ue_ids c ue = [new_ie IdAMFUENGAPID c (VInt (ru_AmfUeNgapId ue)), new_ie IdRANUENGAPID c (VInt (ru_RanUeNgapId ue))]"

definition location_ie :: "('x, 'm) ngap_env_scheme \<Rightarrow> Criticality \<Rightarrow> RanUe \<Rightarrow> ngap_ie" where
  "location_ie env c ue = new_ie IdUserLocationInformation c (VLocation (GetUserLocationInformation env ue))"

text \<open>The location of a UE whose address is known.\<close>

definition opt_location :: "('x, 'm) ngap_env_scheme \<Rightarrow> RanUe \<Rightarrow> ngap_ie list" where
  "opt_location env ue =
     (if (ru_IPAddrv4 ue \<noteq> [] \<or> ru_IPAddrv6 ue \<noteq> []) \<and> ru_PortNumber ue \<noteq> 0
      then [location_ie env CriticalityIgnore ue] else [])"

definition new_pdu :: "pdu_kind \<Rightarrow> ProcedureCode \<Rightarrow> Criticality \<Rightarrow> ngap_message \<Rightarrow> ngap_ie list \<Rightarrow> NGAPPDU" where
  "new_pdu k p c m ies =
     \<lparr>pdu_Present = k, pdu_Outcome = Some \<lparr>out_ProcedureCode = p, out_Criticality = c, out_Message = Some (m, ies)\<rparr>\<rparr>"

definition encode_pdu :: "('x, 'm) ngap_env_scheme \<Rightarrow> NGAPPDU \<Rightarrow> octets gores" where
  "encode_pdu env pdu = (case e_ngap_Encoder env pdu of None \<Rightarrow> Err ''ngap.Encoder'' | Some b \<Rightarrow> Val b)"

text \<open>The identifiers of the sessions of a UE, read through the pointers of its session list.\<close>

fun session_ids :: "'x world \<Rightarrow> addr list \<Rightarrow> int list gores" where
  "session_ids w [] = Val []"
| "session_ids w (a # as) =
     (case sessions w a of None \<Rightarrow> Crash NilPointer
      | Some s \<Rightarrow> pbind (session_ids w as) (\<lambda>ids. Val (ps_Id s # ids)))"

definition opt_session_ids :: "ProtocolIE \<Rightarrow> RanUe \<Rightarrow> 'x world \<Rightarrow> ngap_ie list gores" where
  "opt_session_ids i ue w =
     (if length (ru_PduSessionList ue) > 0
      then pbind (session_ids w (gm_values (ru_PduSessionList ue))) (\<lambda>ids. Val [new_ie i CriticalityReject (VIds ids)])
      else Val [])"

section \<open>The builders\<close>

text \<open>The supported tracking areas; an error of \<open>hex.DecodeString\<close> is only logged, a nil PLMN panics.\<close>

definition slice_support :: "SNSSAIItem \<Rightarrow> SNSSAI" where
  "slice_support i = \<lparr>sst = [word_of_int (cfg_SST i)],
     sd = (if cfg_SD i \<noteq> [] then Some (fst (hex_DecodeString (cfg_SD i))) else None)\<rparr>"

fun broadcast_plmns :: "BroadcastPLMNItem list \<Rightarrow> BroadcastPLMN list gores" where
  "broadcast_plmns [] = Val []"
| "broadcast_plmns (b # bs) =
     (case cfg_PLMNID b of None \<Rightarrow> Crash NilPointer
      | Some p \<Rightarrow>
          pbind (PlmnIdToNgap p) (\<lambda>plmn.
          pbind (broadcast_plmns bs) (\<lambda>rest.
            Val (\<lparr>bp_PLMNIdentity = plmn, bp_TAISliceSupportList = map slice_support (cfg_TAISliceSupportList b)\<rparr> # rest))))"

fun supported_tas :: "SupportedTAItem list \<Rightarrow> SupportedTA list gores" where
  "supported_tas [] = Val []"
| "supported_tas (t # ts) =
     pbind (broadcast_plmns (cfg_BroadcastPLMNList t)) (\<lambda>bs.
     pbind (supported_tas ts) (\<lambda>rest.
       Val (\<lparr>st_TAC = fst (hex_DecodeString (cfg_TAC t)), st_BroadcastPLMNList = bs\<rparr> # rest)))"

definition BuildNGSetupRequest :: "('x, 'm) ngap_env_scheme \<Rightarrow> GlobalN3IWFID \<Rightarrow> string \<Rightarrow> SupportedTAItem list \<Rightarrow> octets gores" where
  "BuildNGSetupRequest env gN3iwfId ranNodeName suppTAList =
     (case gn_PLMNID gN3iwfId of None \<Rightarrow> Crash NilPointer
      | Some p \<Rightarrow>
          pbind (PlmnIdToNgap p) (\<lambda>plmn.
          pbind (supported_tas suppTAList) (\<lambda>tas.
            encode_pdu env (new_pdu InitiatingMessage ProcNGSetup CriticalityReject NGSetupRequest
              [new_ie IdGlobalRANNodeID CriticalityReject (VNodeID plmn (N3iwfIdToNgap (gn_N3IWFID gN3iwfId))),
               new_ie IdRANNodeName CriticalityIgnore (VString ranNodeName),
               new_ie IdSupportedTAList CriticalityReject (VTAList tas)]))))"

definition BuildNGReset :: "('x, 'm) ngap_env_scheme \<Rightarrow> Cause \<Rightarrow> (int option \<times> int option) list option \<Rightarrow> octets gores" where
  "BuildNGReset env ngCause partOfNGInterface =
     encode_pdu env (new_pdu InitiatingMessage ProcNGReset CriticalityReject MsgNGReset
       [new_ie IdCause CriticalityIgnore (VCause ngCause),
        new_ie IdResetType CriticalityReject (VReset (case partOfNGInterface of None \<Rightarrow> ResetNGInterface
          | Some l \<Rightarrow> ResetPartOfNGInterface (Some l)))])"

definition BuildNGResetAcknowledge :: "('x, 'm) ngap_env_scheme \<Rightarrow> (int option \<times> int option) list option
    \<Rightarrow> CriticalityDiagnostics option \<Rightarrow> octets gores" where
  "BuildNGResetAcknowledge env partOfNGInterface diagnostics =
     encode_pdu env (new_pdu SuccessfulOutcome ProcNGReset CriticalityReject NGResetAcknowledge
       (opt_ie IdUEAssociatedLogicalNGConnectionList CriticalityIgnore VConnections partOfNGInterface
        @ opt_ie IdCriticalityDiagnostics CriticalityIgnore VDiagnostics diagnostics))"

definition BuildInitialContextSetupResponse :: "('x, 'm) ngap_env_scheme \<Rightarrow> RanUe \<Rightarrow> transfer_item list option
    \<Rightarrow> transfer_item list option \<Rightarrow> CriticalityDiagnostics option \<Rightarrow> octets gores" where
  "BuildInitialContextSetupResponse env ue responseList failedList criticalityDiagnostics =
     encode_pdu env (new_pdu SuccessfulOutcome ProcInitialContextSetup CriticalityReject InitialContextSetupResponse
       (ue_ids CriticalityIgnore ue
        @ opt_list_ie IdPDUSessionResourceSetupListCxtRes CriticalityIgnore responseList
        @ opt_list_ie IdPDUSessionResourceFailedToSetupListCxtRes CriticalityIgnore failedList
        @ opt_diag_unset criticalityDiagnostics))"

definition BuildInitialContextSetupFailure :: "('x, 'm) ngap_env_scheme \<Rightarrow> RanUe \<Rightarrow> Cause \<Rightarrow> transfer_item list option
    \<Rightarrow> CriticalityDiagnostics option \<Rightarrow> octets gores" where
  "BuildInitialContextSetupFailure env ue cause failedList criticalityDiagnostics =
     encode_pdu env (new_pdu UnsuccessfulOutcome ProcInitialContextSetup CriticalityReject InitialContextSetupFailure
       (ue_ids CriticalityIgnore ue
        @ opt_list_ie IdPDUSessionResourceFailedToSetupListCxtFail CriticalityIgnore failedList
        @ [new_ie IdCause CriticalityIgnore (VCause cause)]
        @ opt_diag_unset criticalityDiagnostics))"

definition BuildUEContextModificationResponse :: "('x, 'm) ngap_env_scheme \<Rightarrow> RanUe \<Rightarrow> CriticalityDiagnostics option \<Rightarrow> octets gores" where
  "BuildUEContextModificationResponse env ue criticalityDiagnostics =
     encode_pdu env (new_pdu SuccessfulOutcome ProcUEContextModification CriticalityReject UEContextModificationResponse
       (ue_ids CriticalityIgnore ue @ [diag_unset criticalityDiagnostics]))"

definition BuildUEContextModificationFailure :: "('x, 'm) ngap_env_scheme \<Rightarrow> RanUe \<Rightarrow> Cause \<Rightarrow> CriticalityDiagnostics option
    \<Rightarrow> octets gores" where
  "BuildUEContextModificationFailure env ue cause criticalityDiagnostics =
     encode_pdu env (new_pdu UnsuccessfulOutcome ProcUEContextModification CriticalityReject UEContextModificationFailure
       (ue_ids CriticalityIgnore ue @ [new_ie IdCause CriticalityIgnore (VCause cause), diag_unset criticalityDiagnostics]))"

definition BuildUEContextReleaseComplete :: "('x, 'm) ngap_env_scheme \<Rightarrow> RanUe \<Rightarrow> CriticalityDiagnostics option
    \<Rightarrow> 'x world \<Rightarrow> octets gores" where
  "BuildUEContextReleaseComplete env ue criticalityDiagnostics w =
     pbind (opt_session_ids IdPDUSessionResourceListCxtRelCpl ue w) (\<lambda>ids.
       encode_pdu env (new_pdu SuccessfulOutcome ProcUEContextRelease CriticalityReject UEContextReleaseComplete
         (ue_ids CriticalityIgnore ue @ [location_ie env CriticalityIgnore ue] @ ids
          @ opt_diag_unset criticalityDiagnostics)))"

definition BuildUEContextReleaseRequest :: "('x, 'm) ngap_env_scheme \<Rightarrow> RanUe \<Rightarrow> Cause \<Rightarrow> 'x world \<Rightarrow> octets gores" where
  "BuildUEContextReleaseRequest env ue cause w =
     pbind (opt_session_ids IdPDUSessionResourceListCxtRelReq ue w) (\<lambda>ids.
       encode_pdu env (new_pdu InitiatingMessage ProcUEContextReleaseRequest CriticalityIgnore UEContextReleaseRequest
         (ue_ids CriticalityReject ue @ ids @ [new_ie IdCause CriticalityIgnore (VCause cause)])))"

text \<open>
  \<open>BuildInitialUEMessage\<close>. The AMF identifier and the 5G-TMSI are cut out of the GUTI, whose length
  says whether the MNC has two digits; a GUTI too short for that panics.
\<close>

definition guti_parts :: "string \<Rightarrow> (string \<times> string) gores" where
  "guti_parts guti =
     (if length guti = 19 then Val (take 6 (drop 5 guti), drop 11 guti)
      else if length guti < 12 then Crash IndexRange
      else Val (take 6 (drop 6 guti), drop 12 guti))"

definition guti_ies :: "('x, 'm) ngap_env_scheme \<Rightarrow> string \<Rightarrow> ngap_ie list gores" where
  "guti_ies env guti =
     (if guti = [] then Val []
      else pbind (guti_parts guti) (\<lambda>(amfID, tmsi).
        case e_AmfIdToNgap env amfID of (_, amfSetID, amfPointer) \<Rightarrow>
          Val [new_ie IdFiveGSTMSI CriticalityReject (VFiveGSTMSI amfSetID amfPointer (fst (hex_DecodeString tmsi))),
               new_ie IdAMFSetID CriticalityIgnore (VBits amfSetID)]))"

definition BuildInitialUEMessage :: "('x, 'm) ngap_env_scheme \<Rightarrow> RanUe \<Rightarrow> octets \<Rightarrow> SNSSAI list option \<Rightarrow> octets gores" where
  "BuildInitialUEMessage env ue nasPdu allowedNSSAI =
     (if ru_RRCEstablishmentCause ue < 0
      then Err ''BuildInitialUEMessage() ranUe.RRCEstablishmentCause negative value''
      else pbind (guti_ies env (ru_Guti ue)) (\<lambda>gutis.
        encode_pdu env (new_pdu InitiatingMessage ProcInitialUEMessage CriticalityIgnore InitialUEMessage
          ([new_ie IdRANUENGAPID CriticalityReject (VInt (ru_RanUeNgapId ue)),
            new_ie IdNASPDU CriticalityReject (VOctets nasPdu),
            location_ie env CriticalityReject ue,
            new_ie IdRRCEstablishmentCause CriticalityIgnore (VInt (ru_RRCEstablishmentCause ue))]
           @ gutis
           @ [new_ie IdUEContextRequest CriticalityIgnore VRequested]
           @ opt_ie IdAllowedNSSAI CriticalityIgnore VNSSAI allowedNSSAI))))"

definition BuildUplinkNASTransport :: "('x, 'm) ngap_env_scheme \<Rightarrow> RanUe \<Rightarrow> octets \<Rightarrow> octets gores" where
  "BuildUplinkNASTransport env ue nasPdu =
     encode_pdu env (new_pdu InitiatingMessage ProcUplinkNASTransport CriticalityIgnore UplinkNASTransport
       (ue_ids CriticalityReject ue
        @ [new_ie IdNASPDU CriticalityReject (VOctets nasPdu), location_ie env CriticalityIgnore ue]))"

definition BuildNASNonDeliveryIndication :: "('x, 'm) ngap_env_scheme \<Rightarrow> RanUe \<Rightarrow> octets \<Rightarrow> Cause \<Rightarrow> octets gores" where
  "BuildNASNonDeliveryIndication env ue nasPdu cause =
     encode_pdu env (new_pdu InitiatingMessage ProcNASNonDeliveryIndication CriticalityIgnore NASNonDeliveryIndication
       (ue_ids CriticalityReject ue
        @ [new_ie IdNASPDU CriticalityIgnore (VOctets nasPdu), new_ie IdCause CriticalityIgnore (VCause cause)]))"

definition BuildPDUSessionResourceSetupResponse :: "('x, 'm) ngap_env_scheme \<Rightarrow> RanUe \<Rightarrow> transfer_item list option
    \<Rightarrow> transfer_item list option \<Rightarrow> CriticalityDiagnostics option \<Rightarrow> octets gores" where
  "BuildPDUSessionResourceSetupResponse env ue responseList failedList criticalityDiagnostics =
     encode_pdu env (new_pdu SuccessfulOutcome ProcPDUSessionResourceSetup CriticalityReject PDUSessionResourceSetupResponse
       (ue_ids CriticalityIgnore ue
        @ opt_list_ie IdPDUSessionResourceSetupListSURes CriticalityIgnore responseList
        @ opt_list_ie IdPDUSessionResourceFailedToSetupListSURes CriticalityIgnore failedList
        @ opt_diag_unset criticalityDiagnostics))"

definition BuildPDUSessionResourceModifyResponse :: "('x, 'm) ngap_env_scheme \<Rightarrow> RanUe \<Rightarrow> transfer_item list option
    \<Rightarrow> transfer_item list option \<Rightarrow> CriticalityDiagnostics option \<Rightarrow> octets gores" where
  "BuildPDUSessionResourceModifyResponse env ue responseList failedList criticalityDiagnostics =
     encode_pdu env (new_pdu SuccessfulOutcome ProcPDUSessionResourceModify CriticalityReject PDUSessionResourceModifyResponse
       (ue_ids CriticalityIgnore ue
        @ opt_list_ie IdPDUSessionResourceModifyListModRes CriticalityIgnore responseList
        @ opt_list_ie IdPDUSessionResourceFailedToModifyListModRes CriticalityIgnore failedList
        @ [location_ie env CriticalityIgnore ue]
        @ opt_diag_unset criticalityDiagnostics))"

definition BuildPDUSessionResourceModifyIndication :: "('x, 'm) ngap_env_scheme \<Rightarrow> RanUe \<Rightarrow> transfer_item list \<Rightarrow> octets gores" where
  "BuildPDUSessionResourceModifyIndication env ue modifyList =
     encode_pdu env (new_pdu InitiatingMessage ProcPDUSessionResourceModifyIndication CriticalityReject PDUSessionResourceModifyIndication
       (ue_ids CriticalityReject ue @ [new_ie IdPDUSessionResourceModifyListModInd CriticalityReject (VTransfers modifyList)]))"

definition BuildPDUSessionResourceNotify :: "('x, 'm) ngap_env_scheme \<Rightarrow> RanUe \<Rightarrow> transfer_item list option
    \<Rightarrow> transfer_item list option \<Rightarrow> octets gores" where
  "BuildPDUSessionResourceNotify env ue notiList relList =
     encode_pdu env (new_pdu InitiatingMessage ProcPDUSessionResourceNotify CriticalityIgnore PDUSessionResourceNotify
       (ue_ids CriticalityReject ue
        @ opt_ie IdPDUSessionResourceNotifyList CriticalityReject VTransfers notiList
        @ opt_ie IdPDUSessionResourceReleasedListNot CriticalityIgnore VTransfers relList
        @ opt_location env ue))"

definition BuildPDUSessionResourceReleaseResponse :: "('x, 'm) ngap_env_scheme \<Rightarrow> RanUe \<Rightarrow> transfer_item list
    \<Rightarrow> CriticalityDiagnostics option \<Rightarrow> octets gores" where
  "BuildPDUSessionResourceReleaseResponse env ue relList diagnostics =
     encode_pdu env (new_pdu SuccessfulOutcome ProcPDUSessionResourceRelease CriticalityReject PDUSessionResourceReleaseResponse
       (ue_ids CriticalityIgnore ue
        @ [new_ie IdPDUSessionResourceReleasedListRelRes CriticalityIgnore (VTransfers relList)]
        @ opt_location env ue
        @ opt_ie IdCriticalityDiagnostics CriticalityIgnore VDiagnostics diagnostics))"

definition BuildErrorIndication :: "('x, 'm) ngap_env_scheme \<Rightarrow> int option \<Rightarrow> int option \<Rightarrow> Cause option
    \<Rightarrow> CriticalityDiagnostics option \<Rightarrow> octets gores" where
  "BuildErrorIndication env amfUENGAPID ranUENGAPID cause criticalityDiagnostics =
     encode_pdu env (new_pdu InitiatingMessage ProcErrorIndication CriticalityIgnore ErrorIndication
       ((case (amfUENGAPID, ranUENGAPID) of
           (Some a, Some r) \<Rightarrow> [new_ie IdAMFUENGAPID CriticalityIgnore (VInt a), new_ie IdRANUENGAPID CriticalityIgnore (VInt r)]
         | _ \<Rightarrow> [])
        @ opt_ie IdCause CriticalityIgnore VCause cause
        @ opt_ie IdCriticalityDiagnostics CriticalityIgnore VDiagnostics criticalityDiagnostics))"

definition BuildUERadioCapabilityCheckResponse :: "('x, 'm) ngap_env_scheme \<Rightarrow> RanUe \<Rightarrow> CriticalityDiagnostics option
    \<Rightarrow> octets gores" where
  "BuildUERadioCapabilityCheckResponse env ue diagnostics =
     (if ru_IMSVoiceSupported ue < 0
      then Err ''BuildUERadioCapabilityCheckResponse() ranUe.IMSVoiceSupported negative value''
      else encode_pdu env (new_pdu SuccessfulOutcome ProcUERadioCapabilityCheck CriticalityReject UERadioCapabilityCheckResponse
        (ue_ids CriticalityIgnore ue
         @ [new_ie IdIMSVoiceSupportIndicator CriticalityReject (VInt (ru_IMSVoiceSupported ue))]
         @ opt_ie IdCriticalityDiagnostics CriticalityIgnore VDiagnostics diagnostics)))"

definition BuildAMFConfigurationUpdateAcknowledge :: "('x, 'm) ngap_env_scheme \<Rightarrow> TNLItem list option \<Rightarrow> TNLItem list option
    \<Rightarrow> CriticalityDiagnostics option \<Rightarrow> octets gores" where
  "BuildAMFConfigurationUpdateAcknowledge env setupList failList diagnostics =
     encode_pdu env (new_pdu SuccessfulOutcome ProcAMFConfigurationUpdate CriticalityReject AMFConfigurationUpdateAcknowledge
       (opt_ie IdAMFTNLAssociationSetupList CriticalityIgnore VTNLItems setupList
        @ opt_ie IdAMFTNLAssociationFailedToSetupList CriticalityIgnore VTNLItems failList
        @ opt_ie IdCriticalityDiagnostics CriticalityIgnore VDiagnostics diagnostics))"

definition BuildAMFConfigurationUpdateFailure :: "('x, 'm) ngap_env_scheme \<Rightarrow> Cause \<Rightarrow> TimeToWait option
    \<Rightarrow> CriticalityDiagnostics option \<Rightarrow> octets gores" where
  "BuildAMFConfigurationUpdateFailure env ngCause time diagnostics =
     encode_pdu env (new_pdu UnsuccessfulOutcome ProcAMFConfigurationUpdate CriticalityReject AMFConfigurationUpdateFailure
       ([new_ie IdCause CriticalityIgnore (VCause ngCause)]
        @ opt_ie IdTimeToWait CriticalityIgnore VTimeToWait time
        @ opt_ie IdCriticalityDiagnostics CriticalityIgnore VDiagnostics diagnostics))"

definition BuildRANConfigurationUpdate :: "('x, 'm) ngap_env_scheme \<Rightarrow> string \<Rightarrow> SupportedTAItem list \<Rightarrow> octets gores" where
  "BuildRANConfigurationUpdate env ranNodeName suppTAList =
     pbind (supported_tas suppTAList) (\<lambda>tas.
       encode_pdu env (new_pdu InitiatingMessage ProcRANConfigurationUpdate CriticalityReject RANConfigurationUpdate
         ((if ranNodeName \<noteq> [] then [new_ie IdRANNodeName CriticalityIgnore (VString ranNodeName)] else [])
          @ (if length suppTAList > 0 then [new_ie IdSupportedTAList CriticalityReject (VTAList tas)] else []))))"

text \<open>The builders that are stubs in the source encode an empty PDU.\<close>

definition stub_pdu :: NGAPPDU where "stub_pdu = \<lparr>pdu_Present = PDUNothing, pdu_Outcome = None\<rparr>"

definition BuildRerouteNASRequest :: "('x, 'm) ngap_env_scheme \<Rightarrow> octets gores" where
  "BuildRerouteNASRequest env = encode_pdu env stub_pdu"

definition BuildUERadioCapabilityInfoIndication :: "('x, 'm) ngap_env_scheme \<Rightarrow> octets gores" where
  "BuildUERadioCapabilityInfoIndication env = encode_pdu env stub_pdu"

section \<open>Transfers\<close>

text \<open>The result is the octets and whether the encoding succeeded.\<close>

definition BuildPDUSessionResourceSetupResponseTransfer :: "('x, 'm) ngap_env_scheme \<Rightarrow> PDUSession \<Rightarrow> string
    \<Rightarrow> (octets \<times> bool) gores" where
  "BuildPDUSessionResourceSetupResponseTransfer env pduSession gtpBindIPv4 =
     (case ps_GTPConnInfo pduSession of None \<Rightarrow> Crash NilPointer
      | Some g \<Rightarrow> Val (e_aper_Marshal env (SetupResponseTransfer (PutUint32 (gtp_IncomingTEID g))
          (e_IPAddressToNgap env gtpBindIPv4 []) (map uint (ps_QFIList pduSession)))))"

definition BuildPDUSessionResourceSetupUnsuccessfulTransfer :: "('x, 'm) ngap_env_scheme \<Rightarrow> Cause
    \<Rightarrow> CriticalityDiagnostics option \<Rightarrow> octets \<times> bool" where
  "BuildPDUSessionResourceSetupUnsuccessfulTransfer env cause criticalityDiagnostics =
     e_aper_Marshal env (SetupUnsuccessfulTransfer cause criticalityDiagnostics)"

definition nonempty :: "'a list option \<Rightarrow> 'a list option" where
  "nonempty l = (case l of Some (x # xs) \<Rightarrow> Some (x # xs) | _ \<Rightarrow> None)"

definition BuildPDUSessionResourceModifyResponseTransfer :: "('x, 'm) ngap_env_scheme \<Rightarrow> octets option \<Rightarrow> octets option
    \<Rightarrow> int list option \<Rightarrow> (int \<times> Cause) list option \<Rightarrow> octets \<times> bool" where
  "BuildPDUSessionResourceModifyResponseTransfer env ul dl responseList failedList =
     e_aper_Marshal env (ModifyResponseTransfer ul dl (nonempty responseList) (nonempty failedList))"

definition BuildPDUSessionResourceModifyUnsuccessfulTransfer :: "('x, 'm) ngap_env_scheme \<Rightarrow> Cause
    \<Rightarrow> CriticalityDiagnostics option \<Rightarrow> octets \<times> bool" where
  "BuildPDUSessionResourceModifyUnsuccessfulTransfer env cause criticalityDiagnostics =
     e_aper_Marshal env (ModifyUnsuccessfulTransfer cause criticalityDiagnostics)"

end
