(* ===== verification/Config.thy ===== *)
theory Config
  imports Ngap_Build
begin

text \<open>
  The configuration (\<open>src/pkg/factory/config.go\<close>, \<open>factory.go\<close>): the structs, their validation and
  the getters the servers use. The struct validator, the resolver, the environment variables, the
  file system and the YAML decoder are parameters. Reading through a pointer that is nil panics; the
  lock around every access is not modelled, a getter being one step.
\<close>

section \<open>The structs\<close>

record N3IWFNFInfo =
  nf_GlobalN3IWFID :: "GlobalN3IWFID option"
  nf_RanNodeName :: string
  nf_SupportedTAList :: "SupportedTAItem list"

record AMFSCTPAddresses =
  as_IPAddresses :: "string list"
  as_Port :: int

record TimerValue =
  tv_Enable :: bool
  tv_TransFreq :: int
  tv_MaxRetryTimes :: int

record Tls =
  tls_Pem :: string
  tls_Key :: string

record Metrics =
  mt_Enable :: bool
  mt_Scheme :: string
  mt_BindingIPv4 :: string
  mt_Port :: int
  mt_Tls :: "Tls option"
  mt_Namespace :: string

record Configuration =
  cf_N3IWFInfo :: "N3IWFNFInfo option"
  cf_LocalSctpAddr :: string
  cf_AMFSCTPAddresses :: "AMFSCTPAddresses list"
  cf_Metrics :: "Metrics option"
  cf_TCPPort :: int
  cf_IKEBindAddr :: string
  cf_UEIPAddressRange :: string
  cf_IPSecGatewayAddr :: string
  cf_XfrmIfaceName :: string
  cf_XfrmIfaceId :: u32
  cf_N3IWFGTPBindAddress :: string
  cf_FQDN :: string
  cf_PrivateKey :: string
  cf_CertificateAuthority :: string
  cf_Certificate :: string
  cf_LivenessCheck :: "TimerValue option"

record Info =
  info_Version :: string
  info_Description :: string

record Logger =
  lg_Enable :: bool
  lg_Level :: string
  lg_ReportCaller :: bool

record Config =
  c_Info :: "Info option"
  c_Configuration :: "Configuration option"
  c_Logger :: "Logger option"

section \<open>Validation\<close>

text \<open>\<open>govalidator.Errors\<close>: a list of errors is an error; \<open>fmt.Errorf\<close> wraps one with a text in front.\<close>

datatype verr = VErr string | VErrs "verr list" | VWrap string verr

record validator =
  v_IsHost :: "string \<Rightarrow> bool"
  v_Config :: "Config \<Rightarrow> verr list"
  v_Metrics :: "Metrics \<Rightarrow> verr list"
  v_Tls :: "Tls \<Rightarrow> verr list"

text \<open>Every error is wrapped; no error stays none.\<close>

definition appendInvalid :: "verr list \<Rightarrow> verr list" where
  "appendInvalid errs = map (VWrap ''invalid '') errs"

definition AMFSCTPAddresses_validate :: "validator \<Rightarrow> AMFSCTPAddresses \<Rightarrow> verr list" where
  "AMFSCTPAddresses_validate v a =
     map (\<lambda>ip. VErr (''Invalid AMFSCTPAddresses.IP: '' @ ip @ '', does not validate as IP''))
       (filter (\<lambda>ip. \<not> v_IsHost v ip) (as_IPAddresses a))"

definition Tls_validate :: "validator \<Rightarrow> Tls \<Rightarrow> verr list" where
  "Tls_validate v tls = appendInvalid (v_Tls v tls)"

definition Metrics_validate :: "validator \<Rightarrow> Metrics \<Rightarrow> verr list" where
  "Metrics_validate v m =
     (case mt_Tls m of None \<Rightarrow> []
      | Some tls \<Rightarrow> if Tls_validate v tls \<noteq> [] then [VErrs (Tls_validate v tls)] else [])
     @ (if v_Metrics v m \<noteq> [] then [VErrs (v_Metrics v m)] else [])"

fun first_errors :: "('a \<Rightarrow> verr list) \<Rightarrow> 'a list \<Rightarrow> verr list" where
  "first_errors f [] = []"
| "first_errors f (a # as) = (if f a \<noteq> [] then f a else first_errors f as)"

definition Config_Validate :: "validator \<Rightarrow> Config \<Rightarrow> verr list" where
  "Config_Validate v c =
     (case c_Configuration c of None \<Rightarrow> appendInvalid (v_Config v c)
      | Some configuration \<Rightarrow>
          let e1 = first_errors (AMFSCTPAddresses_validate v) (cf_AMFSCTPAddresses configuration);
              e2 = (case cf_Metrics configuration of None \<Rightarrow> [] | Some m \<Rightarrow> Metrics_validate v m) in
          if e1 \<noteq> [] then e1 else if e2 \<noteq> [] then e2 else appendInvalid (v_Config v c))"

definition InitConfigFactory :: "(string \<Rightarrow> octets option) \<Rightarrow> (octets \<Rightarrow> Config option) \<Rightarrow> string \<Rightarrow> Config gores" where
  "InitConfigFactory readFile unmarshal f =
     (case readFile (if f = [] then ''./config/n3iwfcfg.yaml'' else f) of None \<Rightarrow> Err ''[Factory]''
      | Some content \<Rightarrow> (case unmarshal content of None \<Rightarrow> Err ''[Factory]'' | Some cfg \<Rightarrow> Val cfg))"

definition ReadConfig :: "validator \<Rightarrow> (string \<Rightarrow> octets option) \<Rightarrow> (octets \<Rightarrow> Config option) \<Rightarrow> string \<Rightarrow> Config gores" where
  "ReadConfig v readFile unmarshal cfgPath =
     pbind (InitConfigFactory readFile unmarshal cfgPath) (\<lambda>cfg.
       if Config_Validate v cfg \<noteq> [] then Err ''Config validate Error'' else Val cfg)"

section \<open>Log settings\<close>

definition GetVersion :: "Config \<Rightarrow> string gores" where
  "GetVersion c = (case c_Info c of None \<Rightarrow> Crash NilPointer | Some i \<Rightarrow> Val (info_Version i))"

definition SetLogEnable :: "bool \<Rightarrow> Config \<Rightarrow> Config" where
  "SetLogEnable enable c = c\<lparr>c_Logger := Some (case c_Logger c of
     None \<Rightarrow> \<lparr>lg_Enable = enable, lg_Level = ''info'', lg_ReportCaller = False\<rparr> | Some l \<Rightarrow> l\<lparr>lg_Enable := enable\<rparr>)\<rparr>"

definition SetLogLevel :: "string \<Rightarrow> Config \<Rightarrow> Config" where
  "SetLogLevel level c = c\<lparr>c_Logger := Some (case c_Logger c of
     None \<Rightarrow> \<lparr>lg_Enable = False, lg_Level = level, lg_ReportCaller = False\<rparr> | Some l \<Rightarrow> l\<lparr>lg_Level := level\<rparr>)\<rparr>"

definition SetLogReportCaller :: "bool \<Rightarrow> Config \<Rightarrow> Config" where
  "SetLogReportCaller reportCaller c = c\<lparr>c_Logger := Some (case c_Logger c of
     None \<Rightarrow> \<lparr>lg_Enable = False, lg_Level = ''info'', lg_ReportCaller = reportCaller\<rparr>
   | Some l \<Rightarrow> l\<lparr>lg_ReportCaller := reportCaller\<rparr>)\<rparr>"

definition GetLogEnable :: "Config \<Rightarrow> bool" where
  "GetLogEnable c = (case c_Logger c of None \<Rightarrow> False | Some l \<Rightarrow> lg_Enable l)"

definition GetLogLevel :: "Config \<Rightarrow> string" where
  "GetLogLevel c = (case c_Logger c of None \<Rightarrow> ''info'' | Some l \<Rightarrow> lg_Level l)"

definition GetLogReportCaller :: "Config \<Rightarrow> bool" where
  "GetLogReportCaller c = (case c_Logger c of None \<Rightarrow> False | Some l \<Rightarrow> lg_ReportCaller l)"

section \<open>Getters\<close>

definition conf :: "Config \<Rightarrow> (Configuration \<Rightarrow> 'a) \<Rightarrow> 'a gores" where
  "conf c f = (case c_Configuration c of None \<Rightarrow> Crash NilPointer | Some g \<Rightarrow> Val (f g))"

definition nf_info :: "Config \<Rightarrow> (N3IWFNFInfo \<Rightarrow> 'a) \<Rightarrow> 'a gores" where
  "nf_info c f = pbind (conf c cf_N3IWFInfo) (\<lambda>i. case i of None \<Rightarrow> Crash NilPointer | Some n \<Rightarrow> Val (f n))"

definition GetGlobalN3iwfId :: "Config \<Rightarrow> GlobalN3IWFID option gores" where
  "GetGlobalN3iwfId c = nf_info c nf_GlobalN3IWFID"

definition GetRanNodeName :: "Config \<Rightarrow> string gores" where
  "GetRanNodeName c = nf_info c nf_RanNodeName"

text \<open>An SCTP address: the resolved IP addresses and a port.\<close>

record SCTPAddr =
  sctp_IPAddrs :: "ip list"
  sctp_Port :: int

definition GetLocalSctpAddr :: "(string \<Rightarrow> ip option) \<Rightarrow> Config \<Rightarrow> SCTPAddr gores" where
  "GetLocalSctpAddr resolve c =
     conf c (\<lambda>g. \<lparr>sctp_IPAddrs = (if cf_LocalSctpAddr g \<noteq> [] then
         (case resolve (cf_LocalSctpAddr g) of None \<Rightarrow> [] | Some a \<Rightarrow> [a]) else []), sctp_Port = 0\<rparr>)"

definition GetAmfSctpAddrs :: "(string \<Rightarrow> ip option) \<Rightarrow> Config \<Rightarrow> SCTPAddr list gores" where
  "GetAmfSctpAddrs resolve c =
     conf c (\<lambda>g. map (\<lambda>a. \<lparr>sctp_IPAddrs = List.map_filter resolve (as_IPAddresses a),
        sctp_Port = (if as_Port a = 0 then 38412 else as_Port a)\<rparr>) (cf_AMFSCTPAddresses g))"

definition GetSupportedTAList :: "Config \<Rightarrow> SupportedTAItem list gores" where
  "GetSupportedTAList c = nf_info c nf_SupportedTAList"

definition GetIKEBindAddr :: "Config \<Rightarrow> string gores" where "GetIKEBindAddr c = conf c cf_IKEBindAddr"
definition GetIPSecGatewayAddr :: "Config \<Rightarrow> string gores" where "GetIPSecGatewayAddr c = conf c cf_IPSecGatewayAddr"
definition GetN3iwfGtpBindAddress :: "Config \<Rightarrow> string gores" where "GetN3iwfGtpBindAddress c = conf c cf_N3IWFGTPBindAddress"

text \<open>\<open>strconv.Itoa\<close>.\<close>

definition Itoa :: "int \<Rightarrow> string" where
  "Itoa i = (if i < 0 then ''-'' @ dec_digits (nat (- i)) else dec_digits (nat i))"

definition GetNasTcpAddr :: "Config \<Rightarrow> string gores" where
  "GetNasTcpAddr c = conf c (\<lambda>g. cf_IPSecGatewayAddr g @ '':'' @ Itoa (cf_TCPPort g))"

definition GetNasTcpPort :: "Config \<Rightarrow> u16 gores" where "GetNasTcpPort c = conf c (\<lambda>g. word_of_int (cf_TCPPort g))"
definition GetFQDN :: "Config \<Rightarrow> string gores" where "GetFQDN c = conf c cf_FQDN"

definition GetIKECAPemPath :: "Config \<Rightarrow> string gores" where
  "GetIKECAPemPath c = conf c (\<lambda>g. if cf_CertificateAuthority g \<noteq> [] then cf_CertificateAuthority g else ''./cert/n3iwf.pem'')"

definition GetIKECertPemPath :: "Config \<Rightarrow> string gores" where
  "GetIKECertPemPath c = conf c (\<lambda>g. if cf_Certificate g \<noteq> [] then cf_Certificate g else ''./cert/n3iwf.pem'')"

definition GetIKECertKeyPath :: "Config \<Rightarrow> string gores" where
  "GetIKECertKeyPath c = conf c (\<lambda>g. if cf_PrivateKey g \<noteq> [] then cf_PrivateKey g else ''./cert/n3iwf.key'')"

definition GetUEIPAddrRange :: "Config \<Rightarrow> string gores" where "GetUEIPAddrRange c = conf c cf_UEIPAddressRange"

definition GetXfrmIfaceName :: "Config \<Rightarrow> string gores" where
  "GetXfrmIfaceName c = conf c (\<lambda>g. if cf_XfrmIfaceName g \<noteq> [] then cf_XfrmIfaceName g else ''ipsec'')"

definition GetXfrmIfaceId :: "Config \<Rightarrow> u32 gores" where
  "GetXfrmIfaceId c = conf c (\<lambda>g. if cf_XfrmIfaceId g \<noteq> 0 then cf_XfrmIfaceId g else 7)"

definition GetLivenessCheck :: "Config \<Rightarrow> TimerValue gores" where
  "GetLivenessCheck c = pbind (conf c cf_LivenessCheck) (\<lambda>t. case t of None \<Rightarrow> Crash NilPointer | Some v \<Rightarrow> Val v)"

section \<open>Metrics\<close>

definition metrics_of :: "Config \<Rightarrow> Metrics option" where
  "metrics_of c = Option.bind (c_Configuration c) cf_Metrics"

definition AreMetricsEnabled :: "Config \<Rightarrow> bool" where
  "AreMetricsEnabled c = (case metrics_of c of None \<Rightarrow> False | Some m \<Rightarrow> mt_Enable m)"

definition GetMetricsScheme :: "Config \<Rightarrow> string" where
  "GetMetricsScheme c = (case metrics_of c of None \<Rightarrow> ''https''
     | Some m \<Rightarrow> if mt_Scheme m \<noteq> [] then mt_Scheme m else ''https'')"

definition GetMetricsPort :: "Config \<Rightarrow> int" where
  "GetMetricsPort c = (case metrics_of c of None \<Rightarrow> 9091 | Some m \<Rightarrow> if mt_Port m \<noteq> 0 then mt_Port m else 9091)"

text \<open>\<open>getenv\<close> gives the empty string for a variable that is not set.\<close>

definition GetMetricsBindingIP :: "(string \<Rightarrow> string) \<Rightarrow> Config \<Rightarrow> string" where
  "GetMetricsBindingIP getenv c =
     (case metrics_of c of None \<Rightarrow> ''0.0.0.0''
      | Some m \<Rightarrow>
          if mt_BindingIPv4 m \<noteq> [] then
            (if getenv (mt_BindingIPv4 m) \<noteq> [] then getenv (mt_BindingIPv4 m) else mt_BindingIPv4 m)
          else ''0.0.0.0'')"

definition GetMetricsBindingAddr :: "(string \<Rightarrow> string) \<Rightarrow> Config \<Rightarrow> string" where
  "GetMetricsBindingAddr getenv c = GetMetricsBindingIP getenv c @ '':'' @ Itoa (GetMetricsPort c)"

definition GetMetricsCertPemPath :: "Config \<Rightarrow> string gores" where
  "GetMetricsCertPemPath c = conf c (\<lambda>g. case cf_Metrics g of None \<Rightarrow> []
     | Some m \<Rightarrow> (case mt_Tls m of None \<Rightarrow> [] | Some t \<Rightarrow> tls_Pem t))"

definition GetMetricsCertKeyPath :: "Config \<Rightarrow> string gores" where
  "GetMetricsCertKeyPath c = conf c (\<lambda>g. case cf_Metrics g of None \<Rightarrow> []
     | Some m \<Rightarrow> (case mt_Tls m of None \<Rightarrow> [] | Some t \<Rightarrow> tls_Key t))"

definition GetMetricsNamespace :: "Config \<Rightarrow> string gores" where
  "GetMetricsNamespace c = conf c (\<lambda>g. case cf_Metrics g of None \<Rightarrow> ''free5gc''
     | Some m \<Rightarrow> if mt_Namespace m \<noteq> [] then mt_Namespace m else ''free5gc'')"

section \<open>Which configurations are accepted\<close>

lemma first_errors_none: "first_errors f as = [] \<longleftrightarrow> list_all (\<lambda>a. f a = []) as"
  by (induction as) auto

lemma addresses_valid: "AMFSCTPAddresses_validate v a = [] \<longleftrightarrow> list_all (v_IsHost v) (as_IPAddresses a)"
  by (simp add: AMFSCTPAddresses_validate_def filter_empty_conv list_all_iff)

lemma metrics_valid:
  "Metrics_validate v m = [] \<longleftrightarrow> v_Metrics v m = [] \<and> (case mt_Tls m of None \<Rightarrow> True | Some t \<Rightarrow> v_Tls v t = [])"
  by (auto simp: Metrics_validate_def Tls_validate_def appendInvalid_def split: option.split)

lemma Validate_iff:
  "Config_Validate v c = [] \<longleftrightarrow> v_Config v c = [] \<and> (case c_Configuration c of None \<Rightarrow> True | Some g \<Rightarrow>
     list_all (\<lambda>a. list_all (v_IsHost v) (as_IPAddresses a)) (cf_AMFSCTPAddresses g)
     \<and> (case cf_Metrics g of None \<Rightarrow> True | Some m \<Rightarrow> v_Metrics v m = [] \<and>
          (case mt_Tls m of None \<Rightarrow> True | Some t \<Rightarrow> v_Tls v t = [])))"
  by (auto simp: Config_Validate_def appendInvalid_def first_errors_none addresses_valid metrics_valid Let_def
      split: option.split)


end
