(* ===== verification/Start_Up.thy ===== *)
theory Start_Up
  imports Config
begin

text \<open>
  Creation of the application (\<open>NewApp\<close> and the log settings of \<open>src/pkg/service/init.go\<close>,
  \<open>NewContext\<close> of \<open>src/internal/context/context.go\<close>): keys and certificates are read from the files of
  the configuration, the pool of inner addresses is created, the interface of the IKE address is
  looked up. Files, PEM and X.509 parsing, the address pool and the host's interfaces are parameters.
\<close>

section \<open>Parameters\<close>

text \<open>\<open>x509.ParsePKCS8PrivateKey\<close> returns a key of one of several kinds.\<close>

datatype private_key = RsaKey octets | OtherKey

record InitMetrics =
  im_BindingIPv4 :: string
  im_Scheme :: string
  im_Namespace :: string
  im_Port :: int
  im_Tls_Key :: string
  im_Tls_Pem :: string

text \<open>
  The host: \<open>h_ReadFile\<close> cleans the path and reads the file. An interface has a name and, when they
  can be read, its addresses in CIDR form. The pool that \<open>ippool.NewIPPool\<close> creates is not looked
  into; the two identifier generators of the context are functions of the environment.
\<close>

record 'p host =
  h_ReadFile :: "string \<Rightarrow> octets option"
  h_pem_Decode :: "octets \<Rightarrow> octets option"
  h_ParsePKCS8PrivateKey :: "octets \<Rightarrow> private_key option"
  h_ParsePKCS1PrivateKey :: "octets \<Rightarrow> octets option"
  h_ParseCertificate :: "octets \<Rightarrow> octets option"
  h_sha1 :: "octets \<Rightarrow> octets"
  h_NewIPPool :: "string \<Rightarrow> 'p option"
  h_Interfaces :: "(string \<times> string list option) list option"
  h_ResolveIPAddr :: "string \<Rightarrow> string option"
  h_Getenv :: "string \<Rightarrow> string"
  h_NewMetricsServer :: "InitMetrics \<Rightarrow> string \<Rightarrow> bool"
  h_LogFileHook :: "string \<Rightarrow> bool"
  h_MkdirAll :: "string \<Rightarrow> bool"
  h_Join :: "string \<Rightarrow> string \<Rightarrow> string"

record 'p start_context =
  sc_N3IWFPrivateKey :: octets
  sc_CertificateAuthority :: octets
  sc_N3IWFCertificate :: octets
  sc_IPSecInnerIPPool :: 'p
  sc_XfrmParentIfaceName :: string

section \<open>The context\<close>

definition decodePEM :: "'p host \<Rightarrow> string \<Rightarrow> octets gores" where
  "decodePEM h path =
     (case h_ReadFile h path of None \<Rightarrow> Err ''Cannot read file''
      | Some content \<Rightarrow> (case h_pem_Decode h content of None \<Rightarrow> Err ''Decode pem failed'' | Some p \<Rightarrow> Val p))"

text \<open>
  The loops of \<open>getInterfaceName\<close>. The address is the part before the slash; an address without a
  slash panics (\<open>strings.Index\<close> is then -1). \<open>Val None\<close>: no address of this interface matches.
\<close>

fun match_addrs :: "string \<Rightarrow> string list \<Rightarrow> bool gores" where
  "match_addrs ip [] = Val False"
| "match_addrs ip (a # as) =
     (if CHR ''/'' \<notin> set a then Crash IndexRange
      else if ip = takeWhile (\<lambda>c. c \<noteq> CHR ''/'') a then Val True else match_addrs ip as)"

fun match_ifaces :: "string \<Rightarrow> (string \<times> string list option) list \<Rightarrow> string gores" where
  "match_ifaces ip [] = Err ''cannot find interface name''"
| "match_ifaces ip ((name, addrs) # is) =
     (case addrs of None \<Rightarrow> Err ''Addrs''
      | Some as \<Rightarrow> pbind (match_addrs ip as) (\<lambda>found. if found then Val name else match_ifaces ip is))"

definition getInterfaceName :: "'p host \<Rightarrow> string \<Rightarrow> string gores" where
  "getInterfaceName h IPAddress =
     (case h_Interfaces h of None \<Rightarrow> Err ''Interfaces''
      | Some is \<Rightarrow> (case h_ResolveIPAddr h IPAddress of None \<Rightarrow> Err ''Error resolving address''
          | Some res \<Rightarrow> match_ifaces res is))"

text \<open>The private key: PKCS8, else PKCS1; it has to be an RSA key.\<close>

definition parse_private_key :: "'p host \<Rightarrow> octets \<Rightarrow> octets gores" where
  "parse_private_key h block =
     (case h_ParsePKCS8PrivateKey h block of
        Some (RsaKey k) \<Rightarrow> Val k
      | Some OtherKey \<Rightarrow> Err ''Private key is not an rsa private key''
      | None \<Rightarrow> (case h_ParsePKCS1PrivateKey h block of None \<Rightarrow> Err ''Parse PKCS1 pricate key failed'' | Some k \<Rightarrow> Val k))"

definition NewContext :: "'p host \<Rightarrow> Config \<Rightarrow> 'p start_context gores" where
  "NewContext h cfg =
     pbind (pbind (GetIKECertKeyPath cfg) (decodePEM h)) (\<lambda>block.
     pbind (parse_private_key h block) (\<lambda>rsaKey.
     pbind (pbind (GetIKECAPemPath cfg) (decodePEM h)) (\<lambda>block.
     case h_ParseCertificate h block of None \<Rightarrow> Err ''Parse certificate authority failed''
     | Some subjectPublicKeyInfo \<Rightarrow>
         pbind (pbind (GetIKECertPemPath cfg) (decodePEM h)) (\<lambda>certificate.
         pbind (GetUEIPAddrRange cfg) (\<lambda>range.
         case h_NewIPPool h range of None \<Rightarrow> Err ''NewContext()''
         | Some ueIPPool \<Rightarrow>
             pbind (pbind (GetIKEBindAddr cfg) (getInterfaceName h)) (\<lambda>ikeBindIfaceName.
               Val \<lparr>sc_N3IWFPrivateKey = rsaKey, sc_CertificateAuthority = h_sha1 h subjectPublicKeyInfo,
                 sc_N3IWFCertificate = certificate, sc_IPSecInnerIPPool = ueIPPool,
                 sc_XfrmParentIfaceName = ikeBindIfaceName\<rparr>))))))"

section \<open>Log settings\<close>

text \<open>The settings of the logger and those of the configuration, changed together.\<close>

datatype log_out = Stderr | Discard

record log_state =
  ls_Out :: log_out
  ls_Level :: string
  ls_ReportCaller :: bool

definition App_SetLogEnable :: "bool \<Rightarrow> Config \<times> log_state \<Rightarrow> Config \<times> log_state" where
  "App_SetLogEnable enable s =
     (case s of (cfg, l) \<Rightarrow>
        if enable \<and> ls_Out l = Stderr then s
        else if \<not> enable \<and> ls_Out l = Discard then s
        else (SetLogEnable enable cfg, l\<lparr>ls_Out := if enable then Stderr else Discard\<rparr>))"

text \<open>\<open>parse\<close> is \<open>logrus.ParseLevel\<close>: the level, by its name, or an error.\<close>

definition App_SetLogLevel :: "(string \<Rightarrow> string option) \<Rightarrow> string \<Rightarrow> Config \<times> log_state \<Rightarrow> Config \<times> log_state" where
  "App_SetLogLevel parse level s =
     (case s of (cfg, l) \<Rightarrow>
        (case parse level of None \<Rightarrow> s
         | Some lvl \<Rightarrow> if lvl = ls_Level l then s else (SetLogLevel level cfg, l\<lparr>ls_Level := lvl\<rparr>)))"

definition App_SetReportCaller :: "bool \<Rightarrow> Config \<times> log_state \<Rightarrow> Config \<times> log_state" where
  "App_SetReportCaller reportCaller s =
     (case s of (cfg, l) \<Rightarrow>
        if reportCaller = ls_ReportCaller l then s
        else (SetLogReportCaller reportCaller cfg, l\<lparr>ls_ReportCaller := reportCaller\<rparr>))"

section \<open>The application\<close>

text \<open>What is handed to the metrics library, whose server is created by \<open>h_NewMetricsServer\<close>.\<close>

definition getInitMetrics :: "'p host \<Rightarrow> Config \<Rightarrow> InitMetrics gores" where
  "getInitMetrics h cfg =
     pbind (GetMetricsNamespace cfg) (\<lambda>namespace.
     pbind (GetMetricsCertKeyPath cfg) (\<lambda>key.
     pbind (GetMetricsCertPemPath cfg) (\<lambda>pem.
       Val \<lparr>im_BindingIPv4 = GetMetricsBindingAddr (h_Getenv h) cfg, im_Scheme = GetMetricsScheme cfg,
         im_Namespace = namespace, im_Port = GetMetricsPort cfg, im_Tls_Key = key, im_Tls_Pem = pem\<rparr>)))"

text \<open>\<open>NewApp\<close>: the constructors of the four servers only allocate and do not fail.\<close>

definition NewApp :: "'p host \<Rightarrow> string \<Rightarrow> (string \<Rightarrow> string option) \<Rightarrow> Config \<times> log_state
    \<Rightarrow> 'p start_context gores \<times> Config \<times> log_state" where
  "NewApp h tlsKeyLogPath parse s =
     (let cfg = fst s;
          s = App_SetLogEnable (GetLogEnable cfg) s;
          s = App_SetLogLevel parse (GetLogLevel (fst s)) s;
          s = App_SetReportCaller (GetLogReportCaller (fst s)) s;
          cfg = fst s
      in (pbind (NewContext h cfg) (\<lambda>n3iwfCtx.
            if AreMetricsEnabled cfg then
              pbind (getInitMetrics h cfg) (\<lambda>m. if h_NewMetricsServer h m tlsKeyLogPath then Val n3iwfCtx else Err ''metrics server'')
            else Val n3iwfCtx), s))"

section \<open>The command\<close>

text \<open>
  \<open>src/cmd/main.go\<close>: the command line, \<open>initLogFile\<close> (the TLS key log is named after the first log
  file) and \<open>action\<close> up to \<open>Start\<close>; the profiling server and the signal handler are not modelled.
  \<open>split_path\<close> is \<open>filepath.Split\<close>: the directory with its slash, and the name.
\<close>

record cli =
  cli_log :: "string list"
  cli_config :: string
  cli_nolog :: bool
  cli_loglevel :: string
  cli_reportcaller :: bool

definition split_path :: "string \<Rightarrow> string \<times> string" where
  "split_path p = (rev (dropWhile (\<lambda>c. c \<noteq> CHR ''/'') (rev p)), rev (takeWhile (\<lambda>c. c \<noteq> CHR ''/'') (rev p)))"

definition N3iwfDefaultTLSKeyLogPath :: string where
  "N3iwfDefaultTLSKeyLogPath = ''./log/n3iwfsslkey.log''"

fun log_files :: "'p host \<Rightarrow> string \<Rightarrow> string list \<Rightarrow> string gores" where
  "log_files h logTlsKeyPath [] = Val logTlsKeyPath"
| "log_files h logTlsKeyPath (path # paths) =
     (if \<not> h_LogFileHook h path then Err ''LogFileHook''
      else if logTlsKeyPath \<noteq> [] then log_files h logTlsKeyPath paths
      else let tmpDir = h_Join h (fst (split_path path)) ''key'' in
        if \<not> h_MkdirAll h tmpDir then Err ''MkdirAll''
        else log_files h (h_Join h tmpDir (snd (split_path N3iwfDefaultTLSKeyLogPath))) paths)"

definition initLogFile :: "'p host \<Rightarrow> string list \<Rightarrow> string gores" where
  "initLogFile h logNfPath = log_files h [] logNfPath"

definition cli_override :: "cli \<Rightarrow> Config \<Rightarrow> Config" where
  "cli_override c cfg =
     (let cfg = if cli_nolog c then SetLogEnable False cfg else cfg;
          cfg = if cli_loglevel c \<noteq> [] then SetLogLevel (cli_loglevel c) cfg else cfg
      in if cli_reportcaller c then SetLogReportCaller True cfg else cfg)"

definition action :: "'p host \<Rightarrow> validator \<Rightarrow> (octets \<Rightarrow> Config option) \<Rightarrow> (string \<Rightarrow> string option) \<Rightarrow> cli \<Rightarrow> log_state
    \<Rightarrow> ('p start_context \<times> Config \<times> log_state) gores" where
  "action h v unmarshal parse c l =
     pbind (initLogFile h (cli_log c)) (\<lambda>tlsKeyLogPath.
     pbind (ReadConfig v (h_ReadFile h) unmarshal (cli_config c)) (\<lambda>cfg.
       case NewApp h tlsKeyLogPath parse (cli_override c cfg, l) of (n3iwfApp, s) \<Rightarrow>
         pbind n3iwfApp (\<lambda>ctx. Val (ctx, s))))"

section \<open>What holds after the start\<close>

lemma match_addrs_sound: "match_addrs ip as = Val True \<Longrightarrow> \<exists>a \<in> set as. ip = takeWhile (\<lambda>c. c \<noteq> CHR ''/'') a"
  by (induction as) (auto split: if_splits)

lemma match_ifaces_sound:
  "match_ifaces ip is = Val name \<Longrightarrow> \<exists>as a. (name, Some as) \<in> set is \<and> a \<in> set as \<and> ip = takeWhile (\<lambda>c. c \<noteq> CHR ''/'') a"
proof (induction "is")
  case (Cons i "is")
  obtain n as where i: "i = (n, as)" by (cases i)
  show ?case
  proof (cases as)
    case (Some l)
    then show ?thesis
    proof (cases "match_addrs ip l")
      case (Val found)
      with Cons i Some show ?thesis
        by (cases found) (auto dest!: match_addrs_sound)
    qed (use Cons i Some in simp_all)
  qed (use Cons i in simp)
qed simp

lemma SetLog_configuration [simp]:
  "c_Configuration (SetLogEnable e c) = c_Configuration c" "c_Configuration (SetLogLevel l c) = c_Configuration c"
  "c_Configuration (SetLogReportCaller r c) = c_Configuration c"
  by (simp_all add: SetLogEnable_def SetLogLevel_def SetLogReportCaller_def)

lemma App_configuration [simp]:
  "c_Configuration (fst (App_SetLogEnable e s)) = c_Configuration (fst s)"
  "c_Configuration (fst (App_SetLogLevel p l s)) = c_Configuration (fst s)"
  "c_Configuration (fst (App_SetReportCaller r s)) = c_Configuration (fst s)"
  by (simp_all add: App_SetLogEnable_def App_SetLogLevel_def App_SetReportCaller_def split: prod.split option.split)

text \<open>
  After the start the logger's output and its caller reports are those the configuration asks for,
  and the rest of the configuration is untouched; the interface used for IPsec is one of the host
  that has the IKE address.
\<close>

lemma App_SetLogEnable_settles:
  "ls_Out (snd (App_SetLogEnable e s)) = (if e then Stderr else Discard)"
  "GetLogReportCaller (fst (App_SetLogEnable e s)) = GetLogReportCaller (fst s)"
  "ls_ReportCaller (snd (App_SetLogEnable e s)) = ls_ReportCaller (snd s)"
  by (cases s; cases "ls_Out (snd s)";
      auto simp: App_SetLogEnable_def SetLogEnable_def GetLogReportCaller_def split: option.split)+

lemma App_SetLogLevel_keeps:
  "ls_Out (snd (App_SetLogLevel p v s)) = ls_Out (snd s)"
  "GetLogReportCaller (fst (App_SetLogLevel p v s)) = GetLogReportCaller (fst s)"
  by (auto simp: App_SetLogLevel_def SetLogLevel_def GetLogReportCaller_def split: option.split prod.split)

lemma App_SetReportCaller_settles:
  "ls_ReportCaller (snd (App_SetReportCaller r s)) = r"
  "ls_Out (snd (App_SetReportCaller r s)) = ls_Out (snd s)"
  by (auto simp: App_SetReportCaller_def split: prod.split)

lemma NewApp_settled:
  assumes "NewApp h tls parse (cfg, l) = (r, cfg', l')"
  shows "c_Configuration cfg' = c_Configuration cfg \<and> (ls_Out l' = Stderr) = GetLogEnable cfg
    \<and> ls_ReportCaller l' = GetLogReportCaller cfg"
proof -
  have s: "(cfg', l') = snd (NewApp h tls parse (cfg, l))" using assms by simp
  have "cfg' = fst (snd (NewApp h tls parse (cfg, l)))" "l' = snd (snd (NewApp h tls parse (cfg, l)))"
    using s by (metis fst_conv, metis snd_conv)
  then show ?thesis
    by (simp add: NewApp_def Let_def App_SetLogEnable_settles App_SetLogLevel_keeps App_SetReportCaller_settles)
qed

lemma getInterfaceName_sound:
  assumes "getInterfaceName h addr = Val name"
  obtains "is" as a where "h_Interfaces h = Some is" "(name, Some as) \<in> set is" "a \<in> set as"
    "h_ResolveIPAddr h addr = Some (takeWhile (\<lambda>c. c \<noteq> CHR ''/'') a)"
  using assms match_ifaces_sound by (fastforce simp: getInterfaceName_def split: option.splits)

lemma cli_override_settings:
  "c_Configuration (cli_override c cfg) = c_Configuration cfg"
  "GetLogEnable (cli_override c cfg) = (\<not> cli_nolog c \<and> GetLogEnable cfg)"
  "GetLogReportCaller (cli_override c cfg) = (cli_reportcaller c \<or> GetLogReportCaller cfg)"
  by (auto simp: cli_override_def Let_def GetLogEnable_def GetLogReportCaller_def SetLogEnable_def SetLogLevel_def
      SetLogReportCaller_def split: option.split)

text \<open>
  What the command line asks of the log wins over the file, and the program runs with the
  configuration that was read.
\<close>

lemma action_settled:
  assumes "action h v unmarshal parse c l = Val (ctx, cfg', l')"
  obtains cfg where "ReadConfig v (h_ReadFile h) unmarshal (cli_config c) = Val cfg"
    "c_Configuration cfg' = c_Configuration cfg"
    "(ls_Out l' = Stderr) = (\<not> cli_nolog c \<and> GetLogEnable cfg)"
    "ls_ReportCaller l' = (cli_reportcaller c \<or> GetLogReportCaller cfg)"
proof -
  obtain tls cfg where r: "ReadConfig v (h_ReadFile h) unmarshal (cli_config c) = Val cfg"
    and n: "NewApp h tls parse (cli_override c cfg, l) = (Val ctx, cfg', l')"
    using assms by (auto simp: action_def pbind_def split: gores.splits prod.splits)
  show ?thesis using that [OF r] NewApp_settled [OF n] by (simp add: cli_override_settings)
qed

end
