(* ===== verification/Ngap_Send.thy ===== *)
theory Ngap_Send
  imports Ngap_Build
begin

text \<open>
  Sending NGAP messages to the AMF (\<open>src/internal/ngap/message/send.go\<close>): every \<open>Send\<close> function
  checks its arguments, builds the message and writes it on the SCTP connection of the AMF. A
  message that cannot be built or written is dropped with a log entry. A UE that is a nil
  interface is \<open>None\<close>: calling a method on it panics.
\<close>

definition MaxNumOfPDUSessions :: nat where "MaxNumOfPDUSessions = 256"

text \<open>Write on an SCTP connection; an error is only logged.\<close>

definition sctp_write :: "('x, 'm) ngap_env_scheme \<Rightarrow> nat \<Rightarrow> octets \<Rightarrow> 'x world \<Rightarrow> 'x world" where
  "sctp_write env conn pkt w = w\<lparr>ext := snd (e_SCTP_Write env conn pkt (ext w))\<rparr>"

definition SendToAmf :: "('x, 'm) ngap_env_scheme \<Rightarrow> addr option \<Rightarrow> octets \<Rightarrow> 'x world \<Rightarrow> bool gores \<times> 'x world" where
  "SendToAmf env amf pkt w =
     (if amf = None then (Val False, w)
      else gbind (deref amfs amf w) (\<lambda>m w. (Val True, sctp_write env (amf_SCTPConn m) pkt w)))"

text \<open>Send what was built; a message that could not be built is dropped.\<close>

definition send_built :: "('x, 'm) ngap_env_scheme \<Rightarrow> addr option \<Rightarrow> octets gores \<Rightarrow> 'x world \<Rightarrow> unit gores \<times> 'x world" where
  "send_built env amf r w =
     (case r of Val pkt \<Rightarrow> gbind (SendToAmf env amf pkt w) (\<lambda>_ w. (Val (), w))
      | Err e \<Rightarrow> (Val (), w)
      | Crash p \<Rightarrow> (Crash p, w))"

text \<open>Send a message built from a UE to its AMF.\<close>

definition send_ue :: "('x, 'm) ngap_env_scheme \<Rightarrow> addr option \<Rightarrow> (RanUe \<Rightarrow> 'x world \<Rightarrow> octets gores) \<Rightarrow> 'x world
    \<Rightarrow> unit gores \<times> 'x world" where
  "send_ue env u build w = gbind (deref ranues u w) (\<lambda>ue w. send_built env (ru_AMF ue) (build ue w) w)"

definition too_long :: "transfer_item list option \<Rightarrow> bool" where
  "too_long l = (case l of None \<Rightarrow> False | Some xs \<Rightarrow> length xs > MaxNumOfPDUSessions)"

definition SendNGSetupRequest :: "('x, 'm) ngap_env_scheme \<Rightarrow> nat \<Rightarrow> 'x world \<Rightarrow> unit gores \<times> 'x world" where
  "SendNGSetupRequest env conn w =
     (if \<not> fst (AMFReInitAvailableListLoad (e_RemoteAddr env conn) w) then (Val (), w)
      else case BuildNGSetupRequest env (e_GlobalN3iwfId env) (e_RanNodeName env) (e_SupportedTAList env) of
             Val pkt \<Rightarrow> (Val (), sctp_write env conn pkt w)
           | Err e \<Rightarrow> (Val (), w)
           | Crash p \<Rightarrow> (Crash p, w))"

definition SendNGReset :: "('x, 'm) ngap_env_scheme \<Rightarrow> addr option \<Rightarrow> Cause \<Rightarrow> (int option \<times> int option) list option
    \<Rightarrow> 'x world \<Rightarrow> unit gores \<times> 'x world" where
  "SendNGReset env amf cause partOfNGInterface = send_built env amf (BuildNGReset env cause partOfNGInterface)"

definition SendNGResetAcknowledge :: "('x, 'm) ngap_env_scheme \<Rightarrow> addr option \<Rightarrow> (int option \<times> int option) list option
    \<Rightarrow> CriticalityDiagnostics option \<Rightarrow> 'x world \<Rightarrow> unit gores \<times> 'x world" where
  "SendNGResetAcknowledge env amf partOfNGInterface diagnostics w =
     (if partOfNGInterface = Some [] then (Val (), w)
      else send_built env amf (BuildNGResetAcknowledge env partOfNGInterface diagnostics) w)"

definition SendInitialContextSetupResponse :: "('x, 'm) ngap_env_scheme \<Rightarrow> addr option \<Rightarrow> transfer_item list option
    \<Rightarrow> transfer_item list option \<Rightarrow> CriticalityDiagnostics option \<Rightarrow> 'x world \<Rightarrow> unit gores \<times> 'x world" where
  "SendInitialContextSetupResponse env ranUe responseList failedList criticalityDiagnostics w =
     (if too_long responseList then (Val (), w)
      else if too_long failedList then (Val (), w)
      else send_ue env ranUe (\<lambda>ue _. BuildInitialContextSetupResponse env ue responseList failedList criticalityDiagnostics) w)"

definition SendInitialContextSetupFailure :: "('x, 'm) ngap_env_scheme \<Rightarrow> addr option \<Rightarrow> Cause \<Rightarrow> transfer_item list option
    \<Rightarrow> CriticalityDiagnostics option \<Rightarrow> 'x world \<Rightarrow> unit gores \<times> 'x world" where
  "SendInitialContextSetupFailure env ranUe cause failedList criticalityDiagnostics w =
     (if too_long failedList then (Val (), w)
      else send_ue env ranUe (\<lambda>ue _. BuildInitialContextSetupFailure env ue cause failedList criticalityDiagnostics) w)"

definition SendUEContextModificationResponse :: "('x, 'm) ngap_env_scheme \<Rightarrow> addr option \<Rightarrow> CriticalityDiagnostics option
    \<Rightarrow> 'x world \<Rightarrow> unit gores \<times> 'x world" where
  "SendUEContextModificationResponse env ranUe criticalityDiagnostics =
     send_ue env ranUe (\<lambda>ue _. BuildUEContextModificationResponse env ue criticalityDiagnostics)"

definition SendUEContextModificationFailure :: "('x, 'm) ngap_env_scheme \<Rightarrow> addr option \<Rightarrow> Cause
    \<Rightarrow> CriticalityDiagnostics option \<Rightarrow> 'x world \<Rightarrow> unit gores \<times> 'x world" where
  "SendUEContextModificationFailure env ranUe cause criticalityDiagnostics =
     send_ue env ranUe (\<lambda>ue _. BuildUEContextModificationFailure env ue cause criticalityDiagnostics)"

definition SendUEContextReleaseComplete :: "('x, 'm) ngap_env_scheme \<Rightarrow> addr option \<Rightarrow> CriticalityDiagnostics option
    \<Rightarrow> 'x world \<Rightarrow> unit gores \<times> 'x world" where
  "SendUEContextReleaseComplete env ranUe criticalityDiagnostics =
     send_ue env ranUe (\<lambda>ue. BuildUEContextReleaseComplete env ue criticalityDiagnostics)"

definition SendUEContextReleaseRequest :: "('x, 'm) ngap_env_scheme \<Rightarrow> addr option \<Rightarrow> Cause \<Rightarrow> 'x world
    \<Rightarrow> unit gores \<times> 'x world" where
  "SendUEContextReleaseRequest env ranUe cause = send_ue env ranUe (\<lambda>ue. BuildUEContextReleaseRequest env ue cause)"

definition SendInitialUEMessage :: "('x, 'm) ngap_env_scheme \<Rightarrow> addr option \<Rightarrow> addr option \<Rightarrow> octets \<Rightarrow> 'x world
    \<Rightarrow> unit gores \<times> 'x world" where
  "SendInitialUEMessage env amf ranUe nasPdu = send_ue env ranUe (\<lambda>ue _. BuildInitialUEMessage env ue nasPdu None)"

definition SendUplinkNASTransport :: "('x, 'm) ngap_env_scheme \<Rightarrow> addr option \<Rightarrow> octets \<Rightarrow> 'x world \<Rightarrow> unit gores \<times> 'x world" where
  "SendUplinkNASTransport env ranUe nasPdu w =
     (if length nasPdu = 0 then (Val (), w) else send_ue env ranUe (\<lambda>ue _. BuildUplinkNASTransport env ue nasPdu) w)"

definition SendNASNonDeliveryIndication :: "('x, 'm) ngap_env_scheme \<Rightarrow> addr option \<Rightarrow> octets \<Rightarrow> Cause \<Rightarrow> 'x world
    \<Rightarrow> unit gores \<times> 'x world" where
  "SendNASNonDeliveryIndication env ranUe nasPdu cause w =
     (if length nasPdu = 0 then (Val (), w) else send_ue env ranUe (\<lambda>ue _. BuildNASNonDeliveryIndication env ue nasPdu cause) w)"

definition SendPDUSessionResourceSetupResponse :: "('x, 'm) ngap_env_scheme \<Rightarrow> addr option \<Rightarrow> transfer_item list option
    \<Rightarrow> transfer_item list option \<Rightarrow> CriticalityDiagnostics option \<Rightarrow> 'x world \<Rightarrow> unit gores \<times> 'x world" where
  "SendPDUSessionResourceSetupResponse env ranUe responseList failedListSURes criticalityDiagnostics w =
     (if ranUe = None then (Val (), w)
      else send_ue env ranUe (\<lambda>ue _. BuildPDUSessionResourceSetupResponse env ue responseList failedListSURes criticalityDiagnostics) w)"

text \<open>Without a UE the message is dropped only when there are no diagnostics either; otherwise it panics.\<close>

definition SendPDUSessionResourceModifyResponse :: "('x, 'm) ngap_env_scheme \<Rightarrow> addr option \<Rightarrow> transfer_item list option
    \<Rightarrow> transfer_item list option \<Rightarrow> CriticalityDiagnostics option \<Rightarrow> 'x world \<Rightarrow> unit gores \<times> 'x world" where
  "SendPDUSessionResourceModifyResponse env ranUe responseList failedList criticalityDiagnostics w =
     (if ranUe = None \<and> criticalityDiagnostics = None then (Val (), w)
      else send_ue env ranUe (\<lambda>ue _. BuildPDUSessionResourceModifyResponse env ue responseList failedList criticalityDiagnostics) w)"

definition SendPDUSessionResourceModifyIndication :: "('x, 'm) ngap_env_scheme \<Rightarrow> addr option \<Rightarrow> transfer_item list option
    \<Rightarrow> 'x world \<Rightarrow> unit gores \<times> 'x world" where
  "SendPDUSessionResourceModifyIndication env ranUe modifyList w =
     (if ranUe = None then (Val (), w)
      else case modifyList of None \<Rightarrow> (Val (), w)
      | Some l \<Rightarrow> send_ue env ranUe (\<lambda>ue _. BuildPDUSessionResourceModifyIndication env ue l) w)"

definition SendPDUSessionResourceNotify :: "('x, 'm) ngap_env_scheme \<Rightarrow> addr option \<Rightarrow> transfer_item list option
    \<Rightarrow> transfer_item list option \<Rightarrow> 'x world \<Rightarrow> unit gores \<times> 'x world" where
  "SendPDUSessionResourceNotify env ranUe notiList relList w =
     (if ranUe = None then (Val (), w)
      else send_ue env ranUe (\<lambda>ue _. BuildPDUSessionResourceNotify env ue notiList relList) w)"

definition SendPDUSessionResourceReleaseResponse :: "('x, 'm) ngap_env_scheme \<Rightarrow> addr option \<Rightarrow> transfer_item list
    \<Rightarrow> CriticalityDiagnostics option \<Rightarrow> 'x world \<Rightarrow> unit gores \<times> 'x world" where
  "SendPDUSessionResourceReleaseResponse env ranUe relList diagnostics w =
     (if ranUe = None then (Val (), w)
      else if length relList < 1 then (Val (), w)
      else send_ue env ranUe (\<lambda>ue _. BuildPDUSessionResourceReleaseResponse env ue relList diagnostics) w)"

definition SendErrorIndication :: "('x, 'm) ngap_env_scheme \<Rightarrow> addr option \<Rightarrow> int option \<Rightarrow> int option \<Rightarrow> Cause option
    \<Rightarrow> CriticalityDiagnostics option \<Rightarrow> 'x world \<Rightarrow> unit gores \<times> 'x world" where
  "SendErrorIndication env amf amfUENGAPID ranUENGAPID cause criticalityDiagnostics w =
     (if cause = None \<and> criticalityDiagnostics = None then (Val (), w)
      else send_built env amf (BuildErrorIndication env amfUENGAPID ranUENGAPID cause criticalityDiagnostics) w)"

definition SendErrorIndicationWithSctpConn :: "('x, 'm) ngap_env_scheme \<Rightarrow> nat \<Rightarrow> int option \<Rightarrow> int option \<Rightarrow> Cause option
    \<Rightarrow> CriticalityDiagnostics option \<Rightarrow> 'x world \<Rightarrow> unit gores \<times> 'x world" where
  "SendErrorIndicationWithSctpConn env sctpConn amfUENGAPID ranUENGAPID cause criticalityDiagnostics w =
     (if cause = None \<and> criticalityDiagnostics = None then (Val (), w)
      else case BuildErrorIndication env amfUENGAPID ranUENGAPID cause criticalityDiagnostics of
             Val pkt \<Rightarrow> (Val (), sctp_write env sctpConn pkt w)
           | Err e \<Rightarrow> (Val (), w)
           | Crash p \<Rightarrow> (Crash p, w))"

text \<open>The AMF argument is not used: the message goes to the AMF of the UE.\<close>

definition SendUERadioCapabilityCheckResponse :: "('x, 'm) ngap_env_scheme \<Rightarrow> addr option \<Rightarrow> addr option
    \<Rightarrow> CriticalityDiagnostics option \<Rightarrow> 'x world \<Rightarrow> unit gores \<times> 'x world" where
  "SendUERadioCapabilityCheckResponse env amf ranUe diagnostics =
     send_ue env ranUe (\<lambda>ue _. BuildUERadioCapabilityCheckResponse env ue diagnostics)"

definition SendAMFConfigurationUpdateAcknowledge :: "('x, 'm) ngap_env_scheme \<Rightarrow> addr option \<Rightarrow> TNLItem list option
    \<Rightarrow> TNLItem list option \<Rightarrow> CriticalityDiagnostics option \<Rightarrow> 'x world \<Rightarrow> unit gores \<times> 'x world" where
  "SendAMFConfigurationUpdateAcknowledge env amf setupList failList diagnostics =
     send_built env amf (BuildAMFConfigurationUpdateAcknowledge env setupList failList diagnostics)"

definition SendAMFConfigurationUpdateFailure :: "('x, 'm) ngap_env_scheme \<Rightarrow> addr option \<Rightarrow> Cause \<Rightarrow> TimeToWait option
    \<Rightarrow> CriticalityDiagnostics option \<Rightarrow> 'x world \<Rightarrow> unit gores \<times> 'x world" where
  "SendAMFConfigurationUpdateFailure env amf ngCause time diagnostics =
     send_built env amf (BuildAMFConfigurationUpdateFailure env ngCause time diagnostics)"

definition SendRANConfigurationUpdate :: "('x, 'm) ngap_env_scheme \<Rightarrow> addr option \<Rightarrow> 'x world \<Rightarrow> unit gores \<times> 'x world" where
  "SendRANConfigurationUpdate env amf w =
     gbind (deref amfs amf w) (\<lambda>m w.
       if \<not> fst (AMFReInitAvailableListLoad (amf_SCTPAddr m) w) then (Val (), w)
       else send_built env amf (BuildRANConfigurationUpdate env (e_RanNodeName env) (e_SupportedTAList env)) w)"

end
