(* ===== verification/Nas.thy ===== *)
theory Nas
  imports N3iwf_Prelude
begin

text \<open>
  NAS over TCP: the envelope of TS 24.502 9.4 (\<open>EncapNasMsgToEnvelope\<close>,
  \<open>src/internal/nas/nas_security/security.go\<close>) and the loop that takes the envelopes of a UE's
  TCP connection apart (\<open>serveConn\<close>, \<open>src/internal/nwucp/server.go\<close>). The connection is the
  list of the octets that arrive before it fails or is closed.
\<close>

definition EncapNasMsgToEnvelope :: "octets \<Rightarrow> octets" where
  "EncapNasMsgToEnvelope nasPDU = PutUint16 (of_nat (length nasPDU)) @ nasPDU"

definition MAX_BUF_MSG_LEN :: nat where "MAX_BUF_MSG_LEN = 65535"

text \<open>\<open>io.ReadFull\<close> of \<open>n\<close> octets: what was read and what is left, or an error.\<close>

definition ReadFull :: "nat \<Rightarrow> octets \<Rightarrow> (octets \<times> octets) option" where
  "ReadFull n s = (if n \<le> length s then Some (take n s, drop n s) else None)"

text \<open>Why \<open>serveConn\<close> returned.\<close>

datatype serve_end = ReadLengthFailed | ReadMessageFailed

text \<open>
  The loop of \<open>serveConn\<close>: the capacity of the buffer, the rest of the stream; the result is the
  list of the messages handed to \<open>forward\<close>, in order, the reason for returning and the capacity
  of the buffer at the end. Both returns leave \<open>ranUe.TCPConnection\<close> nil and close the connection.
\<close>

function serveConn_loop :: "nat \<Rightarrow> octets \<Rightarrow> octets list \<times> serve_end \<times> nat" where
  "serveConn_loop bufcap s =
     (case ReadFull 2 s of
        None \<Rightarrow> ([], ReadLengthFailed, bufcap)
      | Some (lenb, s1) \<Rightarrow>
          let nasLen = Uint16 lenb;
              bufcap' = (if unat nasLen > bufcap then unat nasLen else bufcap)
          in case ReadFull (unat nasLen) s1 of
               None \<Rightarrow> ([], ReadMessageFailed, bufcap')
             | Some (fwdNas, s2) \<Rightarrow>
                 let (fs, e, c) = serveConn_loop bufcap' s2 in (fwdNas # fs, e, c))"
  by pat_completeness auto

termination
  by (relation "measure (\<lambda>(_, s). length s)")
    (auto simp: ReadFull_def split: if_splits)

definition serveConn :: "octets \<Rightarrow> octets list \<times> serve_end \<times> nat" where
  "serveConn s = serveConn_loop MAX_BUF_MSG_LEN s"

section \<open>Framing\<close>

definition nas_unframe :: "octets \<Rightarrow> (octets \<times> octets) option" where
  "nas_unframe s = (case ReadFull 2 s of None \<Rightarrow> None
     | Some (l, s1) \<Rightarrow> ReadFull (unat (Uint16 l)) s1)"

definition nas_fits :: "octets \<Rightarrow> bool" where
  "nas_fits m = (length m < 2 ^ 16)"

lemmas serveConn_loop_simp = serveConn_loop.simps
declare serveConn_loop.simps [simp del]

lemma ReadFull_append: "ReadFull (length a) (a @ r) = Some (a, r)"
  by (simp add: ReadFull_def)

lemma ReadFull_PutUint16: "ReadFull 2 (PutUint16 v @ r) = Some (PutUint16 v, r)"
  using ReadFull_append [of "PutUint16 v" r] by simp

lemma unat_length_u16: "nas_fits m \<Longrightarrow> unat (of_nat (length m) :: u16) = length m"
  by (simp add: nas_fits_def unat_of_nat take_bit_nat_eq_self)

lemma forwarded_None: "nas_unframe s = None \<Longrightarrow> fst (serveConn_loop c s) = []"
  by (subst serveConn_loop_simp) (auto simp: nas_unframe_def Let_def split: option.splits prod.splits)

lemma forwarded_Some:
  "nas_unframe s = Some (m, r) \<Longrightarrow>
     \<exists>c'. fst (serveConn_loop c s) = m # fst (serveConn_loop c' r)"
  by (subst serveConn_loop_simp)
    (auto simp: nas_unframe_def Let_def split: option.splits prod.splits; metis fst_conv)

lemma forwarded_cap: "fst (serveConn_loop c s) = fst (serveConn_loop c' s)"
proof (induction c s arbitrary: c' rule: serveConn_loop.induct)
  case (1 c s)
  show ?case
  proof (cases "nas_unframe s")
    case None
    then show ?thesis by (simp add: forwarded_None)
  next
    case (Some mr)
    then obtain lenb s1 where r: "ReadFull 2 s = Some (lenb, s1)"
      "ReadFull (unat (Uint16 lenb)) s1 = Some mr"
      by (auto simp: nas_unframe_def split: option.splits)
    have "fst (serveConn_loop c s) = fst mr # fst (serveConn_loop
        (if unat (Uint16 lenb) > c then unat (Uint16 lenb) else c) (snd mr))" for c
      by (subst serveConn_loop_simp) (auto simp: r Let_def split: prod.splits)
    with r 1 show ?thesis by (metis prod.collapse)
  qed
qed

interpretation nas: framed_stream nas_fits EncapNasMsgToEnvelope nas_unframe
  "\<lambda>s. fst (serveConn s)"
proof
  show "nas_unframe (EncapNasMsgToEnvelope m @ r) = Some (m, r)" if "nas_fits m" for m r
    using that
    by (simp add: nas_unframe_def EncapNasMsgToEnvelope_def ReadFull_PutUint16 codec_simps
        unat_length_u16 ReadFull_append)
  show "nas_unframe (take n (EncapNasMsgToEnvelope m)) = None"
    if "nas_fits m" "n < length (EncapNasMsgToEnvelope m)" for m n
  proof (cases "n < 2")
    case True
    then show ?thesis by (simp add: nas_unframe_def ReadFull_def)
  next
    case False
    then have "take n (EncapNasMsgToEnvelope m) = PutUint16 (of_nat (length m)) @ take (n - 2) m"
      by (simp add: EncapNasMsgToEnvelope_def)
    then show ?thesis
      using that False
      by (simp add: nas_unframe_def ReadFull_PutUint16 codec_simps unat_length_u16)
        (simp add: ReadFull_def EncapNasMsgToEnvelope_def)
  qed
  show "nas_unframe [] = None"
    by (simp add: nas_unframe_def ReadFull_def)
  show "fst (serveConn s) = []" if "nas_unframe s = None" for s
    using that by (simp add: serveConn_def forwarded_None)
  show "fst (serveConn s) = m # fst (serveConn r)" if "nas_unframe s = Some (m, r)" for s m r
    using forwarded_Some [OF that] forwarded_cap unfolding serveConn_def by metis
qed

section \<open>Properties\<close>

text \<open>
  C17: The messages the N3IWF and a UE exchange over the NAS connection survive the framing: if a
  peer sends messages of fewer than 65536 octets in envelopes and the stream is cut after any
  number of octets, the messages handed to \<open>forward\<close> are a prefix of those sent, in order and
  unchanged; if nothing is cut, they are all forwarded.
\<close>

theorem serveConn_delivers_prefix:
  assumes "list_all nas_fits ms"
  shows "prefix (fst (serveConn (take n (concat (map EncapNasMsgToEnvelope ms))))) ms
    \<and> fst (serveConn (concat (map EncapNasMsgToEnvelope ms))) = ms"
  using assms nas.receive_cut [of ms n] nas.receive_frames [of ms "[]"]
  by (simp add: nas.receive_None nas.unframe_empty)

theorem serveConn_delivers_prefix_witness:
  "prefix (fst (serveConn (take 6 (concat (map EncapNasMsgToEnvelope [[1, 2], [], [3]]))))) [[1, 2], [], [3]]
    \<and> fst (serveConn (concat (map EncapNasMsgToEnvelope [[1, 2], [], [3]]))) = [[1, 2], [], [3]]"
  using serveConn_delivers_prefix [of "[[1, 2], [], [3]]" 6] by (simp add: nas_fits_def)

text \<open>
  The receive buffer is never reallocated: its capacity of 65535 octets is enough for every
  value of the length field, so the branch that allocates a larger buffer is dead.
\<close>

lemma serveConn_buffer_fixed: "snd (snd (serveConn s)) = MAX_BUF_MSG_LEN"
proof -
  have "\<not> unat v > MAX_BUF_MSG_LEN" for v :: u16
  proof -
    have "unat v < 2 ^ 16" using unsigned_less [of v] by simp
    then show ?thesis by (simp add: MAX_BUF_MSG_LEN_def)
  qed
  then have "snd (snd (serveConn_loop c s)) = MAX_BUF_MSG_LEN" if "c = MAX_BUF_MSG_LEN" for c
    using that
    by (induction c s rule: serveConn_loop.induct)
      (subst serveConn_loop_simp, fastforce simp: Let_def split: option.splits prod.splits)
  then show ?thesis by (simp add: serveConn_def)
qed

text \<open>
  C40: The envelope's length field is the length of the NAS message modulo 65536. Of a message of
  any length, the receiver takes the first octets, as many as the length modulo 65536, for the whole message,
  and reads what is left of the message as the envelopes that follow. A message arrives as it was sent
  exactly when it is shorter than 65536 octets.
\<close>

theorem EncapNas_length_wraps:
  "fst (serveConn (EncapNasMsgToEnvelope m @ s)) =
     take (length m mod 2 ^ 16) m # fst (serveConn (drop (length m mod 2 ^ 16) m @ s))
   \<and> (take (length m mod 2 ^ 16) m = m \<longleftrightarrow> nas_fits m)"
proof -
  let ?n = "length m mod 2 ^ 16"
  have n: "?n \<le> length m" by (rule mod_less_eq_dividend)
  have "unat (of_nat (length m) :: u16) = ?n" by (simp add: unat_of_nat take_bit_nat_def)
  with n have "nas_unframe (EncapNasMsgToEnvelope m @ s) = Some (take ?n m, drop ?n m @ s)"
    by (simp add: nas_unframe_def EncapNasMsgToEnvelope_def ReadFull_PutUint16 codec_simps ReadFull_def)
  then have "fst (serveConn (EncapNasMsgToEnvelope m @ s)) = take ?n m # fst (serveConn (drop ?n m @ s))"
    by (rule nas.receive_Some)
  moreover have "take ?n m = m \<longleftrightarrow> nas_fits m"
  proof
    assume "take ?n m = m"
    then have "length m \<le> ?n" by simp
    moreover have "?n < 2 ^ 16" by simp
    ultimately show "nas_fits m" by (simp only: nas_fits_def)
  qed (simp add: nas_fits_def)
  ultimately show ?thesis by blast
qed

end
