(* ===== verification/Ngap_Handlers.thy ===== *)
theory Ngap_Handlers
  imports Ngap_Send Nas
begin

text \<open>
  The handlers of the NGAP messages of the AMF (first half of \<open>src/internal/ngap/handler.go\<close>): one
  definition per \<open>Handle\<close> function, with its loop over the IEs, its guards and early returns. The
  locals a handler fills from the IEs are read off the IE list: the last IE with an identifier
  decides, and an IE whose value pointer is nil leaves nil. An early \<open>return\<close> is \<open>Val ()\<close>; using a
  nil pointer panics.
\<close>

section \<open>Reading the IEs\<close>

text \<open>The IEs of the message a handler expects; \<open>None\<close> when a pointer on the way is nil.\<close>

definition ies_of :: "pdu_kind \<Rightarrow> ngap_message \<Rightarrow> NGAPPDU option \<Rightarrow> ngap_ie list option" where
  "ies_of k m pdu =
     (case pdu of None \<Rightarrow> None
      | Some p \<Rightarrow>
          if pdu_Present p \<noteq> k then None
          else (case pdu_Outcome p of None \<Rightarrow> None
                | Some out \<Rightarrow> (case out_Message out of None \<Rightarrow> None
                    | Some (m', ies) \<Rightarrow> if m' = m then Some ies else None)))"

definition last_ie :: "(ie_value \<Rightarrow> 'a option) \<Rightarrow> ProtocolIE \<Rightarrow> ngap_ie list \<Rightarrow> 'a option" where
  "last_ie f i ies = foldl (\<lambda>acc ie. if ie_Id ie = i then Option.bind (ie_Value ie) f else acc) None ies"

definition as_Int :: "ie_value \<Rightarrow> int option" where "as_Int v = (case v of VInt i \<Rightarrow> Some i | _ \<Rightarrow> None)"
definition as_Octets :: "ie_value \<Rightarrow> octets option" where "as_Octets v = (case v of VOctets b \<Rightarrow> Some b | _ \<Rightarrow> None)"
definition as_String :: "ie_value \<Rightarrow> string option" where "as_String v = (case v of VString s \<Rightarrow> Some s | _ \<Rightarrow> None)"
definition as_Bits :: "ie_value \<Rightarrow> BitString option" where "as_Bits v = (case v of VBits b \<Rightarrow> Some b | _ \<Rightarrow> None)"
definition as_Cause :: "ie_value \<Rightarrow> Cause option" where "as_Cause v = (case v of VCause c \<Rightarrow> Some c | _ \<Rightarrow> None)"
definition as_Diagnostics :: "ie_value \<Rightarrow> CriticalityDiagnostics option" where
  "as_Diagnostics v = (case v of VDiagnostics d \<Rightarrow> Some d | _ \<Rightarrow> None)"
definition as_TimeToWait :: "ie_value \<Rightarrow> TimeToWait option" where
  "as_TimeToWait v = (case v of VTimeToWait t \<Rightarrow> Some t | _ \<Rightarrow> None)"
definition as_Reset :: "ie_value \<Rightarrow> ResetType option" where "as_Reset v = (case v of VReset r \<Rightarrow> Some r | _ \<Rightarrow> None)"
definition as_NSSAI :: "ie_value \<Rightarrow> SNSSAI list option" where "as_NSSAI v = (case v of VNSSAI l \<Rightarrow> Some l | _ \<Rightarrow> None)"
definition as_GUAMI :: "ie_value \<Rightarrow> GUAMI option" where "as_GUAMI v = (case v of VGUAMI g \<Rightarrow> Some g | _ \<Rightarrow> None)"
definition as_GUAMIList :: "ie_value \<Rightarrow> GUAMI list option" where
  "as_GUAMIList v = (case v of VGUAMIList l \<Rightarrow> Some l | _ \<Rightarrow> None)"
definition as_PLMNSupport :: "ie_value \<Rightarrow> PLMNSupportItem list option" where
  "as_PLMNSupport v = (case v of VPLMNSupport l \<Rightarrow> Some l | _ \<Rightarrow> None)"
definition as_SetupItems :: "ie_value \<Rightarrow> SetupRequestItem list option" where
  "as_SetupItems v = (case v of VSetupItems l \<Rightarrow> Some l | _ \<Rightarrow> None)"
definition as_Transfers :: "ie_value \<Rightarrow> transfer_item list option" where
  "as_Transfers v = (case v of VTransfers l \<Rightarrow> Some l | _ \<Rightarrow> None)"
definition as_UENGAPIDs :: "ie_value \<Rightarrow> UENGAPIDs option" where
  "as_UENGAPIDs v = (case v of VUENGAPIDs i \<Rightarrow> Some i | _ \<Rightarrow> None)"
definition as_TNLItems :: "ie_value \<Rightarrow> TNLItem list option" where
  "as_TNLItems v = (case v of VTNLItems l \<Rightarrow> Some l | _ \<Rightarrow> None)"
definition as_Overload :: "ie_value \<Rightarrow> int option option" where
  "as_Overload v = (case v of VOverload a \<Rightarrow> Some a | _ \<Rightarrow> None)"
definition as_OverloadNSSAI :: "ie_value \<Rightarrow> OverloadStartNSSAIItem list option" where
  "as_OverloadNSSAI v = (case v of VOverloadNSSAI l \<Rightarrow> Some l | _ \<Rightarrow> None)"

lemmas as_defs = as_Int_def as_Octets_def as_String_def as_Bits_def as_Cause_def as_Diagnostics_def
  as_TimeToWait_def as_Reset_def as_NSSAI_def as_GUAMI_def as_GUAMIList_def as_PLMNSupport_def
  as_SetupItems_def as_Transfers_def as_UENGAPIDs_def as_TNLItems_def as_Overload_def as_OverloadNSSAI_def

definition buildCriticalityDiagnosticsIEItem :: "Criticality \<Rightarrow> ProtocolIE \<Rightarrow> TypeOfError \<Rightarrow> CriticalityDiagnosticsIEItem" where
  "buildCriticalityDiagnosticsIEItem ieCriticality ieID typeOfErr =
     \<lparr>cdi_IECriticality = ieCriticality, cdi_IEID = ieID, cdi_TypeOfError = typeOfErr\<rparr>"

definition buildCriticalityDiagnostics :: "ProcedureCode option \<Rightarrow> TriggeringMessage option \<Rightarrow> Criticality option
    \<Rightarrow> CriticalityDiagnosticsIEItem list option \<Rightarrow> CriticalityDiagnostics" where
  "buildCriticalityDiagnostics procedureCode triggeringMessage procedureCriticality iesCriticalityDiagnostics =
     \<lparr>cd_ProcedureCode = procedureCode, cd_TriggeringMessage = triggeringMessage,
      cd_ProcedureCriticality = procedureCriticality, cd_IEsCriticalityDiagnostics = iesCriticalityDiagnostics\<rparr>"

definition missing_item :: "ProtocolIE \<Rightarrow> CriticalityDiagnosticsIEItem" where
  "missing_item i = buildCriticalityDiagnosticsIEItem CriticalityReject i Missing"

text \<open>
  The diagnostics items of the IEs whose value is nil, in the order of the message; \<open>mandatory\<close>
  says for which identifiers the handler looks, and how it reads the value.
\<close>

definition missing_ies :: "(ProtocolIE \<times> (ie_value \<Rightarrow> bool)) list \<Rightarrow> ngap_ie list \<Rightarrow> CriticalityDiagnosticsIEItem list" where
  "missing_ies mandatory ies =
     concat (map (\<lambda>ie. case map_of mandatory (ie_Id ie) of None \<Rightarrow> []
       | Some ok \<Rightarrow> (case ie_Value ie of None \<Rightarrow> [missing_item (ie_Id ie)]
           | Some v \<Rightarrow> if ok v then [] else [missing_item (ie_Id ie)])) ies)"

definition has :: "(ie_value \<Rightarrow> 'a option) \<Rightarrow> ie_value \<Rightarrow> bool" where
  "has f v = (f v \<noteq> None)"

definition ue_id_ies :: "(ProtocolIE \<times> (ie_value \<Rightarrow> bool)) list" where
  "ue_id_ies = [(IdAMFUENGAPID, has as_Int), (IdRANUENGAPID, has as_Int)]"

text \<open>\<open>printAndGetCause\<close>: a nil cause, or a cause whose value pointer is nil, panics.\<close>

definition printAndGetCause :: "Cause option \<Rightarrow> (CausePresent \<times> CauseValue option) gores" where
  "printAndGetCause cause =
     (case cause of None \<Rightarrow> Crash NilPointer
      | Some c \<Rightarrow>
          let val = (\<lambda>v. case v of None \<Rightarrow> Crash NilPointer | Some x \<Rightarrow> Val (cause_Present c, Some x)) in
          case cause_Present c of
            CausePresentRadioNetwork \<Rightarrow> val (cause_RadioNetwork c)
          | CausePresentTransport \<Rightarrow> val (cause_Transport c)
          | CausePresentProtocol \<Rightarrow> val (cause_Protocol c)
          | CausePresentNas \<Rightarrow> val (cause_Nas c)
          | CausePresentMisc \<Rightarrow> val (cause_Misc c)
          | _ \<Rightarrow> Val (cause_Present c, None))"

definition print_cause :: "Cause option \<Rightarrow> 'x world \<Rightarrow> unit gores \<times> 'x world" where
  "print_cause cause w = gbind (printAndGetCause cause, w) (\<lambda>_ w. (Val (), w))"

definition print_opt_cause :: "Cause option \<Rightarrow> 'x world \<Rightarrow> unit gores \<times> 'x world" where
  "print_opt_cause cause w = (if cause = None then (Val (), w) else print_cause cause w)"

text \<open>Write on the TCP connection of a UE; a UE without one panics. The result says whether it succeeded.\<close>

definition tcp_write :: "('x, 'm) ngap_env_scheme \<Rightarrow> nat option \<Rightarrow> octets \<Rightarrow> 'x world \<Rightarrow> bool gores \<times> 'x world" where
  "tcp_write env conn b w =
     (case conn of None \<Rightarrow> (Crash NilPointer, w)
      | Some c \<Rightarrow> (case e_TCP_Write env c b (ext w) of (ok, x) \<Rightarrow> (Val ok, w\<lparr>ext := x\<rparr>)))"

section \<open>NG set-up\<close>

definition HandleNGSetupResponse :: "('x, 'm) ngap_env_scheme \<Rightarrow> string \<Rightarrow> nat \<Rightarrow> NGAPPDU option \<Rightarrow> 'x world
    \<Rightarrow> unit gores \<times> 'x world" where
  "HandleNGSetupResponse env sctpAddr conn pdu w =
     (case ies_of SuccessfulOutcome NGSetupResponse pdu of None \<Rightarrow> (Val (), w)
      | Some ies \<Rightarrow>
          let missing = missing_ies [(IdAMFName, has as_String), (IdServedGUAMIList, has as_GUAMIList),
                (IdPLMNSupportList, has as_PLMNSupport)] ies in
          if missing \<noteq> [] then
            SendErrorIndicationWithSctpConn env conn None None
              (Some (BuildCause CausePresentProtocol AbstractSyntaxErrorReject))
              (Some (buildCriticalityDiagnostics (Some ProcNGSetup) (Some TriggeringSuccessfulOutcome)
                 (Some CriticalityReject) (Some missing))) w
          else
            case NewN3iwfAmf sctpAddr conn w of (a, w) \<Rightarrow>
              upd_amf (Some a) (\<lambda>m. m\<lparr>
                amf_AMFName := (case last_ie as_String IdAMFName ies of None \<Rightarrow> amf_AMFName m | x \<Rightarrow> x),
                amf_ServedGUAMIList := (case last_ie as_GUAMIList IdServedGUAMIList ies of None \<Rightarrow> amf_ServedGUAMIList m | x \<Rightarrow> x),
                amf_RelativeAMFCapacity := (case last_ie as_Int IdRelativeAMFCapacity ies of None \<Rightarrow> amf_RelativeAMFCapacity m | x \<Rightarrow> x),
                amf_PLMNSupportList := (case last_ie as_PLMNSupport IdPLMNSupportList ies of None \<Rightarrow> amf_PLMNSupportList m | x \<Rightarrow> x)\<rparr>) w)"

definition waiting_time :: "TimeToWait option \<Rightarrow> nat" where
  "waiting_time t = (case t of Some V1s \<Rightarrow> 1 | Some V2s \<Rightarrow> 2 | Some V5s \<Rightarrow> 5 | Some V10s \<Rightarrow> 10
     | Some V20s \<Rightarrow> 20 | Some V60s \<Rightarrow> 60 | _ \<Rightarrow> 0)"

definition HandleNGSetupFailure :: "('x, 'm) ngap_env_scheme \<Rightarrow> string \<Rightarrow> nat \<Rightarrow> NGAPPDU option \<Rightarrow> 'x world
    \<Rightarrow> unit gores \<times> 'x world" where
  "HandleNGSetupFailure env sctpAddr conn pdu w =
     (case ies_of UnsuccessfulOutcome NGSetupFailure pdu of None \<Rightarrow> (Val (), w)
      | Some ies \<Rightarrow>
          let missing = missing_ies [(IdCause, has as_Cause)] ies;
              waitingTime = waiting_time (last_ie as_TimeToWait IdTimeToWait ies) in
          if missing \<noteq> [] then
            SendErrorIndicationWithSctpConn env conn None None
              (Some (BuildCause CausePresentProtocol AbstractSyntaxErrorReject))
              (Some (buildCriticalityDiagnostics (Some ProcNGSetup) (Some TriggeringUnsuccessfullOutcome)
                 (Some CriticalityReject) (Some missing))) w
          else
            gbind (print_opt_cause (last_ie as_Cause IdCause ies) w) (\<lambda>_ w.
              if waitingTime \<noteq> 0 then
                let w = AMFReInitAvailableListStore sctpAddr False w
                in (Val (), w\<lparr>timers := timers w @ [NGSetupRetry sctpAddr conn waitingTime]\<rparr>)
              else (Val (), w)))"

section \<open>NG reset\<close>

text \<open>
  The loop over the connections of a partial reset. The variable \<open>ranUe\<close> is declared outside the
  loop: an item with neither identifier keeps the UE of the item before.
\<close>

fun reset_loop :: "('x, 'm) ngap_env_scheme \<Rightarrow> addr \<Rightarrow> addr option \<Rightarrow> (int option \<times> int option) list \<Rightarrow> 'x world
    \<Rightarrow> unit gores \<times> 'x world" where
  "reset_loop env amf ranUe [] w = (Val (), w)"
| "reset_loop env amf ranUe ((amfId, ranId) # items) w =
     gbind (case ranId of Some r \<Rightarrow> (Val (RanUePoolLoad r w), w)
        | None \<Rightarrow> (case amfId of
              Some i \<Rightarrow> gbind (deref amfs (Some amf) w) (\<lambda>m w. (FindUeByAmfUeNgapID m i w, w))
            | None \<Rightarrow> (Val ranUe, w))) (\<lambda>ranUe w.
       case ranUe of None \<Rightarrow> reset_loop env amf None items w
       | Some u \<Rightarrow> gtry (RanUe_Remove env u w) (\<lambda>_ w. reset_loop env amf (Some u) items w))"

definition HandleNGReset :: "('x, 'm) ngap_env_scheme \<Rightarrow> addr option \<Rightarrow> NGAPPDU option \<Rightarrow> 'x world \<Rightarrow> unit gores \<times> 'x world" where
  "HandleNGReset env amf pdu w =
     (case amf of None \<Rightarrow> (Val (), w)
      | Some a \<Rightarrow>
     case ies_of InitiatingMessage MsgNGReset pdu of None \<Rightarrow> (Val (), w)
      | Some ies \<Rightarrow>
          let missing = missing_ies [(IdResetType, has as_Reset)] ies in
          if missing \<noteq> [] then
            SendErrorIndication env amf None None None
              (Some (buildCriticalityDiagnostics (Some ProcNGReset) (Some TriggeringInitiatingMessage)
                 (Some CriticalityReject) (Some missing))) w
          else
            gbind (print_cause (last_ie as_Cause IdCause ies) w) (\<lambda>_ w.
              case last_ie as_Reset IdResetType ies of
                None \<Rightarrow> (Crash NilPointer, w)
              | Some ResetNGInterface \<Rightarrow>
                  gtry (RemoveAllRelatedUe env a w) (\<lambda>_ w. SendNGResetAcknowledge env amf None None w)
              | Some (ResetPartOfNGInterface part) \<Rightarrow>
                  (case part of None \<Rightarrow> (Val (), w)
                   | Some items \<Rightarrow>
                       gbind (reset_loop env a None items w) (\<lambda>_ w.
                         SendNGResetAcknowledge env amf part None w))
              | Some ResetNothing \<Rightarrow> (Val (), w)))"

text \<open>\<open>HandleNGResetAcknowledge\<close> only logs.\<close>

definition HandleNGResetAcknowledge :: "addr option \<Rightarrow> NGAPPDU option \<Rightarrow> 'x world \<Rightarrow> unit gores \<times> 'x world" where
  "HandleNGResetAcknowledge amf pdu w = (Val (), w)"

section \<open>PDU session set-up\<close>

text \<open>\<open>handlePDUSessionResourceSetupRequestTransfer\<close>: the IEs of the transfer first.\<close>

definition last_setup :: "(setup_transfer_ie \<Rightarrow> 'a option option) \<Rightarrow> setup_transfer_ie list \<Rightarrow> 'a option" where
  "last_setup f ies = foldl (\<lambda>acc ie. case f ie of None \<Rightarrow> acc | Some v \<Rightarrow> v) None ies"

definition missing_setup :: "setup_transfer_ie list \<Rightarrow> CriticalityDiagnosticsIEItem list" where
  "missing_setup ies = concat (map (\<lambda>ie. case ie of
       ULTunnel None \<Rightarrow> [missing_item IdULNGUUPTNLInformation]
     | SessionType None \<Rightarrow> [missing_item IdPDUSessionType]
     | SessionQosFlows None \<Rightarrow> [missing_item IdQosFlowSetupRequestList]
     | _ \<Rightarrow> []) ies)"

text \<open>
  The security indication of a session: integrity, then confidentiality; the verdict is \<open>False\<close>
  for a value that is neither of the three the program knows. Without an indication both are on.
\<close>

definition protection :: "ProtectionIndication \<Rightarrow> bool option" where
  "protection p = (case p of ProtectionNotNeeded \<Rightarrow> Some False | ProtectionPreferred \<Rightarrow> Some True
     | ProtectionRequired \<Rightarrow> Some True | ProtectionOther _ \<Rightarrow> None)"

definition apply_security :: "(ProtectionIndication \<times> ProtectionIndication) option \<Rightarrow> PDUSession \<Rightarrow> PDUSession \<times> bool" where
  "apply_security sec s =
     (case sec of None \<Rightarrow> (s\<lparr>ps_SecurityIntegrity := True, ps_SecurityCipher := True\<rparr>, True)
      | Some (integ, cipher) \<Rightarrow>
          (case protection integ of None \<Rightarrow> (s, False)
           | Some i \<Rightarrow>
               let s = s\<lparr>ps_SecurityIntegrity := i\<rparr> in
               (case protection cipher of None \<Rightarrow> (s, False)
                | Some c \<Rightarrow> (s\<lparr>ps_SecurityCipher := c\<rparr>, True))))"

text \<open>The loop over the QoS flows; it ends with \<open>False\<close> at an identifier outside \<open>uint8\<close>.\<close>

fun setup_qos_flows :: "(int \<times> octets) list \<Rightarrow> PDUSession \<Rightarrow> PDUSession \<times> bool" where
  "setup_qos_flows [] s = (s, True)"
| "setup_qos_flows ((qfi, params) # flows) s =
     (let s = s\<lparr>ps_QosFlows := gm_store qfi \<lparr>qf_Identifier = qfi, qf_Parameters = params\<rparr> (ps_QosFlows s)\<rparr> in
      if qfi < 0 \<or> qfi > 255 then (s, False)
      else setup_qos_flows flows (s\<lparr>ps_QFIList := ps_QFIList s @ [word_of_int qfi]\<rparr>))"

text \<open>The part that sets up the GTP tunnel: whether it succeeded, and the transfer to send when it did not.\<close>

definition setup_tunnel :: "('x, 'm) ngap_env_scheme \<Rightarrow> addr \<Rightarrow> addr \<Rightarrow> (octets \<times> octets) option option \<Rightarrow> 'x world
    \<Rightarrow> (bool \<times> octets) gores \<times> 'x world" where
  "setup_tunnel env u s tunnel w =
     (case tunnel of None \<Rightarrow> (Crash NilPointer, w)
      | Some None \<Rightarrow> (Crash NilPointer, w)
      | Some (Some (address, gtpTEID)) \<Rightarrow>
          let upfIPv4 = fst (e_IPAddressToString env address);
              failure = (\<lambda>p v. fst (BuildPDUSessionResourceSetupUnsuccessfulTransfer env (BuildCause p v) None)) in
          if upfIPv4 \<noteq> [] then
            if length gtpTEID < 4 then (Crash IndexRange, w)
            else
              case e_ResolveUDPAddr env (upfIPv4 @ e_GTPUPort env) of
                None \<Rightarrow> (Val (False, failure CausePresentTransport TransportResourceUnavailable), w)
              | Some upfUDPAddr \<Rightarrow>
                  (case NewTEID env u w of (ueTEID, w) \<Rightarrow>
                     if ueTEID = 0 then (Val (False, failure CausePresentProtocol ProtocolUnspecified), w)
                     else gbind (upd_session (Some s) (\<lambda>ps. ps\<lparr>ps_GTPConnInfo := Some
                            \<lparr>gtp_UPFIPAddr = upfIPv4, gtp_UPFUDPAddr = upfUDPAddr, gtp_IncomingTEID = ueTEID,
                             gtp_OutgoingTEID = Uint32 gtpTEID\<rparr>\<rparr>) w) (\<lambda>_ w. (Val (True, []), w)))
          else (Val (False, failure CausePresentProtocol AbstractSyntaxErrorReject), w))"

definition handlePDUSessionResourceSetupRequestTransfer :: "('x, 'm) ngap_env_scheme \<Rightarrow> addr \<Rightarrow> addr
    \<Rightarrow> setup_transfer_ie list \<Rightarrow> 'x world \<Rightarrow> (bool \<times> octets) gores \<times> 'x world" where
  "handlePDUSessionResourceSetupRequestTransfer env u s transfer w =
     (let ambr = last_setup (\<lambda>ie. case ie of SessionAMBR v \<Rightarrow> Some v | _ \<Rightarrow> None) transfer;
          tunnel = last_setup (\<lambda>ie. case ie of ULTunnel v \<Rightarrow> Some v | _ \<Rightarrow> None) transfer;
          type = last_setup (\<lambda>ie. case ie of SessionType v \<Rightarrow> Some v | _ \<Rightarrow> None) transfer;
          security = last_setup (\<lambda>ie. case ie of SessionSecurity v \<Rightarrow> Some v | _ \<Rightarrow> None) transfer;
          network = last_setup (\<lambda>ie. case ie of SessionNetworkInstance v \<Rightarrow> Some v | _ \<Rightarrow> None) transfer;
          flows = last_setup (\<lambda>ie. case ie of SessionQosFlows v \<Rightarrow> Some v | _ \<Rightarrow> None) transfer;
          missing = missing_setup transfer in
      if missing \<noteq> [] then
        (Val (False, fst (BuildPDUSessionResourceSetupUnsuccessfulTransfer env
           (BuildCause CausePresentProtocol AbstractSyntaxErrorFalselyConstructedMessage)
           (Some (buildCriticalityDiagnostics None None None (Some missing))))), w)
      else
        gbind (upd_session (Some s) (\<lambda>ps. ps\<lparr>ps_Ambr := ambr, ps_Type := type, ps_NetworkInstance := network\<rparr>) w) (\<lambda>_ w.
        gbind (deref sessions (Some s) w) (\<lambda>ps w.
        case apply_security security ps of (ps, secured) \<Rightarrow>
        gbind (upd_session (Some s) (\<lambda>_. ps) w) (\<lambda>_ w.
        if \<not> secured then
          (Val (False, fst (BuildPDUSessionResourceSetupUnsuccessfulTransfer env
             (BuildCause CausePresentProtocol SemanticError) None)), w)
        else
          case flows of None \<Rightarrow> (Crash NilPointer, w)
          | Some fs \<Rightarrow>
              (case setup_qos_flows fs ps of (ps, inrange) \<Rightarrow>
                 gbind (upd_session (Some s) (\<lambda>_. ps) w) (\<lambda>_ w.
                   if \<not> inrange then (Val (False, []), w) else setup_tunnel env u s tunnel w))))))"

text \<open>
  One item of the list of sessions to set up, as \<open>HandleInitialContextSetupRequest\<close> and
  \<open>HandlePDUSessionResourceSetupRequest\<close> treat it; \<open>add_failed\<close> appends to the failed list of the
  temporary data that the message at hand uses.
\<close>

definition setup_item :: "('x, 'm) ngap_env_scheme \<Rightarrow> addr \<Rightarrow> addr option
    \<Rightarrow> (transfer_item \<Rightarrow> PDUSessionSetupTemporaryData \<Rightarrow> PDUSessionSetupTemporaryData) \<Rightarrow> SetupRequestItem
    \<Rightarrow> 'x world \<Rightarrow> unit gores \<times> 'x world" where
  "setup_item env u t add_failed item w =
     (let pduSessionID = sri_PDUSessionID item; transfer = e_aper_SetupRequestTransfer env (sri_Transfer item) in
      gtry (CreatePDUSession u pduSessionID (sri_SNSSAI item) w) (\<lambda>pduSession w.
        case pduSession of
          None \<Rightarrow> upd_tmp t (add_failed (pduSessionID, fst (BuildPDUSessionResourceSetupUnsuccessfulTransfer env
                    (BuildCause CausePresentRadioNetwork MultiplePDUSessionIDInstances) None))) w
        | Some s \<Rightarrow>
            gbind (handlePDUSessionResourceSetupRequestTransfer env u s transfer w) (\<lambda>(success, resTransfer) w.
              if success then
                upd_tmp t (\<lambda>tmp. tmp\<lparr>tmp_UnactivatedPDUSession := tmp_UnactivatedPDUSession tmp @ [s]\<rparr>) w
              else
                gbind (DeletePDUSession u pduSessionID w) (\<lambda>_ w.
                  upd_tmp t (add_failed (pduSessionID, resTransfer)) w))))"

definition add_failed_Cxt :: "transfer_item \<Rightarrow> PDUSessionSetupTemporaryData \<Rightarrow> PDUSessionSetupTemporaryData" where
  "add_failed_Cxt i tmp =
     tmp\<lparr>tmp_FailedListCxtRes := map_option (\<lambda>l. AppendPDUSessionResource l (fst i) (snd i)) (tmp_FailedListCxtRes tmp)\<rparr>"

definition add_failed_SU :: "transfer_item \<Rightarrow> PDUSessionSetupTemporaryData \<Rightarrow> PDUSessionSetupTemporaryData" where
  "add_failed_SU i tmp =
     tmp\<lparr>tmp_FailedListSURes := map_option (\<lambda>l. AppendPDUSessionResource l (fst i) (snd i)) (tmp_FailedListSURes tmp)\<rparr>"

text \<open>The failed list of an initial context set-up failure: every session of the request, with the cause.\<close>

definition failed_all :: "('x, 'm) ngap_env_scheme \<Rightarrow> Cause \<Rightarrow> SetupRequestItem list \<Rightarrow> transfer_item list" where
  "failed_all env cause items =
     foldl (\<lambda>l item. AppendPDUSessionResource l (sri_PDUSessionID item)
       (fst (BuildPDUSessionResourceSetupUnsuccessfulTransfer env cause None))) [] items"

section \<open>Initial context set-up\<close>

text \<open>
  Finding the UE of a message by its two identifiers. \<open>Val None\<close>: an identifier is missing, so no
  UE was looked up; \<open>Err\<close>: there is no such UE or its AMF identifier is another one, the handler
  returns.
\<close>

definition find_ue :: "int option \<Rightarrow> int option \<Rightarrow> 'x world \<Rightarrow> addr option gores \<times> 'x world" where
  "find_ue amfUeNgapID ranUeNgapID w =
     (case (amfUeNgapID, ranUeNgapID) of
        (Some a, Some r) \<Rightarrow>
          (case RanUePoolLoad r w of None \<Rightarrow> (Err ''Unknown local UE NGAP ID'', w)
           | Some u \<Rightarrow>
               gbind (deref ranues (Some u) w) (\<lambda>ue w.
                 if ru_AmfUeNgapId ue \<noteq> a then (Err ''Inconsistent remote UE NGAP ID'', w) else (Val (Some u), w)))
      | _ \<Rightarrow> (Val None, w))"

definition icsr_mandatory :: "(ProtocolIE \<times> (ie_value \<Rightarrow> bool)) list" where
  "icsr_mandatory = ue_id_ies @ [(IdGUAMI, has as_GUAMI), (IdAllowedNSSAI, has as_NSSAI),
     (IdUESecurityCapabilities, has as_Octets), (IdSecurityKey, has as_Bits)]"

text \<open>The set-up of the sessions of the request: \<open>Val False\<close> when the handler returns with a failure message.\<close>

definition icsr_sessions :: "('x, 'm) ngap_env_scheme \<Rightarrow> addr \<Rightarrow> octets option \<Rightarrow> SetupRequestItem list option
    \<Rightarrow> 'x world \<Rightarrow> bool gores \<times> 'x world" where
  "icsr_sessions env u ambr items w =
     (case items of None \<Rightarrow> (Val True, w)
      | Some list \<Rightarrow>
          (case ambr of
             None \<Rightarrow>
               let cause = BuildCause CausePresentProtocol AbstractSyntaxErrorFalselyConstructedMessage in
               gbind (SendInitialContextSetupFailure env (Some u) cause (Some (failed_all env cause list))
                  (Some (buildCriticalityDiagnostics None None None (Some [missing_item IdUEAggregateMaximumBitRate]))) w)
                 (\<lambda>_ w. (Val False, w))
           | Some _ \<Rightarrow>
               gbind (upd_ranue (Some u) (\<lambda>ue. ue\<lparr>ru_Ambr := ambr\<rparr>) w) (\<lambda>_ w.
               gbind (deref ranues (Some u) w) (\<lambda>ue w.
               let t = ru_TemporaryPDUSessionSetupData ue in
               gbind (upd_tmp t (\<lambda>tmp. tmp\<lparr>tmp_SetupListCxtRes := Some [], tmp_FailedListCxtRes := Some [],
                 tmp_Index := 0, tmp_UnactivatedPDUSession := [],
                 tmp_NGAPProcedureCode := Some ProcInitialContextSetup\<rparr>) w) (\<lambda>_ w.
               gbind (gloop (setup_item env u t add_failed_Cxt) list w) (\<lambda>_ w. (Val True, w)))))))"

definition HandleInitialContextSetupRequest :: "('x, 'm) ngap_env_scheme \<Rightarrow> addr option \<Rightarrow> NGAPPDU option \<Rightarrow> 'x world
    \<Rightarrow> unit gores \<times> 'x world" where
  "HandleInitialContextSetupRequest env amf pdu w =
     (case ies_of InitiatingMessage InitialContextSetupRequest pdu of None \<Rightarrow> (Val (), w)
      | Some ies \<Rightarrow>
          let missing = missing_ies icsr_mandatory ies;
              items = last_ie as_SetupItems IdPDUSessionResourceSetupListCxtReq ies;
              amfUeNgapID = last_ie as_Int IdAMFUENGAPID ies; ranUeNgapID = last_ie as_Int IdRANUENGAPID ies in
          if missing \<noteq> [] then
            (case items of None \<Rightarrow> (Crash NilPointer, w)
             | Some list \<Rightarrow>
                 let cause = BuildCause CausePresentProtocol AbstractSyntaxErrorFalselyConstructedMessage in
                 SendInitialContextSetupFailure env None cause (Some (failed_all env cause list))
                   (Some (buildCriticalityDiagnostics None None None (Some missing))) w)
          else
            handler (
            gbind (find_ue amfUeNgapID ranUeNgapID w) (\<lambda>ranUe w.
            case ranUe of None \<Rightarrow> (Err ''RAN UE context is nil'', w)
            | Some u \<Rightarrow>
            gbind (upd_ranue (Some u) (\<lambda>ue. ue\<lparr>ru_AmfUeNgapId := the amfUeNgapID, ru_RanUeNgapId := the ranUeNgapID\<rparr>) w) (\<lambda>_ w.
            gbind (icsr_sessions env u (last_ie as_Octets IdUEAggregateMaximumBitRate ies) items w) (\<lambda>goes_on w.
            if \<not> goes_on then (Val (), w)
            else
            gbind (upd_ranue (Some u) (\<lambda>ue. ue\<lparr>
               ru_Guami := (case last_ie as_GUAMI IdGUAMI ies of None \<Rightarrow> ru_Guami ue | x \<Rightarrow> x),
               ru_AllowedNssai := (case last_ie as_NSSAI IdAllowedNSSAI ies of None \<Rightarrow> ru_AllowedNssai ue | x \<Rightarrow> x),
               ru_MaskedIMEISV := (case last_ie as_Octets IdMaskedIMEISV ies of None \<Rightarrow> ru_MaskedIMEISV ue | x \<Rightarrow> x),
               ru_RadioCapability := (case last_ie as_Octets IdUERadioCapability ies of None \<Rightarrow> ru_RadioCapability ue | x \<Rightarrow> x),
               ru_CoreNetworkAssistanceInformation := (case last_ie as_Octets IdCoreNetworkAssistanceInformation ies of
                  None \<Rightarrow> ru_CoreNetworkAssistanceInformation ue | x \<Rightarrow> x),
               ru_IndexToRfsp := (case last_ie as_Int IdIndexToRFSP ies of None \<Rightarrow> ru_IndexToRfsp ue | Some i \<Rightarrow> i),
               ru_SecurityCapabilities := (case last_ie as_Octets IdUESecurityCapabilities ies of
                  None \<Rightarrow> ru_SecurityCapabilities ue | x \<Rightarrow> x)\<rparr>) w) (\<lambda>_ w.
            gbind (deref ranues (Some u) w) (\<lambda>ue w.
            case IkeSpiLoad (ru_RanUeNgapId ue) w of None \<Rightarrow> (Err ''Cannot get spi from ngapid'', w)
            | Some spi \<Rightarrow>
                (case last_ie as_Bits IdSecurityKey ies of None \<Rightarrow> (Crash NilPointer, w)
                 | Some key \<Rightarrow>
                     (Val (), SendIkeEvt (SendEAPSuccessMsgEvt spi (bs_Bytes key) (int (length (ru_PduSessionList ue)))) w)))))))))"

section \<open>UE context modification and release\<close>

definition HandleUEContextModificationRequest :: "('x, 'm) ngap_env_scheme \<Rightarrow> addr option \<Rightarrow> NGAPPDU option \<Rightarrow> 'x world
    \<Rightarrow> unit gores \<times> 'x world" where
  "HandleUEContextModificationRequest env amf pdu w =
     (if amf = None then (Val (), w)
      else case ies_of InitiatingMessage UEContextModificationRequest pdu of None \<Rightarrow> (Val (), w)
      | Some ies \<Rightarrow>
          if missing_ies ue_id_ies ies \<noteq> [] then (Val (), w)
          else
            handler (
            gbind (find_ue (last_ie as_Int IdAMFUENGAPID ies) (last_ie as_Int IdRANUENGAPID ies) w) (\<lambda>u w.
            gbind (case last_ie as_Int IdNewAMFUENGAPID ies of None \<Rightarrow> (Val (), w)
                   | Some i \<Rightarrow> upd_ranue u (\<lambda>ue. ue\<lparr>ru_AmfUeNgapId := i\<rparr>) w) (\<lambda>_ w.
            gbind (case last_ie as_Octets IdUEAggregateMaximumBitRate ies of None \<Rightarrow> (Val (), w)
                   | Some b \<Rightarrow> upd_ranue u (\<lambda>ue. ue\<lparr>ru_Ambr := Some b\<rparr>) w) (\<lambda>_ w.
            gbind (case last_ie as_Octets IdUESecurityCapabilities ies of None \<Rightarrow> (Val (), w)
                   | Some b \<Rightarrow> upd_ranue u (\<lambda>ue. ue\<lparr>ru_SecurityCapabilities := Some b\<rparr>) w) (\<lambda>_ w.
            gbind (case last_ie as_Int IdIndexToRFSP ies of None \<Rightarrow> (Val (), w)
                   | Some i \<Rightarrow> upd_ranue u (\<lambda>ue. ue\<lparr>ru_IndexToRfsp := i\<rparr>) w) (\<lambda>_ w.
            gbind (SendUEContextModificationResponse env u None w) (\<lambda>_ w.
            gbind (deref ranues u w) (\<lambda>ue w.
            case IkeSpiLoad (ru_RanUeNgapId ue) w of None \<Rightarrow> (Err ''Cannot get spi from ngapid'', w)
            | Some spi \<Rightarrow>
                (case last_ie as_Bits IdSecurityKey ies of None \<Rightarrow> (Crash NilPointer, w)
                 | Some key \<Rightarrow> (Val (), SendIkeEvt (IKEContextUpdateEvt spi (bs_Bytes key)) w)))))))))))"

definition releaseIkeUeAndRanUe :: "('x, 'm) ngap_env_scheme \<Rightarrow> addr \<Rightarrow> 'x world \<Rightarrow> unit gores \<times> 'x world" where
  "releaseIkeUeAndRanUe env u w =
     gbind (deref ranues (Some u) w) (\<lambda>ue w.
       let w = (case IkeSpiLoad (ru_RanUeNgapId ue) w of None \<Rightarrow> w
                | Some localSPI \<Rightarrow> SendIkeEvt (IKEDeleteRequestEvt localSPI) w)
       in RanUe_Remove env u w)"

text \<open>The UE a release command names.\<close>

definition released_ue :: "addr \<Rightarrow> UENGAPIDs option \<Rightarrow> 'x world \<Rightarrow> addr option gores \<times> 'x world" where
  "released_ue amf ids w =
     (case ids of None \<Rightarrow> (Crash NilPointer, w)
      | Some (UENGAPIDPair pair) \<Rightarrow>
          (case pair of None \<Rightarrow> (Crash NilPointer, w)
           | Some (a, r) \<Rightarrow>
               (case RanUePoolLoad r w of Some u \<Rightarrow> (Val (Some u), w)
                | None \<Rightarrow> gbind (deref amfs (Some amf) w) (\<lambda>m w. (FindUeByAmfUeNgapID m a w, w))))
      | Some (UENGAPIDsAMFUENGAPID i) \<Rightarrow>
          (case i of None \<Rightarrow> (Crash NilPointer, w)
           | Some a \<Rightarrow> gbind (deref amfs (Some amf) w) (\<lambda>m w. (FindUeByAmfUeNgapID m a w, w)))
      | Some UENGAPIDsNothing \<Rightarrow> (Val None, w))"

definition HandleUEContextReleaseCommand :: "('x, 'm) ngap_env_scheme \<Rightarrow> addr option \<Rightarrow> NGAPPDU option \<Rightarrow> 'x world
    \<Rightarrow> unit gores \<times> 'x world" where
  "HandleUEContextReleaseCommand env amf pdu w =
     (case amf of None \<Rightarrow> (Val (), w)
      | Some a \<Rightarrow>
     case ies_of InitiatingMessage UEContextReleaseCommand pdu of None \<Rightarrow> (Val (), w)
      | Some ies \<Rightarrow>
          if missing_ies [(IdUENGAPIDs, has as_UENGAPIDs)] ies \<noteq> [] then (Val (), w)
          else
            gbind (released_ue a (last_ie as_UENGAPIDs IdUENGAPIDs ies) w) (\<lambda>ranUe w.
            case ranUe of None \<Rightarrow> (Val (), w)
            | Some u \<Rightarrow>
                gbind (print_opt_cause (last_ie as_Cause IdCause ies) w) (\<lambda>_ w.
                gbind (upd_ranue (Some u) (\<lambda>ue. ue\<lparr>ru_UeCtxRelState := True\<rparr>) w) (\<lambda>_ w.
                gbind (SendUEContextReleaseComplete env (Some u) None w) (\<lambda>_ w.
                  handler (releaseIkeUeAndRanUe env u w))))))"

section \<open>Downlink NAS\<close>

text \<open>
  The NAS PDU towards the UE: inside EAP-5G before the TCP connection is announced, in an envelope
  on the TCP connection once that is complete, cached in between.
\<close>

definition downlink_nas :: "('x, 'm) ngap_env_scheme \<Rightarrow> addr \<Rightarrow> octets \<Rightarrow> 'x world \<Rightarrow> unit gores \<times> 'x world" where
  "downlink_nas env u nasPDU w =
     gbind (deref ranues (Some u) w) (\<lambda>ue w.
     case IkeSpiLoad (ru_RanUeNgapId ue) w of None \<Rightarrow> (Val (), w)
     | Some spi \<Rightarrow>
         if \<not> ru_IsNASTCPConnEstablished ue then (Val (), SendIkeEvt (SendEAPNASMsgEvt spi nasPDU) w)
         else if ru_IsNASTCPConnEstablishedComplete ue
         then gbind (tcp_write env (ru_TCPConnection ue) (EncapNasMsgToEnvelope nasPDU) w) (\<lambda>_ w. (Val (), w))
         else upd_ranue (Some u) (\<lambda>ue. ue\<lparr>ru_TemporaryCachedNASMessage := Some (EncapNasMsgToEnvelope nasPDU)\<rparr>) w)"

definition HandleDownlinkNASTransport :: "('x, 'm) ngap_env_scheme \<Rightarrow> addr option \<Rightarrow> NGAPPDU option \<Rightarrow> 'x world
    \<Rightarrow> unit gores \<times> 'x world" where
  "HandleDownlinkNASTransport env amf pdu w =
     (if amf = None then (Val (), w)
      else case ies_of InitiatingMessage DownlinkNASTransport pdu of None \<Rightarrow> (Val (), w)
      | Some ies \<Rightarrow>
          (case last_ie as_Int IdRANUENGAPID ies of None \<Rightarrow> (Crash NilPointer, w)
           | Some r \<Rightarrow>
          (case RanUePoolLoad r w of None \<Rightarrow> (Val (), w)
           | Some u \<Rightarrow>
               gbind (deref ranues (Some u) w) (\<lambda>ue w.
               let amfUeNgapID = last_ie as_Int IdAMFUENGAPID ies in
               if amfUeNgapID \<noteq> None \<and> ru_AmfUeNgapId ue \<noteq> AmfUeNgapIdUnspecified \<and> ru_AmfUeNgapId ue \<noteq> the amfUeNgapID
               then (Val (), w)
               else
               gbind (upd_ranue (Some u) (\<lambda>ue. ue\<lparr>
                  ru_AmfUeNgapId := (case amfUeNgapID of None \<Rightarrow> ru_AmfUeNgapId ue | Some i \<Rightarrow> i),
                  ru_IndexToRfsp := (case last_ie as_Int IdIndexToRFSP ies of None \<Rightarrow> ru_IndexToRfsp ue | Some i \<Rightarrow> i),
                  ru_Ambr := (case last_ie as_Octets IdUEAggregateMaximumBitRate ies of None \<Rightarrow> ru_Ambr ue | x \<Rightarrow> x),
                  ru_AllowedNssai := (case last_ie as_NSSAI IdAllowedNSSAI ies of None \<Rightarrow> ru_AllowedNssai ue | x \<Rightarrow> x)\<rparr>) w) (\<lambda>_ w.
                 case last_ie as_Octets IdNASPDU ies of None \<Rightarrow> (Val (), w)
                 | Some nasPDU \<Rightarrow> downlink_nas env u nasPDU w)))))"

section \<open>PDU session resource set-up\<close>

text \<open>
  The NAS PDU of the request itself goes to the UE at once; \<open>Val False\<close> when the handler returns
  because that is not possible.
\<close>

definition forward_nas :: "('x, 'm) ngap_env_scheme \<Rightarrow> addr option \<Rightarrow> octets option \<Rightarrow> 'x world \<Rightarrow> bool gores \<times> 'x world" where
  "forward_nas env ranUe nasPDU w =
     (case nasPDU of None \<Rightarrow> (Val True, w)
      | Some b \<Rightarrow>
          if ranUe = None then (Val False, w)
          else gbind (deref ranues ranUe w) (\<lambda>ue w.
            if ru_TCPConnection ue = None then (Val False, w)
            else tcp_write env (ru_TCPConnection ue) (EncapNasMsgToEnvelope b) w))"

text \<open>
  After the sessions: when there are sessions to activate the IKE server is asked to create their
  child SAs, and the NAS PDU of the last item is cached for the UE (a nil one panics).
\<close>

definition start_sessions :: "addr \<Rightarrow> addr option \<Rightarrow> octets option \<Rightarrow> 'x world \<Rightarrow> unit gores \<times> 'x world" where
  "start_sessions u t accept w =
     gbind (deref tmps t w) (\<lambda>tmp w.
     if length (tmp_UnactivatedPDUSession tmp) = 0 then (Val (), w)
     else
       gbind (deref ranues (Some u) w) (\<lambda>ue w.
       case IkeSpiLoad (ru_RanUeNgapId ue) w of None \<Rightarrow> (Val (), w)
       | Some spi \<Rightarrow>
           let w = SendIkeEvt (CreatePDUSessionEvt spi (int (length (ru_PduSessionList ue)))
                     (ru_TemporaryPDUSessionSetupData ue)) w in
           case accept of None \<Rightarrow> (Crash NilPointer, w)
           | Some b \<Rightarrow> upd_ranue (Some u) (\<lambda>ue. ue\<lparr>ru_TemporaryCachedNASMessage := Some (EncapNasMsgToEnvelope b)\<rparr>) w))"

definition HandlePDUSessionResourceSetupRequest :: "('x, 'm) ngap_env_scheme \<Rightarrow> addr option \<Rightarrow> NGAPPDU option \<Rightarrow> 'x world
    \<Rightarrow> unit gores \<times> 'x world" where
  "HandlePDUSessionResourceSetupRequest env amf pdu w =
     (if amf = None then (Val (), w)
      else case ies_of InitiatingMessage PDUSessionResourceSetupRequest pdu of None \<Rightarrow> (Val (), w)
      | Some ies \<Rightarrow>
          let items = last_ie as_SetupItems IdPDUSessionResourceSetupListSUReq ies in
          if missing_ies (ue_id_ies @ [(IdPDUSessionResourceSetupListSUReq, has as_SetupItems)]) ies \<noteq> [] then (Val (), w)
          else
            handler (
            gbind (find_ue (last_ie as_Int IdAMFUENGAPID ies) (last_ie as_Int IdRANUENGAPID ies) w) (\<lambda>ranUe w.
            gbind (forward_nas env ranUe (last_ie as_Octets IdNASPDU ies) w) (\<lambda>goes_on w.
            if \<not> goes_on then (Val (), w)
            else
            gbind (deref ranues ranUe w) (\<lambda>ue w.
            let u = the ranUe; t = ru_TemporaryPDUSessionSetupData ue in
            gbind (upd_tmp t (\<lambda>tmp. tmp\<lparr>tmp_NGAPProcedureCode := Some ProcInitialContextSetup\<rparr>) w) (\<lambda>_ w.
            gbind (case items of None \<Rightarrow> (Val (), w)
               | Some list \<Rightarrow>
                   gbind (upd_tmp t (\<lambda>tmp. tmp\<lparr>tmp_SetupListSURes := Some [], tmp_FailedListSURes := Some [],
                     tmp_Index := 0, tmp_UnactivatedPDUSession := [],
                     tmp_NGAPProcedureCode := Some ProcPDUSessionResourceSetup\<rparr>) w) (\<lambda>_ w.
                     gloop (setup_item env u t add_failed_SU) list w)) (\<lambda>_ w.
              start_sessions u t (case items of Some (i # is) \<Rightarrow> sri_NASPDU (last (i # is)) | _ \<Rightarrow> None) w)))))))"

end
