(* ===== verification/Ngap_Procedures.thy ===== *)
theory Ngap_Procedures
  imports Ngap_Handlers
begin

text \<open>
  The other handlers of NGAP messages (\<open>src/internal/ngap/handler.go\<close>): modification and release of
  PDU sessions, error indication, radio capability check, configuration updates and overload
  control, and the dispatcher (\<open>src/internal/ngap/dispatcher.go\<close>).
\<close>

section \<open>PDU session resource modification\<close>

text \<open>
  The IEs of a modify request transfer: tunnel pairs (uplink, downlink), QoS flows with their
  parameters (a nil pointer is \<open>None\<close>), flows to release with a cause.
\<close>

datatype modify_transfer_ie =
    ModAMBR "octets option"
  | ModULTunnels "(octets \<times> octets) list option"
  | ModNetworkInstance "octets option"
  | ModQosFlows "(int \<times> octets option) list option"
  | ModQosRelease "(int \<times> Cause) list option"
  | ModOther

definition last_modify :: "(modify_transfer_ie \<Rightarrow> 'a option option) \<Rightarrow> modify_transfer_ie list \<Rightarrow> 'a option" where
  "last_modify f ies = foldl (\<lambda>acc ie. case f ie of None \<Rightarrow> acc | Some v \<Rightarrow> v) None ies"

definition empty_modify_ies :: "modify_transfer_ie list \<Rightarrow> CriticalityDiagnosticsIEItem list" where
  "empty_modify_ies ies = concat (map (\<lambda>ie. case ie of
       ModULTunnels (Some []) \<Rightarrow> [missing_item IdULNGUUPTNLModifyList]
     | ModQosFlows (Some []) \<Rightarrow> [missing_item IdQosFlowAddOrModifyRequestList]
     | ModQosRelease (Some []) \<Rightarrow> [missing_item IdQosFlowToReleaseList]
     | _ \<Rightarrow> []) ies)"

text \<open>The loop over the flows to add or modify: those answered and those failed are collected.\<close>

fun modify_flows :: "(int \<times> octets option) list \<Rightarrow> PDUSession \<Rightarrow> int list \<Rightarrow> (int \<times> Cause) list
    \<Rightarrow> (int list \<times> (int \<times> Cause) list) gores \<times> PDUSession" where
  "modify_flows [] s done failed = (Val (done, failed), s)"
| "modify_flows ((qfi, params) # flows) s done failed =
     (case gm_load (ps_QosFlows s) qfi of
        Some flow \<Rightarrow>
          (case params of None \<Rightarrow> (Crash NilPointer, s)
           | Some p \<Rightarrow> modify_flows flows (s\<lparr>ps_QosFlows := gm_store qfi (flow\<lparr>qf_Parameters := p\<rparr>) (ps_QosFlows s)\<rparr>)
                         (done @ [qfi]) failed)
      | None \<Rightarrow> modify_flows flows s done (failed @ [(qfi, BuildCause CausePresentRadioNetwork UnkownQosFlowID)]))"

fun release_flows :: "(int \<times> Cause) list \<Rightarrow> PDUSession \<Rightarrow> unit gores \<times> PDUSession" where
  "release_flows [] s = (Val (), s)"
| "release_flows ((qfi, cause) # flows) s =
     (case gm_load (ps_QosFlows s) qfi of
        Some _ \<Rightarrow>
          gbind (printAndGetCause (Some cause), s) (\<lambda>_ s.
            release_flows flows (s\<lparr>ps_QosFlows := gm_delete qfi (ps_QosFlows s)\<rparr>))
      | None \<Rightarrow> release_flows flows s)"

text \<open>\<open>handlePDUSessionResourceModifyRequestTransfer\<close> on the session: success and the transfer to answer.\<close>

definition modify_session :: "('x, 'm) ngap_env_scheme \<Rightarrow> modify_transfer_ie list \<Rightarrow> PDUSession
    \<Rightarrow> (bool \<times> octets) gores \<times> PDUSession" where
  "modify_session env transfer s =
     (let invalid = empty_modify_ies transfer;
          ambr = last_modify (\<lambda>ie. case ie of ModAMBR v \<Rightarrow> Some v | _ \<Rightarrow> None) transfer;
          tunnels = last_modify (\<lambda>ie. case ie of ModULTunnels v \<Rightarrow> Some v | _ \<Rightarrow> None) transfer;
          network = last_modify (\<lambda>ie. case ie of ModNetworkInstance v \<Rightarrow> Some v | _ \<Rightarrow> None) transfer;
          flows = last_modify (\<lambda>ie. case ie of ModQosFlows v \<Rightarrow> Some v | _ \<Rightarrow> None) transfer;
          release = last_modify (\<lambda>ie. case ie of ModQosRelease v \<Rightarrow> Some v | _ \<Rightarrow> None) transfer in
      if invalid \<noteq> [] then
        (Val (False, fst (BuildPDUSessionResourceModifyUnsuccessfulTransfer env
           (BuildCause CausePresentProtocol AbstractSyntaxErrorReject)
           (Some (buildCriticalityDiagnostics None None None (Some invalid))))), s)
      else
        gbind (modify_flows (case flows of None \<Rightarrow> [] | Some l \<Rightarrow> l) s [] []) (\<lambda>(done, failed) s.
        let s = s\<lparr>ps_Ambr := (case ambr of None \<Rightarrow> ps_Ambr s | x \<Rightarrow> x),
                  ps_NetworkInstance := (case network of None \<Rightarrow> ps_NetworkInstance s | x \<Rightarrow> x)\<rparr> in
        gbind (release_flows (case release of None \<Rightarrow> [] | Some l \<Rightarrow> l) s) (\<lambda>_ s.
          (Val (True, fst (BuildPDUSessionResourceModifyResponseTransfer env
             (case tunnels of Some ((ul, dl) # _) \<Rightarrow> Some ul | _ \<Rightarrow> None)
             (case tunnels of Some ((ul, dl) # _) \<Rightarrow> Some dl | _ \<Rightarrow> None) (Some done) (Some failed))), s))))"

definition handlePDUSessionResourceModifyRequestTransfer :: "('x, 'm) ngap_env_scheme \<Rightarrow> addr \<Rightarrow> modify_transfer_ie list
    \<Rightarrow> 'x world \<Rightarrow> (bool \<times> octets) gores \<times> 'x world" where
  "handlePDUSessionResourceModifyRequestTransfer env s transfer w =
     gbind (deref sessions (Some s) w) (\<lambda>ps w.
       case modify_session env transfer ps of (r, ps') \<Rightarrow>
         gbind (upd_session (Some s) (\<lambda>_. ps') w) (\<lambda>_ w. (r, w)))"

text \<open>
  The loop over the sessions to modify. The transfer is handed to the decoder by value, so whatever
  the decoder does the handler goes on with an empty transfer (or panics with the decoder).
\<close>

fun modify_loop :: "('x, 'm) ngap_env_scheme \<Rightarrow> addr option \<Rightarrow> transfer_item list \<Rightarrow> transfer_item list \<Rightarrow> transfer_item list
    \<Rightarrow> 'x world \<Rightarrow> (transfer_item list \<times> transfer_item list) gores \<times> 'x world" where
  "modify_loop env u [] done failed w = (Val (done, failed), w)"
| "modify_loop env u ((pduSessionID, coded) # items) done failed w =
     gtry (e_aper_UnmarshalValue env coded, w) (\<lambda>_ w.
     gbind (deref ranues u w) (\<lambda>ue w.
       case FindPDUSession ue pduSessionID of
         None \<Rightarrow> modify_loop env u items done (AppendPDUSessionResource failed pduSessionID
                   (fst (BuildPDUSessionResourceModifyUnsuccessfulTransfer env
                      (BuildCause CausePresentRadioNetwork UnknownPDUSessionID) None))) w
       | Some s \<Rightarrow>
           gbind (handlePDUSessionResourceModifyRequestTransfer env s [] w) (\<lambda>(success, resTransfer) w.
             if success then modify_loop env u items (AppendPDUSessionResource done pduSessionID resTransfer) failed w
             else modify_loop env u items done (AppendPDUSessionResource failed pduSessionID resTransfer) w)))"

definition HandlePDUSessionResourceModifyRequest :: "('x, 'm) ngap_env_scheme \<Rightarrow> addr option \<Rightarrow> NGAPPDU option \<Rightarrow> 'x world
    \<Rightarrow> unit gores \<times> 'x world" where
  "HandlePDUSessionResourceModifyRequest env amf pdu w =
     (if amf = None then (Val (), w)
      else case ies_of InitiatingMessage PDUSessionResourceModifyRequest pdu of None \<Rightarrow> (Val (), w)
      | Some ies \<Rightarrow>
          let missing = missing_ies (ue_id_ies @ [(IdPDUSessionResourceModifyListModReq, has as_Transfers)]) ies in
          if missing \<noteq> [] then
            SendPDUSessionResourceModifyResponse env None None None
              (Some (buildCriticalityDiagnostics None None None (Some missing))) w
          else
            handler (
            gbind (find_ue (last_ie as_Int IdAMFUENGAPID ies) (last_ie as_Int IdRANUENGAPID ies) w) (\<lambda>u w.
            gbind (modify_loop env u (case last_ie as_Transfers IdPDUSessionResourceModifyListModReq ies of None \<Rightarrow> []
                     | Some l \<Rightarrow> l) [] [] w) (\<lambda>(done, failed) w.
              SendPDUSessionResourceModifyResponse env u (Some done) (Some failed) None w))))"

text \<open>
  \<open>HandlePDUSessionResourceModifyConfirm\<close>. A UE found by its AMF identifier leaves the pointer to
  its context nil, so any session then panics.
\<close>

definition confirm_ue :: "addr \<Rightarrow> int option \<Rightarrow> int option \<Rightarrow> 'x world \<Rightarrow> (addr option \<times> addr option) gores \<times> 'x world" where
  "confirm_ue amf amfId ranId w =
     (case ranId of
        Some r \<Rightarrow>
          (case RanUePoolLoad r w of None \<Rightarrow> (Err ''Unknown local UE NGAP ID'', w)
           | Some u \<Rightarrow>
               (case amfId of None \<Rightarrow> (Val (Some u, Some u), w)
                | Some a \<Rightarrow>
                    gbind (deref ranues (Some u) w) (\<lambda>ue w.
                      if ru_AmfUeNgapId ue \<noteq> a then (Err ''Inconsistent remote UE NGAP ID'', w)
                      else (Val (Some u, Some u), w))))
      | None \<Rightarrow>
          (case amfId of None \<Rightarrow> (Val (None, None), w)
           | Some a \<Rightarrow>
               gbind (deref amfs (Some amf) w) (\<lambda>m w.
               gbind (FindUeByAmfUeNgapID m a w, w) (\<lambda>found w.
                 if found = None then (Err ''Inconsistent remote UE NGAP ID'', w) else (Val (found, None), w)))))"

definition confirm_item :: "('x, 'm) ngap_env_scheme \<Rightarrow> addr option \<Rightarrow> transfer_item \<Rightarrow> 'x world \<Rightarrow> unit gores \<times> 'x world" where
  "confirm_item env c item w =
     gbind (deref ranues c w) (\<lambda>ue w.
       case FindPDUSession ue (fst item) of None \<Rightarrow> (Val (), w)
       | Some s \<Rightarrow>
           (case e_aper_ModifyConfirmTransfer env (snd item) of
              Some (Some qfis) \<Rightarrow> upd_session (Some s)
                (\<lambda>ps. ps\<lparr>ps_QosFlows := foldl (\<lambda>m qfi. gm_delete qfi m) (ps_QosFlows ps) qfis\<rparr>) w
            | _ \<Rightarrow> (Val (), w)))"

definition confirm_failed_item :: "('x, 'm) ngap_env_scheme \<Rightarrow> addr option \<Rightarrow> transfer_item \<Rightarrow> 'x world \<Rightarrow> unit gores \<times> 'x world" where
  "confirm_failed_item env c item w =
     gbind (case e_aper_ModifyIndicationUnsuccessfulTransfer env (snd item) of None \<Rightarrow> (Val (), w)
            | Some cause \<Rightarrow> print_cause (Some cause) w) (\<lambda>_ w.
       upd_ranue c (\<lambda>ue. ue\<lparr>ru_PduSessionList := gm_delete (fst item) (ru_PduSessionList ue)\<rparr>) w)"

definition HandlePDUSessionResourceModifyConfirm :: "('x, 'm) ngap_env_scheme \<Rightarrow> addr option \<Rightarrow> NGAPPDU option \<Rightarrow> 'x world
    \<Rightarrow> unit gores \<times> 'x world" where
  "HandlePDUSessionResourceModifyConfirm env amf pdu w =
     (case amf of None \<Rightarrow> (Val (), w)
      | Some a \<Rightarrow>
     case ies_of SuccessfulOutcome PDUSessionResourceModifyConfirm pdu of None \<Rightarrow> (Val (), w)
      | Some ies \<Rightarrow>
          handler (
          gbind (confirm_ue a (last_ie as_Int IdAMFUENGAPID ies) (last_ie as_Int IdRANUENGAPID ies) w) (\<lambda>(ranUe, c) w.
          if ranUe = None then (Val (), w)
          else
          gbind (gloop (confirm_item env c) (case last_ie as_Transfers IdPDUSessionResourceModifyListModCfm ies of None \<Rightarrow> []
             | Some l \<Rightarrow> l) w) (\<lambda>_ w.
            gloop (confirm_failed_item env c) (case last_ie as_Transfers IdPDUSessionResourceFailedToModifyListModCfm ies of
               None \<Rightarrow> [] | Some l \<Rightarrow> l) w))))"

section \<open>PDU session resource release\<close>

definition getPDUSessionResourceReleaseResponseTransfer :: "('x, 'm) ngap_env_scheme \<Rightarrow> octets" where
  "getPDUSessionResourceReleaseResponseTransfer env = fst (e_aper_Marshal env ReleaseResponseTransfer)"

definition release_item :: "('x, 'm) ngap_env_scheme \<Rightarrow> addr \<Rightarrow> transfer_item \<Rightarrow> 'x world \<Rightarrow> unit gores \<times> 'x world" where
  "release_item env u item w =
     gbind (case e_aper_ReleaseCommandTransfer env (snd item) of None \<Rightarrow> (Val (), w)
            | Some cause \<Rightarrow> print_cause (Some cause) w) (\<lambda>_ w.
       upd_ranue (Some u) (\<lambda>ue. ue\<lparr>ru_PduSessionList := gm_delete (fst item) (ru_PduSessionList ue)\<rparr>) w)"

text \<open>After the checks of the identifiers: the sessions are deleted, the child SAs are to follow.\<close>

definition release_command :: "('x, 'm) ngap_env_scheme \<Rightarrow> addr \<Rightarrow> int \<Rightarrow> transfer_item list option \<Rightarrow> 'x world
    \<Rightarrow> unit gores \<times> 'x world" where
  "release_command env u ranId items w =
     (case items of None \<Rightarrow> (Crash NilPointer, w)
      | Some list \<Rightarrow>
          gbind (gloop (release_item env u) list w) (\<lambda>_ w.
          case IkeSpiLoad ranId w of None \<Rightarrow> (Val (), w)
          | Some localSPI \<Rightarrow>
              gbind (upd_ranue (Some u) (\<lambda>ue. ue\<lparr>ru_PduSessResRelState := True\<rparr>) w) (\<lambda>_ w.
                upd_ranue (Some u) (\<lambda>ue. ue\<lparr>ru_PduSessionReleaseList :=
                    map (\<lambda>item. (fst item, getPDUSessionResourceReleaseResponseTransfer env)) list\<rparr>)
                  (SendIkeEvt (SendChildSADeleteRequestEvt localSPI (map fst list)) w))))"

definition HandlePDUSessionResourceReleaseCommand :: "('x, 'm) ngap_env_scheme \<Rightarrow> addr option \<Rightarrow> NGAPPDU option \<Rightarrow> 'x world
    \<Rightarrow> unit gores \<times> 'x world" where
  "HandlePDUSessionResourceReleaseCommand env amf pdu w =
     (if amf = None then (Val (), w)
      else case ies_of InitiatingMessage PDUSessionResourceReleaseCommand pdu of None \<Rightarrow> (Val (), w)
      | Some ies \<Rightarrow>
          let missing = missing_ies (ue_id_ies @ [(IdPDUSessionResourceToReleaseListRelCmd, has as_Transfers)]) ies in
          if missing \<noteq> [] then
            SendErrorIndication env amf None None None
              (Some (buildCriticalityDiagnostics (Some ProcPDUSessionResourceRelease) (Some TriggeringInitiatingMessage)
                 (Some CriticalityReject) (Some missing))) w
          else
            (case last_ie as_Int IdRANUENGAPID ies of None \<Rightarrow> (Crash NilPointer, w)
             | Some r \<Rightarrow>
            (case RanUePoolLoad r w of
               None \<Rightarrow> SendErrorIndication env amf None None
                         (Some (BuildCause CausePresentRadioNetwork UnknownLocalUENGAPID)) None w
             | Some u \<Rightarrow>
                 gbind (deref ranues (Some u) w) (\<lambda>ue w.
                 case last_ie as_Int IdAMFUENGAPID ies of None \<Rightarrow> (Crash NilPointer, w)
                 | Some a \<Rightarrow>
                     if ru_AmfUeNgapId ue \<noteq> a then
                       SendErrorIndication env amf None (Some r)
                         (Some (BuildCause CausePresentRadioNetwork InconsistentRemoteUENGAPID)) None w
                     else release_command env u r (last_ie as_Transfers IdPDUSessionResourceToReleaseListRelCmd ies) w))))"

section \<open>Error indication and radio capability\<close>

definition HandleErrorIndication :: "('x, 'm) ngap_env_scheme \<Rightarrow> addr option \<Rightarrow> NGAPPDU option \<Rightarrow> 'x world
    \<Rightarrow> unit gores \<times> 'x world" where
  "HandleErrorIndication env amf pdu w =
     (if amf = None then (Val (), w)
      else case ies_of InitiatingMessage ErrorIndication pdu of None \<Rightarrow> (Val (), w)
      | Some ies \<Rightarrow>
          let amfId = last_ie as_Int IdAMFUENGAPID ies; ranId = last_ie as_Int IdRANUENGAPID ies;
              cause = last_ie as_Cause IdCause ies; diagnostics = last_ie as_Diagnostics IdCriticalityDiagnostics ies in
          if cause = None \<and> diagnostics = None then (Val (), w)
          else if (amfId = None) \<noteq> (ranId = None) then (Val (), w)
          else
            gbind (print_opt_cause cause w) (\<lambda>_ w.
            case ranId of None \<Rightarrow> (Crash NilPointer, w)
            | Some r \<Rightarrow>
                gbind (case RanUePoolLoad r w of None \<Rightarrow> (Val (), w)
                   | Some u \<Rightarrow> handler (releaseIkeUeAndRanUe env u w)) (\<lambda>_ w.
                gbind (deref amfs amf w) (\<lambda>m w.
                gbind (FindUeByAmfUeNgapID m (the amfId) w, w) (\<lambda>found w.
                  case found of None \<Rightarrow> (Val (), w)
                  | Some u \<Rightarrow> handler (releaseIkeUeAndRanUe env u w))))))"

definition HandleUERadioCapabilityCheckRequest :: "('x, 'm) ngap_env_scheme \<Rightarrow> addr option \<Rightarrow> NGAPPDU option \<Rightarrow> 'x world
    \<Rightarrow> unit gores \<times> 'x world" where
  "HandleUERadioCapabilityCheckRequest env amf pdu w =
     (if amf = None then (Val (), w)
      else case ies_of InitiatingMessage UERadioCapabilityCheckRequest pdu of None \<Rightarrow> (Val (), w)
      | Some ies \<Rightarrow>
          let missing = missing_ies ue_id_ies ies in
          if missing \<noteq> [] then
            SendErrorIndication env amf None None None
              (Some (buildCriticalityDiagnostics (Some ProcUERadioCapabilityCheck) (Some TriggeringInitiatingMessage)
                 (Some CriticalityReject) (Some missing))) w
          else
            (case last_ie as_Int IdRANUENGAPID ies of None \<Rightarrow> (Crash NilPointer, w)
             | Some r \<Rightarrow>
            (case RanUePoolLoad r w of
               None \<Rightarrow> SendErrorIndication env amf None None
                         (Some (BuildCause CausePresentRadioNetwork UnknownLocalUENGAPID)) None w
             | Some u \<Rightarrow> upd_ranue (Some u) (\<lambda>ue. ue\<lparr>ru_RadioCapability := last_ie as_Octets IdUERadioCapability ies\<rparr>) w)))"

section \<open>Configuration updates\<close>

text \<open>The key of an association in the list of the AMF.\<close>

definition tnl_key :: "('x, 'm) ngap_env_scheme \<Rightarrow> octets \<Rightarrow> string" where
  "tnl_key env a = (case e_IPAddressToString env a of (v4, v6) \<Rightarrow> v4 @ v6)"

text \<open>An association to add; the item that was stored is then completed through its pointer.\<close>

definition tnl_add :: "('x, 'm) ngap_env_scheme \<Rightarrow> N3IWFAMF \<Rightarrow> TNLItem \<Rightarrow> N3IWFAMF" where
  "tnl_add env m item =
     (case AddAMFTNLAssociationItem env (ti_Address item) m of (tnl, m) \<Rightarrow>
        m\<lparr>amf_AMFTNLAssociationList := gm_store (tnl_key env (ti_Address item))
           (tnl\<lparr>tnl_TNLAddressWeightFactor := ti_WeightFactor item,
               tnl_TNLAssociationUsage := (case ti_Usage item of None \<Rightarrow> tnl_TNLAssociationUsage tnl | x \<Rightarrow> x)\<rparr>)
           (amf_AMFTNLAssociationList m)\<rparr>)"

definition tnl_update :: "('x, 'm) ngap_env_scheme \<Rightarrow> N3IWFAMF \<Rightarrow> TNLItem \<Rightarrow> N3IWFAMF" where
  "tnl_update env m item =
     (case FindAMFTNLAssociationItem env (ti_Address item) m of None \<Rightarrow> m
      | Some tnl \<Rightarrow>
          m\<lparr>amf_AMFTNLAssociationList := gm_store (tnl_key env (ti_Address item))
             (tnl\<lparr>tnl_TNLAddressWeightFactor := (case ti_WeightFactor item of None \<Rightarrow> tnl_TNLAddressWeightFactor tnl | x \<Rightarrow> x),
                 tnl_TNLAssociationUsage := (case ti_Usage item of None \<Rightarrow> tnl_TNLAssociationUsage tnl | x \<Rightarrow> x)\<rparr>)
             (amf_AMFTNLAssociationList m)\<rparr>)"

definition items_or_none :: "'a list option \<Rightarrow> 'a list" where
  "items_or_none l = (case l of None \<Rightarrow> [] | Some xs \<Rightarrow> xs)"

definition HandleAMFConfigurationUpdate :: "('x, 'm) ngap_env_scheme \<Rightarrow> addr option \<Rightarrow> NGAPPDU option \<Rightarrow> 'x world
    \<Rightarrow> unit gores \<times> 'x world" where
  "HandleAMFConfigurationUpdate env amf pdu w =
     (if amf = None then (Val (), w)
      else case ies_of InitiatingMessage AMFConfigurationUpdate pdu of None \<Rightarrow> (Val (), w)
      | Some ies \<Rightarrow>
          let to_add = items_or_none (last_ie as_TNLItems IdAMFTNLAssociationToAddList ies);
              to_remove = items_or_none (last_ie as_TNLItems IdAMFTNLAssociationToRemoveList ies);
              to_update = items_or_none (last_ie as_TNLItems IdAMFTNLAssociationToUpdateList ies);
              successList = map (\<lambda>item. \<lparr>ti_Address = ti_Address item, ti_Usage = None, ti_WeightFactor = None\<rparr>) to_add in
          gbind (upd_amf amf (\<lambda>m.
             let m = m\<lparr>
                amf_AMFName := (case last_ie as_String IdAMFName ies of None \<Rightarrow> amf_AMFName m | x \<Rightarrow> x),
                amf_ServedGUAMIList := (case last_ie as_GUAMIList IdServedGUAMIList ies of None \<Rightarrow> amf_ServedGUAMIList m | x \<Rightarrow> x),
                amf_RelativeAMFCapacity := (case last_ie as_Int IdRelativeAMFCapacity ies of None \<Rightarrow> amf_RelativeAMFCapacity m | x \<Rightarrow> x),
                amf_PLMNSupportList := (case last_ie as_PLMNSupport IdPLMNSupportList ies of None \<Rightarrow> amf_PLMNSupportList m | x \<Rightarrow> x)\<rparr>;
                 m = foldl (tnl_add env) m to_add;
                 m = foldl (\<lambda>m item. DeleteAMFTNLAssociationItem env (ti_Address item) m) m to_remove
             in foldl (tnl_update env) m to_update) w) (\<lambda>_ w.
            SendAMFConfigurationUpdateAcknowledge env amf (if length successList > 0 then Some successList else None) None None w))"

text \<open>\<open>HandleRANConfigurationUpdateAcknowledge\<close> only logs.\<close>

definition HandleRANConfigurationUpdateAcknowledge :: "addr option \<Rightarrow> NGAPPDU option \<Rightarrow> 'x world \<Rightarrow> unit gores \<times> 'x world" where
  "HandleRANConfigurationUpdateAcknowledge amf pdu w = (Val (), w)"

definition HandleRANConfigurationUpdateFailure :: "('x, 'm) ngap_env_scheme \<Rightarrow> addr option \<Rightarrow> NGAPPDU option \<Rightarrow> 'x world
    \<Rightarrow> unit gores \<times> 'x world" where
  "HandleRANConfigurationUpdateFailure env amf pdu w =
     (case amf of None \<Rightarrow> (Val (), w)
      | Some a \<Rightarrow>
     case ies_of UnsuccessfulOutcome RANConfigurationUpdateFailure pdu of None \<Rightarrow> (Val (), w)
      | Some ies \<Rightarrow>
          let waitingTime = waiting_time (last_ie as_TimeToWait IdTimeToWait ies) in
          gbind (print_opt_cause (last_ie as_Cause IdCause ies) w) (\<lambda>_ w.
            if waitingTime \<noteq> 0 then
              gbind (deref amfs amf w) (\<lambda>m w.
                let w = AMFReInitAvailableListStore (amf_SCTPAddr m) False w
                in (Val (), w\<lparr>timers := timers w @ [RANConfigurationRetry a waitingTime]\<rparr>))
            else SendRANConfigurationUpdate env amf w))"

text \<open>The functions given to \<open>time.AfterFunc\<close>.\<close>

definition fire_timer :: "('x, 'm) ngap_env_scheme \<Rightarrow> timer \<Rightarrow> 'x world \<Rightarrow> unit gores \<times> 'x world" where
  "fire_timer env t w =
     (case t of
        NGSetupRetry sctpAddr conn _ \<Rightarrow> SendNGSetupRequest env conn (AMFReInitAvailableListStore sctpAddr True w)
      | RANConfigurationRetry a _ \<Rightarrow>
          gbind (deref amfs (Some a) w) (\<lambda>m w.
            SendRANConfigurationUpdate env (Some a) (AMFReInitAvailableListStore (amf_SCTPAddr m) True w)))"

section \<open>Overload control\<close>

definition HandleOverloadStart :: "addr option \<Rightarrow> NGAPPDU option \<Rightarrow> 'x world \<Rightarrow> unit gores \<times> 'x world" where
  "HandleOverloadStart amf pdu w =
     (if amf = None then (Val (), w)
      else case ies_of InitiatingMessage OverloadStart pdu of None \<Rightarrow> (Val (), w)
      | Some ies \<Rightarrow>
          upd_amf amf (\<lambda>m. snd (StartOverload (last_ie as_Overload IdAMFOverloadResponse ies)
            (last_ie as_Int IdAMFTrafficLoadReductionIndication ies) (last_ie as_OverloadNSSAI IdOverloadStartNSSAIList ies) m)) w)"

definition HandleOverloadStop :: "addr option \<Rightarrow> NGAPPDU option \<Rightarrow> 'x world \<Rightarrow> unit gores \<times> 'x world" where
  "HandleOverloadStop amf pdu w = (if amf = None then (Val (), w) else upd_amf amf StopOverload w)"

section \<open>The dispatcher\<close>

text \<open>
  \<open>NGAPDispatch\<close>. A panic of a handler ends the program (the deferred function logs it as fatal).
  The five handlers that only log are the cases that leave the world alone.
\<close>

definition dispatch_initiating :: "('x, 'm) ngap_env_scheme \<Rightarrow> addr option \<Rightarrow> ProcedureCode \<Rightarrow> NGAPPDU \<Rightarrow> 'x world
    \<Rightarrow> unit gores \<times> 'x world" where
  "dispatch_initiating env amf code pdu w =
     (case code of
        ProcNGReset \<Rightarrow> HandleNGReset env amf (Some pdu) w
      | ProcInitialContextSetup \<Rightarrow> HandleInitialContextSetupRequest env amf (Some pdu) w
      | ProcUEContextModification \<Rightarrow> HandleUEContextModificationRequest env amf (Some pdu) w
      | ProcUEContextRelease \<Rightarrow> HandleUEContextReleaseCommand env amf (Some pdu) w
      | ProcDownlinkNASTransport \<Rightarrow> HandleDownlinkNASTransport env amf (Some pdu) w
      | ProcPDUSessionResourceSetup \<Rightarrow> HandlePDUSessionResourceSetupRequest env amf (Some pdu) w
      | ProcPDUSessionResourceModify \<Rightarrow> HandlePDUSessionResourceModifyRequest env amf (Some pdu) w
      | ProcPDUSessionResourceRelease \<Rightarrow> HandlePDUSessionResourceReleaseCommand env amf (Some pdu) w
      | ProcErrorIndication \<Rightarrow> HandleErrorIndication env amf (Some pdu) w
      | ProcUERadioCapabilityCheck \<Rightarrow> HandleUERadioCapabilityCheckRequest env amf (Some pdu) w
      | ProcAMFConfigurationUpdate \<Rightarrow> HandleAMFConfigurationUpdate env amf (Some pdu) w
      | ProcOverloadStart \<Rightarrow> HandleOverloadStart amf (Some pdu) w
      | ProcOverloadStop \<Rightarrow> HandleOverloadStop amf (Some pdu) w
      | _ \<Rightarrow> (Val (), w))"

definition NGAPDispatch :: "('x, 'm) ngap_env_scheme \<Rightarrow> nat \<Rightarrow> octets \<Rightarrow> 'x world \<Rightarrow> unit gores \<times> 'x world" where
  "NGAPDispatch env conn msg w =
     (let sctpAddr = e_RemoteAddr env conn; amf = AMFPoolLoad sctpAddr w in
      case e_ngap_Decoder env msg of None \<Rightarrow> (Val (), w)
      | Some pdu \<Rightarrow>
          (case pdu_Outcome pdu of None \<Rightarrow> (Val (), w)
           | Some out \<Rightarrow>
               (case pdu_Present pdu of
                  InitiatingMessage \<Rightarrow> dispatch_initiating env amf (out_ProcedureCode out) pdu w
                | SuccessfulOutcome \<Rightarrow>
                    (case out_ProcedureCode out of
                       ProcNGSetup \<Rightarrow> HandleNGSetupResponse env sctpAddr conn (Some pdu) w
                     | ProcNGReset \<Rightarrow> HandleNGResetAcknowledge amf (Some pdu) w
                     | ProcPDUSessionResourceModifyIndication \<Rightarrow> HandlePDUSessionResourceModifyConfirm env amf (Some pdu) w
                     | ProcRANConfigurationUpdate \<Rightarrow> HandleRANConfigurationUpdateAcknowledge amf (Some pdu) w
                     | _ \<Rightarrow> (Val (), w))
                | UnsuccessfulOutcome \<Rightarrow>
                    (case out_ProcedureCode out of
                       ProcNGSetup \<Rightarrow> HandleNGSetupFailure env sctpAddr conn (Some pdu) w
                     | ProcRANConfigurationUpdate \<Rightarrow> HandleRANConfigurationUpdateFailure env amf (Some pdu) w
                     | _ \<Rightarrow> (Val (), w))
                | PDUNothing \<Rightarrow> (Val (), w))))"

end
