(* ===== verification/Ike_Events.thy ===== *)
theory Ike_Events
  imports Ike_Handlers
begin

text \<open>
  The second half of the IKE server (\<open>src/internal/ike/handler.go\<close>): the handlers of the events the
  NGAP server sends, the set-up of the child SAs of PDU sessions (\<open>CreatePDUSessionChildSA\<close> and
  \<open>continueCreateChildSA\<close>) and dead peer detection. A security key that the NGAP server passes as nil
  is the empty octet string.
\<close>

section \<open>Child SAs of PDU sessions\<close>

definition esn_disabled :: Transform where
  "esn_disabled = \<lparr>tr_Type = TypeExtendedSequenceNumbers, tr_ID = ESN_DISABLE, tr_AttributePresent = False,
     tr_AttributeFormat = 0, tr_AttributeType = 0, tr_AttributeValue = 0, tr_VariableLengthAttributeValue = []\<rparr>"

definition failed_err :: "addr option \<Rightarrow> EvtError \<Rightarrow> 'x world \<Rightarrow> unit gores \<times> 'x world" where
  "failed_err t e = upd_tmp t (\<lambda>tmp. tmp\<lparr>tmp_FailedErrStr := tmp_FailedErrStr tmp @ [e]\<rparr>)"

text \<open>
  One iteration of the loop of \<open>CreatePDUSessionChildSA\<close>: \<open>Val True\<close> when the loop goes on, \<open>Val False\<close>
  when it breaks; a \<open>return\<close> from the function is an \<open>Err\<close>.
\<close>

definition pdu_child_body :: "('x, 'm) ike_env_scheme \<Rightarrow> addr \<Rightarrow> addr option \<Rightarrow> int \<Rightarrow> 'x world
    \<Rightarrow> bool gores \<times> 'x world" where
  "pdu_child_body env u t ranNgapId w =
     gbind (deref tmps t w) (\<lambda>tmp w.
     if \<not> length (tmp_UnactivatedPDUSession tmp) > tmp_Index tmp
     then (Val False, SendNgapEvt (SendPDUSessionResourceSetupResEvt ranNgapId) w)
     else
     gbind (deref sessions (Some (tmp_UnactivatedPDUSession tmp ! tmp_Index tmp)) w) (\<lambda>pduSession w.
     gbind (new_child_spi env w) (\<lambda>spi w.
     gbind (deref ikeues (Some u) w) (\<lambda>ue w.
     gbind (deref ikesas (iu_N3IWFIKESecurityAssociation ue) w) (\<lambda>sa w.
     gbind (sakey_of sa w) (\<lambda>key w.
     case e_EncrToTransform env key of None \<Rightarrow> (Val False, w)
     | Some encrTranform \<Rightarrow>
     let proposal = (BuildProposal 1 TypeESP (PutUint32 spi))\<lparr>pr_EncryptionAlgorithm := [encrTranform],
           pr_IntegrityAlgorithm := (if ps_SecurityIntegrity pduSession then [e_IntegToTransform env key] else []),
           pr_ExtendedSequenceNumbers := [esn_disabled]\<rparr>
     in
     gbind (CreateHalfChildSA u (isa_ResponderMessageID sa) spi (ps_Id pduSession) w) (\<lambda>_ w.
     gbind (ext_opt (e_GenerateRandomNumber env) ''Build Nonce'' w) (\<lambda>nonceData w.
     gbind (upd_ikesa (iu_N3IWFIKESecurityAssociation ue) (\<lambda>sa. sa\<lparr>isa_ConcatenatedNonce := nonceData\<rparr>) w) (\<lambda>_ w.
     if ps_Id pduSession < 0 \<or> ps_Id pduSession > 255 then (Val False, w)
     else
     case e_BuildNotify5G_QOS_INFO env (word_of_int (ps_Id pduSession)) (ps_QFIList pduSession) of
       None \<Rightarrow> (Val False, w)
     | Some qos \<Rightarrow>
     gbind (upd_tmp t (\<lambda>tmp. tmp\<lparr>tmp_Index := tmp_Index tmp + 1\<rparr>) w) (\<lambda>_ w.
     gbind (conn_of (isa_IKEConnection sa) w) (\<lambda>c w.
     gtry (SendIKEMessageToUE env (sock_Conn c) (sock_N3IWFAddr c) (sock_UEAddr c)
        (NewMessage (isa_RemoteSPI sa) (isa_LocalSPI sa) CREATE_CHILD_SA False False (isa_ResponderMessageID sa)
           [PSA [proposal], PNiNr nonceData, PTSi [any_traffic (ip_To4 (e_GatewayIP env))],
            PTSr [any_traffic (ip_To4 (iu_IPSecInnerIP ue))], qos,
            e_BuildNotifyUP_IP4_ADDRESS env (e_IPSecGatewayAddr env)])
        (isa_IKESAKey sa) w) (\<lambda>sent w.
       case sent of
         None \<Rightarrow> gbind (failed_err t ErrTransportResourceUnavailable w) (\<lambda>_ w. (Val True, w))
       | Some _ \<Rightarrow> gbind (failed_err t ErrNil w) (\<lambda>_ w. (Val False, w))))))))))))))"

text \<open>The loop; that it ends is proved, not assumed.\<close>

partial_function (option) pdu_child_loop :: "('x, 'm) ike_env_scheme \<Rightarrow> addr \<Rightarrow> addr option \<Rightarrow> int \<Rightarrow> 'x world
    \<Rightarrow> (unit gores \<times> 'x world) option" where
  "pdu_child_loop env u t ranNgapId w =
     (case pdu_child_body env u t ranNgapId w of
        (Val b, w') \<Rightarrow> if b then pdu_child_loop env u t ranNgapId w' else Some (Val (), w')
      | (Err e, w') \<Rightarrow> Some (Err e, w')
      | (Crash p, w') \<Rightarrow> Some (Crash p, w'))"

definition CreatePDUSessionChildSA :: "('x, 'm) ike_env_scheme \<Rightarrow> addr option \<Rightarrow> addr option \<Rightarrow> 'x world
    \<Rightarrow> unit gores \<times> 'x world" where
  "CreatePDUSessionChildSA env ikeUe t w =
     handler (
     gbind (deref ikeues ikeUe w) (\<lambda>ue w.
     gbind (deref ikesas (iu_N3IWFIKESecurityAssociation ue) w) (\<lambda>sa w.
       case NgapIdLoad (isa_LocalSPI sa) w of None \<Rightarrow> (Err ''Cannot get RanNgapId from SPI'', w)
       | Some ranNgapId \<Rightarrow>
           (case pdu_child_loop env (the ikeUe) t ranNgapId w of
              None \<Rightarrow> (Crash NoReturn, w) | Some r \<Rightarrow> r))))"

text \<open>
  The XFRM interface of the child SA: its own when the UE has more than one PDU session, the
  default one otherwise.
\<close>

definition child_xfrmi :: "('x, 'm) ike_env_scheme \<Rightarrow> addr \<Rightarrow> int \<Rightarrow> 'x world \<Rightarrow> u32 gores \<times> 'x world" where
  "child_xfrmi env c pduSessionListLen w =
     (if pduSessionListLen > 1 then
        let newXfrmiId = e_XfrmIfaceId env + (e_XfrmIfaceId env + XfrmIfaceIdOffsetForUP w);
            newXfrmiName = e_XfrmIfaceName env @ ''-'' @ dec_digits (unat newXfrmiId)
        in gbind (SetupIPsecXfrmi env newXfrmiName (e_XfrmParentIfaceName env) newXfrmiId
             \<lparr>net_IP = ip_To4 (e_GatewayIP env), net_Mask = e_InnerMask env\<rparr> w) (\<lambda>linkIPSec w.
           case gm_load_or_store newXfrmiId linkIPSec (XfrmIfaces w) of (_, _, m) \<Rightarrow>
           gbind (upd_childsa (Some c) (\<lambda>child. child\<lparr>csa_XfrmIface := Some linkIPSec\<rparr>) (w\<lparr>XfrmIfaces := m\<rparr>)) (\<lambda>_ w.
             (Val newXfrmiId, w\<lparr>XfrmIfaceIdOffsetForUP := XfrmIfaceIdOffsetForUP w + 1\<rparr>)))
      else
        case gm_load (XfrmIfaces w) (e_XfrmIfaceId env) of
          None \<Rightarrow> (Err ''Cannot find the XFRM interface'', w)
        | Some linkIPSec \<Rightarrow>
            gbind (upd_childsa (Some c) (\<lambda>child. child\<lparr>csa_XfrmIface := Some linkIPSec\<rparr>) w) (\<lambda>_ w.
              (Val (e_XfrmIfaceId env), w)))"

text \<open>The traffic selectors of the response, filled in when the UE sent none.\<close>

definition selectors_or :: "TrafficSelector list \<Rightarrow> ip \<Rightarrow> TrafficSelector list" where
  "selectors_or l a = (if length l = 0 then [any_traffic a] else l)"

definition continueCreateChildSA :: "('x, 'm) ike_env_scheme \<Rightarrow> addr \<Rightarrow> addr option \<Rightarrow> 'x world
    \<Rightarrow> unit gores \<times> 'x world" where
  "continueCreateChildSA env s t w =
     handler (
     gbind (deref ikesas (Some s) w) (\<lambda>sa w.
     case isa_IkeUE sa of None \<Rightarrow> (Err ''UE context is nil'', w)
     | Some u \<Rightarrow>
     if t = None then (Err ''No PDU session information'', w)
     else
     gbind (deref tmps t w) (\<lambda>tmp w.
     if length (tmp_UnactivatedPDUSession tmp) = 0 then (Err ''No unactivated PDU session information'', w)
     else
     case isa_TemporaryIkeMsg sa of None \<Rightarrow> (Crash NilPointer, w)
     | Some ikeMsg \<Rightarrow>
     case itm_SecurityAssociation ikeMsg of None \<Rightarrow> (Err ''no Proposals'', w)
     | Some [] \<Rightarrow> (Err ''no Proposals'', w)
     | Some (proposal # _) \<Rightarrow>
     if length (pr_SPI proposal) \<noteq> 4 then (Err ''invalid ESP SPI length'', w)
     else
     gbind (CompleteChildSA env u (isa_ResponderMessageID sa) (Uint32 (pr_SPI proposal))
        (itm_SecurityAssociation ikeMsg) w) (\<lambda>c w.
     gbind (deref ikeues (Some u) w) (\<lambda>ue w.
     case itm_TrafficSelectorInitiator ikeMsg of None \<Rightarrow> (Crash NilPointer, w)
     | Some tsi \<Rightarrow>
     case itm_TrafficSelectorResponder ikeMsg of None \<Rightarrow> (Crash NilPointer, w)
     | Some tsr \<Rightarrow>
     let tsi = selectors_or tsi (e_GatewayIP env); tsr = selectors_or tsr (iu_IPSecInnerIP ue) in
     gbind (upd_ikesa (Some s) (\<lambda>sa. sa\<lparr>isa_TemporaryIkeMsg := Some (ikeMsg\<lparr>itm_TrafficSelectorInitiator := Some tsi,
         itm_TrafficSelectorResponder := Some tsr\<rparr>)\<rparr>) w) (\<lambda>_ w.
     gbind (conn_of (isa_IKEConnection sa) w) (\<lambda>conn w.
     gbind (parseIPAddressInformationToChildSecurityAssociation env (Some c) (udp_IP (sock_UEAddr conn)) (hd tsi) (hd tsr) w) (\<lambda>_ w.
     gbind (upd_childsa (Some c) (\<lambda>child. child\<lparr>csa_SelectedIPProtocol := IPPROTO_GRE\<rparr>) w) (\<lambda>_ w.
     gbind (child_keys env c (isa_IKESAKey sa) (isa_ConcatenatedNonce sa) w) (\<lambda>_ w.
     gbind (child_nat (isa_UeBehindNAT sa \<or> isa_N3iwfBehindNAT sa) c (udp_Port (sock_N3IWFAddr conn))
        (udp_Port (sock_UEAddr conn)) w) (\<lambda>_ w.
     gbind (child_xfrmi env c (iu_PduSessionListLen ue) w) (\<lambda>newXfrmiId w.
     gbind (upd_childsa (Some c) (\<lambda>child. child\<lparr>csa_LocalIsInitiator := True\<rparr>) w) (\<lambda>_ w.
     gbind (ApplyXFRMRule env True newXfrmiId c w) (\<lambda>_ w.
     gbind (ChildSecurityAssociation_String c w) (\<lambda>_ w.
     case NgapIdLoad (isa_LocalSPI sa) w of None \<Rightarrow> (Err ''Cannot get RanNgapId from SPI'', w)
     | Some ranNgapId \<Rightarrow>
     gbind (failed_err t ErrNil (SendNgapEvt (SendNASMsgEvt ranNgapId) w)) (\<lambda>_ w.
     gbind (upd_ikesa (Some s) (\<lambda>sa. sa\<lparr>isa_ResponderMessageID := isa_ResponderMessageID sa + 1\<rparr>) w) (\<lambda>_ w.
       CreatePDUSessionChildSA env (Some u) t w)))))))))))))))))"

section \<open>Dead peer detection\<close>

text \<open>
  \<open>StartDPD\<close> runs in a goroutine of its own: what it does before its loop, one tick of its loop, and
  the function it gives to the retransmission timer. A panic in it is recovered.
\<close>

definition StartDPD :: "('x, 'm) ike_env_scheme \<Rightarrow> addr option \<Rightarrow> 'x world \<Rightarrow> unit gores \<times> 'x world" where
  "StartDPD env ikeUe w =
     recovered (
     gbind (deref ikeues ikeUe w) (\<lambda>ue w.
       upd_ikesa (iu_N3IWFIKESecurityAssociation ue)
         (\<lambda>sa. sa\<lparr>isa_IKESAClosed := False, isa_IsUseDPD := e_LivenessEnable env \<or> isa_IsUseDPD sa\<rparr>) w))"

definition StartDPD_tick :: "('x, 'm) ike_env_scheme \<Rightarrow> addr \<Rightarrow> 'x world \<Rightarrow> unit gores \<times> 'x world" where
  "StartDPD_tick env u w =
     recovered (
     gbind (deref ikeues (Some u) w) (\<lambda>ue w.
     gbind (deref ikesas (iu_N3IWFIKESecurityAssociation ue) w) (\<lambda>sa w.
     gbind (conn_of (iu_IKEConnection ue) w) (\<lambda>c w.
     gbind (SendUEInformationExchange env sa (isa_IKESAKey sa) [] False False (isa_ResponderMessageID sa)
        (sock_Conn c) (sock_UEAddr c) (sock_N3IWFAddr c) w) (\<lambda>_ w.
       upd_ikesa (iu_N3IWFIKESecurityAssociation ue) (\<lambda>sa. sa\<lparr>isa_DPDReqRetransTimer := True\<rparr>) w)))))"

definition StartDPD_cancel :: "addr \<Rightarrow> 'x world \<Rightarrow> unit gores \<times> 'x world" where
  "StartDPD_cancel s w =
     gbind (deref ikesas (Some s) w) (\<lambda>sa w.
       case NgapIdLoad (isa_LocalSPI sa) w of None \<Rightarrow> (Val (), w)
       | Some ranNgapId \<Rightarrow>
           upd_ikesa (Some s) (\<lambda>sa. sa\<lparr>isa_DPDReqRetransTimer := False\<rparr>)
             (SendNgapEvt (SendUEContextReleaseRequestEvt ranNgapId ErrRadioConnWithUeLost) w))"

text \<open>
  The goroutine of \<open>NewDPDPeriodicTimer\<close> with that function as its \<open>cancelFunc\<close>: one tick, which tells
  whether the goroutine returns, and the loop as a function of what it receives, a tick of the ticker
  or the message of \<open>Stop\<close>.
\<close>

datatype timer_input = Tick | Done

definition dpd_timer_tick :: "int \<Rightarrow> addr \<Rightarrow> 'x world \<Rightarrow> bool gores \<times> 'x world" where
  "dpd_timer_tick maxRetryTimes s w =
     gbind (deref ikesas (Some s) w) (\<lambda>sa w.
     gbind (upd_ikesa (Some s) (\<lambda>sa. fst (dpd_tick maxRetryTimes sa)) w) (\<lambda>_ w.
       if snd (dpd_tick maxRetryTimes sa)
       then gbind (StartDPD_cancel s w) (\<lambda>_ w. (Val True, w))
       else (Val False, w)))"

fun NewDPDPeriodicTimer :: "int \<Rightarrow> addr \<Rightarrow> timer_input list \<Rightarrow> 'x world \<Rightarrow> unit gores \<times> 'x world" where
  "NewDPDPeriodicTimer maxRetryTimes s [] w = (Val (), w)"
| "NewDPDPeriodicTimer maxRetryTimes s (Done # _) w = (Val (), w)"
| "NewDPDPeriodicTimer maxRetryTimes s (Tick # inputs) w =
     gbind (dpd_timer_tick maxRetryTimes s w) (\<lambda>ended w.
       if ended then (Val (), w) else NewDPDPeriodicTimer maxRetryTimes s inputs w)"

section \<open>Events\<close>

definition HandleUnmarshalEAP5GDataResponse :: "u64 \<Rightarrow> int \<Rightarrow> octets \<Rightarrow> 'x world \<Rightarrow> unit gores \<times> 'x world" where
  "HandleUnmarshalEAP5GDataResponse localSPI ranUeNgapId nasPDU w =
     (let s = IKESALoad localSPI w in
      case NewN3iwfIkeUe localSPI w of (u, w) \<Rightarrow>
      gbind (upd_ikesa s (\<lambda>sa. sa\<lparr>isa_IkeUE := Some u\<rparr>) w) (\<lambda>_ w.
      gbind (deref ikesas s w) (\<lambda>sa w.
      gbind (upd_ikeue (Some u) (\<lambda>ue. ue\<lparr>iu_N3IWFIKESecurityAssociation := s,
         iu_IKEConnection := isa_IKEConnection sa\<rparr>) w) (\<lambda>_ w.
      let w = IkeSpiNgapIdMapping (isa_LocalSPI sa) ranUeNgapId w in
      gbind (conn_of (isa_IKEConnection sa) w) (\<lambda>c w.
        (Val (), SendNgapEvt (SendInitialUEMessageEvt ranUeNgapId (ip_String (ip_To4 (udp_IP (sock_UEAddr c))))
           (udp_Port (sock_UEAddr c)) nasPDU) w))))))"

text \<open>An IKE_AUTH response outside the handler of the request: to the message before the next one expected.\<close>

definition auth_response :: "('x, 'm) ike_env_scheme \<Rightarrow> addr \<Rightarrow> ike_payload list \<Rightarrow> 'x world \<Rightarrow> unit gores \<times> 'x world" where
  "auth_response env s payloads w =
     gbind (deref ikesas (Some s) w) (\<lambda>sa w.
     gbind (conn_of (isa_IKEConnection sa) w) (\<lambda>c w.
       SendIKEMessageToUE env (sock_Conn c) (sock_N3IWFAddr c) (sock_UEAddr c)
         (NewMessage (isa_RemoteSPI sa) (isa_LocalSPI sa) IKE_AUTH True False (isa_InitiatorMessageID sa - 1) payloads)
         (isa_IKESAKey sa) w))"

definition HandleSendEAP5GFailureMsg :: "('x, 'm) ike_env_scheme \<Rightarrow> u64 \<Rightarrow> EvtError \<Rightarrow> 'x world \<Rightarrow> unit gores \<times> 'x world" where
  "HandleSendEAP5GFailureMsg env localSPI errMsg w =
     handler (
     gbind (ext_opt (e_GenerateRandomUint8 env) ''Generate random uint8 failed'' w) (\<lambda>identifier w.
       case IKESALoad localSPI w of None \<Rightarrow> (Crash NilPointer, w)
       | Some s \<Rightarrow> auth_response env s [e_BuildEAPfailure env identifier] w))"

definition HandleSendEAPSuccessMsg :: "('x, 'm) ike_env_scheme \<Rightarrow> u64 \<Rightarrow> octets \<Rightarrow> int \<Rightarrow> 'x world \<Rightarrow> unit gores \<times> 'x world" where
  "HandleSendEAPSuccessMsg env localSPI kn3iwf pduSessionListLen w =
     (case IKESALoad localSPI w of None \<Rightarrow> (Crash NilPointer, w)
      | Some s \<Rightarrow>
          handler (
          gbind (deref ikesas (Some s) w) (\<lambda>sa w.
          gbind (upd_ikeue (isa_IkeUE sa) (\<lambda>ue. ue\<lparr>iu_Kn3iwf := (if kn3iwf \<noteq> [] then kn3iwf else iu_Kn3iwf ue),
             iu_PduSessionListLen := pduSessionListLen\<rparr>) w) (\<lambda>_ w.
          gbind (new_identifier env s w) (\<lambda>identifier w.
          gbind (auth_response env s [e_BuildEAPSuccess env identifier] w) (\<lambda>_ w.
            upd_ikesa (Some s) (\<lambda>sa. sa\<lparr>isa_State := isa_State sa + 1\<rparr>) w)))))) "

definition HandleSendEAPNASMsg :: "('x, 'm) ike_env_scheme \<Rightarrow> u64 \<Rightarrow> octets \<Rightarrow> 'x world \<Rightarrow> unit gores \<times> 'x world" where
  "HandleSendEAPNASMsg env localSPI nasPDU w =
     (case IKESALoad localSPI w of
        None \<Rightarrow> (case e_GenerateRandomUint8 env (ext w) of
            (None, x) \<Rightarrow> (Val (), w\<lparr>ext := x\<rparr>)
          | (Some _, x) \<Rightarrow> (Crash NilPointer, w\<lparr>ext := x\<rparr>))
      | Some s \<Rightarrow>
          handler (
          gbind (new_identifier env s w) (\<lambda>identifier w.
            case e_BuildEAP5GNAS env identifier nasPDU of None \<Rightarrow> (Err ''BuildEAP5GNAS'', w)
            | Some p \<Rightarrow> auth_response env s [p] w)))"

definition HandleCreatePDUSession :: "('x, 'm) ike_env_scheme \<Rightarrow> u64 \<Rightarrow> int \<Rightarrow> addr option \<Rightarrow> 'x world \<Rightarrow> unit gores \<times> 'x world" where
  "HandleCreatePDUSession env localSPI pduSessionListLen t w =
     gbind (deref ikesas (IKESALoad localSPI w) w) (\<lambda>sa w.
     gbind (upd_ikeue (isa_IkeUE sa) (\<lambda>ue. ue\<lparr>iu_PduSessionListLen := pduSessionListLen\<rparr>) w) (\<lambda>_ w.
       CreatePDUSessionChildSA env (isa_IkeUE sa) t w))"

definition removeIkeUe :: "('x, 'm) ike_env_scheme \<Rightarrow> u64 \<Rightarrow> 'x world \<Rightarrow> unit gores \<times> 'x world" where
  "removeIkeUe env localSPI w =
     (case IkeUePoolLoad localSPI w of None \<Rightarrow> (Err ''Cannot get IkeUE from SPI'', w)
      | Some u \<Rightarrow> IkeUe_Remove env u w)"

definition HandleIKEDeleteEvt :: "('x, 'm) ike_env_scheme \<Rightarrow> u64 \<Rightarrow> 'x world \<Rightarrow> unit gores \<times> 'x world" where
  "HandleIKEDeleteEvt env localSPI w =
     gbind (SendIKEDeleteRequest env localSPI w) (\<lambda>_ w. handler (removeIkeUe env localSPI w))"

definition HandleSendChildSADeleteRequest :: "('x, 'm) ike_env_scheme \<Rightarrow> u64 \<Rightarrow> int list \<Rightarrow> 'x world \<Rightarrow> unit gores \<times> 'x world" where
  "HandleSendChildSADeleteRequest env localSPI releaseIdList w =
     (case IkeUePoolLoad localSPI w of None \<Rightarrow> (Val (), w)
      | Some u \<Rightarrow> SendChildSADeleteRequest env u releaseIdList w)"

definition HandleIKEContextUpdate :: "u64 \<Rightarrow> octets \<Rightarrow> 'x world \<Rightarrow> unit gores \<times> 'x world" where
  "HandleIKEContextUpdate localSPI kn3iwf w =
     (case IkeUePoolLoad localSPI w of None \<Rightarrow> (Val (), w)
      | Some u \<Rightarrow> if kn3iwf \<noteq> [] then upd_ikeue (Some u) (\<lambda>ue. ue\<lparr>iu_Kn3iwf := kn3iwf\<rparr>) w else (Val (), w))"

text \<open>The loop over the requested context numbers: the temporary data of the last match.\<close>

fun requested_tmp :: "int list \<Rightarrow> addr option list \<Rightarrow> nat \<Rightarrow> addr option \<Rightarrow> addr option gores" where
  "requested_tmp [] cxt i acc = Val acc"
| "requested_tmp (num # nums) cxt i acc =
     (if num = CxtTempPDUSessionSetupData
      then pbind (index_at i cxt) (\<lambda>t. requested_tmp nums cxt (Suc i) t)
      else requested_tmp nums cxt (Suc i) acc)"

definition HandleGetNGAPContextResponse :: "('x, 'm) ike_env_scheme \<Rightarrow> u64 \<Rightarrow> int list \<Rightarrow> addr option list
    \<Rightarrow> 'x world \<Rightarrow> unit gores \<times> 'x world" where
  "HandleGetNGAPContextResponse env localSPI nums cxt w =
     gbind (requested_tmp nums cxt 0 None, w) (\<lambda>t w.
     gbind (deref ikesas (IKESALoad localSPI w) w) (\<lambda>sa w.
       let s = IKESALoad localSPI w in
       if isa_State sa = EndSignalling then
         gbind (CreatePDUSessionChildSA env (isa_IkeUE sa) t w) (\<lambda>_ w.
         gbind (upd_ikesa s (\<lambda>sa. sa\<lparr>isa_State := isa_State sa + 1\<rparr>) w) (\<lambda>_ w.
           StartDPD env (isa_IkeUE sa) w))
       else if isa_State sa = HandleCreateChildSA then continueCreateChildSA env (the s) t w
       else (Val (), w)))"

text \<open>\<open>HandleEvent\<close>; a panic in it ends the IKE server.\<close>

definition HandleEvent :: "('x, 'm) ike_env_scheme \<Rightarrow> IkeEvt \<Rightarrow> 'x world \<Rightarrow> unit gores \<times> 'x world" where
  "HandleEvent env ikeEvt w =
     (case ikeEvt of
        UnmarshalEAP5GDataResponseEvt spi ranUeNgapId nasPDU \<Rightarrow> HandleUnmarshalEAP5GDataResponse spi ranUeNgapId nasPDU w
      | SendEAP5GFailureMsgEvt spi err \<Rightarrow> HandleSendEAP5GFailureMsg env spi err w
      | SendEAPSuccessMsgEvt spi k len \<Rightarrow> HandleSendEAPSuccessMsg env spi k len w
      | SendEAPNASMsgEvt spi nasPDU \<Rightarrow> HandleSendEAPNASMsg env spi nasPDU w
      | CreatePDUSessionEvt spi len t \<Rightarrow> HandleCreatePDUSession env spi len t w
      | IKEDeleteRequestEvt spi \<Rightarrow> HandleIKEDeleteEvt env spi w
      | SendChildSADeleteRequestEvt spi ids \<Rightarrow> HandleSendChildSADeleteRequest env spi ids w
      | IKEContextUpdateEvt spi k \<Rightarrow> HandleIKEContextUpdate spi k w
      | GetNGAPContextRepEvt spi nums cxt \<Rightarrow> HandleGetNGAPContextResponse env spi nums cxt w)"

end
