(* ===== verification/Ngap_Events.thy ===== *)
theory Ngap_Events
  imports Ngap_Procedures Ike_Events
begin

text \<open>
  The handlers of the events the IKE server and the NAS connections send to the NGAP server (second
  half of \<open>src/internal/ngap/handler.go\<close>, from \<open>HandleEvent\<close> on) and one round of the server loop
  (\<open>src/internal/ngap/server.go\<close>). Every handler first looks the UE up by its RAN UE NGAP ID and
  returns when there is none.
\<close>

definition with_ue :: "int \<Rightarrow> (addr \<Rightarrow> 'x world \<Rightarrow> unit gores \<times> 'x world) \<Rightarrow> 'x world \<Rightarrow> unit gores \<times> 'x world" where
  "with_ue ranUeNgapId f w = (case RanUePoolLoad ranUeNgapId w of None \<Rightarrow> (Val (), w) | Some u \<Rightarrow> f u w)"

text \<open>Only \<open>CxtTempPDUSessionSetupData\<close> is a context number the program knows; others add nothing.\<close>

definition HandleGetNGAPContext :: "int \<Rightarrow> int list \<Rightarrow> 'x world \<Rightarrow> unit gores \<times> 'x world" where
  "HandleGetNGAPContext ranUeNgapId ngapCxtReqNumlist =
     with_ue ranUeNgapId (\<lambda>u w.
       gbind (deref ranues (Some u) w) (\<lambda>ue w.
       let ngapCxt = map (\<lambda>_. ru_TemporaryPDUSessionSetupData ue)
             (filter (\<lambda>num. num = CxtTempPDUSessionSetupData) ngapCxtReqNumlist) in
       case IkeSpiLoad ranUeNgapId w of None \<Rightarrow> (Val (), w)
       | Some spi \<Rightarrow> (Val (), SendIkeEvt (GetNGAPContextRepEvt spi ngapCxtReqNumlist ngapCxt) w)))"

definition HandleUnmarshalEAP5GData :: "('x, 'm) ngap_env_scheme \<Rightarrow> u64 \<Rightarrow> octets \<Rightarrow> bool \<Rightarrow> int \<Rightarrow> 'x world
    \<Rightarrow> unit gores \<times> 'x world" where
  "HandleUnmarshalEAP5GData env spi eapVendorData isInitialUE ranUeNgapId w =
     (case UnmarshalEAP5GData (e_aper env) eapVendorData of
        None \<Rightarrow> (Crash NoReturn, w)
      | Some (Crash p) \<Rightarrow> (Crash p, w)
      | Some (Err e) \<Rightarrow> (Val (), w)
      | Some (Val (anParameters, nasPDU)) \<Rightarrow>
          if \<not> isInitialUE then
            (case anParameters of None \<Rightarrow> (Val (), w)
             | Some an \<Rightarrow>
                 gbind (AMFSelection env (anp_GUAMI an) (anp_SelectedPLMNID an) w, w) (\<lambda>selectedAMF w.
                 if selectedAMF = None then (Val (), SendIkeEvt (SendEAP5GFailureMsgEvt spi ErrAMFSelection) w)
                 else
                   case NewN3iwfRanUe env w of (n3iwfUe, w) \<Rightarrow>
                   gbind (upd_ranue n3iwfUe (\<lambda>ue. ue\<lparr>ru_AMF := selectedAMF\<rparr>) w) (\<lambda>_ w.
                   case anp_EstablishmentCause an of
                     Some value \<Rightarrow>
                       if value > 32767 then (Val (), w)
                       else
                         gbind (upd_ranue n3iwfUe (\<lambda>ue. ue\<lparr>ru_RRCEstablishmentCause := uint value\<rparr>) w) (\<lambda>_ w.
                         gbind (deref ranues n3iwfUe w) (\<lambda>ue w.
                           (Val (), SendIkeEvt (UnmarshalEAP5GDataResponseEvt spi (ru_RanUeNgapId ue) nasPDU) w)))
                   | None \<Rightarrow>
                       gbind (deref ranues n3iwfUe w) (\<lambda>ue w.
                         (Val (), SendIkeEvt (UnmarshalEAP5GDataResponseEvt spi (ru_RanUeNgapId ue) nasPDU) w)))))
          else with_ue ranUeNgapId (\<lambda>u w. SendUplinkNASTransport env (Some u) nasPDU w) w)"

text \<open>The port is converted to \<open>int32\<close>.\<close>

definition HandleSendInitialUEMessage :: "('x, 'm) ngap_env_scheme \<Rightarrow> int \<Rightarrow> string \<Rightarrow> int \<Rightarrow> octets \<Rightarrow> 'x world
    \<Rightarrow> unit gores \<times> 'x world" where
  "HandleSendInitialUEMessage env ranUeNgapId ipv4Addr ipv4Port nasPDU =
     with_ue ranUeNgapId (\<lambda>u w.
       gbind (upd_ranue (Some u) (\<lambda>ue. ue\<lparr>ru_IPAddrv4 := ipv4Addr,
          ru_PortNumber := sint (word_of_int ipv4Port :: u32)\<rparr>) w) (\<lambda>_ w.
       gbind (deref ranues (Some u) w) (\<lambda>ue w.
         SendInitialUEMessage env (ru_AMF ue) (Some u) nasPDU w)))"

text \<open>
  \<open>HandleSendPDUSessionResourceSetupResponse\<close>: the loop pairs the sessions with the verdicts of the
  IKE server by index. An item of the loop: \<open>Val True\<close> to go on, \<open>Val False\<close> when the handler
  returns. Appending to a nil list panics.
\<close>

definition append_to :: "addr option \<Rightarrow> (PDUSessionSetupTemporaryData \<Rightarrow> transfer_item list option)
    \<Rightarrow> (transfer_item list \<Rightarrow> PDUSessionSetupTemporaryData \<Rightarrow> PDUSessionSetupTemporaryData) \<Rightarrow> transfer_item \<Rightarrow> 'x world
    \<Rightarrow> bool gores \<times> 'x world" where
  "append_to t sel put item w =
     gbind (deref tmps t w) (\<lambda>tmp w.
       case sel tmp of None \<Rightarrow> (Crash NilPointer, w)
       | Some l \<Rightarrow> gbind (upd_tmp t (put (AppendPDUSessionResource l (fst item) (snd item))) w) (\<lambda>_ w. (Val True, w)))"

definition response_item :: "('x, 'm) ngap_env_scheme \<Rightarrow> addr option \<Rightarrow> nat \<Rightarrow> addr \<Rightarrow> 'x world \<Rightarrow> bool gores \<times> 'x world" where
  "response_item env t index s w =
     gbind (deref tmps t w) (\<lambda>tmp w.
     gbind (index_at index (tmp_FailedErrStr tmp), w) (\<lambda>errStr w.
     let initial = (tmp_NGAPProcedureCode tmp = Some ProcInitialContextSetup) in
     if errStr \<noteq> ErrNil then
       if errStr \<noteq> ErrTransportResourceUnavailable then (Val False, w)
       else
         (case BuildPDUSessionResourceSetupUnsuccessfulTransfer env
                 (BuildCause CausePresentTransport TransportResourceUnavailable) None of (transfer, ok) \<Rightarrow>
            if \<not> ok then (Val True, w)
            else
              gbind (deref sessions (Some s) w) (\<lambda>ps w.
                if initial
                then append_to t tmp_FailedListCxtRes (\<lambda>l tmp. tmp\<lparr>tmp_FailedListCxtRes := Some l\<rparr>) (ps_Id ps, transfer) w
                else append_to t tmp_FailedListSURes (\<lambda>l tmp. tmp\<lparr>tmp_FailedListSURes := Some l\<rparr>) (ps_Id ps, transfer) w))
     else
       gbind (deref sessions (Some s) w) (\<lambda>ps w.
       gbind (BuildPDUSessionResourceSetupResponseTransfer env ps (e_GtpBindAddress env), w) (\<lambda>(transfer, ok) w.
         if \<not> ok then (Val False, w)
         else if initial
         then append_to t tmp_SetupListCxtRes (\<lambda>l tmp. tmp\<lparr>tmp_SetupListCxtRes := Some l\<rparr>) (ps_Id ps, transfer) w
         else append_to t tmp_SetupListSURes (\<lambda>l tmp. tmp\<lparr>tmp_SetupListSURes := Some l\<rparr>) (ps_Id ps, transfer) w))))"

fun response_loop :: "('x, 'm) ngap_env_scheme \<Rightarrow> addr option \<Rightarrow> nat \<Rightarrow> addr list \<Rightarrow> 'x world \<Rightarrow> bool gores \<times> 'x world" where
  "response_loop env t index [] w = (Val True, w)"
| "response_loop env t index (s # ss) w =
     gbind (response_item env t index s w) (\<lambda>goes_on w.
       if goes_on then response_loop env t (Suc index) ss w else (Val False, w))"

definition HandleSendPDUSessionResourceSetupResponse :: "('x, 'm) ngap_env_scheme \<Rightarrow> int \<Rightarrow> 'x world \<Rightarrow> unit gores \<times> 'x world" where
  "HandleSendPDUSessionResourceSetupResponse env ranUeNgapId =
     with_ue ranUeNgapId (\<lambda>u w.
       gbind (deref ranues (Some u) w) (\<lambda>ue w.
       let t = ru_TemporaryPDUSessionSetupData ue in
       gbind (deref tmps t w) (\<lambda>tmp w.
       if length (tmp_UnactivatedPDUSession tmp) \<noteq> 0 then
         gbind (response_loop env t 0 (tmp_UnactivatedPDUSession tmp) w) (\<lambda>goes_on w.
         if \<not> goes_on then (Val (), w)
         else
           gbind (deref tmps t w) (\<lambda>tmp w.
             if tmp_NGAPProcedureCode tmp = Some ProcInitialContextSetup
             then SendInitialContextSetupResponse env (Some u) (tmp_SetupListCxtRes tmp) (tmp_FailedListCxtRes tmp) None w
             else SendPDUSessionResourceSetupResponse env (Some u) (tmp_SetupListSURes tmp) (tmp_FailedListSURes tmp) None w))
       else SendInitialContextSetupResponse env (Some u) None None None w)))"

text \<open>A cached message that is nil is written as an empty one.\<close>

definition HandleSendNASMsg :: "('x, 'm) ngap_env_scheme \<Rightarrow> int \<Rightarrow> 'x world \<Rightarrow> unit gores \<times> 'x world" where
  "HandleSendNASMsg env ranUeNgapId =
     with_ue ranUeNgapId (\<lambda>u w.
       gbind (deref ranues (Some u) w) (\<lambda>ue w.
       gbind (tcp_write env (ru_TCPConnection ue) (case ru_TemporaryCachedNASMessage ue of None \<Rightarrow> [] | Some b \<Rightarrow> b) w) (\<lambda>ok w.
         if ok then upd_ranue (Some u) (\<lambda>ue. ue\<lparr>ru_TemporaryCachedNASMessage := None\<rparr>) w else (Val (), w))))"

definition HandleStartTCPSignalNASMsg :: "int \<Rightarrow> 'x world \<Rightarrow> unit gores \<times> 'x world" where
  "HandleStartTCPSignalNASMsg ranUeNgapId =
     with_ue ranUeNgapId (\<lambda>u. upd_ranue (Some u) (\<lambda>ue. ue\<lparr>ru_IsNASTCPConnEstablished := True\<rparr>))"

definition HandleNASTCPConnEstablishedComplete :: "('x, 'm) ngap_env_scheme \<Rightarrow> int \<Rightarrow> 'x world \<Rightarrow> unit gores \<times> 'x world" where
  "HandleNASTCPConnEstablishedComplete env ranUeNgapId =
     with_ue ranUeNgapId (\<lambda>u w.
       gbind (upd_ranue (Some u) (\<lambda>ue. ue\<lparr>ru_IsNASTCPConnEstablishedComplete := True\<rparr>) w) (\<lambda>_ w.
       gbind (deref ranues (Some u) w) (\<lambda>ue w.
         case ru_TemporaryCachedNASMessage ue of None \<Rightarrow> (Val (), w)
         | Some b \<Rightarrow>
             gbind (tcp_write env (ru_TCPConnection ue) b w) (\<lambda>_ w.
               upd_ranue (Some u) (\<lambda>ue. ue\<lparr>ru_TemporaryCachedNASMessage := None\<rparr>) w))))"

text \<open>The cause is set for one error only; for \<open>ErrNil\<close> the nil cause is dereferenced.\<close>

definition HandleSendUEContextReleaseRequest :: "('x, 'm) ngap_env_scheme \<Rightarrow> int \<Rightarrow> EvtError \<Rightarrow> 'x world \<Rightarrow> unit gores \<times> 'x world" where
  "HandleSendUEContextReleaseRequest env ranUeNgapId errMsg w =
     (if errMsg \<noteq> ErrRadioConnWithUeLost \<and> errMsg \<noteq> ErrNil then (Val (), w)
      else with_ue ranUeNgapId (\<lambda>u w.
        if errMsg = ErrNil then (Crash NilPointer, w)
        else SendUEContextReleaseRequest env (Some u) (BuildCause CausePresentRadioNetwork RadioConnectionWithUeLost) w) w)"

definition HandleSendUEContextReleaseComplete :: "('x, 'm) ngap_env_scheme \<Rightarrow> int \<Rightarrow> 'x world \<Rightarrow> unit gores \<times> 'x world" where
  "HandleSendUEContextReleaseComplete env ranUeNgapId =
     with_ue ranUeNgapId (\<lambda>u w.
       gtry (RanUe_Remove env u w) (\<lambda>_ w. SendUEContextReleaseComplete env (Some u) None w))"

definition HandleSendPDUSessionResourceReleaseRes :: "('x, 'm) ngap_env_scheme \<Rightarrow> int \<Rightarrow> 'x world \<Rightarrow> unit gores \<times> 'x world" where
  "HandleSendPDUSessionResourceReleaseRes env ranUeNgapId =
     with_ue ranUeNgapId (\<lambda>u w.
       gbind (deref ranues (Some u) w) (\<lambda>ue w.
         SendPDUSessionResourceReleaseResponse env (Some u) (ru_PduSessionReleaseList ue) None w))"

definition HandleSendUplinkNASTransport :: "('x, 'm) ngap_env_scheme \<Rightarrow> int \<Rightarrow> octets \<Rightarrow> 'x world \<Rightarrow> unit gores \<times> 'x world" where
  "HandleSendUplinkNASTransport env ranUeNgapId pdu =
     with_ue ranUeNgapId (\<lambda>u w. SendUplinkNASTransport env (Some u) pdu w)"

definition HandleSendInitialContextSetupResponse :: "('x, 'm) ngap_env_scheme \<Rightarrow> int \<Rightarrow> transfer_item list option
    \<Rightarrow> transfer_item list option \<Rightarrow> CriticalityDiagnostics option \<Rightarrow> 'x world \<Rightarrow> unit gores \<times> 'x world" where
  "HandleSendInitialContextSetupResponse env ranUeNgapId responseList failedList criticalityDiagnostics =
     with_ue ranUeNgapId (\<lambda>u w. SendInitialContextSetupResponse env (Some u) responseList failedList criticalityDiagnostics w)"

definition HandleSendSendUEContextRelease :: "('x, 'm) ngap_env_scheme \<Rightarrow> int \<Rightarrow> 'x world \<Rightarrow> unit gores \<times> 'x world" where
  "HandleSendSendUEContextRelease env ranUeNgapId =
     with_ue ranUeNgapId (\<lambda>u w.
       gbind (deref ranues (Some u) w) (\<lambda>ue w.
       if ru_UeCtxRelState ue then
         gtry (RanUe_Remove env u w) (\<lambda>_ w.
         gbind (SendUEContextReleaseComplete env (Some u) None w) (\<lambda>_ w.
           upd_ranue (Some u) (\<lambda>ue. ue\<lparr>ru_UeCtxRelState := False\<rparr>) w))
       else
         gbind (SendUEContextReleaseRequest env (Some u) (BuildCause CausePresentRadioNetwork RadioConnectionWithUeLost) w) (\<lambda>_ w.
           upd_ranue (Some u) (\<lambda>ue. ue\<lparr>ru_UeCtxRelState := True\<rparr>) w)))"

definition HandleSendSendPDUSessionResourceRelease :: "('x, 'm) ngap_env_scheme \<Rightarrow> int \<Rightarrow> int list \<Rightarrow> 'x world
    \<Rightarrow> unit gores \<times> 'x world" where
  "HandleSendSendPDUSessionResourceRelease env ranUeNgapId deletPduIds =
     with_ue ranUeNgapId (\<lambda>u w.
       gbind (deref ranues (Some u) w) (\<lambda>ue w.
       if ru_PduSessResRelState ue then
         gbind (SendPDUSessionResourceReleaseResponse env (Some u) (ru_PduSessionReleaseList ue) None w) (\<lambda>_ w.
           upd_ranue (Some u) (\<lambda>ue. ue\<lparr>ru_PduSessResRelState := False\<rparr>) w)
       else
         gbind (gloop (DeletePDUSession u) deletPduIds w) (\<lambda>_ w.
           upd_ranue (Some u) (\<lambda>ue. ue\<lparr>ru_PduSessResRelState := True\<rparr>) w)))"

definition NGAP_HandleEvent :: "('x, 'm) ngap_env_scheme \<Rightarrow> NgapEvt \<Rightarrow> 'x world \<Rightarrow> unit gores \<times> 'x world" where
  "NGAP_HandleEvent env ngapEvent =
     (case ngapEvent of
        UnmarshalEAP5GDataEvt spi d initial i \<Rightarrow> HandleUnmarshalEAP5GData env spi d initial i
      | SendInitialUEMessageEvt i ip port nas \<Rightarrow> HandleSendInitialUEMessage env i ip port nas
      | SendPDUSessionResourceSetupResEvt i \<Rightarrow> HandleSendPDUSessionResourceSetupResponse env i
      | SendNASMsgEvt i \<Rightarrow> HandleSendNASMsg env i
      | StartTCPSignalNASMsgEvt i \<Rightarrow> HandleStartTCPSignalNASMsg i
      | NASTCPConnEstablishedCompleteEvt i \<Rightarrow> HandleNASTCPConnEstablishedComplete env i
      | SendUEContextReleaseEvt i \<Rightarrow> HandleSendSendUEContextRelease env i
      | SendUEContextReleaseRequestEvt i e \<Rightarrow> HandleSendUEContextReleaseRequest env i e
      | SendUEContextReleaseCompleteEvt i \<Rightarrow> HandleSendUEContextReleaseComplete env i
      | SendPDUSessionResourceReleaseEvt i ids \<Rightarrow> HandleSendSendPDUSessionResourceRelease env i ids
      | SendPDUSessionResourceReleaseResEvt i \<Rightarrow> HandleSendPDUSessionResourceReleaseRes env i
      | GetNGAPContextEvt i nums \<Rightarrow> HandleGetNGAPContext i nums
      | SendUplinkNASTransportEvt i pdu \<Rightarrow> HandleSendUplinkNASTransport env i pdu
      | SendInitialContextSetupRespEvt i rl fl d \<Rightarrow> HandleSendInitialContextSetupResponse env i rl fl d)"

section \<open>The server loops\<close>

text \<open>
  One round of \<open>runNgapEventHandler\<close>: an event from the queue or a packet of the AMF (an empty one
  closes the server, here it does nothing). One round of the event part of the IKE server.
\<close>

definition ngap_take_event :: "('x, 'm) ngap_env_scheme \<Rightarrow> 'x world \<Rightarrow> unit gores \<times> 'x world" where
  "ngap_take_event env w =
     (case ngap_evts w of [] \<Rightarrow> (Val (), w) | e # es \<Rightarrow> NGAP_HandleEvent env e (w\<lparr>ngap_evts := es\<rparr>))"

definition ngap_take_packet :: "('x, 'm) ngap_env_scheme \<Rightarrow> nat \<Rightarrow> octets \<Rightarrow> 'x world \<Rightarrow> unit gores \<times> 'x world" where
  "ngap_take_packet env conn buf w = (if length buf = 0 then (Val (), w) else NGAPDispatch env conn buf w)"

definition ike_take_event :: "('x, 'm) ngap_env_scheme \<Rightarrow> 'x world \<Rightarrow> unit gores \<times> 'x world" where
  "ike_take_event env w =
     (case ike_evts w of [] \<Rightarrow> (Val (), w) | e # es \<Rightarrow> HandleEvent env e (w\<lparr>ike_evts := es\<rparr>))"

end
