(* ===== verification/Gre.thy ===== *)
theory Gre
  imports N3iwf_Prelude
begin

text \<open>
  The GRE packets exchanged with the UE on the user plane (\<open>src/internal/gre/message.go\<close>): the
  packet of TS 24.502 9.3.3, its encoder and decoder, and the QoS parameters (QFI and RQI)
  carried in the key field. A method with a pointer receiver takes the packet and returns it
  updated.
\<close>

section \<open>The packet and its operations\<close>

definition GREHeaderFieldLength :: nat where "GREHeaderFieldLength = 8"

definition GREHeaderKeyFieldLength :: nat where "GREHeaderKeyFieldLength = 4"

definition GRE_IPv4 :: u16 where "GRE_IPv4 = 0x0800"

record GREPacket =
  gre_flags :: u8
  gre_version :: u8
  gre_protocolType :: u16
  gre_key :: u32
  gre_payload :: octets

text \<open>The zero value \<open>GREPacket{}\<close>.\<close>

definition GREPacket_zero :: GREPacket where
  "GREPacket_zero = \<lparr>gre_flags = 0, gre_version = 0, gre_protocolType = 0, gre_key = 0, gre_payload = []\<rparr>"

definition GREPacket_Marshal :: "GREPacket \<Rightarrow> octets" where
  "GREPacket_Marshal p =
     [gre_flags p, gre_version p] @ PutUint16 (gre_protocolType p) @ PutUint32 (gre_key p)
       @ gre_payload p"

definition GREPacket_GetKeyFlag :: "GREPacket \<Rightarrow> bool" where
  "GREPacket_GetKeyFlag p = (gre_flags p AND 0x20 > 0)"

text \<open>
  Every index and slice of \<open>Unmarshal\<close> is one that can panic; a panic leaves the fields that were
  assigned before it. \<open>unmarshal_key\<close> reads the optional key field and gives the offset behind it.
\<close>

definition unmarshal_key :: "octets \<Rightarrow> nat \<Rightarrow> GREPacket \<Rightarrow> nat gores \<times> GREPacket" where
  "unmarshal_key b offset p =
     (if GREPacket_GetKeyFlag p then
        if length b < offset + GREHeaderKeyFieldLength
        then (Err ''GRE packet too short for Key field'', p)
        else gbind (slice_range offset (offset + GREHeaderKeyFieldLength) b, p) (\<lambda>k p.
               (Val (offset + GREHeaderKeyFieldLength), p\<lparr>gre_key := Uint32 k\<rparr>))
      else (Val offset, p))"

definition GREPacket_Unmarshal :: "GREPacket \<Rightarrow> octets \<Rightarrow> unit gores \<times> GREPacket" where
  "GREPacket_Unmarshal p b =
     (if length b < 4 then (Err ''GRE packet too short'', p)
      else
        gbind (index_at 0 b, p) (\<lambda>flags p.
        gbind (index_at 1 b, p\<lparr>gre_flags := flags\<rparr>) (\<lambda>version p.
        gbind (slice_range 2 4 b, p\<lparr>gre_version := version\<rparr>) (\<lambda>pt p.
        gbind (unmarshal_key b 4 (p\<lparr>gre_protocolType := Uint16 pt\<rparr>)) (\<lambda>offset p.
        gbind (slice_from offset b, p) (\<lambda>rest p.
          (Val (), p\<lparr>gre_payload := gre_payload p @ rest\<rparr>)))))))"

definition GREPacket_SetPayload :: "GREPacket \<Rightarrow> octets \<Rightarrow> u16 \<Rightarrow> GREPacket" where
  "GREPacket_SetPayload p payload protocolType =
     p\<lparr>gre_payload := payload, gre_protocolType := protocolType\<rparr>"

definition GREPacket_GetPayload :: "GREPacket \<Rightarrow> octets \<times> u16" where
  "GREPacket_GetPayload p = (gre_payload p, gre_protocolType p)"

definition GREPacket_setKeyFlag :: "GREPacket \<Rightarrow> GREPacket" where
  "GREPacket_setKeyFlag p = p\<lparr>gre_flags := gre_flags p OR 0x20\<rparr>"

definition GREPacket_setQFI :: "GREPacket \<Rightarrow> u8 \<Rightarrow> GREPacket" where
  "GREPacket_setQFI p qfi = p\<lparr>gre_key := gre_key p OR push_bit 24 (ucast qfi AND 0x3F)\<rparr>"

definition GREPacket_setRQI :: "GREPacket \<Rightarrow> bool \<Rightarrow> GREPacket" where
  "GREPacket_setRQI p rqi = (if rqi then p\<lparr>gre_key := gre_key p OR 0x80\<rparr> else p)"

definition GREPacket_GetQFI :: "GREPacket \<Rightarrow> u8 gores" where
  "GREPacket_GetQFI p =
     (let v = drop_bit 24 (gre_key p) AND 0x3F
      in if v > 0xFF then Err ''GetQFI() value exceeds uint8'' else Val (ucast v))"

definition GREPacket_GetRQI :: "GREPacket \<Rightarrow> bool" where
  "GREPacket_GetRQI p = (gre_key p AND 0x80 > 0)"

definition GREPacket_GetKeyField :: "GREPacket \<Rightarrow> u32" where
  "GREPacket_GetKeyField p = gre_key p"

definition GREPacket_SetQoS :: "GREPacket \<Rightarrow> u8 \<Rightarrow> bool \<Rightarrow> GREPacket" where
  "GREPacket_SetQoS p qfi rqi = GREPacket_setKeyFlag (GREPacket_setRQI (GREPacket_setQFI p qfi) rqi)"

section \<open>Flag and key bits\<close>

lemma and_single_bit_pos:
  fixes w :: "'a::len word"
  shows "(0 < w AND push_bit n 1) = bit w n"
proof -
  have "(w AND push_bit n 1 \<noteq> 0) = bit w n"
    using and_exp_eq_0_iff_not_bit [of w n] by (simp add: push_bit_eq_mult)
  then show ?thesis by (simp add: word_gt_0)
qed

lemma GetKeyFlag_bit: "GREPacket_GetKeyFlag p = bit (gre_flags p) 5"
  using and_single_bit_pos [of "gre_flags p" 5] by (simp add: GREPacket_GetKeyFlag_def)

lemma GetRQI_bit: "GREPacket_GetRQI p = bit (gre_key p) 7"
  using and_single_bit_pos [of "gre_key p" 7] by (simp add: GREPacket_GetRQI_def)

lemma mask6_u32: "(0x3F :: u32) = mask 6" and mask6_u8: "(0x3F :: u8) = mask 6"
  by (simp_all add: mask_eq_exp_minus_1)

lemma GetQFI_Val: "GREPacket_GetQFI p = Val (ucast (drop_bit 24 (gre_key p)) AND 0x3F)"
proof -
  let ?v = "drop_bit 24 (gre_key p) AND 0x3F"
  have "?v \<le> 0x3F" by (rule word_and_le1)
  also have "(0x3F :: u32) \<le> 0xFF" by simp
  finally have "\<not> 0xFF < ?v" by (simp add: not_less)
  moreover have "ucast ?v = (ucast (drop_bit 24 (gre_key p)) AND 0x3F :: u8)"
    unfolding mask6_u32 mask6_u8 by (rule bit_word_eqI) (auto simp: bit_simps)
  ultimately show ?thesis by (simp add: GREPacket_GetQFI_def Let_def)
qed

lemma bit_SetQoS_key:
  "bit (gre_key (GREPacket_SetQoS p qfi rqi)) n =
     (bit (gre_key p) n \<or> 24 \<le> n \<and> n < 30 \<and> bit qfi (n - 24) \<or> rqi \<and> n = 7)"
proof -
  have "bit (0x80 :: u32) n = (n = 7)"
    using bit_push_bit_iff [of 7 "1 :: u32" n] by (auto simp: bit_simps)
  then show ?thesis
    by (cases rqi)
      (auto simp: GREPacket_SetQoS_def GREPacket_setKeyFlag_def GREPacket_setRQI_def
        GREPacket_setQFI_def mask6_u32 bit_simps dest: bit_imp_le_length)
qed

section \<open>Properties\<close>

lemma Marshal_length: "length (GREPacket_Marshal p) = GREHeaderFieldLength + length (gre_payload p)"
  by (simp add: GREPacket_Marshal_def GREHeaderFieldLength_def)

lemma Marshal_fields:
  "GREPacket_Marshal p ! 0 = gre_flags p"
  "GREPacket_Marshal p ! Suc 0 = gre_version p"
  "take 2 (drop 2 (GREPacket_Marshal p)) = PutUint16 (gre_protocolType p)"
  "take 4 (drop 4 (GREPacket_Marshal p)) = PutUint32 (gre_key p)"
  "drop 8 (GREPacket_Marshal p) = gre_payload p"
  "drop 4 (GREPacket_Marshal p) = PutUint32 (gre_key p) @ gre_payload p"
  by (simp_all add: GREPacket_Marshal_def PutUint16_def PutUint32_def)

lemma Unmarshal_header:
  assumes "4 \<le> length b"
  shows "GREPacket_Unmarshal p b =
     gbind (unmarshal_key b 4 (p\<lparr>gre_flags := b ! 0, gre_version := b ! 1, gre_protocolType := Uint16 (take 2 (drop 2 b))\<rparr>))
       (\<lambda>offset p. gbind (slice_from offset b, p) (\<lambda>rest p. (Val (), p\<lparr>gre_payload := gre_payload p @ rest\<rparr>)))"
proof -
  have "b \<noteq> []" using assms by auto
  with assms show ?thesis by (simp add: GREPacket_Unmarshal_def)
qed

lemmas gre_wire = Unmarshal_header unmarshal_key_def Marshal_length Marshal_fields GREPacket_GetKeyFlag_def
  GREHeaderFieldLength_def GREHeaderKeyFieldLength_def codec_simps Let_def

lemma SetQoS_flag: "GREPacket_GetKeyFlag (GREPacket_SetQoS p qfi rqi)"
proof -
  have "bit (0x20 :: u8) 5" by (simp add: bit_iff_odd)
  then show ?thesis
    by (simp add: GetKeyFlag_bit GREPacket_SetQoS_def GREPacket_setKeyFlag_def bit_or_iff)
qed

lemma SetQoS_payload [simp]:
  "gre_payload (GREPacket_SetQoS p qfi rqi) = gre_payload p"
  "gre_protocolType (GREPacket_SetQoS p qfi rqi) = gre_protocolType p"
  by (simp_all add: GREPacket_SetQoS_def GREPacket_setKeyFlag_def GREPacket_setRQI_def GREPacket_setQFI_def)

lemma Unmarshal_Marshal_keyed:
  "GREPacket_GetKeyFlag p \<Longrightarrow> GREPacket_Unmarshal q (GREPacket_Marshal p) =
    (Val (), p\<lparr>gre_payload := gre_payload q @ gre_payload p\<rparr>)"
  by (simp add: gre_wire)

lemma zero_payload: "gre_payload GREPacket_zero = []"
  by (simp add: GREPacket_zero_def)

lemma payload_refl: "p\<lparr>gre_payload := gre_payload p\<rparr> = (p :: GREPacket)"
  by (cases p) simp

lemma SetQoS_GetQFI:
  assumes "gre_key p = 0"
  shows "GREPacket_GetQFI (GREPacket_SetQoS p qfi rqi) = Val (qfi AND 0x3F)"
    and "GREPacket_GetRQI (GREPacket_SetQoS p qfi rqi) = rqi"
proof -
  show "GREPacket_GetQFI (GREPacket_SetQoS p qfi rqi) = Val (qfi AND 0x3F)"
    unfolding GetQFI_Val gores.inject mask6_u8
    by (rule bit_word_eqI) (auto simp: bit_simps bit_SetQoS_key assms)
  show "GREPacket_GetRQI (GREPacket_SetQoS p qfi rqi) = rqi"
    by (auto simp: GetRQI_bit bit_SetQoS_key assms)
qed

text \<open>
  C23: A packet whose key flag is set survives the wire: decoding its encoding into a receiver
  succeeds and gives every header field of the packet, with the packet's payload appended to
  whatever payload the receiver held.
\<close>

theorem GRE_Unmarshal_Marshal:
  assumes "GREPacket_GetKeyFlag p"
  shows "GREPacket_Unmarshal q (GREPacket_Marshal p) =
    (Val (), p\<lparr>gre_payload := gre_payload q @ gre_payload p\<rparr>)"
  using assms by (rule Unmarshal_Marshal_keyed)

theorem GRE_Unmarshal_Marshal_witness:
  "GREPacket_Unmarshal GREPacket_zero
     (GREPacket_Marshal \<lparr>gre_flags = 0x20, gre_version = 0, gre_protocolType = GRE_IPv4,
        gre_key = 0x09000080, gre_payload = [1, 2, 3]\<rparr>) =
   (Val (), \<lparr>gre_flags = 0x20, gre_version = 0, gre_protocolType = GRE_IPv4,
        gre_key = 0x09000080, gre_payload = [1, 2, 3]\<rparr>)"
  using GRE_Unmarshal_Marshal
    [of "\<lparr>gre_flags = 0x20, gre_version = 0, gre_protocolType = GRE_IPv4,
        gre_key = 0x09000080, gre_payload = [1, 2, 3]\<rparr>" GREPacket_zero]
  by (simp add: GREPacket_GetKeyFlag_def GREPacket_zero_def)

text \<open>
  What a decoded packet shows of its octets, by the key flag.
\<close>

lemma Unmarshal_octets:
  assumes "GREPacket_Unmarshal GREPacket_zero b = (Val (), p)"
  shows "b = (if GREPacket_GetKeyFlag p then GREPacket_Marshal p else take 4 (GREPacket_Marshal p) @ gre_payload p)"
proof -
  have len: "4 \<le> length b" using assms by (auto simp: GREPacket_Unmarshal_def split: if_splits)
  then obtain f v x y r where b: "b = f # v # x # y # r" by (auto simp: numeral_eq_Suc Suc_le_length_iff)
  have pt: "PutUint16 (Uint16 [x, y]) = [x, y]" by (simp add: PutUint16_Uint16)
  have key: "PutUint32 (Uint32 (take 4 r)) @ drop 4 r = r" if "4 \<le> length r"
    using that by (simp add: PutUint32_Uint32)
  show ?thesis
    using assms key pt
    by (auto simp: b GREPacket_Unmarshal_def unmarshal_key_def GREPacket_Marshal_def GREPacket_GetKeyFlag_def
        GREHeaderKeyFieldLength_def zero_payload numeral_eq_Suc split: if_splits)
qed

text \<open>
  C36: Decoding never indexes out of range, rejects exactly the packets that are too short (fewer than
  the four fixed octets, or fewer than eight while the key flag, bit 5 of the first octet, is set) and
  loses nothing of the others: a packet decoded into a fresh receiver encodes back to the very octets
  it was decoded from if it has a key; without one the octets are its four fixed octets and its
  payload.
\<close>

theorem GRE_Unmarshal_total:
  "case GREPacket_Unmarshal GREPacket_zero b of
     (Val _, p) \<Rightarrow> b = (if GREPacket_GetKeyFlag p then GREPacket_Marshal p else take 4 (GREPacket_Marshal p) @ gre_payload p)
   | (Err _, _) \<Rightarrow> length b < 4 \<or> bit (b ! 0) 5 \<and> length b < 8
   | (Crash _, _) \<Rightarrow> False"
proof (cases "GREPacket_Unmarshal GREPacket_zero b")
  case (Pair r p)
  show ?thesis
  proof (cases "length b < 4")
    case True
    then show ?thesis by (simp add: GREPacket_Unmarshal_def)
  next
    case False
    show ?thesis
    proof (cases r)
      case (Val u)
      with Pair show ?thesis using Unmarshal_octets [of b p] by simp
    qed (use Pair False in \<open>auto simp: Unmarshal_header unmarshal_key_def GetKeyFlag_bit GREHeaderKeyFieldLength_def
        split: if_splits\<close>)
  qed
qed

text \<open>
  The QoS parameters put in a fresh packet reach the peer: after \<open>SetPayload\<close> and \<open>SetQoS\<close>
  the encoding decodes to a packet that has the key flag, the same payload and protocol type,
  the low six bits of the QFI and the RQI. \<open>GetQFI\<close> never takes its error branch.
\<close>

lemma GRE_QoS_end_to_end:
  "\<exists>p. GREPacket_Unmarshal GREPacket_zero
         (GREPacket_Marshal (GREPacket_SetQoS (GREPacket_SetPayload GREPacket_zero data proto) qfi rqi))
         = (Val (), p)
     \<and> GREPacket_GetKeyFlag p \<and> GREPacket_GetPayload p = (data, proto)
     \<and> GREPacket_GetQFI p = Val (qfi AND 0x3F) \<and> GREPacket_GetRQI p = rqi"
proof -
  let ?p = "GREPacket_SetPayload GREPacket_zero data proto"
  have "GREPacket_Unmarshal GREPacket_zero (GREPacket_Marshal (GREPacket_SetQoS ?p qfi rqi)) =
    (Val (), GREPacket_SetQoS ?p qfi rqi)"
    using Unmarshal_Marshal_keyed [OF SetQoS_flag, of GREPacket_zero ?p qfi rqi]
    by (simp only: zero_payload append_Nil payload_refl)
  moreover have "gre_key ?p = 0" "gre_payload ?p = data" "gre_protocolType ?p = proto"
    by (simp_all add: GREPacket_zero_def GREPacket_SetPayload_def)
  ultimately show ?thesis
    by (simp add: SetQoS_flag SetQoS_GetQFI GREPacket_GetPayload_def)
qed

text \<open>
  \<open>Marshal\<close> writes the four key octets whether or not the key flag is set, while
  \<open>Unmarshal\<close> consumes them only when it is: a packet without the key flag comes back with its
  key octets in front of its payload.
\<close>

lemma GRE_unkeyed_payload_shift:
  assumes "\<not> GREPacket_GetKeyFlag p"
  shows "gre_payload (snd (GREPacket_Unmarshal GREPacket_zero (GREPacket_Marshal p))) =
    PutUint32 (gre_key p) @ gre_payload p"
  using assms by (simp add: gre_wire GREPacket_zero_def)

end
