(* ===== verification/Gtp.thy ===== *)
theory Gtp
  imports Gre
begin

text \<open>
  The GTP-U packets exchanged with the UPF (\<open>src/internal/gtp/message/message.go\<close>): reading the
  QoS parameters from the PDU session container of a received T-PDU and building an uplink
  T-PDU with such a container. The GTP library's message type, its constants and its header
  encoder and decoder are the parameters \<open>gtp_lib\<close>.
\<close>

section \<open>The library's interface\<close>

record ExtensionHeader =
  eh_Type :: u8
  eh_Content :: octets
  eh_NextType :: u8

record TPDU =
  tpdu_Flags :: u8
  tpdu_TEID :: u32
  tpdu_ExtensionHeaders :: "ExtensionHeader list"
  tpdu_Payload :: octets

text \<open>The arguments of \<open>NewHeader(...).WithExtensionHeaders(...)\<close>.\<close>

record GTPHeader =
  gh_flags :: u8
  gh_mtype :: u8
  gh_teid :: u32
  gh_seqnum :: u16
  gh_payload :: octets
  gh_ext :: "ExtensionHeader list"

record gtp_lib =
  lib_HasExtensionHeader :: "TPDU \<Rightarrow> bool"
  lib_ExtHeaderTypePDUSessionContainer :: u8
  lib_ExtHeaderTypeNoMoreExtensionHeaders :: u8
  lib_MsgTypeTPDU :: u8
  lib_MarshalTo :: "GTPHeader \<Rightarrow> octets gores"

section \<open>T-PDUs with QoS parameters\<close>

definition DL_PDU_SESSION_INFORMATION_TYPE :: u8 where "DL_PDU_SESSION_INFORMATION_TYPE = 0x00"

definition UL_PDU_SESSION_INFORMATION_TYPE :: u8 where "UL_PDU_SESSION_INFORMATION_TYPE = 0x10"

record QoSTPDUPacket =
  qp_tPDU :: "TPDU option"
  qp_qos :: bool
  qp_rqi :: bool
  qp_qfi :: u8

definition QoSTPDUPacket_zero :: QoSTPDUPacket where
  "QoSTPDUPacket_zero = \<lparr>qp_tPDU = None, qp_qos = False, qp_rqi = False, qp_qfi = 0\<rparr>"

text \<open>Reading through the \<open>tPDU\<close> pointer panics while it is nil.\<close>

definition qp_deref :: "QoSTPDUPacket \<Rightarrow> (TPDU \<Rightarrow> 'a) \<Rightarrow> 'a gores" where
  "qp_deref p f = (case qp_tPDU p of None \<Rightarrow> Crash NilPointer | Some t \<Rightarrow> Val (f t))"

definition QoSTPDUPacket_GetPayload :: "QoSTPDUPacket \<Rightarrow> octets gores" where
  "QoSTPDUPacket_GetPayload p = qp_deref p tpdu_Payload"

definition QoSTPDUPacket_GetTEID :: "QoSTPDUPacket \<Rightarrow> u32 gores" where
  "QoSTPDUPacket_GetTEID p = qp_deref p tpdu_TEID"

definition QoSTPDUPacket_GetExtensionHeader :: "QoSTPDUPacket \<Rightarrow> ExtensionHeader list gores" where
  "QoSTPDUPacket_GetExtensionHeader p = qp_deref p tpdu_ExtensionHeaders"

definition QoSTPDUPacket_HasQoS :: "QoSTPDUPacket \<Rightarrow> bool" where
  "QoSTPDUPacket_HasQoS p = qp_qos p"

definition QoSTPDUPacket_GetQoSParameters :: "QoSTPDUPacket \<Rightarrow> u8 \<times> bool" where
  "QoSTPDUPacket_GetQoSParameters p = (qp_qfi p, qp_rqi p)"

text \<open>
  The body of the loop over the extension headers: \<open>qos\<close> is set before \<open>Content[1]\<close> is read, so
  a container of fewer than two octets panics.
\<close>

definition unmarshalExtensionHeader_body ::
  "gtp_lib \<Rightarrow> ExtensionHeader \<Rightarrow> QoSTPDUPacket \<Rightarrow> unit gores \<times> QoSTPDUPacket" where
  "unmarshalExtensionHeader_body lib eh p =
     (if eh_Type eh = lib_ExtHeaderTypePDUSessionContainer lib then
        let p1 = p\<lparr>qp_qos := True\<rparr> in
        if length (eh_Content eh) \<le> 1 then (Crash IndexRange, p1)
        else (Val (), p1\<lparr>qp_rqi := (drop_bit 6 (eh_Content eh ! 1) AND 0x1 = 1),
                        qp_qfi := eh_Content eh ! 1 AND 0x3F\<rparr>)
      else (Val (), p))"

definition QoSTPDUPacket_unmarshalExtensionHeader ::
  "gtp_lib \<Rightarrow> QoSTPDUPacket \<Rightarrow> unit gores \<times> QoSTPDUPacket" where
  "QoSTPDUPacket_unmarshalExtensionHeader lib p =
     (case qp_tPDU p of None \<Rightarrow> (Crash NilPointer, p)
      | Some t \<Rightarrow>
          gbind (gloop (unmarshalExtensionHeader_body lib) (tpdu_ExtensionHeaders t) p)
            (\<lambda>_ p'. if \<not> qp_qos p' then (Err ''no PDUSessionContainer in ExtensionHeaders'', p')
                    else (Val (), p')))"

definition QoSTPDUPacket_Unmarshal ::
  "gtp_lib \<Rightarrow> QoSTPDUPacket \<Rightarrow> TPDU \<Rightarrow> unit gores \<times> QoSTPDUPacket" where
  "QoSTPDUPacket_Unmarshal lib p pdu =
     (let p1 = p\<lparr>qp_tPDU := Some pdu\<rparr> in
      if lib_HasExtensionHeader lib pdu then
        gbind (QoSTPDUPacket_unmarshalExtensionHeader lib p1) (\<lambda>_ p'. (Val (), p'))
      else (Val (), p1))"

definition uplink_header :: "gtp_lib \<Rightarrow> u32 \<Rightarrow> u8 \<Rightarrow> octets \<Rightarrow> GTPHeader" where
  "uplink_header lib teid qfi payload =
     \<lparr>gh_flags = 0x34, gh_mtype = lib_MsgTypeTPDU lib, gh_teid = teid, gh_seqnum = 0,
      gh_payload = payload,
      gh_ext = [\<lparr>eh_Type = lib_ExtHeaderTypePDUSessionContainer lib,
                 eh_Content = [UL_PDU_SESSION_INFORMATION_TYPE, qfi],
                 eh_NextType = lib_ExtHeaderTypeNoMoreExtensionHeaders lib\<rparr>]\<rparr>"

definition BuildQoSGTPPacket :: "gtp_lib \<Rightarrow> u32 \<Rightarrow> u8 \<Rightarrow> octets \<Rightarrow> octets gores" where
  "BuildQoSGTPPacket lib teid qfi payload =
     (case lib_MarshalTo lib (uplink_header lib teid qfi payload) of
        Val b \<Rightarrow> Val b | Err e \<Rightarrow> Err ''go-gtp Marshal failed'' | Crash p \<Rightarrow> Crash p)"

section \<open>The loop over the extension headers\<close>

definition is_container :: "gtp_lib \<Rightarrow> ExtensionHeader \<Rightarrow> bool" where
  "is_container lib eh = (eh_Type eh = lib_ExtHeaderTypePDUSessionContainer lib)"

text \<open>What the loop amounts to: the last container wins.\<close>

lemma ext_loop:
  assumes "\<forall>eh \<in> set ehs. is_container lib eh \<longrightarrow> length (eh_Content eh) \<ge> 2"
  shows "gloop (unmarshalExtensionHeader_body lib) ehs p =
    (Val (), case filter (is_container lib) (rev ehs) of [] \<Rightarrow> p
       | eh # _ \<Rightarrow> p\<lparr>qp_qos := True, qp_rqi := bit (eh_Content eh ! 1) 6,
                    qp_qfi := eh_Content eh ! 1 AND 0x3F\<rparr>)"
  using assms
proof (induction ehs arbitrary: p rule: rev_induct)
  case (snoc eh ehs)
  have bit6: "(drop_bit 6 b AND 1 = 1) = bit b 6" for b :: u8
    by (simp add: bit_iff_odd_drop_bit and_one_eq odd_iff_mod_2_eq_one)
  from snoc show ?case
    by (auto simp: gloop_append unmarshalExtensionHeader_body_def is_container_def Let_def bit6
        split: list.splits)
qed simp

lemma ext_loop_crash:
  assumes "eh \<in> set ehs" "is_container lib eh" "length (eh_Content eh) < 2"
  shows "is_Crash (fst (gloop (unmarshalExtensionHeader_body lib) ehs p))"
  using assms
proof (induction ehs arbitrary: p)
  case (Cons x xs)
  then show ?case
    by (cases "x = eh") (auto simp: unmarshalExtensionHeader_body_def is_container_def Let_def)
qed simp

section \<open>Properties\<close>

lemma Unmarshal_ext:
  assumes "lib_HasExtensionHeader lib pdu"
    and "\<forall>eh \<in> set (tpdu_ExtensionHeaders pdu). is_container lib eh \<longrightarrow> length (eh_Content eh) \<ge> 2"
  shows "QoSTPDUPacket_Unmarshal lib QoSTPDUPacket_zero pdu =
    (case filter (is_container lib) (rev (tpdu_ExtensionHeaders pdu)) of
       [] \<Rightarrow> (Err ''no PDUSessionContainer in ExtensionHeaders'', QoSTPDUPacket_zero\<lparr>qp_tPDU := Some pdu\<rparr>)
     | eh # _ \<Rightarrow> (Val (), \<lparr>qp_tPDU = Some pdu, qp_qos = True, qp_rqi = bit (eh_Content eh ! 1) 6,
                          qp_qfi = eh_Content eh ! 1 AND 0x3F\<rparr>))"
  using assms
  by (auto simp: QoSTPDUPacket_Unmarshal_def QoSTPDUPacket_unmarshalExtensionHeader_def Let_def
      ext_loop QoSTPDUPacket_zero_def split: list.splits)

text \<open>
  C37: Reading a T-PDU panics exactly when the library reports extension headers and one of the
  PDU session containers among them has fewer than two octets (\<open>eh.Content[1]\<close> is read without a
  length check); when it does not panic, it fails exactly when extension headers are reported
  and none is a PDU session container.
\<close>

theorem QoSTPDU_Unmarshal_outcome:
  "(let ehs = tpdu_ExtensionHeaders pdu;
        r = fst (QoSTPDUPacket_Unmarshal lib QoSTPDUPacket_zero pdu);
        short = (\<exists>eh \<in> set ehs. is_container lib eh \<and> length (eh_Content eh) < 2)
    in is_Crash r = (lib_HasExtensionHeader lib pdu \<and> short)
     \<and> (r = Err ''no PDUSessionContainer in ExtensionHeaders'') =
         (lib_HasExtensionHeader lib pdu \<and> \<not> (\<exists>eh \<in> set ehs. is_container lib eh)))"
proof (cases "lib_HasExtensionHeader lib pdu")
  case False
  then show ?thesis by (simp add: QoSTPDUPacket_Unmarshal_def Let_def)
next
  case has: True
  show ?thesis
  proof (cases "\<exists>eh \<in> set (tpdu_ExtensionHeaders pdu). is_container lib eh \<and> length (eh_Content eh) < 2")
    case True
    then have "is_Crash (fst (gloop (unmarshalExtensionHeader_body lib) (tpdu_ExtensionHeaders pdu) p))" for p
      using ext_loop_crash by blast
    then have "is_Crash (fst (QoSTPDUPacket_Unmarshal lib QoSTPDUPacket_zero pdu))"
      using has
      by (simp add: QoSTPDUPacket_Unmarshal_def QoSTPDUPacket_unmarshalExtensionHeader_def Let_def
          is_Crash_gbind)
    with True has show ?thesis by (auto simp: Let_def)
  next
    case False
    then have "\<forall>eh \<in> set (tpdu_ExtensionHeaders pdu). is_container lib eh \<longrightarrow> length (eh_Content eh) \<ge> 2"
      by (auto simp: not_less)
    moreover have "(filter (is_container lib) (rev (tpdu_ExtensionHeaders pdu)) = []) =
        (\<not> (\<exists>eh \<in> set (tpdu_ExtensionHeaders pdu). is_container lib eh))"
      by (simp add: filter_empty_conv)
    ultimately show ?thesis
      using has False
      by (cases "filter (is_container lib) (rev (tpdu_ExtensionHeaders pdu))")
        (simp_all add: Unmarshal_ext Let_def)
  qed
qed

text \<open>
  The library decodes what its encoder produced: \<open>parse\<close> stands for its message parser.
\<close>

definition gtp_parses :: "gtp_lib \<Rightarrow> (octets \<Rightarrow> TPDU) \<Rightarrow> GTPHeader \<Rightarrow> bool" where
  "gtp_parses lib parse h =
     (case lib_MarshalTo lib h of Val b \<Rightarrow>
        tpdu_TEID (parse b) = gh_teid h \<and> tpdu_Payload (parse b) = gh_payload h
        \<and> tpdu_ExtensionHeaders (parse b) = gh_ext h
        \<and> lib_HasExtensionHeader lib (parse b) = (gh_ext h \<noteq> [])
      | _ \<Rightarrow> False)"

text \<open>
  C22: The uplink path keeps the packet: for a GRE packet with QoS parameters, the T-PDU built
  from its QFI and payload is one that this program's own reader accepts, with the chosen
  TEID, the same payload, the QFI of the GRE key and the RQI bit clear, provided the GTP library
  parses what it encodes.
\<close>

theorem uplink_QFI_preserved:
  assumes qfi: "GREPacket_GetQFI g = Val qfi"
    and lib: "gtp_parses lib parse (uplink_header lib teid qfi (gre_payload g))"
  shows "\<exists>b p. BuildQoSGTPPacket lib teid qfi (gre_payload g) = Val b
    \<and> QoSTPDUPacket_Unmarshal lib QoSTPDUPacket_zero (parse b) = (Val (), p)
    \<and> QoSTPDUPacket_GetTEID p = Val teid \<and> QoSTPDUPacket_GetPayload p = Val (gre_payload g)
    \<and> QoSTPDUPacket_HasQoS p \<and> QoSTPDUPacket_GetQoSParameters p = (qfi, False)"
proof -
  let ?h = "uplink_header lib teid qfi (gre_payload g)"
  from lib obtain b where b: "lib_MarshalTo lib ?h = Val b"
    and parse: "tpdu_TEID (parse b) = teid" "tpdu_Payload (parse b) = gre_payload g"
      "tpdu_ExtensionHeaders (parse b) = gh_ext ?h" "lib_HasExtensionHeader lib (parse b)"
    by (auto simp: gtp_parses_def uplink_header_def split: gores.splits)
  from qfi have "qfi = ucast (drop_bit 24 (gre_key g)) AND 0x3F"
    by (simp add: GetQFI_Val)
  then have "\<not> bit qfi 6" "qfi AND 0x3F = qfi"
    unfolding mask6_u8 by (auto simp: bit_simps intro!: bit_word_eqI)
  then have "QoSTPDUPacket_Unmarshal lib QoSTPDUPacket_zero (parse b) =
      (Val (), \<lparr>qp_tPDU = Some (parse b), qp_qos = True, qp_rqi = False, qp_qfi = qfi\<rparr>)"
    using parse by (simp add: Unmarshal_ext is_container_def uplink_header_def)
  with b parse show ?thesis
    by (simp add: BuildQoSGTPPacket_def QoSTPDUPacket_GetTEID_def QoSTPDUPacket_GetPayload_def
        QoSTPDUPacket_HasQoS_def QoSTPDUPacket_GetQoSParameters_def qp_deref_def)
qed

text \<open>
  A concrete library for the evaluations below: the TEID and one extension header of two content
  octets behind a fixed prefix.
\<close>

definition demo_lib :: gtp_lib where
  "demo_lib = \<lparr>lib_HasExtensionHeader = (\<lambda>t. tpdu_Flags t AND 0x04 \<noteq> 0),
     lib_ExtHeaderTypePDUSessionContainer = 0x85, lib_ExtHeaderTypeNoMoreExtensionHeaders = 0,
     lib_MsgTypeTPDU = 0xFF,
     lib_MarshalTo = (\<lambda>h. case gh_ext h of
        [eh] \<Rightarrow> Val ([gh_flags h, gh_mtype h] @ PutUint32 (gh_teid h) @ [eh_Type eh]
                 @ eh_Content eh @ [eh_NextType eh] @ gh_payload h)
      | _ \<Rightarrow> Err ''unsupported'')\<rparr>"

definition demo_parse :: "octets \<Rightarrow> TPDU" where
  "demo_parse b = \<lparr>tpdu_Flags = b ! 0, tpdu_TEID = Uint32 (drop 2 b),
     tpdu_ExtensionHeaders = [\<lparr>eh_Type = b ! 6, eh_Content = [b ! 7, b ! 8], eh_NextType = b ! 9\<rparr>],
     tpdu_Payload = drop 10 b\<rparr>"

theorem uplink_QFI_preserved_witness:
  "\<exists>b p. BuildQoSGTPPacket demo_lib 0x1234 9 [1, 2, 3] = Val b
    \<and> QoSTPDUPacket_Unmarshal demo_lib QoSTPDUPacket_zero (demo_parse b) = (Val (), p)
    \<and> QoSTPDUPacket_GetTEID p = Val 0x1234 \<and> QoSTPDUPacket_GetPayload p = Val [1, 2, 3]
    \<and> QoSTPDUPacket_HasQoS p \<and> QoSTPDUPacket_GetQoSParameters p = (9, False)"
  using uplink_QFI_preserved
    [of "GREPacket_zero\<lparr>gre_key := 0x09000000, gre_payload := [1, 2, 3]\<rparr>" 9 demo_lib demo_parse "0x1234"]
  by (simp add: GetQFI_Val gtp_parses_def demo_lib_def demo_parse_def uplink_header_def
      PutUint32_def Uint32_def UL_PDU_SESSION_INFORMATION_TYPE_def)

end
