(* ===== verification/Context_Props.thy ===== *)
theory Context_Props
  imports Context
begin

text \<open>
  What the context operations guarantee: a well-formedness invariant of the pools and stores that
  every operation keeps (every pooled pointer is live and is filed under its own key), the
  freshness of allocated identifiers and addresses, AMF selection, and the life cycle of UEs and
  child SAs.
\<close>

section \<open>Well-formedness\<close>

text \<open>
  \<open>filed m h key\<close>: every pointer of the pool refers to an object whose key is the one it is filed
  under; \<open>live m h\<close>: every pointer of the pool refers to an object.
\<close>

definition filed :: "('k, addr) gomap \<Rightarrow> (addr \<rightharpoonup> 'o) \<Rightarrow> ('o \<Rightarrow> 'k) \<Rightarrow> bool" where
  "filed m h key = (\<forall>k a. gm_load m k = Some a \<longrightarrow> (\<exists>v. h a = Some v \<and> key v = k))"

definition live :: "('k, addr) gomap \<Rightarrow> (addr \<rightharpoonup> 'o) \<Rightarrow> bool" where
  "live m h = (\<forall>k a. gm_load m k = Some a \<longrightarrow> h a \<noteq> None)"

definition below :: "(addr \<rightharpoonup> 'o) \<Rightarrow> addr \<Rightarrow> bool" where
  "below h n = (\<forall>a. h a \<noteq> None \<longrightarrow> a < n)"

text \<open>
  How an operation may change a store: no object disappears, none changes the key it is filed
  under.
\<close>

definition keeps :: "('o \<Rightarrow> 'k) \<Rightarrow> (addr \<rightharpoonup> 'o) \<Rightarrow> (addr \<rightharpoonup> 'o) \<Rightarrow> bool" where
  "keeps key h h' = (\<forall>a v. h a = Some v \<longrightarrow> (\<exists>v'. h' a = Some v' \<and> key v' = key v))"

named_theorems wf_intros \<open>introduction rules for the parts of the invariant\<close>

lemma filed_Nil [simp]: "filed [] h key" and live_Nil [simp]: "live [] h"
  by (simp_all add: filed_def live_def)

lemma filed_store [wf_intros]:
  "filed m h key \<Longrightarrow> h a = Some v \<Longrightarrow> key v = k \<Longrightarrow> filed (gm_store k a m) h key"
  by (simp add: filed_def)

lemma filed_delete [wf_intros]: "filed m h key \<Longrightarrow> filed (gm_delete k m) h key"
  by (simp add: filed_def)

lemma live_store [wf_intros]: "live m h \<Longrightarrow> h a \<noteq> None \<Longrightarrow> live (gm_store k a m) h"
  by (simp add: live_def)

lemma live_delete [wf_intros]: "live m h \<Longrightarrow> live (gm_delete k m) h"
  by (simp add: live_def)

lemma below_upd: "below h n \<Longrightarrow> a < n' \<Longrightarrow> n \<le> n' \<Longrightarrow> below (h(a \<mapsto> v)) n'"
  by (auto simp: below_def)

lemma below_mono: "below h n \<Longrightarrow> n \<le> n' \<Longrightarrow> below h n'"
  by (auto simp: below_def)

lemma below_fresh: "below h n \<Longrightarrow> n \<le> a \<Longrightarrow> h a = None"
  by (auto simp: below_def)

lemma below_live: "below h n \<Longrightarrow> h a = Some v \<Longrightarrow> a < n"
  by (auto simp: below_def)

lemma keeps_refl [simp]: "keeps key h h"
  by (simp add: keeps_def)

lemma keeps_fresh: "h a = None \<Longrightarrow> keeps key h (h(a \<mapsto> v))"
  by (auto simp: keeps_def)

lemma keeps_upd: "h a = Some v \<Longrightarrow> key v' = key v \<Longrightarrow> keeps key h (h(a \<mapsto> v'))"
  by (auto simp: keeps_def)

lemma keeps_live: "keeps key h h' \<Longrightarrow> h a \<noteq> None \<Longrightarrow> h' a \<noteq> None"
  by (auto simp: keeps_def)

lemma filed_keeps: "filed m h key \<Longrightarrow> keeps key h h' \<Longrightarrow> filed m h' key"
  unfolding filed_def keeps_def by metis

lemma live_keeps: "live m h \<Longrightarrow> keeps key h h' \<Longrightarrow> live m h'"
  unfolding live_def using keeps_live by metis

lemma filed_live: "filed m h key \<Longrightarrow> live m h"
  by (auto simp: filed_def live_def)

definition ranue_ok :: "'x world \<Rightarrow> RanUe \<Rightarrow> bool" where
  "ranue_ok w ue = (filed (ru_PduSessionList ue) (sessions w) ps_Id
     \<and> (\<exists>t. ru_TemporaryPDUSessionSetupData ue = Some t \<and> tmps w t \<noteq> None)
     \<and> (\<forall>a. ru_AMF ue = Some a \<longrightarrow> amfs w a \<noteq> None))"

definition ikeue_ok :: "'x world \<Rightarrow> IkeUe \<Rightarrow> bool" where
  "ikeue_ok w ue =
     (filed (iu_N3IWFChildSecurityAssociation ue) (childsas w) csa_InboundSPI
     \<and> live (iu_TemporaryExchangeMsgIDChildSAMapping ue) (childsas w)
     \<and> (\<forall>a. iu_N3IWFIKESecurityAssociation ue = Some a \<longrightarrow> ikesas w a \<noteq> None))"

definition amf_ok :: "'x world \<Rightarrow> N3IWFAMF \<Rightarrow> bool" where
  "amf_ok w amf = filed (amf_N3iwfRanUeList amf) (ranues w) ru_RanUeNgapId"

definition stores_ok :: "'x world \<Rightarrow> bool" where
  "stores_ok w = (below (ranues w) (next_addr w) \<and> below (ikeues w) (next_addr w)
     \<and> below (ikesas w) (next_addr w) \<and> below (childsas w) (next_addr w)
     \<and> below (sessions w) (next_addr w) \<and> below (tmps w) (next_addr w)
     \<and> below (amfs w) (next_addr w))"

definition objects_ok :: "'x world \<Rightarrow> bool" where
  "objects_ok w = ((\<forall>a ue. ranues w a = Some ue \<longrightarrow> ranue_ok w ue)
     \<and> (\<forall>a ue. ikeues w a = Some ue \<longrightarrow> ikeue_ok w ue)
     \<and> (\<forall>a amf. amfs w a = Some amf \<longrightarrow> amf_ok w amf))"

definition pools_ok :: "'x world \<Rightarrow> bool" where
  "pools_ok w = (filed (RANUePool w) (ranues w) ru_RanUeNgapId \<and> live (IKEUePool w) (ikeues w)
     \<and> filed (IKESA w) (ikesas w) isa_LocalSPI \<and> filed (ChildSA w) (childsas w) csa_InboundSPI
     \<and> live (AllocatedUEIPAddress w) (ikeues w) \<and> live (AllocatedUETEID w) (ranues w)
     \<and> filed (AMFPool w) (amfs w) amf_SCTPAddr)"

definition ctx_wf :: "'x world \<Rightarrow> bool" where
  "ctx_wf w = (stores_ok w \<and> objects_ok w \<and> pools_ok w)"

definition stores_keep :: "'x world \<Rightarrow> 'x world \<Rightarrow> bool" where
  "stores_keep w w' = (keeps ru_RanUeNgapId (ranues w) (ranues w') \<and> keeps (\<lambda>_. ()) (ikeues w) (ikeues w')
     \<and> keeps isa_LocalSPI (ikesas w) (ikesas w') \<and> keeps csa_InboundSPI (childsas w) (childsas w')
     \<and> keeps ps_Id (sessions w) (sessions w') \<and> keeps (\<lambda>_. ()) (tmps w) (tmps w')
     \<and> keeps amf_SCTPAddr (amfs w) (amfs w'))"

lemma ranue_ok_keep: "ranue_ok w ue \<Longrightarrow> stores_keep w w' \<Longrightarrow> ranue_ok w' ue"
  unfolding ranue_ok_def stores_keep_def by (blast intro: filed_keeps dest: keeps_live)

lemma ikeue_ok_keep:
  assumes "ikeue_ok w ue" "stores_keep w w'" shows "ikeue_ok w' ue"
proof -
  have c: "keeps csa_InboundSPI (childsas w) (childsas w')" and s: "keeps isa_LocalSPI (ikesas w) (ikesas w')"
    using assms(2) by (simp_all add: stores_keep_def)
  show ?thesis
    using assms(1) keeps_live [OF s] unfolding ikeue_ok_def
    by (simp add: filed_keeps [OF _ c] live_keeps [OF _ c])
qed

lemma amf_ok_keep: "amf_ok w amf \<Longrightarrow> stores_keep w w' \<Longrightarrow> amf_ok w' amf"
  unfolding amf_ok_def stores_keep_def by (blast intro: filed_keeps)

lemmas ok_keep = ranue_ok_keep ikeue_ok_keep amf_ok_keep

definition same_pools :: "'x world \<Rightarrow> 'x world \<Rightarrow> bool" where
  "same_pools w w' = (RANUePool w' = RANUePool w \<and> IKEUePool w' = IKEUePool w \<and> IKESA w' = IKESA w
     \<and> ChildSA w' = ChildSA w \<and> AllocatedUEIPAddress w' = AllocatedUEIPAddress w
     \<and> AllocatedUETEID w' = AllocatedUETEID w \<and> AMFPool w' = AMFPool w)"

definition same_stores :: "'x world \<Rightarrow> 'x world \<Rightarrow> bool" where
  "same_stores w w' = (ranues w' = ranues w \<and> ikeues w' = ikeues w \<and> ikesas w' = ikesas w
     \<and> childsas w' = childsas w \<and> sessions w' = sessions w \<and> tmps w' = tmps w \<and> amfs w' = amfs w
     \<and> next_addr w' = next_addr w)"

lemma pools_ok_keep: "pools_ok w \<Longrightarrow> stores_keep w w' \<Longrightarrow> same_pools w w' \<Longrightarrow> pools_ok w'"
  unfolding pools_ok_def stores_keep_def same_pools_def
  by (auto intro: filed_keeps live_keeps)

lemma stores_ok_same: "stores_ok w \<Longrightarrow> same_stores w w' \<Longrightarrow> stores_ok w'"
  by (simp add: stores_ok_def same_stores_def)

lemma stores_keep_same: "same_stores w w' \<Longrightarrow> stores_keep w w'"
  by (simp add: stores_keep_def same_stores_def)

lemma objects_ok_same:
  assumes "objects_ok w" "same_stores w w'" shows "objects_ok w'"
proof -
  have keep: "stores_keep w w'" using assms by (simp add: stores_keep_same)
  have "ranues w' = ranues w" "ikeues w' = ikeues w" "amfs w' = amfs w"
    using assms by (simp_all add: same_stores_def)
  with assms(1) show ?thesis
    by (simp add: objects_ok_def ranue_ok_keep [OF _ keep] ikeue_ok_keep [OF _ keep] amf_ok_keep [OF _ keep])
qed

text \<open>An operation that only changes pools, generators and queues.\<close>

lemma ctx_wf_pools: "ctx_wf w \<Longrightarrow> same_stores w w' \<Longrightarrow> pools_ok w' \<Longrightarrow> ctx_wf w'"
  unfolding ctx_wf_def by (blast intro: stores_ok_same objects_ok_same)

text \<open>An operation that changes objects in place.\<close>

lemma ctx_wf_objects:
  assumes "ctx_wf w" "stores_keep w w'" "same_pools w w'" "stores_ok w'"
    and "\<And>a ue. ranues w' a = Some ue \<Longrightarrow> ranues w a \<noteq> Some ue \<Longrightarrow> ranue_ok w' ue"
    and "\<And>a ue. ikeues w' a = Some ue \<Longrightarrow> ikeues w a \<noteq> Some ue \<Longrightarrow> ikeue_ok w' ue"
    and "\<And>a amf. amfs w' a = Some amf \<Longrightarrow> amfs w a \<noteq> Some amf \<Longrightarrow> amf_ok w' amf"
  shows "ctx_wf w'"
proof -
  have "objects_ok w" "pools_ok w" using assms(1) by (simp_all add: ctx_wf_def)
  have "ranue_ok w' ue" if "ranues w' a = Some ue" for a ue
    using assms(5) [OF that] \<open>objects_ok w\<close> ranue_ok_keep [OF _ assms(2)]
    by (cases "ranues w a = Some ue") (auto simp: objects_ok_def)
  moreover have "ikeue_ok w' ue" if "ikeues w' a = Some ue" for a ue
    using assms(6) [OF that] \<open>objects_ok w\<close> ikeue_ok_keep [OF _ assms(2)]
    by (cases "ikeues w a = Some ue") (auto simp: objects_ok_def)
  moreover have "amf_ok w' amf" if "amfs w' a = Some amf" for a amf
    using assms(7) [OF that] \<open>objects_ok w\<close> amf_ok_keep [OF _ assms(2)]
    by (cases "amfs w a = Some amf") (auto simp: objects_ok_def)
  ultimately show ?thesis
    using assms(4) pools_ok_keep [OF \<open>pools_ok w\<close> assms(2,3)] by (auto simp: ctx_wf_def objects_ok_def)
qed

section \<open>Preservation\<close>

lemma stores_ok_upd:
  assumes "stores_ok w"
  shows "ranues w a = Some r \<Longrightarrow> stores_ok (w\<lparr>ranues := (ranues w)(a \<mapsto> r')\<rparr>)"
    and "ikeues w a = Some i \<Longrightarrow> stores_ok (w\<lparr>ikeues := (ikeues w)(a \<mapsto> i')\<rparr>)"
    and "ikesas w a = Some s \<Longrightarrow> stores_ok (w\<lparr>ikesas := (ikesas w)(a \<mapsto> s')\<rparr>)"
    and "childsas w a = Some c \<Longrightarrow> stores_ok (w\<lparr>childsas := (childsas w)(a \<mapsto> c')\<rparr>)"
    and "sessions w a = Some p \<Longrightarrow> stores_ok (w\<lparr>sessions := (sessions w)(a \<mapsto> p')\<rparr>)"
    and "tmps w a = Some t \<Longrightarrow> stores_ok (w\<lparr>tmps := (tmps w)(a \<mapsto> t')\<rparr>)"
    and "amfs w a = Some m \<Longrightarrow> stores_ok (w\<lparr>amfs := (amfs w)(a \<mapsto> m')\<rparr>)"
  using assms by (auto simp: stores_ok_def below_def)

lemma objects_okD:
  assumes "ctx_wf w"
  shows "ranues w a = Some ue \<Longrightarrow> ranue_ok w ue"
    and "ikeues w a = Some ie \<Longrightarrow> ikeue_ok w ie"
    and "amfs w a = Some amf \<Longrightarrow> amf_ok w amf"
  using assms by (auto simp: ctx_wf_def objects_ok_def)

lemma upd_ranue_wf:
  assumes wf: "ctx_wf w" and key: "\<And>ue. ru_RanUeNgapId (f ue) = ru_RanUeNgapId ue"
    and ok: "\<And>ue. ranue_ok w ue \<Longrightarrow> ranue_ok w (f ue)"
  shows "ctx_wf (snd (upd_ranue p f w))"
proof (cases "\<exists>a ue. p = Some a \<and> ranues w a = Some ue")
  case True
  then obtain a ue where a: "p = Some a" "ranues w a = Some ue" by blast
  let ?w = "w\<lparr>ranues := (ranues w)(a \<mapsto> f ue)\<rparr>"
  have keep: "stores_keep w ?w"
    using a key by (auto simp: stores_keep_def intro: keeps_upd)
  have "ctx_wf ?w"
    using wf keep a
    by (rule_tac ctx_wf_objects)
      (auto simp: same_pools_def ctx_wf_def intro: stores_ok_upd ranue_ok_keep [OF ok keep]
        split: if_splits intro: objects_okD(1) [OF wf])
  with a show ?thesis by (simp add: upd_ranue_def)
next
  case False
  then show ?thesis
    using wf by (cases p) (auto simp: upd_ranue_def modify_def deref_def split: option.splits)
qed

text \<open>A write through a pointer either panics, and leaves the world alone, or hits a live object.\<close>

lemma modify_cases:
  assumes "ctx_wf w" "\<And>a v. sel w a = Some v \<Longrightarrow> ctx_wf (put ((sel w)(a \<mapsto> f v)) w)"
  shows "ctx_wf (snd (modify sel put p f w))"
  using assms by (cases p) (auto simp: modify_def deref_def split: option.splits)

lemma upd_ikeue_wf:
  assumes wf: "ctx_wf w" and ok: "\<And>ue. ikeue_ok w ue \<Longrightarrow> ikeue_ok w (f ue)"
  shows "ctx_wf (snd (upd_ikeue p f w))"
  unfolding upd_ikeue_def
proof (rule modify_cases [OF wf])
  fix a ue assume a: "ikeues w a = Some ue"
  let ?w = "w\<lparr>ikeues := (ikeues w)(a \<mapsto> f ue)\<rparr>"
  have keep: "stores_keep w ?w"
    using a by (auto simp: stores_keep_def intro: keeps_upd)
  show "ctx_wf ?w"
    using wf keep a
    by (rule_tac ctx_wf_objects)
      (auto simp: same_pools_def ctx_wf_def intro: stores_ok_upd ikeue_ok_keep [OF ok keep]
        split: if_splits intro: objects_okD(2) [OF wf])
qed

lemma upd_amf_wf:
  assumes wf: "ctx_wf w" and key: "\<And>am. amf_SCTPAddr (f am) = amf_SCTPAddr am"
    and ok: "\<And>am. amf_ok w am \<Longrightarrow> amf_ok w (f am)"
  shows "ctx_wf (snd (upd_amf p f w))"
  unfolding upd_amf_def
proof (rule modify_cases [OF wf])
  fix a am assume a: "amfs w a = Some am"
  let ?w = "w\<lparr>amfs := (amfs w)(a \<mapsto> f am)\<rparr>"
  have keep: "stores_keep w ?w"
    using a key by (auto simp: stores_keep_def intro: keeps_upd)
  show "ctx_wf ?w"
    using wf keep a
    by (rule_tac ctx_wf_objects)
      (auto simp: same_pools_def ctx_wf_def intro: stores_ok_upd amf_ok_keep [OF ok keep]
        split: if_splits intro: objects_okD(3) [OF wf])
qed

lemma upd_plain_wf:
  assumes wf: "ctx_wf w"
  shows "(\<And>c. csa_InboundSPI (fc c) = csa_InboundSPI c) \<Longrightarrow> ctx_wf (snd (upd_childsa p fc w))"
    and "(\<And>s. isa_LocalSPI (fs s) = isa_LocalSPI s) \<Longrightarrow> ctx_wf (snd (upd_ikesa p fs w))"
    and "(\<And>s. ps_Id (fp s) = ps_Id s) \<Longrightarrow> ctx_wf (snd (upd_session p fp w))"
    and "ctx_wf (snd (upd_tmp p ft w))"
  unfolding upd_defs
  by ((rule modify_cases [OF wf], rule ctx_wf_objects [OF wf],
      auto simp: stores_keep_def same_pools_def intro: keeps_upd stores_ok_upd wf [unfolded ctx_wf_def, THEN conjunct1])[1])+

lemma gbind_wf:
  assumes "ctx_wf (snd r)" "\<And>a w. r = (Val a, w) \<Longrightarrow> ctx_wf w \<Longrightarrow> ctx_wf (snd (f a w))"
  shows "ctx_wf (snd (gbind r f))"
  using assms by (cases r; cases "fst r") auto

lemma deref_wf: "ctx_wf w \<Longrightarrow> ctx_wf (snd (deref sel p w))"
  by simp

lemma ctx_wf_ext:
  assumes "ctx_wf w" shows "ctx_wf (w\<lparr>ext := x\<rparr>)"
  by (rule ctx_wf_pools [OF assms])
    (use assms in \<open>auto simp: same_stores_def ctx_wf_def pools_ok_def\<close>)

lemma ext_call_wf: "ctx_wf w \<Longrightarrow> ctx_wf (snd (ext_call f m w))"
  by (auto simp: ext_call_def ctx_wf_ext split: prod.splits)

lemma gloop_wf:
  "ctx_wf w \<Longrightarrow> (\<And>x w. ctx_wf w \<Longrightarrow> ctx_wf (snd (f x w))) \<Longrightarrow> ctx_wf (snd (gloop f xs w))"
  by (rule gloop_invariant)

text \<open>Operations on the pools alone.\<close>

lemma pool_ops_wf:
  assumes "ctx_wf w"
  shows "ctx_wf (DeleteRanUe i w)" "ctx_wf (DeleteIKEUe spi w)" "ctx_wf (IkeSpiNgapIdMapping spi i w)"
    "ctx_wf (DeleteN3iwfAmf s w)" "ctx_wf (DeleteAMFReInitAvailableFlag s w)"
    "ctx_wf (AMFReInitAvailableListStore s b w)" "ctx_wf (DeleteIKESecurityAssociation spi w)"
    "ctx_wf (DeleteGTPConnection s w)" "ctx_wf (GTPConnectionWithUPFStore s n w)"
    "ctx_wf (DeleteInternalUEIPAddr s w)" "ctx_wf (DeleteTEID env teid w)"
    "ctx_wf (SendNgapEvt ne w)" "ctx_wf (SendIkeEvt ie w)"
proof -
  have p: "pools_ok w" using assms by (simp add: ctx_wf_def)
  show "ctx_wf (DeleteRanUe i w)" "ctx_wf (DeleteIKEUe spi w)" "ctx_wf (IkeSpiNgapIdMapping spi i w)"
    "ctx_wf (DeleteN3iwfAmf s w)" "ctx_wf (DeleteAMFReInitAvailableFlag s w)"
    "ctx_wf (AMFReInitAvailableListStore s b w)" "ctx_wf (DeleteIKESecurityAssociation spi w)"
    "ctx_wf (DeleteGTPConnection s w)" "ctx_wf (GTPConnectionWithUPFStore s n w)"
    "ctx_wf (DeleteInternalUEIPAddr s w)" "ctx_wf (DeleteTEID env teid w)"
    "ctx_wf (SendNgapEvt ne w)" "ctx_wf (SendIkeEvt ie w)"
    by (rule ctx_wf_pools [OF assms];
      use p in \<open>auto simp: same_stores_def pools_ok_def DeleteRanUe_def DeleteIKEUe_def
        DeleteIkeSPIFromNgapId_def DeleteNgapIdFromIkeSPI_def IkeSpiNgapIdMapping_def DeleteN3iwfAmf_def
        DeleteAMFReInitAvailableFlag_def AMFReInitAvailableListStore_def DeleteIKESecurityAssociation_def
        DeleteGTPConnection_def GTPConnectionWithUPFStore_def DeleteInternalUEIPAddr_def DeleteTEID_def
        SendNgapEvt_def SendIkeEvt_def intro: wf_intros\<close>)+
qed

text \<open>Operations that allocate.\<close>

lemma NewN3iwfIkeUe_wf:
  assumes "ctx_wf w" shows "ctx_wf (snd (NewN3iwfIkeUe spi w))"
proof -
  have fresh: "ikeues w (next_addr w) = None"
    using assms by (auto simp: ctx_wf_def stores_ok_def intro: below_fresh)
  let ?w = "w\<lparr>ikeues := (ikeues w)(next_addr w \<mapsto> IkeUe_init), next_addr := Suc (next_addr w)\<rparr>"
  have "ctx_wf ?w"
    using assms fresh
    by (intro ctx_wf_objects [OF assms])
      (auto simp: stores_keep_def same_pools_def stores_ok_def ctx_wf_def ikeue_ok_def IkeUe_init_def
        intro: keeps_fresh below_upd below_mono split: if_splits)
  then have "ctx_wf (?w\<lparr>IKEUePool := gm_store spi (next_addr w) (IKEUePool ?w)\<rparr>)"
    by (rule ctx_wf_pools)
      (use \<open>ctx_wf ?w\<close> in \<open>auto simp: same_stores_def ctx_wf_def pools_ok_def intro: wf_intros\<close>)
  then show ?thesis by (simp add: NewN3iwfIkeUe_def Let_def)
qed

lemma ranue_ok_init: "tmps w t \<noteq> None \<Longrightarrow> ranue_ok w (RanUe_init i t)"
  by (simp add: ranue_ok_def RanUe_init_def)

lemma RanUe_init_id [simp]: "ru_RanUeNgapId (RanUe_init i t) = i"
  by (simp add: RanUe_init_def)

lemma NewN3iwfRanUe_wf:
  assumes "ctx_wf w" shows "ctx_wf (snd (NewN3iwfRanUe env w))"
proof (cases "e_RanUeNgapId_Allocate env (ext w)")
  case (Pair r x)
  have fresh: "ranues w (next_addr w) = None" "tmps w (Suc (next_addr w)) = None"
    using assms by (auto simp: ctx_wf_def stores_ok_def intro: below_fresh)
  show ?thesis
  proof (cases r)
    case None
    then show ?thesis using Pair assms by (simp add: NewN3iwfRanUe_def ctx_wf_ext)
  next
    case (Some i)
    let ?a = "next_addr w"
    let ?w = "w\<lparr>ext := x, ranues := (ranues w)(?a \<mapsto> RanUe_init i (Suc ?a)),
       tmps := (tmps w)(Suc ?a \<mapsto> PDUSessionSetupTemporaryData_new), next_addr := Suc (Suc ?a)\<rparr>"
    have "stores_ok ?w"
      using assms by (auto simp: ctx_wf_def stores_ok_def below_def less_Suc_eq)
    moreover have "stores_keep w ?w"
      using fresh by (simp add: stores_keep_def keeps_fresh)
    ultimately have "ctx_wf ?w"
      by (rule_tac ctx_wf_objects [OF assms])
        (auto simp: same_pools_def ranue_ok_init split: if_splits)
    then have "ctx_wf (?w\<lparr>RANUePool := gm_store i ?a (RANUePool ?w)\<rparr>)"
      by (rule ctx_wf_pools)
        (use \<open>ctx_wf ?w\<close> in \<open>auto simp: same_stores_def ctx_wf_def pools_ok_def intro: wf_intros\<close>)
    with Pair Some show ?thesis by (simp add: NewN3iwfRanUe_def Let_def)
  qed
qed

lemma NewN3iwfAmf_wf:
  assumes "ctx_wf w" shows "ctx_wf (snd (NewN3iwfAmf s conn w))"
proof -
  let ?a = "next_addr w"
  have fresh: "amfs w ?a = None"
    using assms by (auto simp: ctx_wf_def stores_ok_def intro: below_fresh)
  let ?w = "w\<lparr>amfs := (amfs w)(?a \<mapsto> N3IWFAMF_init s conn), next_addr := Suc ?a\<rparr>"
  have wf: "ctx_wf ?w"
    using assms fresh
    by (intro ctx_wf_objects [OF assms])
      (auto simp: stores_keep_def same_pools_def stores_ok_def ctx_wf_def amf_ok_def N3IWFAMF_init_def
        intro: keeps_fresh below_upd below_mono split: if_splits)
  then have "ctx_wf (?w\<lparr>AMFPool := gm_store s ?a (AMFPool ?w)\<rparr>)"
    by (rule ctx_wf_pools)
      (use wf in \<open>auto simp: same_stores_def ctx_wf_def pools_ok_def N3IWFAMF_init_def intro: wf_intros\<close>)
  with wf show ?thesis
    by (cases "gm_load (AMFPool w) s") (simp_all add: NewN3iwfAmf_def Let_def)
qed

lemma draw_spi_spec:
  assumes "draw_spi env a w = Some (r, w')"
  shows "case r of None \<Rightarrow> \<exists>x. w' = w\<lparr>ext := x\<rparr>
    | Some spi \<Rightarrow> gm_load (IKESA w) spi = None \<and>
        (\<exists>x. w' = w\<lparr>ext := x, IKESA := gm_store spi a (IKESA w)\<rparr>)"
proof -
  have "case rw of (r, w') \<Rightarrow> (case r of None \<Rightarrow> \<exists>x. w' = w\<lparr>ext := x\<rparr>
    | Some spi \<Rightarrow> gm_load (IKESA w) spi = None \<and>
        (\<exists>x. w' = w\<lparr>ext := x, IKESA := gm_store spi a (IKESA w)\<rparr>))"
    if "draw_spi env a w = Some rw" for rw
  proof (induction rule: draw_spi.raw_induct [OF _ that])
    case (1 draw env a w rw)
    show ?case
    proof (cases "e_rand_SPI env (ext w)")
      case (Pair d x)
      show ?thesis
      proof (cases d)
        case None
        with 1(2) Pair show ?thesis by auto
      next
        case (Some spi)
        show ?thesis
        proof (cases "gm_load (IKESA w) spi")
          case None
          with 1(2) Pair Some show ?thesis by auto
        next
          case (Some b)
          then have "draw env a (w\<lparr>ext := x\<rparr>) = Some rw"
            using 1(2) Pair \<open>d = Some spi\<close> by simp
          from 1(1) [OF this] show ?thesis
            by (auto split: option.splits)
        qed
      qed
    qed
  qed
  from this [OF assms] show ?thesis by simp
qed

lemma NewIKESecurityAssociation_wf:
  assumes "ctx_wf w" shows "ctx_wf (snd (NewIKESecurityAssociation env w))"
proof -
  let ?a = "next_addr w"
  let ?w = "w\<lparr>ikesas := (ikesas w)(?a \<mapsto> IKESecurityAssociation_new), next_addr := Suc ?a\<rparr>"
  have fresh: "ikesas w ?a = None"
    using assms by (auto simp: ctx_wf_def stores_ok_def intro: below_fresh)
  have wf: "ctx_wf ?w"
    using assms fresh
    by (intro ctx_wf_objects [OF assms])
      (auto simp: stores_keep_def same_pools_def stores_ok_def ctx_wf_def
        intro: keeps_fresh below_upd below_mono split: if_splits)
  have new: "ctx_wf (w\<lparr>next_addr := Suc ?a, ext := x, IKESA := gm_store spi ?a (IKESA w),
      ikesas := (ikesas w)(?a \<mapsto> IKESecurityAssociation_new\<lparr>isa_LocalSPI := spi\<rparr>)\<rparr>)" (is "ctx_wf ?n") for spi x
  proof -
    let ?w2 = "w\<lparr>ikesas := (ikesas w)(?a \<mapsto> IKESecurityAssociation_new\<lparr>isa_LocalSPI := spi\<rparr>),
      next_addr := Suc ?a, ext := x\<rparr>"
    have "ctx_wf ?w2"
      using assms fresh
      by (intro ctx_wf_objects [OF assms])
        (auto simp: stores_keep_def same_pools_def stores_ok_def ctx_wf_def
          intro: keeps_fresh below_upd below_mono split: if_splits)
    then show ?thesis
      by (rule ctx_wf_pools)
        (use \<open>ctx_wf ?w2\<close> in \<open>auto simp: same_stores_def ctx_wf_def pools_ok_def intro: wf_intros\<close>)
  qed
  show ?thesis
  proof (cases "draw_spi env ?a ?w")
    case None
    then show ?thesis using wf by (simp add: NewIKESecurityAssociation_def Let_def)
  next
    case (Some rw)
    obtain r w' where rw: "rw = (r, w')" by (cases rw)
    from draw_spi_spec [OF Some [unfolded rw]] show ?thesis
      using Some rw wf new
      by (cases r) (auto simp: NewIKESecurityAssociation_def Let_def ctx_wf_ext)
  qed
qed

lemma inner_ip_spec:
  assumes "NewIPsecInnerUEIP env u w = Some (r, w')"
  shows "case r of Val ip \<Rightarrow> ip_String ip \<noteq> e_IPSecGatewayAddr env
        \<and> gm_load (AllocatedUEIPAddress w) (ip_String ip) = None
        \<and> (\<exists>x. w' = w\<lparr>ext := x, AllocatedUEIPAddress := gm_store (ip_String ip) u (AllocatedUEIPAddress w)\<rparr>)
    | Err _ \<Rightarrow> \<exists>x. w' = w\<lparr>ext := x\<rparr> | Crash _ \<Rightarrow> False"
proof -
  have "case rw of (r, w') \<Rightarrow> (case r of Val ip \<Rightarrow> ip_String ip \<noteq> e_IPSecGatewayAddr env
        \<and> gm_load (AllocatedUEIPAddress w) (ip_String ip) = None
        \<and> (\<exists>x. w' = w\<lparr>ext := x, AllocatedUEIPAddress := gm_store (ip_String ip) u (AllocatedUEIPAddress w)\<rparr>)
    | Err _ \<Rightarrow> \<exists>x. w' = w\<lparr>ext := x\<rparr> | Crash _ \<Rightarrow> False)"
    if "NewIPsecInnerUEIP env u w = Some rw" for rw
  proof (induction rule: NewIPsecInnerUEIP.raw_induct [OF _ that])
    case (1 alloc env u w rw)
    obtain d x where d: "e_IP_Allocate env (ext w) = (d, x)" by (cases "e_IP_Allocate env (ext w)")
    show ?case
    proof (cases "\<exists>ip. d = Some ip \<and> (ip_String ip = e_IPSecGatewayAddr env
        \<or> gm_load (AllocatedUEIPAddress w) (ip_String ip) \<noteq> None)")
      case True
      then have "alloc env u (w\<lparr>ext := x\<rparr>) = Some rw"
        using 1(2) d by (auto split: if_splits)
      from 1(1) [OF this] show ?thesis
        by (auto split: gores.splits)
    next
      case False
      with 1(2) d show ?thesis by (cases d) auto
    qed
  qed
  from this [OF assms] show ?thesis by simp
qed

lemma NewIPsecInnerUEIP_wf:
  assumes "ctx_wf w" "ikeues w u \<noteq> None" "NewIPsecInnerUEIP env u w = Some (r, w')"
  shows "ctx_wf w'"
  using inner_ip_spec [OF assms(3)]
proof (cases r)
  case (Val ip)
  with inner_ip_spec [OF assms(3)] obtain x where
    w': "w' = w\<lparr>ext := x, AllocatedUEIPAddress := gm_store (ip_String ip) u (AllocatedUEIPAddress w)\<rparr>"
    by auto
  show ?thesis
    unfolding w' by (rule ctx_wf_pools [OF assms(1)])
      (use assms in \<open>auto simp: same_stores_def ctx_wf_def pools_ok_def intro: wf_intros\<close>)
qed (auto simp: assms ctx_wf_ext)

lemma NewTEID_wf:
  assumes "ctx_wf w" "ranues w u \<noteq> None" shows "ctx_wf (snd (NewTEID env u w))"
proof (cases "e_TEID_Allocate env (ext w)")
  case (Pair r x)
  have "ctx_wf (w\<lparr>ext := x, AllocatedUETEID := gm_store t u (AllocatedUETEID w)\<rparr>)" for t
    by (rule ctx_wf_pools [OF assms(1)])
      (use assms in \<open>auto simp: same_stores_def ctx_wf_def pools_ok_def intro: wf_intros\<close>)
  with Pair assms show ?thesis
    by (cases r) (auto simp: NewTEID_def Let_def ctx_wf_ext)
qed

lemma CreatePDUSession_wf:
  assumes "ctx_wf w" shows "ctx_wf (snd (CreatePDUSession u i sn w))"
  unfolding CreatePDUSession_def
proof (rule gbind_wf)
  fix ue w1 assume "deref ranues (Some u) w = (Val ue, w1)"
  then have u: "ranues w u = Some ue" "w1 = w" by (auto simp: deref_def split: option.splits)
  let ?a = "next_addr w"
  let ?w = "w\<lparr>sessions := (sessions w)(?a \<mapsto> PDUSession_new i sn), next_addr := Suc ?a\<rparr>"
  have "sessions w ?a = None"
    using assms by (auto simp: ctx_wf_def stores_ok_def intro: below_fresh)
  then have "stores_keep w ?w" by (simp add: stores_keep_def keeps_fresh)
  moreover have "stores_ok ?w"
    using assms by (auto simp: ctx_wf_def stores_ok_def below_def less_Suc_eq)
  ultimately have "ctx_wf ?w"
    by (rule_tac ctx_wf_objects [OF assms]) (auto simp: same_pools_def)
  then have "ctx_wf (snd (upd_ranue (Some u)
      (\<lambda>ue. ue\<lparr>ru_PduSessionList := gm_store i ?a (ru_PduSessionList ue)\<rparr>) ?w))"
    by (rule upd_ranue_wf) (auto simp: ranue_ok_def PDUSession_new_def intro: wf_intros)
  then show "ctx_wf (snd (if gm_load (ru_PduSessionList ue) i \<noteq> None
      then (Err ''PDU Session is already exists'', w1)
      else let a = next_addr w1; w1 = w1\<lparr>sessions := (sessions w1)(a \<mapsto> PDUSession_new i sn), next_addr := Suc a\<rparr>
           in gbind (upd_ranue (Some u) (\<lambda>ue. ue\<lparr>ru_PduSessionList := gm_store i a (ru_PduSessionList ue)\<rparr>) w1)
               (\<lambda>_ w. (Val a, w))))"
    using assms u by (auto simp: Let_def intro!: gbind_wf)
qed (use assms in simp)

lemma DeletePDUSession_wf: "ctx_wf w \<Longrightarrow> ctx_wf (snd (DeletePDUSession u i w))"
  unfolding DeletePDUSession_def by (rule upd_ranue_wf) (auto simp: ranue_ok_def intro: wf_intros)

lemma deref_Val:
  assumes "deref sel p w = (Val v, w')" obtains a where "p = Some a" "sel w a = Some v" "w' = w"
  using assms by (auto simp: deref_def split: option.splits)

lemma DetachAMF_wf:
  assumes "ctx_wf w" shows "ctx_wf (snd (DetachAMF u w))"
  unfolding DetachAMF_def
  by (rule gbind_wf)
    (use assms in \<open>auto elim!: deref_Val split: option.splits intro!: upd_amf_wf simp: amf_ok_def intro: wf_intros\<close>)

lemma AttachAMF_wf:
  assumes "ctx_wf w" shows "ctx_wf (snd (AttachAMF u s w))"
proof (cases "AMFPoolLoad s w")
  case None
  then show ?thesis using assms by (simp add: AttachAMF_def)
next
  case (Some am)
  then have live: "amfs w am \<noteq> None"
    using assms filed_live [of "AMFPool w" "amfs w"]
    by (auto simp: ctx_wf_def pools_ok_def live_def AMFPoolLoad_def)
  show ?thesis
  proof (cases "ranues w u")
    case None
    then show ?thesis using assms Some by (simp add: AttachAMF_def)
  next
    case ue: (Some ue)
    let ?f = "\<lambda>m. m\<lparr>amf_N3iwfRanUeList := gm_store (ru_RanUeNgapId ue) u (amf_N3iwfRanUeList m)\<rparr>"
    have 1: "ctx_wf (snd (upd_amf (Some am) ?f w))"
      using assms ue by (intro upd_amf_wf) (auto simp: amf_ok_def intro: wf_intros)
    have "ctx_wf (snd (upd_ranue (Some u) (\<lambda>ue. ue\<lparr>ru_AMF := Some am\<rparr>) (snd (upd_amf (Some am) ?f w))))"
      using 1 live by (intro upd_ranue_wf) (auto simp: ranue_ok_def upd_amf_def)
    with 1 Some ue show ?thesis
      by (auto simp: AttachAMF_def intro!: gbind_wf)
  qed
qed

lemma free_session_teid_wf: "ctx_wf w \<Longrightarrow> ctx_wf (snd (free_session_teid env s w))"
  unfolding free_session_teid_def
  by (rule gbind_wf) (auto split: option.splits simp: pool_ops_wf)

lemma RanUe_Remove_wf: "ctx_wf w \<Longrightarrow> ctx_wf (snd (RanUe_Remove env u w))"
  unfolding RanUe_Remove_def Let_def
  by (intro gbind_wf gloop_wf deref_wf DetachAMF_wf free_session_teid_wf pool_ops_wf)
    (auto simp: ext_call_wf split: option.splits)

lemma RemoveAllRelatedUe_wf: "ctx_wf w \<Longrightarrow> ctx_wf (snd (RemoveAllRelatedUe env a w))"
  unfolding RemoveAllRelatedUe_def
  by (intro gbind_wf gloop_wf deref_wf RanUe_Remove_wf)

lemma xfrm_iface_delete_wf:
  assumes "ctx_wf w" shows "ctx_wf (w\<lparr>XfrmIfaces := m\<rparr>)"
  by (rule ctx_wf_pools [OF assms])
    (use assms in \<open>auto simp: same_stores_def ctx_wf_def pools_ok_def\<close>)

lemma DeleteChildSAXfrm_wf: "ctx_wf w \<Longrightarrow> ctx_wf (snd (DeleteChildSAXfrm env c w))"
  unfolding DeleteChildSAXfrm_def
  by (intro gbind_wf gloop_wf deref_wf ext_call_wf upd_plain_wf)
    (auto simp: xfrm_iface_delete_wf ext_call_wf split: option.splits list.splits intro!: gbind_wf)

lemma DeleteChildSA_wf: "ctx_wf w \<Longrightarrow> ctx_wf (snd (DeleteChildSA env u c w))"
  unfolding DeleteChildSA_def
  by (intro gbind_wf deref_wf DeleteChildSAXfrm_wf upd_ikeue_wf)
    (auto simp: ikeue_ok_def intro: wf_intros)

lemma IkeUe_Remove_wf: "ctx_wf w \<Longrightarrow> ctx_wf (snd (IkeUe_Remove env u w))"
  unfolding IkeUe_Remove_def Let_def
  by (intro gbind_wf gloop_wf deref_wf DeleteChildSA_wf ext_call_wf pool_ops_wf)
    (auto simp: pool_ops_wf intro: upd_plain_wf)

lemma CreateHalfChildSA_wf:
  assumes "ctx_wf w" shows "ctx_wf (snd (CreateHalfChildSA u msgID spi i w))"
proof -
  let ?c = "next_addr w"
  let ?w = "w\<lparr>childsas := (childsas w)(?c \<mapsto> ChildSecurityAssociation_new\<lparr>csa_InboundSPI := spi,
      csa_PDUSessionIds := [i], csa_IkeUE := Some u\<rparr>), next_addr := Suc ?c\<rparr>"
  have "childsas w ?c = None"
    using assms by (auto simp: ctx_wf_def stores_ok_def intro: below_fresh)
  then have "stores_keep w ?w" by (simp add: stores_keep_def keeps_fresh)
  moreover have "stores_ok ?w"
    using assms by (auto simp: ctx_wf_def stores_ok_def below_def less_Suc_eq)
  ultimately have "ctx_wf ?w"
    by (rule_tac ctx_wf_objects [OF assms]) (auto simp: same_pools_def)
  then show ?thesis
    unfolding CreateHalfChildSA_def Let_def
    by (intro upd_ikeue_wf) (auto simp: ikeue_ok_def intro: wf_intros)
qed

lemma record_child_ue_wf:
  "ctx_wf w \<Longrightarrow> childsas w c = Some child \<Longrightarrow>
   ctx_wf (snd (upd_ikeue (Some u) (\<lambda>ue. ue\<lparr>iu_N3IWFChildSecurityAssociation :=
      gm_store (csa_InboundSPI child) c (iu_N3IWFChildSecurityAssociation ue)\<rparr>) w))"
  by (intro upd_ikeue_wf) (auto simp: ikeue_ok_def intro: wf_intros)

lemma record_child_ctx_wf:
  assumes r: "upd_ikeue p f w = (Val (), w')" and wf: "ctx_wf w'" and c: "childsas w c = Some child"
  shows "ctx_wf (w'\<lparr>ChildSA := gm_store (csa_InboundSPI child) c (ChildSA w')\<rparr>)"
proof -
  have "childsas w' c = Some child"
    using r c by (auto simp: upd_ikeue_def modify_def deref_def split: option.splits)
  then show ?thesis
    by (intro ctx_wf_pools [OF wf])
      (use wf in \<open>auto simp: same_stores_def ctx_wf_def pools_ok_def intro: wf_intros\<close>)
qed

lemma record_childsa_wf:
  assumes "ctx_wf w" shows "ctx_wf (snd (record_childsa u c w))"
proof (cases "childsas w c")
  case None
  then show ?thesis using assms by (simp add: record_childsa_def)
next
  case (Some child)
  with assms show ?thesis
    unfolding record_childsa_def
    by (auto intro!: gbind_wf [OF record_child_ue_wf] dest: record_child_ctx_wf)
qed

lemma CompleteChildSA_wf: "ctx_wf w \<Longrightarrow> ctx_wf (snd (CompleteChildSA env u msgID out chosen w))"
proof -
  have del: "ctx_wf w \<Longrightarrow> ctx_wf (snd (upd_ikeue (Some u)
      (\<lambda>ue. ue\<lparr>iu_TemporaryExchangeMsgIDChildSAMapping := gm_delete msgID (iu_TemporaryExchangeMsgIDChildSAMapping ue)\<rparr>) w))"
    for w by (intro upd_ikeue_wf) (auto simp: ikeue_ok_def intro: wf_intros)
  have key: "ctx_wf w \<Longrightarrow> ctx_wf (snd (upd_childsa (Some c)
      (\<lambda>child. child\<lparr>csa_OutboundSPI := out, csa_ChildSAKey := k\<rparr>) w))" for c k w
    by (intro upd_plain_wf) simp_all
  show "ctx_wf w \<Longrightarrow> ?thesis"
    unfolding CompleteChildSA_def
    by (auto split: option.split list.split simp: del key record_childsa_wf intro!: gbind_wf)
qed

section \<open>Runs of context operations\<close>

text \<open>
  One call of a context operation, with any arguments the program can pass: pointers handed to an
  operation refer to live objects. A call that panics or fails leaves the world it had reached.
\<close>

inductive ctx_step :: "('x, 'm) ctx_env_scheme \<Rightarrow> 'x world \<Rightarrow> 'x world \<Rightarrow> bool" for env where
  "ctx_step env w (snd (NewN3iwfIkeUe spi w))"
| "ctx_step env w (snd (NewN3iwfRanUe env w))"
| "ctx_step env w (DeleteRanUe i w)"
| "ctx_step env w (DeleteIKEUe spi w)"
| "ctx_step env w (IkeSpiNgapIdMapping spi i w)"
| "ctx_step env w (snd (NewN3iwfAmf s conn w))"
| "ctx_step env w (DeleteN3iwfAmf s w)"
| "ctx_step env w (DeleteAMFReInitAvailableFlag s w)"
| "ctx_step env w (AMFReInitAvailableListStore s b w)"
| "ctx_step env w (snd (NewIKESecurityAssociation env w))"
| "ctx_step env w (DeleteIKESecurityAssociation spi w)"
| "ctx_step env w (DeleteGTPConnection s w)"
| "ctx_step env w (GTPConnectionWithUPFStore s n w)"
| "ikeues w u \<noteq> None \<Longrightarrow> NewIPsecInnerUEIP env u w = Some (r, w') \<Longrightarrow> ctx_step env w w'"
| "ctx_step env w (DeleteInternalUEIPAddr s w)"
| "ranues w u \<noteq> None \<Longrightarrow> ctx_step env w (snd (NewTEID env u w))"
| "ctx_step env w (DeleteTEID env teid w)"
| "ctx_step env w (snd (CreatePDUSession u i sn w))"
| "ctx_step env w (snd (DeletePDUSession u i w))"
| "ctx_step env w (snd (AttachAMF u s w))"
| "ctx_step env w (snd (DetachAMF u w))"
| "ctx_step env w (snd (RanUe_Remove env u w))"
| "ctx_step env w (snd (RemoveAllRelatedUe env a w))"
| "ctx_step env w (snd (DeleteChildSAXfrm env c w))"
| "ctx_step env w (snd (DeleteChildSA env u c w))"
| "ctx_step env w (snd (IkeUe_Remove env u w))"
| "ctx_step env w (snd (CreateHalfChildSA u msgID inspi i w))"
| "ctx_step env w (snd (CompleteChildSA env u msgID out chosen w))"
| "ctx_step env w (SendNgapEvt ne w)"
| "ctx_step env w (SendIkeEvt ie w)"

lemma ctx_step_wf: "ctx_step env w w' \<Longrightarrow> ctx_wf w \<Longrightarrow> ctx_wf w'"
  by (induction rule: ctx_step.induct)
    (simp_all add: pool_ops_wf NewN3iwfIkeUe_wf NewN3iwfRanUe_wf NewN3iwfAmf_wf NewTEID_wf
      NewIKESecurityAssociation_wf NewIPsecInnerUEIP_wf CreatePDUSession_wf DeletePDUSession_wf
      AttachAMF_wf DetachAMF_wf RanUe_Remove_wf RemoveAllRelatedUe_wf DeleteChildSAXfrm_wf
      DeleteChildSA_wf IkeUe_Remove_wf CreateHalfChildSA_wf CompleteChildSA_wf)

interpretation ctx: step_invariant "ctx_step env" ctx_wf for env
  by unfold_locales (rule ctx_step_wf)

lemma world_init_wf: "ctx_wf (world_init x)"
  by (simp add: ctx_wf_def stores_ok_def objects_ok_def pools_ok_def world_init_def below_def)

text \<open>
  In every world a run of context operations reaches from start-up, every pointer of every
  pool refers to a live object, and to the object that belongs to its key: the RAN UE pool, the
  IKE SA pool, the child SA pool and the AMF pool file each object under its own identifier, and
  so do the session list of a UE and the child SA map of an IKE UE.
\<close>

lemma context_pools_wf:
  assumes "(ctx_step env)\<^sup>*\<^sup>* (world_init x) w"
  shows "ctx_wf w"
  using ctx.reachable_inv [OF assms world_init_wf] .

section \<open>Fresh identifiers\<close>

text \<open>The state of the random source after \<open>n\<close> draws.\<close>

fun drawn :: "('x, 'm) ctx_env_scheme \<Rightarrow> nat \<Rightarrow> 'x \<Rightarrow> 'x" where
  "drawn env 0 x = x"
| "drawn env (Suc n) x = drawn env n (snd (e_rand_SPI env x))"

lemma draw_spi_returns:
  assumes "\<forall>spi. fst (e_rand_SPI env (drawn env n (ext w))) = Some spi \<longrightarrow> gm_load (IKESA w) spi = None"
  shows "\<exists>rw. draw_spi env a w = Some rw"
  using assms
proof (induction n arbitrary: w)
  case 0
  then show ?case
    by (subst draw_spi.simps) (auto split: prod.splits option.splits)
next
  case (Suc n)
  obtain d x where d: "e_rand_SPI env (ext w) = (d, x)" by (cases "e_rand_SPI env (ext w)")
  have "\<exists>rw. draw_spi env a (w\<lparr>ext := x\<rparr>) = Some rw"
    using Suc.prems d by (intro Suc.IH) simp
  then show ?case
    using d by (subst draw_spi.simps) (auto simp: gm_load_or_store_def split: option.splits)
qed

text \<open>
  A new IKE SA gets an SPI that no other IKE SA has, is stored in the pool under it, and no
  other entry of the pool changes; and the call does return, provided the random source at some
  point yields an SPI that is not in use or reports an error.
\<close>

lemma NewIKESA_fresh:
  assumes draws: "\<forall>spi. fst (e_rand_SPI env (drawn env n (ext w))) = Some spi \<longrightarrow> gm_load (IKESA w) spi = None"
    and run: "NewIKESecurityAssociation env w = (r, w')"
  shows "(r = Val None \<and> IKESA w' = IKESA w)
    \<or> (\<exists>a sa. r = Val (Some a) \<and> ikesas w' a = Some sa
        \<and> gm_load (IKESA w) (isa_LocalSPI sa) = None
        \<and> (\<forall>spi. IKESALoad spi w' = (if spi = isa_LocalSPI sa then Some a else IKESALoad spi w)))"
proof -
  let ?a = "next_addr w"
  let ?w = "w\<lparr>ikesas := (ikesas w)(?a \<mapsto> IKESecurityAssociation_new), next_addr := Suc ?a\<rparr>"
  have "\<forall>spi. fst (e_rand_SPI env (drawn env n (ext ?w))) = Some spi \<longrightarrow> gm_load (IKESA ?w) spi = None"
    using draws by simp
  then obtain rw where rw: "draw_spi env ?a ?w = Some rw"
    using draw_spi_returns by blast
  obtain d w2 where d: "rw = (d, w2)" by (cases rw)
  from draw_spi_spec [OF rw [unfolded d]] run rw d show ?thesis
    by (cases d) (auto simp: NewIKESecurityAssociation_def Let_def IKESALoad_def)
qed

definition counter_env :: "nat ctx_env" where
  "counter_env = \<lparr>e_IPSecGatewayAddr = ''10.0.0.1'', e_RanUeNgapId_Allocate = (\<lambda>n. (Some (int n), Suc n)),
     e_TEID_Allocate = (\<lambda>n. (Some (int n + 1), Suc n)), e_TEID_FreeID = (\<lambda>_ n. n),
     e_IP_Allocate = (\<lambda>n. (Some [10, 0, 0, of_nat n], Suc n)), e_IP_Release = (\<lambda>_ n. (True, n)),
     e_rand_SPI = (\<lambda>n. (Some (of_nat n), Suc n)), e_TCP_Close = (\<lambda>_ n. (True, n)),
     e_XfrmStateDel = (\<lambda>_ n. (True, n)), e_XfrmPolicyDel = (\<lambda>_ n. (True, n)), e_LinkDel = (\<lambda>_ n. (True, n)),
     e_aper_Marshal_GUAMI = (\<lambda>g. map_option guami_PLMNIdentity g), e_IPAddressToString = (\<lambda>_. ([], [])),
     e_NewChildSAKeyByProposal = (\<lambda>_. Some \<lparr>ck_EncrKInfo = 12, ck_IntegKInfo = Some 2, ck_NeedESN = False,
        ck_InitiatorToResponderEncryptionKey = [], ck_ResponderToInitiatorEncryptionKey = [],
        ck_InitiatorToResponderIntegrityKey = [], ck_ResponderToInitiatorIntegrityKey = []\<rparr>)\<rparr>"

text \<open>
  The witnesses evaluate the operations in an environment whose generators count upwards.
\<close>

text \<open>
  C15: An inner address handed to a UE is not the IPsec gateway's own address, was not in use by
  any UE, and is recorded for this UE and no entry of another UE changes; when the address pool is
  exhausted the call fails and the record of allocated addresses is unchanged.
\<close>

theorem NewIPsecInnerUEIP_exclusive:
  assumes "NewIPsecInnerUEIP env u w = Some (r, w')"
  shows "case r of
      Val ip \<Rightarrow> ip_String ip \<noteq> e_IPSecGatewayAddr env
        \<and> AllocatedUEIPAddressLoad (ip_String ip) w = None
        \<and> (\<forall>s. AllocatedUEIPAddressLoad s w' =
             (if s = ip_String ip then Some u else AllocatedUEIPAddressLoad s w))
    | Err _ \<Rightarrow> AllocatedUEIPAddress w' = AllocatedUEIPAddress w
    | Crash _ \<Rightarrow> False"
  using inner_ip_spec [OF assms] by (auto simp: AllocatedUEIPAddressLoad_def split: gores.splits)

lemma demo_ip_strings: "ip_String [10, 0, 0, 1] = ''10.0.0.1''" "ip_String [10, 0, 0, 2] = ''10.0.0.2''"
  by code_simp+

theorem NewIPsecInnerUEIP_exclusive_witness:
  "NewIPsecInnerUEIP counter_env 3 (world_init 1) =
     Some (Val [10, 0, 0, 2], (world_init 3)\<lparr>AllocatedUEIPAddress := [(''10.0.0.2'', 3)]\<rparr>)
   \<and> AllocatedUEIPAddressLoad ''10.0.0.2'' (world_init (1::nat)) = None"
proof -
  have run: "NewIPsecInnerUEIP counter_env 3 (world_init 1) =
     Some (Val [10, 0, 0, 2], (world_init 3)\<lparr>AllocatedUEIPAddress := [(''10.0.0.2'', 3)]\<rparr>)"
    by (subst NewIPsecInnerUEIP.simps, subst NewIPsecInnerUEIP.simps)
      (simp add: counter_env_def world_init_def demo_ip_strings gm_load_or_store_def gm_load_def gm_store_def)
  from NewIPsecInnerUEIP_exclusive [OF run] run show ?thesis
    by (simp add: demo_ip_strings)
qed

text \<open>
  When the TEID generator yields a number from 1 to \<open>MaxUint32\<close>, the new TEID is that number,
  is not 0, and downlink packets with it are found to belong to the UE; \<open>DeleteTEID\<close> makes it
  unknown again and leaves every other TEID as it was before the allocation.
\<close>

lemma NewTEID_DeleteTEID:
  assumes gen: "e_TEID_Allocate env (ext w) = (Some n, x)" "1 \<le> n" "n \<le> 4294967295"
    and run: "NewTEID env u w = (teid, w')"
  shows "uint teid = n \<and> teid \<noteq> 0 \<and> AllocatedUETEIDLoad teid w' = Some u
    \<and> AllocatedUETEIDLoad teid (DeleteTEID env teid w') = None
    \<and> (\<forall>t. t \<noteq> teid \<longrightarrow> AllocatedUETEIDLoad t (DeleteTEID env teid w') = AllocatedUETEIDLoad t w)"
proof -
  have t: "teid = word_of_int n" and w': "w' = w\<lparr>ext := x, AllocatedUETEID := gm_store teid u (AllocatedUETEID w)\<rparr>"
    using gen run by (auto simp: NewTEID_def Let_def)
  have u: "uint teid = n"
    using gen t by (simp add: unsigned_of_int take_bit_int_eq_self)
  then have "teid \<noteq> 0" using gen by (metis not_one_le_zero unsigned_0)
  with u w' show ?thesis
    by (simp add: AllocatedUETEIDLoad_def DeleteTEID_def)
qed

section \<open>AMF selection\<close>

text \<open>
  The AMF at an address serves the UE: it serves the GUAMI (their encodings agree) or supports
  the selected PLMN.
\<close>

definition serves :: "('x, 'm) ctx_env_scheme \<Rightarrow> GUAMI option \<Rightarrow> octets option \<Rightarrow> 'x world \<Rightarrow> addr \<Rightarrow> bool" where
  "serves env guami plmn w a =
     (case amfs w a of None \<Rightarrow> False
      | Some amf \<Rightarrow> FindAvalibleAMFByCompareGUAMI env amf guami = Val True
          \<or> FindAvalibleAMFByCompareSelectedPLMNId amf plmn = Val True)"

definition amf_ready :: "'x world \<Rightarrow> addr \<Rightarrow> bool" where
  "amf_ready w a = (\<exists>amf. amfs w a = Some amf \<and> amf_ServedGUAMIList amf \<noteq> None \<and> amf_PLMNSupportList amf \<noteq> None)"

lemma amf_range_step:
  assumes "amf_ready w a"
  shows "amf_range env guami plmn w d (a # as) =
    (if serves env guami plmn w a then Val (Some a)
     else amf_range env guami plmn w (if d = None then Some a else d) as)"
  using assms
  by (cases plmn)
    (auto simp: amf_ready_def Let_def serves_def FindAvalibleAMFByCompareGUAMI_def
      FindAvalibleAMFByCompareSelectedPLMNId_def)

lemma amf_range_spec:
  "list_all (amf_ready w) as \<Longrightarrow> amf_range env guami plmn w d as =
     Val (case find (serves env guami plmn w) as of
            Some a \<Rightarrow> Some a
          | None \<Rightarrow> (if d = None then (case as of [] \<Rightarrow> None | a # _ \<Rightarrow> Some a) else d))"
proof (induction as arbitrary: d)
  case (Cons a as)
  then have "amf_ready w a" "list_all (amf_ready w) as" by simp_all
  with Cons.IH show ?case
    by (simp only: amf_range_step) (auto split: option.split list.split)
qed (cases d; simp)

text \<open>
  C21: \<open>AMFSelection\<close> returns the first AMF, in the order the pool is visited, that serves the
  requested GUAMI or supports the selected PLMN; if there is none it returns the first AMF of the
  pool, and nil only when the pool is empty. It is assumed that every AMF in the pool has reported
  its served GUAMIs and its PLMN support (a nil list would panic).
\<close>

theorem AMFSelection_spec:
  assumes "list_all (amf_ready w) (gm_values (AMFPool w))"
  shows "AMFSelection env guami plmn w =
    Val (case find (serves env guami plmn w) (gm_values (AMFPool w)) of
           Some a \<Rightarrow> Some a
         | None \<Rightarrow> (case gm_values (AMFPool w) of [] \<Rightarrow> None | a # _ \<Rightarrow> Some a))"
  unfolding AMFSelection_def amf_range_spec [OF assms] by simp

definition demo_guami :: "octets \<Rightarrow> GUAMI" where
  "demo_guami p = \<lparr>guami_PLMNIdentity = p, guami_AMFRegionID = \<lparr>bs_Bytes = [1], bs_BitLength = 8\<rparr>,
     guami_AMFSetID = \<lparr>bs_Bytes = [1, 0], bs_BitLength = 10\<rparr>, guami_AMFPointer = \<lparr>bs_Bytes = [0], bs_BitLength = 6\<rparr>\<rparr>"

definition demo_amfs :: "nat world" where
  "demo_amfs = (world_init 0)\<lparr>AMFPool := [(''a'', 0), (''b'', 1)],
     amfs := [0 \<mapsto> (N3IWFAMF_init ''a'' 10)\<lparr>amf_ServedGUAMIList := Some [demo_guami [1]], amf_PLMNSupportList := Some []\<rparr>,
              1 \<mapsto> (N3IWFAMF_init ''b'' 11)\<lparr>amf_ServedGUAMIList := Some [demo_guami [2]], amf_PLMNSupportList := Some []\<rparr>],
     next_addr := 2\<rparr>"

theorem AMFSelection_spec_witness:
  "AMFSelection counter_env (Some (demo_guami [2])) None demo_amfs = Val (Some 1)
   \<and> AMFSelection counter_env (Some (demo_guami [3])) None demo_amfs = Val (Some 0)"
proof -
  have "list_all (amf_ready demo_amfs) (gm_values (AMFPool demo_amfs))"
    by (simp add: demo_amfs_def gm_values_def amf_ready_def)
  from AMFSelection_spec [OF this, of counter_env "Some (demo_guami [2])" None]
    AMFSelection_spec [OF this, of counter_env "Some (demo_guami [3])" None]
  show ?thesis
    by (simp add: demo_amfs_def gm_values_def serves_def FindAvalibleAMFByCompareGUAMI_def
        FindAvalibleAMFByCompareSelectedPLMNId_def counter_env_def demo_guami_def)
qed

section \<open>Removing UEs\<close>

text \<open>A session of the list has its GTP connection information.\<close>

definition session_teid :: "'x world \<Rightarrow> addr \<Rightarrow> u32 option" where
  "session_teid w s = (case sessions w s of None \<Rightarrow> None
     | Some ps \<Rightarrow> map_option gtp_IncomingTEID (ps_GTPConnInfo ps))"

lemma free_session_teid_ok:
  "session_teid w s = Some t \<Longrightarrow> free_session_teid env s w = (Val (), DeleteTEID env t w)"
  by (auto simp: session_teid_def free_session_teid_def split: option.splits)

lemma session_teid_DeleteTEID [simp]: "session_teid (DeleteTEID env t w) = session_teid w"
  by (simp add: session_teid_def DeleteTEID_def fun_eq_iff)

lemma free_loop:
  assumes "list_all (\<lambda>s. session_teid w s \<noteq> None) ss"
  shows "gloop (free_session_teid env) ss w =
    (Val (), fold (\<lambda>s. DeleteTEID env (the (session_teid w s))) ss w)"
  using assms
proof (induction ss arbitrary: w)
  case (Cons s ss)
  then obtain t where "session_teid w s = Some t" by auto
  with Cons show ?case by (simp add: free_session_teid_ok)
qed simp

lemma fold_DeleteTEID:
  "AllocatedUETEIDLoad t (fold (\<lambda>s. DeleteTEID env (f s)) ss w) =
     (if t \<in> f ` set ss then None else AllocatedUETEIDLoad t w)"
  by (induction ss arbitrary: w) (auto simp: AllocatedUETEIDLoad_def DeleteTEID_def)

lemma fold_DeleteTEID_pools [simp]:
  "RANUePool (fold (\<lambda>s. DeleteTEID env (f s)) ss w) = RANUePool w"
  "NGAPIdToIKESPI (fold (\<lambda>s. DeleteTEID env (f s)) ss w) = NGAPIdToIKESPI w"
  "IKESPIToNGAPId (fold (\<lambda>s. DeleteTEID env (f s)) ss w) = IKESPIToNGAPId w"
  "ranues (fold (\<lambda>s. DeleteTEID env (f s)) ss w) = ranues w"
  "sessions (fold (\<lambda>s. DeleteTEID env (f s)) ss w) = sessions w"
  by (induction ss arbitrary: w) (auto simp: DeleteTEID_def)

lemma DetachAMF_effect:
  assumes "ranues w u = Some ue" "\<forall>a. ru_AMF ue = Some a \<longrightarrow> amfs w a \<noteq> None"
  shows "\<exists>m. DetachAMF u w = (Val (), w\<lparr>amfs := m\<rparr>)"
proof (cases "ru_AMF ue")
  case None
  with assms have "DetachAMF u w = (Val (), w\<lparr>amfs := amfs w\<rparr>)" by (simp add: DetachAMF_def)
  then show ?thesis by blast
next
  case (Some a)
  with assms obtain am where "amfs w a = Some am" by blast
  with assms Some have "DetachAMF u w = (Val (), w\<lparr>amfs := (amfs w)(a \<mapsto>
      am\<lparr>amf_N3iwfRanUeList := gm_delete (ru_RanUeNgapId ue) (amf_N3iwfRanUeList am)\<rparr>)\<rparr>)"
    by (simp add: DetachAMF_def upd_amf_def)
  then show ?thesis by blast
qed

text \<open>
  Removing a RAN UE whose sessions all have GTP connection information does not panic; after
  it the UE is not in the RAN UE pool, its SPI cannot be found from its NGAP identifier, and none
  of its sessions' TEIDs is allocated, while TEIDs of other UEs and other pool entries are as
  before. The only error is a failing close of the TCP connection.
\<close>

lemma RanUe_Remove_effect:
  assumes wf: "ctx_wf w" and ue: "ranues w u = Some ue"
    and teids: "list_all (\<lambda>s. session_teid w s \<noteq> None) (gm_values (ru_PduSessionList ue))"
  shows "\<exists>r w'. RanUe_Remove env u w = (r, w') \<and> (r = Val () \<or> r = Err ''Close TCP conn error'')
    \<and> (\<forall>i. RanUePoolLoad i w' = (if i = ru_RanUeNgapId ue then None else RanUePoolLoad i w))
    \<and> (\<forall>i. IkeSpiLoad i w' = (if i = ru_RanUeNgapId ue then None else IkeSpiLoad i w))
    \<and> ranues w' = ranues w \<and> sessions w' = sessions w
    \<and> (\<forall>t. AllocatedUETEIDLoad t w' =
         (if \<exists>s \<in> set (gm_values (ru_PduSessionList ue)). session_teid w s = Some t then None
          else AllocatedUETEIDLoad t w))"
proof -
  let ?ss = "gm_values (ru_PduSessionList ue)"
  obtain m where m: "DetachAMF u w = (Val (), w\<lparr>amfs := m\<rparr>)"
    using DetachAMF_effect [OF ue] objects_okD(1) [OF wf ue] by (auto simp: ranue_ok_def)
  let ?w = "DeleteRanUe (ru_RanUeNgapId ue) (w\<lparr>amfs := m\<rparr>)"
  let ?f = "fold (\<lambda>s. DeleteTEID env (the (session_teid w s))) ?ss ?w"
  have "session_teid ?w = session_teid w"
    by (simp add: fun_eq_iff session_teid_def DeleteRanUe_def DeleteIkeSPIFromNgapId_def)
  then have loop: "gloop (free_session_teid env) ?ss ?w = (Val (), ?f)"
    using free_loop [of ?w ?ss env] teids by simp
  then have run: "RanUe_Remove env u w = (case ru_TCPConnection ue of None \<Rightarrow> (Val (), ?f)
      | Some c \<Rightarrow> ext_call (e_TCP_Close env c) ''Close TCP conn error'' ?f)"
    using m ue by (simp add: RanUe_Remove_def)
  have pools: "RanUePoolLoad i ?f = (if i = ru_RanUeNgapId ue then None else RanUePoolLoad i w)"
    "IkeSpiLoad i ?f = (if i = ru_RanUeNgapId ue then None else IkeSpiLoad i w)"
    "ranues ?f = ranues w" "sessions ?f = sessions w" for i
    by (simp_all add: RanUePoolLoad_def IkeSpiLoad_def DeleteRanUe_def DeleteIkeSPIFromNgapId_def)
  have img: "(t \<in> (\<lambda>s. the (session_teid w s)) ` set ?ss) = (\<exists>s \<in> set ?ss. session_teid w s = Some t)" for t
    using teids unfolding list_all_iff image_iff by (metis option.collapse option.sel)
  have alloc: "AllocatedUETEIDLoad t ?f = (if \<exists>s \<in> set ?ss. session_teid w s = Some t then None else AllocatedUETEIDLoad t w)" for t
    unfolding fold_DeleteTEID img
    by (simp add: AllocatedUETEIDLoad_def DeleteRanUe_def DeleteIkeSPIFromNgapId_def)
  obtain r x where "RanUe_Remove env u w = (r, ?f\<lparr>ext := x\<rparr>)" "r = Val () \<or> r = Err ''Close TCP conn error''"
  proof (cases "ru_TCPConnection ue")
    case None
    then have "RanUe_Remove env u w = (Val (), ?f\<lparr>ext := ext ?f\<rparr>)" using run by simp
    with that show ?thesis by blast
  next
    case (Some c)
    with that run show ?thesis
      by (cases "e_TCP_Close env c (ext ?f)") (auto simp: ext_call_def split: if_splits)
  qed
  moreover have "RanUePoolLoad i (?f\<lparr>ext := x\<rparr>) = RanUePoolLoad i ?f" "IkeSpiLoad i (?f\<lparr>ext := x\<rparr>) = IkeSpiLoad i ?f"
    "ranues (?f\<lparr>ext := x\<rparr>) = ranues ?f" "sessions (?f\<lparr>ext := x\<rparr>) = sessions ?f"
    "AllocatedUETEIDLoad t (?f\<lparr>ext := x\<rparr>) = AllocatedUETEIDLoad t ?f" for i t
    by (simp_all add: RanUePoolLoad_def IkeSpiLoad_def AllocatedUETEIDLoad_def)
  ultimately show ?thesis
    by (intro exI [of _ r] exI [of _ "?f\<lparr>ext := x\<rparr>"]) (simp only: pools alloc simp_thms)
qed

definition demo_gtp :: "u32 \<Rightarrow> GTPConnectionInfo" where
  "demo_gtp t = \<lparr>gtp_UPFIPAddr = ''192.0.2.1'', gtp_UPFUDPAddr = ''192.0.2.1:2152'', gtp_IncomingTEID = t,
     gtp_OutgoingTEID = 77\<rparr>"

text \<open>A world with one registered UE that has one PDU session with TEID 9.\<close>

definition demo_ue_world :: "nat world" where
  "demo_ue_world = (world_init 0)\<lparr>RANUePool := [(1, 0)], IKESPIToNGAPId := [(5, 1)], NGAPIdToIKESPI := [(1, 5)],
     AllocatedUETEID := [(9, 0)],
     ranues := [0 \<mapsto> (RanUe_init 1 1)\<lparr>ru_PduSessionList := [(3, 2)]\<rparr>],
     tmps := [1 \<mapsto> PDUSessionSetupTemporaryData_new],
     sessions := [2 \<mapsto> (PDUSession_new 3 \<lparr>sst = [1], sd = None\<rparr>)\<lparr>ps_GTPConnInfo := Some (demo_gtp 9)\<rparr>],
     next_addr := 3\<rparr>"

lemma demo_ue_world_wf: "ctx_wf demo_ue_world"
  by (auto simp: ctx_wf_def stores_ok_def objects_ok_def pools_ok_def demo_ue_world_def world_init_def
      below_def filed_def live_def ranue_ok_def RanUe_init_def PDUSession_new_def gm_load_def split: if_splits)

section \<open>Child security associations\<close>

text \<open>
  C33: The two steps of creating a child SA fit together: after a half child SA has been created for
  a message ID, completing it under that ID with a proposal the library accepts returns the child
  SA with the inbound SPI and the PDU session it was created for, the outbound SPI and the keys of
  the proposal; it is recorded under its inbound SPI for the UE and for the N3IWF, and the
  temporary entry is gone, so completing again fails.
\<close>

theorem half_child_completes:
  assumes ue: "ikeues w u = Some ue"
    and key: "e_NewChildSAKeyByProposal env p = Some k"
    and half: "CreateHalfChildSA u msgID inboundSPI pduSessionID w = (r, w1)"
    and comp: "CompleteChildSA env u msgID outboundSPI (Some (p # ps)) w1 = (r', w2)"
  shows "r = Val () \<and> (\<exists>c child ue2. r' = Val c \<and> childsas w2 c = Some child \<and> ikeues w2 u = Some ue2
    \<and> csa_InboundSPI child = inboundSPI \<and> csa_OutboundSPI child = outboundSPI
    \<and> csa_PDUSessionIds child = [pduSessionID] \<and> csa_ChildSAKey child = Some k
    \<and> csa_IkeUE child = Some u
    \<and> gm_load (iu_N3IWFChildSecurityAssociation ue2) inboundSPI = Some c
    \<and> gm_load (ChildSA w2) inboundSPI = Some c
    \<and> fst (CompleteChildSA env u msgID outboundSPI (Some (p # ps)) w2) =
        Err ''there's not a half child SA created by the exchange'')"
proof -
  let ?c = "next_addr w"
  let ?ue1 = "ue\<lparr>iu_TemporaryExchangeMsgIDChildSAMapping :=
    gm_store msgID ?c (iu_TemporaryExchangeMsgIDChildSAMapping ue)\<rparr>"
  have r: "r = Val ()" and w1: "ikeues w1 u = Some ?ue1" "childsas w1 ?c = Some
      (ChildSecurityAssociation_new\<lparr>csa_InboundSPI := inboundSPI, csa_PDUSessionIds := [pduSessionID], csa_IkeUE := Some u\<rparr>)"
    using half ue by (auto simp: CreateHalfChildSA_def upd_ikeue_def Let_def)
  from comp w1 key have "r' = Val ?c \<and> childsas w2 ?c = Some
      (ChildSecurityAssociation_new\<lparr>csa_InboundSPI := inboundSPI, csa_PDUSessionIds := [pduSessionID],
        csa_IkeUE := Some u, csa_OutboundSPI := outboundSPI, csa_ChildSAKey := Some k\<rparr>)
    \<and> ikeues w2 u = Some (?ue1\<lparr>iu_TemporaryExchangeMsgIDChildSAMapping :=
          gm_delete msgID (iu_TemporaryExchangeMsgIDChildSAMapping ?ue1),
        iu_N3IWFChildSecurityAssociation := gm_store inboundSPI ?c (iu_N3IWFChildSecurityAssociation ue)\<rparr>)
    \<and> gm_load (ChildSA w2) inboundSPI = Some ?c"
    by (auto simp: CompleteChildSA_def upd_ikeue_def upd_childsa_def record_childsa_def
        ChildSecurityAssociation_new_def)
  then show ?thesis
    using r by (auto simp: CompleteChildSA_def ChildSecurityAssociation_new_def)
qed

definition demo_proposal :: Proposal where
  "demo_proposal = \<lparr>pr_ProposalNumber = 1, pr_ProtocolID = 3, pr_SPI = [0, 0, 0, 8], pr_EncryptionAlgorithm = [],
     pr_PseudorandomFunction = [], pr_IntegrityAlgorithm = [], pr_DiffieHellmanGroup = [],
     pr_ExtendedSequenceNumbers = []\<rparr>"

theorem half_child_completes_witness:
  "\<exists>c. fst (CompleteChildSA counter_env 0 1 8 (Some [demo_proposal])
        (snd (CreateHalfChildSA 0 1 6 (- 1) (snd (NewN3iwfIkeUe 5 (world_init 0)))))) = Val c"
proof -
  let ?w = "snd (NewN3iwfIkeUe 5 (world_init 0)) :: nat world"
  have ue: "ikeues ?w 0 = Some IkeUe_init"
    by (simp add: NewN3iwfIkeUe_def world_init_def Let_def)
  obtain k where k: "e_NewChildSAKeyByProposal counter_env demo_proposal = Some k"
    by (simp add: counter_env_def)
  from half_child_completes [OF ue k surjective_pairing surjective_pairing, of 1 6 "- 1" 8 "[]"]
  show ?thesis by blast
qed

end
