(* ===== verification/User_Plane.thy ===== *)
theory User_Plane
  imports Gtp Context_Props
begin

text \<open>
  User plane forwarding (\<open>src/internal/nwuup/server.go\<close>): a GRE packet of a UE becomes a T-PDU for
  the UPF (\<open>forwardUL\<close>), a T-PDU of the UPF a GRE packet for the UE (\<open>handleQoSTPDU\<close>,
  \<open>forwardDL\<close>). The two connections are parameters of the model; a write reports whether it
  succeeded. A packet that is dropped is \<open>Val ()\<close> with the world unchanged; a panic ends the program.
\<close>

record 'x up_env =
  up_gtp :: gtp_lib
  up_WriteTo :: "octets \<Rightarrow> string \<Rightarrow> 'x \<Rightarrow> bool \<times> 'x"
  up_WriteToGTP :: "u32 \<Rightarrow> octets \<Rightarrow> string \<Rightarrow> 'x \<Rightarrow> bool \<times> 'x"
  up_GreWriteTo :: "octets \<Rightarrow> int \<Rightarrow> string option \<Rightarrow> 'x \<Rightarrow> bool \<times> 'x"

text \<open>A write whose error is only logged.\<close>

definition logged_write :: "('x \<Rightarrow> bool \<times> 'x) \<Rightarrow> 'x world \<Rightarrow> unit gores \<times> 'x world" where
  "logged_write f w = (Val (), w\<lparr>ext := snd (f (ext w))\<rparr>)"

section \<open>Uplink\<close>

text \<open>
  The loop over the child SAs of the UE: the first one whose interface the packet came from decides;
  its first PDU session is looked up in the sessions of the UE.
\<close>

fun ul_session :: "'x world \<Rightarrow> RanUe \<Rightarrow> int \<Rightarrow> addr list \<Rightarrow> addr option gores" where
  "ul_session w ue ifIndex [] = Val None"
| "ul_session w ue ifIndex (c # cs) =
     (case childsas w c of None \<Rightarrow> Crash NilPointer
      | Some child \<Rightarrow>
          if (case csa_XfrmIface child of None \<Rightarrow> False | Some l \<Rightarrow> link_Index l = ifIndex)
          then (case csa_PDUSessionIds child of [] \<Rightarrow> Crash IndexRange
                | i # _ \<Rightarrow> Val (FindPDUSession ue i))
          else ul_session w ue ifIndex cs)"

text \<open>From the session to the UPF; \<open>GTPConnInfo\<close> is used only after the packet has been decoded.\<close>

definition ul_send :: "('x, 'm) up_env_scheme \<Rightarrow> PDUSession \<Rightarrow> octets \<Rightarrow> 'x world \<Rightarrow> unit gores \<times> 'x world" where
  "ul_send env pduSession rawData w =
     (case GREPacket_Unmarshal GREPacket_zero rawData of
        (Crash p, _) \<Rightarrow> (Crash p, w)
      | (Err e, _) \<Rightarrow> (Val (), w)
      | (Val _, grePacket) \<Rightarrow>
          let payload = fst (GREPacket_GetPayload grePacket) in
          if GREPacket_GetKeyFlag grePacket then
            (case GREPacket_GetQFI grePacket of
               Crash p \<Rightarrow> (Crash p, w)
             | Err e \<Rightarrow> (Val (), w)
             | Val qfi \<Rightarrow>
                 (case ps_GTPConnInfo pduSession of None \<Rightarrow> (Crash NilPointer, w)
                  | Some g \<Rightarrow>
                      (case BuildQoSGTPPacket (up_gtp env) (gtp_OutgoingTEID g) qfi payload of
                         Crash p \<Rightarrow> (Crash p, w)
                       | Err e \<Rightarrow> (Val (), w)
                       | Val gtpPacket \<Rightarrow> logged_write (up_WriteTo env gtpPacket (gtp_UPFUDPAddr g)) w)))
          else
            (case ps_GTPConnInfo pduSession of None \<Rightarrow> (Crash NilPointer, w)
             | Some g \<Rightarrow> logged_write (up_WriteToGTP env (gtp_OutgoingTEID g) payload (gtp_UPFUDPAddr g)) w))"

definition forwardUL :: "('x, 'm) up_env_scheme \<Rightarrow> string \<Rightarrow> int \<Rightarrow> octets \<Rightarrow> 'x world \<Rightarrow> unit gores \<times> 'x world" where
  "forwardUL env ueInnerIP ifIndex rawData w =
     (case AllocatedUEIPAddressLoad ueInnerIP w of None \<Rightarrow> (Val (), w)
      | Some u \<Rightarrow>
          gbind (deref ikeues (Some u) w) (\<lambda>ikeUe w.
          gbind (deref ikesas (iu_N3IWFIKESecurityAssociation ikeUe) w) (\<lambda>sa w.
          case RanUeLoadFromIkeSPI (isa_LocalSPI sa) w of
            Err e \<Rightarrow> (Val (), w)
          | Crash p \<Rightarrow> (Crash p, w)
          | Val r \<Rightarrow>
              gbind (deref ranues (Some r) w) (\<lambda>ranUe w.
              gbind (ul_session w ranUe ifIndex (gm_values (iu_N3IWFChildSecurityAssociation ikeUe)), w)
                (\<lambda>pduSession w.
                  if pduSession = None then (Val (), w)
                  else gbind (deref sessions pduSession w) (\<lambda>ps w. ul_send env ps rawData w))))))"

section \<open>Downlink\<close>

text \<open>
  The loop over the child SAs of the UE: the interface of the first one whose PDU session has the
  TEID. A child SA without PDU session or a session without tunnel panics, and so does a match
  without interface.
\<close>

fun dl_iface :: "'x world \<Rightarrow> RanUe \<Rightarrow> u32 \<Rightarrow> addr list \<Rightarrow> int option gores" where
  "dl_iface w ue teid [] = Val None"
| "dl_iface w ue teid (c # cs) =
     (case childsas w c of None \<Rightarrow> Crash NilPointer
      | Some child \<Rightarrow>
          (case csa_PDUSessionIds child of [] \<Rightarrow> Crash IndexRange
           | i # _ \<Rightarrow>
               (case FindPDUSession ue i of None \<Rightarrow> dl_iface w ue teid cs
                | Some s \<Rightarrow>
                    (case sessions w s of None \<Rightarrow> Crash NilPointer
                     | Some ps \<Rightarrow>
                         (case ps_GTPConnInfo ps of None \<Rightarrow> Crash NilPointer
                          | Some g \<Rightarrow>
                              if gtp_IncomingTEID g = teid
                              then (case csa_XfrmIface child of None \<Rightarrow> Crash NilPointer
                                    | Some l \<Rightarrow> Val (Some (link_Index l)))
                              else dl_iface w ue teid cs)))))"

text \<open>The GRE packet for the UE: QFI and RQI are 0 and false when the T-PDU carries none.\<close>

definition dl_packet :: "QoSTPDUPacket \<Rightarrow> octets \<Rightarrow> octets" where
  "dl_packet packet payload =
     (case (if QoSTPDUPacket_HasQoS packet then QoSTPDUPacket_GetQoSParameters packet else (0, False)) of
        (qfi, rqi) \<Rightarrow>
          GREPacket_Marshal (GREPacket_SetQoS (GREPacket_SetPayload GREPacket_zero payload GRE_IPv4) qfi rqi))"

definition forwardDL :: "('x, 'm) up_env_scheme \<Rightarrow> QoSTPDUPacket \<Rightarrow> 'x world \<Rightarrow> unit gores \<times> 'x world" where
  "forwardDL env packet w =
     gbind (QoSTPDUPacket_GetTEID packet, w) (\<lambda>pktTEID w.
     case AllocatedUETEIDLoad pktTEID w of None \<Rightarrow> (Val (), w)
     | Some r \<Rightarrow>
         gbind (deref ranues (Some r) w) (\<lambda>ranUe w.
         case IkeUeLoadFromNgapId (ru_RanUeNgapId ranUe) w of
           Err e \<Rightarrow> (Val (), w)
         | Crash p \<Rightarrow> (Crash p, w)
         | Val u \<Rightarrow>
             gbind (deref ikeues (Some u) w) (\<lambda>ikeUe w.
             gbind (dl_iface w ranUe pktTEID (gm_values (iu_N3IWFChildSecurityAssociation ikeUe)), w) (\<lambda>cm w.
               case cm of None \<Rightarrow> (Val (), w)
               | Some ifIndex \<Rightarrow>
                   gbind (QoSTPDUPacket_GetPayload packet, w) (\<lambda>payload w.
                     logged_write (up_GreWriteTo env (dl_packet packet payload) ifIndex (iu_IPSecInnerIPAddr ikeUe)) w)))))"

definition handleQoSTPDU :: "('x, 'm) up_env_scheme \<Rightarrow> TPDU \<Rightarrow> 'x world \<Rightarrow> unit gores \<times> 'x world" where
  "handleQoSTPDU env msg w =
     (case QoSTPDUPacket_Unmarshal (up_gtp env) QoSTPDUPacket_zero msg of
        (Val _, pdu) \<Rightarrow> forwardDL env pdu w
      | (Err e, _) \<Rightarrow> (Err e, w)
      | (Crash p, _) \<Rightarrow> (Crash p, w))"

section \<open>What is forwarded\<close>

lemma deref_cases:
  "deref sel p w = (case p of None \<Rightarrow> (Crash NilPointer, w) | Some a \<Rightarrow>
     (case sel w a of None \<Rightarrow> (Crash NilPointer, w) | Some v \<Rightarrow> (Val v, w)))"
  by (simp add: deref_def split: option.split)

text \<open>A child SA carries a TEID to an interface.\<close>

definition carries :: "'x world \<Rightarrow> RanUe \<Rightarrow> u32 \<Rightarrow> int \<Rightarrow> addr \<Rightarrow> bool" where
  "carries w ue teid ifIndex c =
     (\<exists>child i s ps g l. childsas w c = Some child \<and> csa_PDUSessionIds child \<noteq> [] \<and> i = hd (csa_PDUSessionIds child)
        \<and> FindPDUSession ue i = Some s \<and> sessions w s = Some ps \<and> ps_GTPConnInfo ps = Some g
        \<and> gtp_IncomingTEID g = teid \<and> csa_XfrmIface child = Some l \<and> link_Index l = ifIndex)"

lemma dl_iface_carries:
  "dl_iface w ue teid cs = Val (Some ifIndex) \<Longrightarrow> \<exists>c \<in> set cs. carries w ue teid ifIndex c"
proof (induction cs)
  case (Cons c cs)
  then show ?case
    by (auto simp: carries_def split: option.splits list.splits if_splits)
qed simp

text \<open>What the decoder of the UE reads in the GRE packet of a T-PDU.\<close>

lemma dl_packet_decodes:
  "\<exists>p. GREPacket_Unmarshal GREPacket_zero (dl_packet packet payload) = (Val (), p)
     \<and> GREPacket_GetPayload p = (payload, GRE_IPv4)
     \<and> GREPacket_GetQFI p = Val (if qp_qos packet then qp_qfi packet AND 0x3F else 0)
     \<and> GREPacket_GetRQI p = (qp_qos packet \<and> qp_rqi packet)"
proof -
  let ?q = "if qp_qos packet then qp_qfi packet else 0" and ?r = "qp_qos packet \<and> qp_rqi packet"
  have "dl_packet packet payload = GREPacket_Marshal (GREPacket_SetQoS (GREPacket_SetPayload GREPacket_zero payload GRE_IPv4) ?q ?r)"
    by (simp add: dl_packet_def QoSTPDUPacket_HasQoS_def QoSTPDUPacket_GetQoSParameters_def)
  then show ?thesis
    using GRE_QoS_end_to_end [of payload GRE_IPv4 ?q ?r] by (auto split: if_splits)
qed

lemma Unmarshal_keeps_TPDU:
  assumes "QoSTPDUPacket_Unmarshal lib p msg = (Val x, q)" shows "qp_tPDU q = Some msg"
proof -
  let ?p = "p\<lparr>qp_tPDU := Some msg\<rparr>"
  have "qp_tPDU (snd (gloop (unmarshalExtensionHeader_body lib) (tpdu_ExtensionHeaders msg) ?p)) = Some msg"
    by (rule gloop_invariant [where P = "\<lambda>q. qp_tPDU q = Some msg"])
      (simp_all add: unmarshalExtensionHeader_body_def Let_def)
  then show ?thesis
    using assms unfolding QoSTPDUPacket_Unmarshal_def QoSTPDUPacket_unmarshalExtensionHeader_def Let_def
    by (auto simp: gbind_def split: if_splits prod.splits gores.splits)
qed

text \<open>
  C8: Downlink isolation: whatever the T-PDU, a GRE packet leaves only towards the UE that owns its
  TEID. If \<open>handleQoSTPDU\<close> changes anything at all, the TEID is allocated to a RAN UE, the IKE UE is
  the one registered under that UE's identifier, the packet goes to that UE's inner address through
  the interface of a child SA of that UE whose PDU session has the TEID as its incoming TEID, and
  the UE's decoder reads the payload, the QFI and the RQI of the T-PDU in it. Nothing but the
  connection to the UE changes.
\<close>

theorem downlink_isolated:
  assumes run: "handleQoSTPDU env msg w = (res, w')" and sent: "w' \<noteq> w"
  shows "\<exists>r ranUe u ikeUe c ifIndex pdu gp d.
      AllocatedUETEIDLoad (tpdu_TEID msg) w = Some r \<and> ranues w r = Some ranUe
    \<and> IkeUeLoadFromNgapId (ru_RanUeNgapId ranUe) w = Val u \<and> ikeues w u = Some ikeUe
    \<and> c \<in> set (gm_values (iu_N3IWFChildSecurityAssociation ikeUe)) \<and> carries w ranUe (tpdu_TEID msg) ifIndex c
    \<and> w' = w\<lparr>ext := snd (up_GreWriteTo env d ifIndex (iu_IPSecInnerIPAddr ikeUe) (ext w))\<rparr> \<and> res = Val ()
    \<and> QoSTPDUPacket_Unmarshal (up_gtp env) QoSTPDUPacket_zero msg = (Val (), pdu)
    \<and> GREPacket_Unmarshal GREPacket_zero d = (Val (), gp) \<and> GREPacket_GetPayload gp = (tpdu_Payload msg, GRE_IPv4)
    \<and> GREPacket_GetQFI gp = Val (if qp_qos pdu then qp_qfi pdu AND 0x3F else 0)
    \<and> GREPacket_GetRQI gp = (qp_qos pdu \<and> qp_rqi pdu)"
proof -
  obtain pdu where pdu: "QoSTPDUPacket_Unmarshal (up_gtp env) QoSTPDUPacket_zero msg = (Val (), pdu)"
    "forwardDL env pdu w = (res, w')"
    using run sent by (auto simp: handleQoSTPDU_def split: prod.splits gores.splits)
  have tp: "qp_tPDU pdu = Some msg" using pdu(1) by (rule Unmarshal_keeps_TPDU)
  then have teid: "QoSTPDUPacket_GetTEID pdu = Val (tpdu_TEID msg)" "QoSTPDUPacket_GetPayload pdu = Val (tpdu_Payload msg)"
    by (simp_all add: QoSTPDUPacket_GetTEID_def QoSTPDUPacket_GetPayload_def qp_deref_def)
  let ?cs = "\<lambda>ikeUe. gm_values (iu_N3IWFChildSecurityAssociation ikeUe)"
  obtain r ranUe u ikeUe ifIndex where f: "AllocatedUETEIDLoad (tpdu_TEID msg) w = Some r" "ranues w r = Some ranUe"
    "IkeUeLoadFromNgapId (ru_RanUeNgapId ranUe) w = Val u" "ikeues w u = Some ikeUe"
    "dl_iface w ranUe (tpdu_TEID msg) (?cs ikeUe) = Val (Some ifIndex)"
    using pdu(2) sent teid unfolding forwardDL_def deref_cases gbind_def logged_write_def
    by (auto split: option.splits gores.splits)
  from dl_iface_carries [OF f(5)] obtain c where "c \<in> set (?cs ikeUe)" "carries w ranUe (tpdu_TEID msg) ifIndex c"
    by blast
  moreover have "(res, w') = (Val (), w\<lparr>ext := snd (up_GreWriteTo env (dl_packet pdu (tpdu_Payload msg)) ifIndex
      (iu_IPSecInnerIPAddr ikeUe) (ext w))\<rparr>)"
    using pdu(2) f teid by (simp add: forwardDL_def logged_write_def)
  ultimately show ?thesis
    using f pdu(1) dl_packet_decodes [of pdu "tpdu_Payload msg"] by blast
qed

text \<open>A world with one registered UE: inner address, IKE SA, one PDU session and its child SA on interface 5.\<close>

definition up_world :: "(octets \<times> string option) list world" where
  "up_world = (world_init [])\<lparr>AllocatedUETEID := [(9, 0)], AllocatedUEIPAddress := [(''10.0.0.2'', 1)],
     NGAPIdToIKESPI := [(1, 7)], IKESPIToNGAPId := [(7, 1)], IKEUePool := [(7, 1)], RANUePool := [(1, 0)],
     ranues := [0 \<mapsto> (RanUe_init 1 6)\<lparr>ru_PduSessionList := [(3, 2)]\<rparr>],
     ikeues := [1 \<mapsto> IkeUe_init\<lparr>iu_IPSecInnerIPAddr := Some ''10.0.0.2'', iu_N3IWFIKESecurityAssociation := Some 4,
        iu_N3IWFChildSecurityAssociation := [(8, 5)]\<rparr>],
     ikesas := [4 \<mapsto> IKESecurityAssociation_new\<lparr>isa_LocalSPI := 7\<rparr>],
     childsas := [5 \<mapsto> ChildSecurityAssociation_new\<lparr>csa_InboundSPI := 8, csa_PDUSessionIds := [3],
        csa_XfrmIface := Some \<lparr>link_Name = ''ipsec-8'', link_Index = 5\<rparr>\<rparr>],
     sessions := [2 \<mapsto> (PDUSession_new 3 \<lparr>sst = [1], sd = None\<rparr>)\<lparr>ps_GTPConnInfo := Some
        \<lparr>gtp_UPFIPAddr = ''192.0.2.1'', gtp_UPFUDPAddr = ''192.0.2.1:2152'', gtp_IncomingTEID = 9,
         gtp_OutgoingTEID = 77\<rparr>\<rparr>],
     next_addr := 7\<rparr>"

text \<open>Connections that record what is written to them.\<close>

definition up_recorder :: "(octets \<times> string option) list up_env" where
  "up_recorder = \<lparr>up_gtp = demo_lib, up_WriteTo = (\<lambda>b a x. (True, x @ [(b, Some a)])),
     up_WriteToGTP = (\<lambda>_ b a x. (True, x @ [(b, Some a)])), up_GreWriteTo = (\<lambda>b _ a x. (True, x @ [(b, a)]))\<rparr>"

definition demo_tpdu :: TPDU where
  "demo_tpdu = \<lparr>tpdu_Flags = 0, tpdu_TEID = 9, tpdu_ExtensionHeaders = [], tpdu_Payload = [69, 0]\<rparr>"

lemmas up_demo = up_world_def up_recorder_def demo_tpdu_def world_init_def demo_lib_def IkeUe_init_def RanUe_init_def
  ChildSecurityAssociation_new_def IKESecurityAssociation_new_def PDUSession_new_def gm_load_def gm_values_def
  AllocatedUETEIDLoad_def AllocatedUEIPAddressLoad_def IkeUeLoadFromNgapId_def IkeUePoolLoad_def FindPDUSession_def
  RanUeLoadFromIkeSPI_def RanUePoolLoad_def

lemma up_demo_downlink:
  "handleQoSTPDU up_recorder demo_tpdu up_world =
     (Val (), up_world\<lparr>ext := [(dl_packet (QoSTPDUPacket_zero\<lparr>qp_tPDU := Some demo_tpdu\<rparr>) [69, 0], Some ''10.0.0.2'')]\<rparr>)"
  by (simp add: handleQoSTPDU_def QoSTPDUPacket_Unmarshal_def forwardDL_def QoSTPDUPacket_GetTEID_def
      QoSTPDUPacket_GetPayload_def qp_deref_def logged_write_def up_demo)

lemma up_world_sent: "up_world\<lparr>ext := [x]\<rparr> \<noteq> up_world"
proof
  assume "up_world\<lparr>ext := [x]\<rparr> = up_world"
  then have "ext (up_world\<lparr>ext := [x]\<rparr>) = ext up_world" by (rule arg_cong)
  then show False by (simp add: up_world_def world_init_def)
qed

theorem downlink_isolated_witness:
  "\<exists>gp d. snd (handleQoSTPDU up_recorder demo_tpdu up_world) = up_world\<lparr>ext := [(d, Some ''10.0.0.2'')]\<rparr>
    \<and> GREPacket_Unmarshal GREPacket_zero d = (Val (), gp) \<and> GREPacket_GetPayload gp = ([69, 0], GRE_IPv4)
    \<and> AllocatedUETEIDLoad 9 up_world = Some 0"
proof -
  from downlink_isolated [OF up_demo_downlink up_world_sent] obtain r ikeUe ifIndex gp d u ranUe where
    f: "AllocatedUETEIDLoad (tpdu_TEID demo_tpdu) up_world = Some r" "ranues up_world r = Some ranUe"
    "IkeUeLoadFromNgapId (ru_RanUeNgapId ranUe) up_world = Val u" "ikeues up_world u = Some ikeUe"
    "up_world\<lparr>ext := [(dl_packet (QoSTPDUPacket_zero\<lparr>qp_tPDU := Some demo_tpdu\<rparr>) [69, 0], Some ''10.0.0.2'')]\<rparr> =
     up_world\<lparr>ext := snd (up_GreWriteTo up_recorder d ifIndex (iu_IPSecInnerIPAddr ikeUe) (ext up_world))\<rparr>"
    "GREPacket_Unmarshal GREPacket_zero d = (Val (), gp)" "GREPacket_GetPayload gp = (tpdu_Payload demo_tpdu, GRE_IPv4)"
    by blast
  have "iu_IPSecInnerIPAddr ikeUe = Some ''10.0.0.2''" "ext up_world = []" "r = 0"
    using f by (auto simp: up_demo split: if_splits)
  then have "up_world\<lparr>ext := snd (up_GreWriteTo up_recorder d ifIndex (iu_IPSecInnerIPAddr ikeUe) (ext up_world))\<rparr>
      = up_world\<lparr>ext := [(d, Some ''10.0.0.2'')]\<rparr>"
    by (simp add: up_recorder_def)
  with f \<open>r = 0\<close> show ?thesis
    unfolding up_demo_downlink by (auto simp: demo_tpdu_def)
qed

lemma ul_session_child:
  "ul_session w ue ifIndex cs = Val (Some p) \<Longrightarrow> \<exists>c \<in> set cs. \<exists>child l i is. childsas w c = Some child
     \<and> csa_XfrmIface child = Some l \<and> link_Index l = ifIndex \<and> csa_PDUSessionIds child = i # is
     \<and> FindPDUSession ue i = Some p"
proof (induction cs)
  case (Cons c cs)
  then show ?case by (fastforce split: option.splits list.splits if_splits)
qed simp

text \<open>
  C9: Uplink isolation: a packet leaves towards a UPF only in the tunnel of the session it belongs
  to. If \<open>forwardUL\<close> changes anything at all, its source is the inner address of an IKE UE, the RAN
  UE is the one registered under that UE's SPI, the packet came in on the interface of a child SA of
  that UE, and what is sent goes to the UPF of the first PDU session of that child SA with that
  session's outgoing TEID: the payload of the GRE packet, with the QFI of its key when it has one.
\<close>

theorem uplink_isolated:
  assumes run: "forwardUL env ip ifIndex raw w = (res, w')" and sent: "w' \<noteq> w"
  shows "\<exists>u ikeUe s sa r ranUe c child l i is p ps g gp.
      AllocatedUEIPAddressLoad ip w = Some u \<and> ikeues w u = Some ikeUe
    \<and> iu_N3IWFIKESecurityAssociation ikeUe = Some s \<and> ikesas w s = Some sa
    \<and> RanUeLoadFromIkeSPI (isa_LocalSPI sa) w = Val r \<and> ranues w r = Some ranUe
    \<and> c \<in> set (gm_values (iu_N3IWFChildSecurityAssociation ikeUe)) \<and> childsas w c = Some child
    \<and> csa_XfrmIface child = Some l \<and> link_Index l = ifIndex \<and> csa_PDUSessionIds child = i # is
    \<and> FindPDUSession ranUe i = Some p \<and> sessions w p = Some ps \<and> ps_GTPConnInfo ps = Some g
    \<and> GREPacket_Unmarshal GREPacket_zero raw = (Val (), gp) \<and> res = Val ()
    \<and> (if GREPacket_GetKeyFlag gp
       then \<exists>qfi b. GREPacket_GetQFI gp = Val qfi
              \<and> BuildQoSGTPPacket (up_gtp env) (gtp_OutgoingTEID g) qfi (gre_payload gp) = Val b
              \<and> w' = w\<lparr>ext := snd (up_WriteTo env b (gtp_UPFUDPAddr g) (ext w))\<rparr>
       else w' = w\<lparr>ext := snd (up_WriteToGTP env (gtp_OutgoingTEID g) (gre_payload gp) (gtp_UPFUDPAddr g) (ext w))\<rparr>)"
proof -
  obtain u ikeUe s sa r ranUe p ps where f: "AllocatedUEIPAddressLoad ip w = Some u" "ikeues w u = Some ikeUe"
    "iu_N3IWFIKESecurityAssociation ikeUe = Some s" "ikesas w s = Some sa"
    "RanUeLoadFromIkeSPI (isa_LocalSPI sa) w = Val r" "ranues w r = Some ranUe"
    "ul_session w ranUe ifIndex (gm_values (iu_N3IWFChildSecurityAssociation ikeUe)) = Val (Some p)"
    "sessions w p = Some ps" and send: "ul_send env ps raw w = (res, w')"
    using run sent unfolding forwardUL_def deref_cases gbind_def
    by (auto split: option.splits gores.splits if_splits)
  from send sent obtain gp g where d: "GREPacket_Unmarshal GREPacket_zero raw = (Val (), gp)"
    and g: "ps_GTPConnInfo ps = Some g" and res: "res = Val ()"
    and out: "if GREPacket_GetKeyFlag gp
       then \<exists>qfi b. GREPacket_GetQFI gp = Val qfi
              \<and> BuildQoSGTPPacket (up_gtp env) (gtp_OutgoingTEID g) qfi (gre_payload gp) = Val b
              \<and> w' = w\<lparr>ext := snd (up_WriteTo env b (gtp_UPFUDPAddr g) (ext w))\<rparr>
       else w' = w\<lparr>ext := snd (up_WriteToGTP env (gtp_OutgoingTEID g) (gre_payload gp) (gtp_UPFUDPAddr g) (ext w))\<rparr>"
    unfolding ul_send_def logged_write_def Let_def GREPacket_GetPayload_def
    by (auto split: prod.splits gores.splits option.splits if_splits)
  from ul_session_child [OF f(7)] obtain c child l i "is" where
    "c \<in> set (gm_values (iu_N3IWFChildSecurityAssociation ikeUe))" "childsas w c = Some child"
    "csa_XfrmIface child = Some l" "link_Index l = ifIndex" "csa_PDUSessionIds child = i # is"
    "FindPDUSession ranUe i = Some p"
    by blast
  with f d g res out show ?thesis by blast
qed

lemma up_demo_uplink:
  "forwardUL up_recorder ''10.0.0.2'' 5 [0, 0, 8, 0, 1, 2] up_world =
     (Val (), up_world\<lparr>ext := [([1, 2], Some ''192.0.2.1:2152'')]\<rparr>)"
  by (simp add: forwardUL_def ul_send_def logged_write_def GREPacket_Unmarshal_def unmarshal_key_def GREPacket_GetKeyFlag_def
      GREPacket_zero_def GREPacket_GetPayload_def up_demo)

theorem uplink_isolated_witness:
  "\<exists>p ps g. sessions up_world p = Some ps \<and> ps_GTPConnInfo ps = Some g \<and> gtp_OutgoingTEID g = 77
    \<and> snd (forwardUL up_recorder ''10.0.0.2'' 5 [0, 0, 8, 0, 1, 2] up_world) =
        up_world\<lparr>ext := [([1, 2], Some (gtp_UPFUDPAddr g))]\<rparr>"
proof -
  from uplink_isolated [OF up_demo_uplink up_world_sent] obtain p ps g where
    "sessions up_world p = Some ps" "ps_GTPConnInfo ps = Some g"
    by blast
  moreover from this have "gtp_OutgoingTEID g = 77" "gtp_UPFUDPAddr g = ''192.0.2.1:2152''"
    by (auto simp: up_demo split: if_splits)
  ultimately show ?thesis
    unfolding up_demo_uplink by (intro exI [of _ p] exI [of _ ps] exI [of _ g]) simp
qed

end
