(* ===== verification/Servers.thy ===== *)
theory Servers
  imports Ngap_Events User_Plane
begin

text \<open>
  The servers around the handlers: the NAS listener (\<open>src/internal/nwucp/server.go\<close>), the NGAP and
  IKE server loops with their receivers (\<open>src/internal/ngap/server.go\<close>,
  \<open>src/internal/ike/server.go\<close>) and the start and the end of the program
  (\<open>src/pkg/service/init.go\<close>). A loop that serves whatever arrives is a function of the list of its
  inputs; what sockets and the kernel do is a parameter.
\<close>

datatype listener = NasListener | GreConn | GtpuConn | IkeListener nat

text \<open>The IPv4 header \<open>gopacket\<close> serializes in front of an ESP packet, its length and checksum filled in.\<close>

record IPv4Layer =
  l4_SrcIP :: ip
  l4_DstIP :: ip
  l4_Version :: nat
  l4_TTL :: nat
  l4_Protocol :: nat

record 'x srv_env = "'x ngap_env" +
  s_DialSCTP :: "string \<Rightarrow> 'x \<Rightarrow> nat option \<times> 'x"
  s_GetDefaultSentParam :: "nat \<Rightarrow> 'x \<Rightarrow> bool \<times> 'x"
  s_SetDefaultSentParam :: "nat \<Rightarrow> 'x \<Rightarrow> bool \<times> 'x"
  s_SubscribeEvents :: "nat \<Rightarrow> 'x \<Rightarrow> bool \<times> 'x"
  s_SCTP_Close :: "nat \<Rightarrow> 'x \<Rightarrow> bool \<times> 'x"
  s_AmfSctpAddrs :: "string list"
  s_RouteAdd :: "int \<Rightarrow> 'x \<Rightarrow> bool \<times> 'x"
  s_ListenNas :: "'x \<Rightarrow> bool \<times> 'x"
  s_ListenGre :: "'x \<Rightarrow> bool \<times> 'x"
  s_ResolveGtpu :: "'x \<Rightarrow> bool \<times> 'x"
  s_ResolveIke :: "int \<Rightarrow> 'x \<Rightarrow> bool \<times> 'x"
  s_ListenUDP :: "int \<Rightarrow> 'x \<Rightarrow> bool \<times> 'x"
  s_Socket :: "'x \<Rightarrow> bool \<times> 'x"
  s_SerializeLayers :: "IPv4Layer \<Rightarrow> octets \<Rightarrow> octets option"
  s_Sendto :: "octets \<Rightarrow> octets \<Rightarrow> int \<Rightarrow> 'x \<Rightarrow> bool \<times> 'x"
  s_SocketClose :: "'x \<Rightarrow> bool \<times> 'x"
  s_CloseListener :: "listener \<Rightarrow> 'x \<Rightarrow> bool \<times> 'x"

text \<open>A call whose error is only logged.\<close>

definition ext_do :: "('x \<Rightarrow> bool \<times> 'x) \<Rightarrow> 'x world \<Rightarrow> 'x world" where
  "ext_do f w = w\<lparr>ext := snd (f (ext w))\<rparr>"

section \<open>The NAS listener\<close>

text \<open>
  One accepted connection in \<open>listenAndServe\<close>; \<open>addr\<close> is the remote address of the connection, whose
  part before the first colon is the inner address of the UE.
\<close>

definition accept_nas :: "nat \<Rightarrow> string \<Rightarrow> 'x world \<Rightarrow> unit gores \<times> 'x world" where
  "accept_nas connection addr w =
     (case AllocatedUEIPAddressLoad (takeWhile (\<lambda>c. c \<noteq> CHR '':'') addr) w of None \<Rightarrow> (Val (), w)
      | Some u \<Rightarrow>
          gbind (deref ikeues (Some u) w) (\<lambda>ikeUe w.
          gbind (deref ikesas (iu_N3IWFIKESecurityAssociation ikeUe) w) (\<lambda>sa w.
          case RanUeLoadFromIkeSPI (isa_LocalSPI sa) w of
            Err e \<Rightarrow> (Val (), w)
          | Crash p \<Rightarrow> (Crash p, w)
          | Val r \<Rightarrow>
              gbind (upd_ranue (Some r) (\<lambda>ue. ue\<lparr>ru_TCPConnection := Some connection\<rparr>) w) (\<lambda>_ w.
              gbind (deref ranues (Some r) w) (\<lambda>ue w.
                (Val (), SendNgapEvt (NASTCPConnEstablishedCompleteEvt (ru_RanUeNgapId ue)) w))))))"

text \<open>\<open>forward\<close>, and what \<open>serveConn\<close> does to the UE when reading from the connection fails.\<close>

definition forward_uplink :: "('x, 'm) ngap_env_scheme \<Rightarrow> addr \<Rightarrow> octets \<Rightarrow> 'x world \<Rightarrow> unit gores \<times> 'x world" where
  "forward_uplink env ranUe packet = SendUplinkNASTransport env (Some ranUe) packet"

definition serveConn_ends :: "('x, 'm) ngap_env_scheme \<Rightarrow> addr \<Rightarrow> nat \<Rightarrow> 'x world \<Rightarrow> unit gores \<times> 'x world" where
  "serveConn_ends env ranUe connection w =
     gbind (upd_ranue (Some ranUe) (\<lambda>ue. ue\<lparr>ru_TCPConnection := None\<rparr>) w) (\<lambda>_ w.
       (Val (), ext_do (e_TCP_Close env connection) w))"

text \<open>A whole connection: the messages of the stream go to the AMF, each by its own call, then it ends.\<close>

definition serveConn_run :: "('x, 'm) ngap_env_scheme \<Rightarrow> addr \<Rightarrow> nat \<Rightarrow> octets \<Rightarrow> 'x world \<Rightarrow> unit gores \<times> 'x world" where
  "serveConn_run env ranUe connection stream w =
     gbind (gloop (forward_uplink env ranUe) (fst (serveConn stream)) w) (\<lambda>_ w.
       serveConn_ends env ranUe connection w)"

text \<open>
  \<open>Run\<close> opens the listener; \<open>listenAndServe\<close> takes the connections \<open>conns\<close> that \<open>Accept\<close> returns until
  it fails, and closes the listener. What is read from a connection is served by a goroutine of its
  own, \<open>serveConn_run\<close>.
\<close>

definition Nwucp_Run :: "('x, 'm) srv_env_scheme \<Rightarrow> 'x world \<Rightarrow> unit gores \<times> 'x world" where
  "Nwucp_Run env w = ext_call (s_ListenNas env) ''Listen NWu control plane traffic failed'' w"

definition Nwucp_listenAndServe :: "('x, 'm) srv_env_scheme \<Rightarrow> (nat \<times> string) list \<Rightarrow> 'x world \<Rightarrow> unit gores \<times> 'x world" where
  "Nwucp_listenAndServe env conns w =
     gbind (gloop (\<lambda>(connection, addr). accept_nas connection addr) conns w) (\<lambda>_ w.
       (Val (), ext_do (s_CloseListener env NasListener) w))"

definition close_ue_conn :: "('x, 'm) ngap_env_scheme \<Rightarrow> addr \<Rightarrow> 'x world \<Rightarrow> unit gores \<times> 'x world" where
  "close_ue_conn env r w =
     gbind (deref ranues (Some r) w) (\<lambda>ue w.
       case ru_TCPConnection ue of None \<Rightarrow> (Val (), w)
       | Some c \<Rightarrow> (Val (), ext_do (e_TCP_Close env c) w))"

definition Nwucp_Stop :: "('x, 'm) srv_env_scheme \<Rightarrow> 'x world \<Rightarrow> unit gores \<times> 'x world" where
  "Nwucp_Stop env w = gloop (close_ue_conn env) (gm_values (RANUePool w)) (ext_do (s_CloseListener env NasListener) w)"

section \<open>The user plane listeners\<close>

text \<open>
  The two connections of the user plane. \<open>greListenAndServe\<close> hands every packet \<open>ReadFrom\<close> returns, with
  its source and the interface it came in on, to a goroutine of its own; these are taken in the order
  they start in. \<open>visible\<close> is the answer of \<open>SetControlMessage\<close>; without the interface of a packet the
  loop does not start.
\<close>

definition Nwuup_Run :: "('x, 'm) srv_env_scheme \<Rightarrow> 'x world \<Rightarrow> unit gores \<times> 'x world" where
  "Nwuup_Run env w =
     gbind (ext_call (s_ListenGre env) ''Listen NWu user plane traffic failed'' w) (\<lambda>_ w.
       ext_call (s_ResolveGtpu env) ''Listen NWu user plane traffic failed'' w)"

definition greListenAndServe :: "('x, 'm) srv_env_scheme \<Rightarrow> ('x, 'n) up_env_scheme \<Rightarrow> bool \<Rightarrow> (string \<times> int \<times> octets) list
    \<Rightarrow> 'x world \<Rightarrow> unit gores \<times> 'x world" where
  "greListenAndServe env up visible reads w =
     gbind (if visible then gloop (\<lambda>(src, ifIndex, forwardData). forwardUL up src ifIndex forwardData) reads w
            else (Val (), w)) (\<lambda>_ w.
       (Val (), ext_do (s_CloseListener env GreConn) w))"

section \<open>The NGAP server\<close>

text \<open>
  The connection to one AMF: up to three attempts, then the parameters of the socket; a failure
  closes the connection. At the end the NG set-up request is sent.
\<close>

fun dial_amf :: "('x, 'm) srv_env_scheme \<Rightarrow> string \<Rightarrow> nat \<Rightarrow> 'x world \<Rightarrow> nat gores \<times> 'x world" where
  "dial_amf env remoteAddr 0 w = (Err ''failed to connect to AMF'', w)"
| "dial_amf env remoteAddr (Suc n) w =
     (case s_DialSCTP env remoteAddr (ext w) of
        (Some conn, x) \<Rightarrow> (Val conn, w\<lparr>ext := x\<rparr>)
      | (None, x) \<Rightarrow> dial_amf env remoteAddr n (w\<lparr>ext := x\<rparr>))"

definition sctp_param :: "('x, 'm) srv_env_scheme \<Rightarrow> nat \<Rightarrow> (nat \<Rightarrow> 'x \<Rightarrow> bool \<times> 'x) \<Rightarrow> string \<Rightarrow> 'x world
    \<Rightarrow> unit gores \<times> 'x world" where
  "sctp_param env conn f err w =
     (case f conn (ext w) of (ok, x) \<Rightarrow>
        let w = w\<lparr>ext := x\<rparr> in
        if ok then (Val (), w) else (Err err, ext_do (s_SCTP_Close env conn) w))"

definition connect_amf :: "('x, 'm) srv_env_scheme \<Rightarrow> string \<Rightarrow> 'x world \<Rightarrow> unit gores \<times> 'x world" where
  "connect_amf env remoteAddr w =
     gbind (dial_amf env remoteAddr 3 w) (\<lambda>conn w.
     gbind (sctp_param env conn (s_GetDefaultSentParam env) ''get socket information failed'' w) (\<lambda>_ w.
     gbind (sctp_param env conn (s_SetDefaultSentParam env) ''set socket parameter failed'' w) (\<lambda>_ w.
     gbind (sctp_param env conn (s_SubscribeEvents env) ''subscribe SCTP event failed'' w) (\<lambda>_ w.
       SendNGSetupRequest env conn w))))"

definition Ngap_Run :: "('x, 'm) srv_env_scheme \<Rightarrow> 'x world \<Rightarrow> unit gores \<times> 'x world" where
  "Ngap_Run env w = gloop (connect_amf env) (s_AmfSctpAddrs env) w"

text \<open>
  One read of the receive loop (\<open>ppid\<close> is the payload protocol identifier of NGAP): what is queued for
  the server, and whether the loop goes on. The end of the stream queues an empty packet.
\<close>

datatype sctp_read = SctpEOF | SctpError | SctpData "u32 option" octets

definition sctp_received :: "u32 \<Rightarrow> sctp_read \<Rightarrow> octets option \<times> bool" where
  "sctp_received ppid r =
     (case r of SctpEOF \<Rightarrow> (Some [], False)
      | SctpError \<Rightarrow> (None, False)
      | SctpData info b \<Rightarrow> if info \<noteq> Some ppid then (None, True) else (Some b, True))"

text \<open>The receive loop over what is read from the connection; at the end of the stream the connection is closed.\<close>

fun sctp_serve :: "('x, 'm) srv_env_scheme \<Rightarrow> u32 \<Rightarrow> nat \<Rightarrow> sctp_read list \<Rightarrow> 'x world \<Rightarrow> octets list \<times> 'x world" where
  "sctp_serve env ppid conn [] w = ([], w)"
| "sctp_serve env ppid conn (r # rs) w =
     (let w = (if r = SctpEOF then ext_do (s_SCTP_Close env conn) w else w);
          queued = (case fst (sctp_received ppid r) of None \<Rightarrow> [] | Some b \<Rightarrow> [b])
      in if snd (sctp_received ppid r)
         then (case sctp_serve env ppid conn rs w of (q, w) \<Rightarrow> (queued @ q, w))
         else (queued, w))"

text \<open>The loop of \<open>runNgapEventHandler\<close> over what its two channels deliver; an empty packet ends it.\<close>

datatype ngap_input = NgapPacketIn nat octets | NgapEventIn

fun runNgapEventHandler :: "('x, 'm) ngap_env_scheme \<Rightarrow> ngap_input list \<Rightarrow> 'x world \<Rightarrow> unit gores \<times> 'x world" where
  "runNgapEventHandler env [] w = (Val (), w)"
| "runNgapEventHandler env (NgapPacketIn conn buf # is) w =
     (if length buf = 0 then (Val (), w)
      else gbind (NGAPDispatch env conn buf w) (\<lambda>_. runNgapEventHandler env is))"
| "runNgapEventHandler env (NgapEventIn # is) w =
     gbind (ngap_take_event env w) (\<lambda>_. runNgapEventHandler env is)"

section \<open>The IKE server\<close>

datatype ike_input = IkePacketIn octets nat UDPAddr UDPAddr | IkeEventIn | IkeStopIn

fun ike_serve :: "('x, 'm) ngap_env_scheme \<Rightarrow> ike_input list \<Rightarrow> 'x world \<Rightarrow> unit gores \<times> 'x world" where
  "ike_serve env [] w = (Val (), w)"
| "ike_serve env (IkePacketIn msg conn localAddr remoteAddr # is) w =
     gbind (serve_packet env msg conn localAddr remoteAddr w) (\<lambda>_. ike_serve env is)"
| "ike_serve env (IkeEventIn # is) w = gbind (ike_take_event env w) (\<lambda>_. ike_serve env is)"
| "ike_serve env (IkeStopIn # is) w = (Val (), w)"

definition ike_server :: "('x, 'm) ngap_env_scheme \<Rightarrow> ike_input list \<Rightarrow> 'x world \<Rightarrow> unit gores \<times> 'x world" where
  "ike_server env inputs w = recovered (ike_serve env inputs w)"

text \<open>
  \<open>handleESPPacket\<close>: the ESP packet in an IPv4 packet of its own, on a raw socket that is closed
  again. The conversion of the address to four octets takes the first four, and panics on fewer.
\<close>

definition constructPacketWithESP :: "('x, 'm) srv_env_scheme \<Rightarrow> UDPAddr \<Rightarrow> UDPAddr \<Rightarrow> octets \<Rightarrow> octets gores" where
  "constructPacketWithESP env srcIP dstIP espPacket =
     (case s_SerializeLayers env \<lparr>l4_SrcIP = udp_IP srcIP, l4_DstIP = udp_IP dstIP, l4_Version = 4, l4_TTL = 64,
         l4_Protocol = 50\<rparr> espPacket of
        None \<Rightarrow> Err ''Error serializing layers'' | Some packetData \<Rightarrow> Val packetData)"

definition esp_send :: "('x, 'm) srv_env_scheme \<Rightarrow> UDPAddr \<Rightarrow> UDPAddr \<Rightarrow> octets \<Rightarrow> 'x world \<Rightarrow> unit gores \<times> 'x world" where
  "esp_send env srcIP dstIP espPacket w =
     gbind (constructPacketWithESP env srcIP dstIP espPacket, w) (\<lambda>ipPacket w.
       if length (udp_IP dstIP) < 4 then (Crash IndexRange, w)
       else ext_call (s_Sendto env ipPacket (take 4 (udp_IP dstIP)) (udp_Port dstIP)) ''sendto error'' w)"

definition handleESPPacket :: "('x, 'm) srv_env_scheme \<Rightarrow> UDPAddr \<Rightarrow> UDPAddr \<Rightarrow> octets \<Rightarrow> 'x world \<Rightarrow> unit gores \<times> 'x world" where
  "handleESPPacket env srcIP dstIP espPacket w =
     gbind (ext_call (s_Socket env) ''socket error'' w) (\<lambda>_ w.
       case esp_send env srcIP dstIP espPacket w of (r, w) \<Rightarrow> (r, ext_do (s_SocketClose env) w))"

text \<open>
  \<open>receiver\<close> over the datagrams it reads, with their senders: what it queues for \<open>server\<close>. A panic is
  recovered and ends it.
\<close>

fun receiver :: "('x, 'm) srv_env_scheme \<Rightarrow> int \<Rightarrow> UDPAddr \<Rightarrow> (octets \<times> UDPAddr) list \<Rightarrow> 'x world
    \<Rightarrow> (octets \<times> UDPAddr) list \<times> 'x world" where
  "receiver env headerLen localAddr [] w = ([], w)"
| "receiver env headerLen localAddr ((msgBuf, remoteAddr) # ds) w =
     (case receive_datagram headerLen msgBuf remoteAddr localAddr (Some (handleESPPacket env)) w of
        (Val r, w) \<Rightarrow> (case receiver env headerLen localAddr ds w of (q, w) \<Rightarrow>
           (case r of None \<Rightarrow> q | Some m \<Rightarrow> (m, remoteAddr) # q, w))
      | (_, w) \<Rightarrow> ([], w))"

definition Ike_Run :: "('x, 'm) srv_env_scheme \<Rightarrow> 'x world \<Rightarrow> unit gores \<times> 'x world" where
  "Ike_Run env w =
     gbind (ext_call (s_ResolveIke env 500) ''ResolveUDPAddr'' w) (\<lambda>_ w.
     gbind (ext_call (s_ResolveIke env 4500) ''ResolveUDPAddr'' w) (\<lambda>_ w.
     gbind (ext_call (s_ListenUDP env 500) ''listenAndServe failed'' w) (\<lambda>_ w.
       ext_call (s_ListenUDP env 4500) ''listenAndServe failed'' w)))"

section \<open>Start and end of the program\<close>

definition initDefaultXfrmInterface :: "('x, 'm) srv_env_scheme \<Rightarrow> 'x world \<Rightarrow> unit gores \<times> 'x world" where
  "initDefaultXfrmInterface env w =
     gbind (SetupIPsecXfrmi env (e_XfrmIfaceName env @ ''-default'') (e_XfrmParentIfaceName env) (e_XfrmIfaceId env)
        \<lparr>net_IP = ip_To4 (e_GatewayIP env), net_Mask = e_InnerMask env\<rparr> w) (\<lambda>linkIPSec w.
     let w = ext_do (s_RouteAdd env (link_Index linkIPSec)) w in
     case gm_load_or_store (e_XfrmIfaceId env) linkIPSec (XfrmIfaces w) of (_, _, m) \<Rightarrow>
       (Val (), w\<lparr>XfrmIfaces := m, XfrmIfaceIdOffsetForUP := 1\<rparr>))"

text \<open>\<open>Run\<close> up to the point where every server runs; the metrics server has no effect here.\<close>

definition N3iwfApp_Run :: "('x, 'm) srv_env_scheme \<Rightarrow> 'x world \<Rightarrow> unit gores \<times> 'x world" where
  "N3iwfApp_Run env w =
     gbind (initDefaultXfrmInterface env w) (\<lambda>_ w.
     gbind (Ngap_Run env w) (\<lambda>_ w.
     gbind (Nwucp_Run env w) (\<lambda>_ w.
     gbind (Nwuup_Run env w) (\<lambda>_ w.
       Ike_Run env w))))"

definition removeIPsecInterfaces :: "('x, 'm) srv_env_scheme \<Rightarrow> 'x world \<Rightarrow> 'x world" where
  "removeIPsecInterfaces env w = foldl (\<lambda>w iface. ext_do (e_LinkDel env iface) w) w (gm_values (XfrmIfaces w))"

text \<open>
  The \<open>Stop\<close> functions, called in this order by \<open>terminateProcedure\<close>. That of the IKE server ends with
  a send on its stop channel, which \<open>server\<close> closes when it ends; \<open>running\<close> says that it has not ended.
  \<open>conns\<close> are the connections to the AMFs and \<open>ports\<close> the UDP listeners that were opened.
\<close>

definition Ngap_Stop :: "('x, 'm) srv_env_scheme \<Rightarrow> nat list \<Rightarrow> 'x world \<Rightarrow> 'x world" where
  "Ngap_Stop env conns w = foldl (\<lambda>w conn. ext_do (s_SCTP_Close env conn) w) w conns"

definition Nwuup_Stop :: "('x, 'm) srv_env_scheme \<Rightarrow> 'x world \<Rightarrow> 'x world" where
  "Nwuup_Stop env w = ext_do (s_CloseListener env GtpuConn) (ext_do (s_CloseListener env GreConn) w)"

definition Ike_Stop :: "('x, 'm) srv_env_scheme \<Rightarrow> nat list \<Rightarrow> bool \<Rightarrow> 'x world \<Rightarrow> unit gores \<times> 'x world" where
  "Ike_Stop env ports running w =
     (if running then Val () else Crash ClosedChannel, foldl (\<lambda>w port. ext_do (s_CloseListener env (IkeListener port)) w) w ports)"

definition terminateProcedure :: "('x, 'm) srv_env_scheme \<Rightarrow> nat list \<Rightarrow> nat list \<Rightarrow> bool \<Rightarrow> 'x world \<Rightarrow> unit gores \<times> 'x world" where
  "terminateProcedure env conns ports running w =
     gbind (Nwucp_Stop env (Ngap_Stop env conns w)) (\<lambda>_ w. Ike_Stop env ports running (Nwuup_Stop env w))"

section \<open>What the IKE receiver queues\<close>

text \<open>Nothing shorter than an IKE header reaches the server, and nothing from a sender that sent nothing.\<close>

lemma receive_datagram_length:
  "receive_datagram headerLen d remote loc esp w = (Val (Some m), w') \<Longrightarrow> headerLen \<le> int (length m)"
  by (auto simp: receive_datagram_def gtry_def split: if_splits gores.splits option.splits prod.splits)

lemma receiver_queue:
  "(m, remote) \<in> set (fst (receiver env headerLen loc ds w)) \<Longrightarrow> headerLen \<le> int (length m) \<and> remote \<in> snd ` set ds"
  by (induction env headerLen loc ds w rule: receiver.induct)
    (fastforce dest: receive_datagram_length split: gores.splits option.splits prod.splits)+

section \<open>One AMF ends the NGAP server for all\<close>

lemma run_until_empty:
  "runNgapEventHandler env (xs @ NgapPacketIn conn [] # ys) = runNgapEventHandler env xs"
proof (induction xs)
  case (Cons i xs)
  show ?case by (rule ext, cases i) (simp_all add: Cons.IH)
qed (simp add: fun_eq_iff)

definition sctp_data :: "sctp_read \<Rightarrow> bool" where
  "sctp_data r = (case r of SctpData _ _ \<Rightarrow> True | _ \<Rightarrow> False)"

definition ngap_messages :: "u32 \<Rightarrow> sctp_read list \<Rightarrow> octets list" where
  "ngap_messages ppid rs = concat (map (\<lambda>r. case r of SctpData i b \<Rightarrow> if i = Some ppid then [b] else [] | _ \<Rightarrow> []) rs)"

lemma sctp_serve_until_EOF:
  "list_all sctp_data rs \<Longrightarrow> sctp_serve env ppid conn (rs @ SctpEOF # rest) w
     = (ngap_messages ppid rs @ [[]], ext_do (s_SCTP_Close env conn) w)"
  by (induction rs) (auto simp: sctp_data_def ngap_messages_def sctp_received_def split: sctp_read.splits)

text \<open>
  C30: When an AMF closes its connection, the receiver has queued every NGAP message read from it, in
  order, then an empty packet, and has closed the connection. The event handler returns at the empty
  packet: whatever arrives later, packets of the other AMFs and events of the IKE server included,
  is never handled. The state is the one reached before.
\<close>

theorem amf_EOF_stops_all:
  assumes "list_all sctp_data rs"
  shows "sctp_serve env ppid conn (rs @ SctpEOF # rest) w = (ngap_messages ppid rs @ [[]], ext_do (s_SCTP_Close env conn) w)
    \<and> runNgapEventHandler env (xs @ NgapPacketIn conn [] # ys) v = runNgapEventHandler env xs v"
  using sctp_serve_until_EOF [OF assms] by (simp add: run_until_empty)

theorem amf_EOF_stops_all_witness:
  "\<forall>(env :: nat srv_env) w. fst (sctp_serve env 60 1 [SctpData (Some 60) [0, 21], SctpData None [7], SctpEOF] w) = [[0, 21], []]
     \<and> runNgapEventHandler env [NgapPacketIn 1 [], NgapEventIn, NgapPacketIn 2 [0, 21]] w = (Val (), w)"
proof (intro allI)
  show "fst (sctp_serve env 60 1 [SctpData (Some 60) [0, 21], SctpData None [7], SctpEOF] w) = [[0, 21], []]
     \<and> runNgapEventHandler env [NgapPacketIn 1 [], NgapEventIn, NgapPacketIn 2 [0, 21]] w = (Val (), w)" for env :: "nat srv_env" and w
    using amf_EOF_stops_all [of "[SctpData (Some 60) [0, 21], SctpData None [7]]" env 60 1 "[]" w "[]" "[NgapEventIn, NgapPacketIn 2 [0, 21]]" w]
    by (simp add: sctp_data_def ngap_messages_def)
qed

end
