(* ===== verification/Frames.thy ===== *)
theory Frames
  imports Ike_Events Context_Props
begin

text \<open>
  What the handlers leave alone. A predicate on the world that survives the calls to the outside, the
  queueing of events and writes to a given set of fields survives every operation composed of such
  steps, whichever way it ends; the locales state which steps the predicate has to survive, their
  lemmas carry it through the sequencing combinators, the IKE messages sent and the child SAs
  created.
\<close>

section \<open>Sequencing\<close>

text \<open>Rules for a fixed predicate on the final state of a call.\<close>

lemma gbind_state:
  assumes "P (snd r)" "\<And>a w. r = (Val a, w) \<Longrightarrow> P w \<Longrightarrow> P (snd (f a w))"
  shows "P (snd (gbind r f))"
  using assms by (cases r; cases "fst r") auto

lemma gtry_state:
  assumes "P (snd r)" "\<And>a w. P w \<Longrightarrow> P (snd (f a w))"
  shows "P (snd (gtry r f))"
  using assms by (cases r; cases "fst r") auto

lemma handler_state: "snd (handler r) = snd r"
  by (cases r; cases "fst r") (auto simp: handler_def)

lemma recovered_state: "snd (recovered r) = snd r"
  by (cases r; cases "fst r") (auto simp: recovered_def)

text \<open>The two loops that draw random values change nothing but the outside.\<close>

lemma draw_child_spi_spec:
  assumes "draw_child_spi env w = Some (r, w')"
  shows "(\<exists>x. w' = w\<lparr>ext := x\<rparr>) \<and> (\<forall>spi. r = Some spi \<longrightarrow> gm_load (ChildSA w) spi = None)"
proof -
  have "case rw of (r, w') \<Rightarrow> (\<exists>x. w' = w\<lparr>ext := x\<rparr>) \<and> (\<forall>spi. r = Some spi \<longrightarrow> gm_load (ChildSA w) spi = None)"
    if "draw_child_spi env w = Some rw" for rw
  proof (induction rule: draw_child_spi.raw_induct [OF _ that])
    case (1 draw env w rw)
    obtain d x where d: "e_rand_uint32 env (ext w) = (d, x)" by (cases "e_rand_uint32 env (ext w)")
    show ?case
    proof (cases "\<exists>spi. d = Some spi \<and> gm_load (ChildSA w) spi \<noteq> None")
      case True
      then have "draw env (w\<lparr>ext := x\<rparr>) = Some rw"
        using 1(2) d by auto
      from 1(1) [OF this] show ?thesis by auto
    next
      case False
      with 1(2) d show ?thesis by (cases d) auto
    qed
  qed
  from this [OF assms] show ?thesis by simp
qed

lemma draw_identifier_spec:
  assumes "draw_identifier env l w = Some (r, w')"
  shows "(\<exists>x. w' = w\<lparr>ext := x\<rparr>) \<and> (\<forall>i. r = Some i \<longrightarrow> i \<noteq> l)"
proof -
  have "case rw of (r, w') \<Rightarrow> (\<exists>x. w' = w\<lparr>ext := x\<rparr>) \<and> (\<forall>i. r = Some i \<longrightarrow> i \<noteq> l)"
    if "draw_identifier env l w = Some rw" for rw
  proof (induction rule: draw_identifier.raw_induct [OF _ that])
    case (1 draw env l w rw)
    obtain d x where d: "e_GenerateRandomUint8 env (ext w) = (d, x)" by (cases "e_GenerateRandomUint8 env (ext w)")
    show ?case
    proof (cases "d = Some l")
      case True
      then have "draw env l (w\<lparr>ext := x\<rparr>) = Some rw"
        using 1(2) d by auto
      from 1(1) [OF this] show ?thesis by auto
    next
      case False
      with 1(2) d show ?thesis by (cases d) auto
    qed
  qed
  from this [OF assms] show ?thesis by simp
qed

locale world_pred =
  fixes P :: "'x world \<Rightarrow> bool"
  assumes P_ext: "P w \<Longrightarrow> P (w\<lparr>ext := x\<rparr>)"
    and P_ngap_evts: "P w \<Longrightarrow> P (w\<lparr>ngap_evts := es\<rparr>)"
begin

lemma bind: "P (snd r) \<Longrightarrow> (\<And>a w. P w \<Longrightarrow> P (snd (f a w))) \<Longrightarrow> P (snd (gbind r f))"
  by (rule gbind_state)

lemma tries: "P (snd r) \<Longrightarrow> (\<And>a w. P w \<Longrightarrow> P (snd (f a w))) \<Longrightarrow> P (snd (gtry r f))"
  by (rule gtry_state)

lemma result: "P w \<Longrightarrow> P (snd (r, w))"
  by simp

lemma ite: "P (snd a) \<Longrightarrow> P (snd b) \<Longrightarrow> P (snd (if c then a else b))"
  by simp

lemma opt: "P (snd a) \<Longrightarrow> (\<And>y. P (snd (f y))) \<Longrightarrow> P (snd (case x of None \<Rightarrow> a | Some y \<Rightarrow> f y))"
  by (simp split: option.split)

lemma lst: "P (snd a) \<Longrightarrow> (\<And>y ys. P (snd (f y ys))) \<Longrightarrow> P (snd (case x of [] \<Rightarrow> a | y # ys \<Rightarrow> f y ys))"
  by (simp split: list.split)

lemma pair: "(\<And>a b. P (snd (f a b))) \<Longrightarrow> P (snd (case x of (a, b) \<Rightarrow> f a b))"
  by (simp split: prod.split)

lemma pair_fn: "(\<And>a b. P (snd (f a b w))) \<Longrightarrow> P (snd ((case x of (a, b) \<Rightarrow> f a b) w))"
  by (simp split: prod.split)

lemma let_state: "P (snd (f x)) \<Longrightarrow> P (snd (let y = x in f y))"
  by simp

lemma handle: "P (snd r) \<Longrightarrow> P (snd (handler r))"
  by (simp add: handler_state)

lemma recover: "P (snd r) \<Longrightarrow> P (snd (recovered r))"
  by (simp add: recovered_state)

lemma deref_pred: "P w \<Longrightarrow> P (snd (deref sel p w))"
  by simp

lemma conn: "P w \<Longrightarrow> P (snd (conn_of c w))"
  by (simp add: conn_of_def split: option.split)

lemma sakey: "P w \<Longrightarrow> P (snd (sakey_of sa w))"
  by (simp add: sakey_of_def split: option.split)

lemma call: "P w \<Longrightarrow> P (snd (ext_call f m w))"
  by (simp add: ext_call_def P_ext split: prod.split)

lemma call_opt: "P w \<Longrightarrow> P (snd (ext_opt f m w))"
  by (auto simp: ext_opt_def P_ext split: prod.split option.split)

lemma ngap_evt: "P w \<Longrightarrow> P (SendNgapEvt e w)"
  by (simp add: SendNgapEvt_def P_ngap_evts)

lemma child_text: "P w \<Longrightarrow> P (snd (ChildSecurityAssociation_String c w))"
  unfolding ChildSecurityAssociation_String_def by (intro bind deref_pred opt result)

lemmas steps = bind tries result ite opt lst pair pair_fn let_state handle recover deref_pred conn sakey
  call call_opt child_text

lemma loop: "P w \<Longrightarrow> (\<And>a w. P w \<Longrightarrow> P (snd (f a w))) \<Longrightarrow> P (snd (gloop f l w))"
  by (rule gloop_invariant)

lemma send: "P w \<Longrightarrow> P (snd (SendIKEMessageToUE env c a b m k w))"
  unfolding SendIKEMessageToUE_def by (intro steps)

lemma send_info: "P w \<Longrightarrow> P (snd (SendUEInformationExchange env sa k p i r n c a b w))"
  unfolding SendUEInformationExchange_def by (intro steps send)

lemma notify: "P w \<Longrightarrow> P (snd (reply_notify env c a b m e k t d w))"
  unfolding reply_notify_def by (intro steps send)

lemma reject: "P w \<Longrightarrow> P (snd (reject_header env c a b h t e w))"
  unfolding reject_header_def by (intro steps send)

lemma delete_req: "P w \<Longrightarrow> P (snd (SendIKEDeleteRequest env spi w))"
  unfolding SendIKEDeleteRequest_def by (intro steps send_info)

lemma child_spi: "P w \<Longrightarrow> P (snd (new_child_spi env w))"
  by (auto simp: new_child_spi_def P_ext dest!: draw_child_spi_spec split: option.split)

end

section \<open>Child SAs\<close>

text \<open>Predicates that do not look at child SAs and the UE contexts they hang on.\<close>

locale half_pred = world_pred P for P :: "'x world \<Rightarrow> bool" +
  assumes P_childsas: "P w \<Longrightarrow> P (w\<lparr>childsas := h\<rparr>)"
    and P_ikeues: "P w \<Longrightarrow> P (w\<lparr>ikeues := i\<rparr>)"
    and P_next: "P w \<Longrightarrow> next_addr w \<le> n \<Longrightarrow> P (w\<lparr>next_addr := n\<rparr>)"
begin

lemma childsa: "P w \<Longrightarrow> P (snd (upd_childsa p f w))"
  by (cases p) (auto simp: upd_childsa_def modify_def deref_def P_childsas split: option.split)

lemma ikeue: "P w \<Longrightarrow> P (snd (upd_ikeue p f w))"
  by (cases p) (auto simp: upd_ikeue_def modify_def deref_def P_ikeues split: option.split)

lemma half_child: "P w \<Longrightarrow> P (snd (CreateHalfChildSA u m i s w))"
  unfolding CreateHalfChildSA_def Let_def
  by (intro ikeue P_next P_childsas) simp_all

end

text \<open>In addition, predicates that do not look at the pools of child SAs and inner addresses.\<close>

locale child_pred = half_pred P for P :: "'x world \<Rightarrow> bool" +
  assumes P_ChildSA: "P w \<Longrightarrow> P (w\<lparr>ChildSA := c\<rparr>)"
    and P_inner_ip: "P w \<Longrightarrow> P (w\<lparr>AllocatedUEIPAddress := a\<rparr>)"
begin

lemma record_child: "P w \<Longrightarrow> P (snd (record_childsa u c w))"
  unfolding record_childsa_def by (intro steps ikeue P_ChildSA)

lemma complete_child: "P w \<Longrightarrow> P (snd (CompleteChildSA env u m spi sa w))"
  unfolding CompleteChildSA_def by (intro steps ikeue childsa record_child)

lemma xfrm_rule: "P w \<Longrightarrow> P (snd (ApplyXFRMRule env i x c w))"
  unfolding ApplyXFRMRule_def Let_def by (intro steps childsa)

lemma parse_ip: "P w \<Longrightarrow> P (snd (parseIPAddressInformationToChildSecurityAssociation env c a l r w))"
  unfolding parseIPAddressInformationToChildSecurityAssociation_def by (intro steps childsa)

lemma keys: "P w \<Longrightarrow> P (snd (child_keys env c k n w))"
  unfolding child_keys_def by (intro steps childsa)

lemma nat_ports: "P w \<Longrightarrow> P (snd (child_nat b c i j w))"
  unfolding child_nat_def by (intro steps childsa)

lemma new_inner_ip:
  assumes "P w" shows "P (snd (case NewIPsecInnerUEIP env u w of None \<Rightarrow> (Crash NoReturn, w) | Some r \<Rightarrow> r))"
proof (cases "NewIPsecInnerUEIP env u w")
  case (Some r)
  then obtain res w' where r: "r = (res, w')" "NewIPsecInnerUEIP env u w = Some (res, w')"
    by (cases r) auto
  show ?thesis
    using inner_ip_spec [OF r(2)] Some r assms P_ext P_inner_ip by (auto split: gores.splits)
qed (simp add: assms)

lemma inner_ip: "P w \<Longrightarrow> P (snd (assign_inner_ip env u w))"
proof -
  assume P: "P w"
  have "assign_inner_ip env u w = gbind (case NewIPsecInnerUEIP env u w of None \<Rightarrow> (Crash NoReturn, w) | Some r \<Rightarrow> r)
     (\<lambda>ueIp w. gbind (upd_ikeue (Some u) (\<lambda>ue. ue\<lparr>iu_IPSecInnerIP := ip_To4 ueIp\<rparr>) w) (\<lambda>_ w.
            case e_ResolveIPAddr env (ip_String (ip_To4 ueIp)) of
              None \<Rightarrow> (Err ''Resolve UE inner IP address failed'', w)
            | Some a \<Rightarrow>
                gbind (upd_ikeue (Some u) (\<lambda>ue. ue\<lparr>iu_IPSecInnerIPAddr := Some a\<rparr>) w) (\<lambda>_ w.
                  (Val (ip_To4 ueIp), w))))"
    by (simp add: assign_inner_ip_def Let_def split: option.split)
  then show ?thesis
    using P by (simp only:) (intro bind new_inner_ip ikeue opt result)
qed

lemmas child_steps = steps send child_spi childsa ikeue half_child record_child complete_child xfrm_rule
  parse_ip keys nat_ports inner_ip ngap_evt

end

section \<open>IKE_AUTH\<close>

text \<open>
  Predicates that in addition look at no field of an IKE SA except the message ID expected next
  from the UE.
\<close>

locale auth_pred = child_pred P for P :: "'x world \<Rightarrow> bool" +
  assumes P_ikesa: "(\<And>sa. isa_InitiatorMessageID (f sa) = isa_InitiatorMessageID sa) \<Longrightarrow> P w
    \<Longrightarrow> P (snd (upd_ikesa p f w))"
begin

lemma fresh_identifier: "P w \<Longrightarrow> P (snd (new_identifier env s w))"
  unfolding new_identifier_def
  by (intro bind deref_pred)
    (auto split: option.split dest!: draw_identifier_spec intro!: bind P_ikesa P_ext)

lemma auth_start_keeps: "P w \<Longrightarrow> P (snd (auth_start env c a b m s k w))"
  unfolding auth_start_def Let_def by (intro child_steps fresh_identifier P_ikesa) simp_all

lemma auth_pre_keeps: "P w \<Longrightarrow> P (snd (auth_pre env c a b m s w))"
  unfolding auth_pre_def Let_def by (intro child_steps notify P_ikesa auth_start_keeps) simp_all

lemma auth_eap_keeps: "P w \<Longrightarrow> P (snd (auth_eap env c a b m s w))"
  unfolding auth_eap_def Let_def
  by (intro bind deref_pred opt) (auto split: eap_type_data.split intro!: child_steps P_ikesa)

lemma auth_child_keeps: "P w \<Longrightarrow> P (snd (auth_child env a b s u i r w))"
  unfolding auth_child_def Let_def by (intro child_steps P_ikesa) simp_all

lemma auth_accept_keeps: "P w \<Longrightarrow> P (snd (auth_accept env c a b m s u l w))"
  unfolding auth_accept_def Let_def by (intro child_steps auth_child_keeps P_ikesa) simp_all

lemma auth_post_keeps: "P w \<Longrightarrow> P (snd (auth_post env c a b m s w))"
  unfolding auth_post_def Let_def by (intro child_steps notify auth_accept_keeps)

lemmas auth_keeps = auth_pre_keeps auth_eap_keeps auth_post_keeps

end

section \<open>Calls that return\<close>

text \<open>A call returns when it does not run for ever; a panic is a way of returning here.\<close>

definition returns :: "'a gores \<times> 'w \<Rightarrow> bool" where
  "returns r = (fst r \<noteq> Crash NoReturn)"

lemma returns_bind: "returns r \<Longrightarrow> (\<And>a w. r = (Val a, w) \<Longrightarrow> returns (f a w)) \<Longrightarrow> returns (gbind r f)"
  by (cases r; cases "fst r") (auto simp: returns_def)

lemma returns_try: "returns r \<Longrightarrow> (\<And>a w. returns (f a w)) \<Longrightarrow> returns (gtry r f)"
  by (cases r; cases "fst r") (auto simp: returns_def)

lemma returns_ite: "(c \<Longrightarrow> returns a) \<Longrightarrow> (\<not> c \<Longrightarrow> returns b) \<Longrightarrow> returns (if c then a else b)"
  by simp

lemma returns_opt: "returns a \<Longrightarrow> (\<And>y. returns (f y)) \<Longrightarrow> returns (case x of None \<Rightarrow> a | Some y \<Rightarrow> f y)"
  by (simp split: option.split)

lemma returns_lst: "returns a \<Longrightarrow> (\<And>y ys. returns (f y ys)) \<Longrightarrow> returns (case x of [] \<Rightarrow> a | y # ys \<Rightarrow> f y ys)"
  by (simp split: list.split)

lemma returns_Val: "returns (Val a, w)" and returns_Err: "returns (Err e, w)"
  and returns_nil: "returns (Crash NilPointer, w)" and returns_range: "returns (Crash IndexRange, w)"
  and returns_slice: "returns (slice_from n l, w)"
  by (simp_all add: returns_def slice_from_def)

lemma returns_deref: "returns (deref sel p w)"
  by (auto simp: returns_def deref_def split: option.split)

lemma returns_modify: "returns (modify sel put p f w)"
  unfolding modify_def by (intro returns_bind returns_deref returns_Val)

lemma returns_upd: "returns (upd_ikesa p f w)" "returns (upd_ikeue p g w)" "returns (upd_childsa p h w)"
  "returns (upd_tmp p i w)" "returns (upd_ranue p j w)" "returns (upd_session p k w)" "returns (upd_amf p l w)"
  by (simp_all add: upd_defs returns_modify)

lemma returns_ext: "returns (ext_opt f e w)" "returns (ext_call g e w)"
  by (auto simp: returns_def ext_opt_def ext_call_def split: prod.split option.split)

lemma returns_of: "returns (conn_of c w)" "returns (sakey_of sa w)"
  by (simp_all add: returns_def conn_of_def sakey_of_def split: option.split)

lemmas returns_rules = returns_bind returns_try returns_ite returns_opt returns_lst returns_Val returns_Err
  returns_nil returns_range returns_slice returns_deref returns_upd returns_ext returns_of

lemma returns_send: "returns (SendIKEMessageToUE env c a b m k w)"
  unfolding SendIKEMessageToUE_def Let_def by (intro returns_rules)

lemma returns_handler: "returns (handler r) = returns r"
  by (cases r; cases "fst r") (auto simp: returns_def handler_def)

end
