(* ===== verification/Ike_Select_Props.thy ===== *)
theory Ike_Select_Props
  imports Ike_Select
begin

text \<open>
  What the stateless decisions of the IKE server guarantee: which proposal is chosen and what it
  contains, when a NAT is reported, and that the non-ESP marker separates IKE from ESP.
\<close>

section \<open>The loops that keep the first match\<close>

lemma foldl_keeps_Some:
  "foldl (\<lambda>acc t. if P t \<and> acc = None then Some t else acc) (Some a) ts = Some a"
  by (induction ts) auto

lemma choose_first_find: "choose_first P ts = find P ts"
  unfolding choose_first_def by (induction ts) (auto simp: foldl_keeps_Some)

lemma choose_dh_find:
  "choose_dh lib ts = find (\<lambda>t. tr_ID t \<noteq> DH_1024_BIT_MODP \<and> dh_DecodeTransform lib t) ts"
proof -
  have "(if tr_ID t = DH_1024_BIT_MODP then acc
         else if dh_DecodeTransform lib t \<and> acc = None then Some t else acc) =
      (if (tr_ID t \<noteq> DH_1024_BIT_MODP \<and> dh_DecodeTransform lib t) \<and> acc = None then Some t else acc)"
    for acc t by auto
  then have "choose_dh lib ts = choose_first (\<lambda>t. tr_ID t \<noteq> DH_1024_BIT_MODP \<and> dh_DecodeTransform lib t) ts"
    by (simp add: choose_dh_def choose_first_def)
  then show ?thesis by (simp add: choose_first_find)
qed

section \<open>The chosen IKE proposal\<close>

definition acceptable :: "transform_lib \<Rightarrow> Proposal \<Rightarrow> bool" where
  "acceptable lib p =
     (list_ex (\<lambda>t. tr_ID t \<noteq> DH_1024_BIT_MODP \<and> dh_DecodeTransform lib t) (pr_DiffieHellmanGroup p)
      \<and> list_ex (encr_DecodeTransform lib) (pr_EncryptionAlgorithm p)
      \<and> list_ex (integ_DecodeTransform lib) (pr_IntegrityAlgorithm p)
      \<and> list_ex (prf_DecodeTransform lib) (pr_PseudorandomFunction p)
      \<and> pr_ExtendedSequenceNumbers p = [])"

lemma find_None_iff_list_ex: "find P ts = None \<longleftrightarrow> \<not> list_ex P ts"
  by (auto simp: find_None_iff list_ex_iff)

lemma select_body_acceptable: "select_body lib p \<noteq> None \<longleftrightarrow> acceptable lib p"
  using find_None_iff_list_ex
    [of "\<lambda>t. tr_ID t \<noteq> DH_1024_BIT_MODP \<and> dh_DecodeTransform lib t" "pr_DiffieHellmanGroup p"]
    find_None_iff_list_ex [of "encr_DecodeTransform lib" "pr_EncryptionAlgorithm p"]
    find_None_iff_list_ex [of "integ_DecodeTransform lib" "pr_IntegrityAlgorithm p"]
    find_None_iff_list_ex [of "prf_DecodeTransform lib" "pr_PseudorandomFunction p"]
  by (auto simp: select_body_def acceptable_def choose_first_find choose_dh_find split: option.splits)

lemma SelectProposal_find:
  "SelectProposal lib ps = (case find (acceptable lib) ps of None \<Rightarrow> [] | Some p \<Rightarrow> [the (select_body lib p)])"
proof (induction ps)
  case (Cons p ps)
  then show ?case
    using select_body_acceptable [of lib p] by (cases "select_body lib p") auto
qed simp

lemma find_Some_props: "find P ts = Some t \<Longrightarrow> P t \<and> t \<in> set ts"
  by (auto simp: find_Some_iff)

text \<open>
  C14: \<open>SelectProposal\<close> chooses nothing exactly when no proposal of the peer is acceptable: it has a
  Diffie-Hellman group the library knows other than group 2, a known encryption, integrity and
  pseudorandom function, and no extended sequence numbers. Otherwise it answers the first
  acceptable proposal, with its number and protocol, an empty SPI, and of each of the four kinds exactly
  the first transform that the library knows, group 2 being skipped.
\<close>

theorem SelectProposal_first_acceptable:
  "case find (acceptable lib) ps of
     None \<Rightarrow> SelectProposal lib ps = []
   | Some p \<Rightarrow> (\<exists>e i f d.
        find (encr_DecodeTransform lib) (pr_EncryptionAlgorithm p) = Some e
        \<and> find (integ_DecodeTransform lib) (pr_IntegrityAlgorithm p) = Some i
        \<and> find (prf_DecodeTransform lib) (pr_PseudorandomFunction p) = Some f
        \<and> find (\<lambda>t. tr_ID t \<noteq> DH_1024_BIT_MODP \<and> dh_DecodeTransform lib t) (pr_DiffieHellmanGroup p) = Some d
        \<and> SelectProposal lib ps = [\<lparr>pr_ProposalNumber = pr_ProposalNumber p, pr_ProtocolID = pr_ProtocolID p, pr_SPI = [],
            pr_EncryptionAlgorithm = [e], pr_PseudorandomFunction = [f], pr_IntegrityAlgorithm = [i],
            pr_DiffieHellmanGroup = [d], pr_ExtendedSequenceNumbers = []\<rparr>])"
proof (cases "find (acceptable lib) ps")
  case None
  then show ?thesis by (simp add: SelectProposal_find)
next
  case (Some p)
  then have "acceptable lib p" by (simp add: find_Some_props)
  then obtain c where c: "select_body lib p = Some c"
    using select_body_acceptable by blast
  then have "SelectProposal lib ps = [c]" using Some by (simp add: SelectProposal_find)
  with c Some show ?thesis
    by (auto simp: select_body_def choose_first_find choose_dh_find BuildProposal_def split: option.splits if_splits)
qed

section \<open>The chosen ESP proposal\<close>

text \<open>
  What the Linux kernel takes, as tables: the ciphers (those with a key length of their own only with
  one they have), the integrity algorithms and the two kinds of sequence numbers.
\<close>

definition kernel_encr :: "Transform \<Rightarrow> bool" where
  "kernel_encr t = (tr_ID t \<in> {ENCR_DES, ENCR_3DES, ENCR_BLOWFISH, ENCR_NULL}
     \<or> tr_ID t = ENCR_CAST \<and> tr_AttributePresent t \<and> tr_AttributeValue t = 128
     \<or> tr_ID t \<in> {ENCR_AES_CBC, ENCR_AES_CTR} \<and> tr_AttributePresent t \<and> tr_AttributeValue t \<in> {128, 192, 256})"

definition kernel_integ :: "Transform \<Rightarrow> bool" where
  "kernel_integ t = (tr_ID t \<in> {AUTH_HMAC_SHA1_96, AUTH_AES_XCBC_96, AUTH_HMAC_SHA2_256_128})"

definition kernel_esn :: "Transform \<Rightarrow> bool" where
  "kernel_esn t = (tr_ID t \<in> {ESN_ENABLE, ESN_DISABLE})"

text \<open>
  The ESP proposals that can be answered: a four-octet SPI, a cipher and a kind of sequence numbers of
  the tables, an integrity algorithm of the tables if any is offered, no pseudorandom function and no
  Diffie-Hellman group; and not the null cipher, as the cipher chosen, without integrity.
\<close>

definition esp_acceptable :: "Proposal \<Rightarrow> bool" where
  "esp_acceptable p =
     (length (pr_SPI p) = 4 \<and> list_ex kernel_encr (pr_EncryptionAlgorithm p)
      \<and> list_ex kernel_esn (pr_ExtendedSequenceNumbers p)
      \<and> (pr_IntegrityAlgorithm p = [] \<or> list_ex kernel_integ (pr_IntegrityAlgorithm p))
      \<and> pr_PseudorandomFunction p = [] \<and> pr_DiffieHellmanGroup p = []
      \<and> \<not> (pr_IntegrityAlgorithm p = [] \<and> map_option tr_ID (find kernel_encr (pr_EncryptionAlgorithm p)) = Some ENCR_NULL))"

lemma first_supported_kernel:
  "first_supported TypeEncryptionAlgorithm ts = find kernel_encr ts"
  "first_supported TypeIntegrityAlgorithm ts = find kernel_integ ts"
  "first_supported TypeExtendedSequenceNumbers ts = find kernel_esn ts"
  unfolding first_supported_def
  by (rule find_cong; auto simp: isTransformKernelSupported_def kernel_encr_def kernel_integ_def kernel_esn_def)+

lemma first_supported_dh: "first_supported TypeDiffieHellmanGroup ts = None"
  by (simp add: first_supported_def isTransformKernelSupported_def find_None_iff)

definition esp_answer :: "Proposal \<Rightarrow> Transform \<Rightarrow> Transform \<Rightarrow> Proposal" where
  "esp_answer p e n = \<lparr>pr_ProposalNumber = pr_ProposalNumber p, pr_ProtocolID = pr_ProtocolID p, pr_SPI = pr_SPI p,
     pr_EncryptionAlgorithm = [e], pr_PseudorandomFunction = [],
     pr_IntegrityAlgorithm = (case find kernel_integ (pr_IntegrityAlgorithm p) of None \<Rightarrow> [] | Some i \<Rightarrow> [i]),
     pr_DiffieHellmanGroup = [], pr_ExtendedSequenceNumbers = [n]\<rparr>"

lemma esp_body_acceptable: "esp_body p \<noteq> None \<longleftrightarrow> esp_acceptable p"
  using find_None_iff_list_ex [of kernel_encr "pr_EncryptionAlgorithm p"]
    find_None_iff_list_ex [of kernel_integ "pr_IntegrityAlgorithm p"]
    find_None_iff_list_ex [of kernel_esn "pr_ExtendedSequenceNumbers p"]
  by (auto simp: esp_body_def esp_acceptable_def first_supported_kernel first_supported_dh optional_transform_def
      split: option.splits)

lemma esp_body_answer:
  assumes "esp_body p = Some c"
  obtains e n where "find kernel_encr (pr_EncryptionAlgorithm p) = Some e"
    "find kernel_esn (pr_ExtendedSequenceNumbers p) = Some n" "c = esp_answer p e n"
  using assms
  by (auto simp: esp_body_def esp_answer_def BuildProposal_def first_supported_kernel first_supported_dh optional_transform_def
      split: option.splits if_splits)

lemma select_esp_find:
  "select_esp ps = (case find esp_acceptable ps of None \<Rightarrow> [] | Some p \<Rightarrow> [the (esp_body p)])"
proof (induction ps)
  case (Cons p ps)
  then show ?case
    using esp_body_acceptable [of p] by (cases "esp_body p") auto
qed simp

text \<open>
  C25: The ESP proposal answered in IKE_AUTH is the first proposal of the UE that can be answered, and
  none exactly when there is no such proposal. The answer keeps the number, the protocol and the
  four-octet SPI; it has the first cipher, the first integrity algorithm (if any is offered) and the
  first kind of sequence numbers of that proposal that the kernel takes, and nothing else.
\<close>

theorem select_esp_supported:
  "case find esp_acceptable ps of
     None \<Rightarrow> select_esp ps = []
   | Some p \<Rightarrow> (\<exists>e n.
        find kernel_encr (pr_EncryptionAlgorithm p) = Some e
        \<and> find kernel_esn (pr_ExtendedSequenceNumbers p) = Some n
        \<and> select_esp ps = [\<lparr>pr_ProposalNumber = pr_ProposalNumber p, pr_ProtocolID = pr_ProtocolID p, pr_SPI = pr_SPI p,
            pr_EncryptionAlgorithm = [e], pr_PseudorandomFunction = [],
            pr_IntegrityAlgorithm = (case find kernel_integ (pr_IntegrityAlgorithm p) of None \<Rightarrow> [] | Some i \<Rightarrow> [i]),
            pr_DiffieHellmanGroup = [], pr_ExtendedSequenceNumbers = [n]\<rparr>])"
proof (cases "find esp_acceptable ps")
  case None
  then show ?thesis by (simp add: select_esp_find)
next
  case (Some p)
  then obtain c where c: "esp_body p = Some c"
    using esp_body_acceptable [of p] by (auto dest: find_Some_props)
  then obtain e n where "find kernel_encr (pr_EncryptionAlgorithm p) = Some e"
    "find kernel_esn (pr_ExtendedSequenceNumbers p) = Some n" "c = esp_answer p e n" by (rule esp_body_answer)
  with c Some show ?thesis by (simp add: select_esp_find esp_answer_def)
qed

definition demo_transform :: "u8 \<Rightarrow> u16 \<Rightarrow> u16 \<Rightarrow> Transform" where
  "demo_transform ty i len = \<lparr>tr_Type = ty, tr_ID = i, tr_AttributePresent = (len \<noteq> 0), tr_AttributeFormat = 1,
     tr_AttributeType = 14, tr_AttributeValue = len, tr_VariableLengthAttributeValue = []\<rparr>"

definition demo_esp :: Proposal where
  "demo_esp = (BuildProposal 1 3 [0, 0, 0, 9])\<lparr>pr_EncryptionAlgorithm := [demo_transform 1 12 256],
     pr_IntegrityAlgorithm := [demo_transform 3 2 0], pr_ExtendedSequenceNumbers := [demo_transform 5 0 0]\<rparr>"

section \<open>NAT detection\<close>

lemma nat_detect_fold:
  "foldl (\<lambda>(u, n) x. if n_NotifyMessageType x = NAT_DETECTION_SOURCE_IP
        then (if n_NotificationData x \<noteq> s then (True, n) else (u, n))
        else if n_NotifyMessageType x = NAT_DETECTION_DESTINATION_IP
        then (if n_NotificationData x \<noteq> d then (u, True) else (u, n)) else (u, n)) (u0, n0) xs =
   (u0 \<or> list_ex (\<lambda>x. n_NotifyMessageType x = NAT_DETECTION_SOURCE_IP \<and> n_NotificationData x \<noteq> s) xs,
    n0 \<or> list_ex (\<lambda>x. n_NotifyMessageType x = NAT_DETECTION_DESTINATION_IP \<and> n_NotificationData x \<noteq> d) xs)"
  by (induction xs arbitrary: u0 n0) auto

lemma natd_data_inject:
  assumes "length (udp_IP a) = 4" "length (udp_IP b) = 4"
  shows "natd_data i r a = natd_data i r b \<longleftrightarrow>
    udp_IP a = udp_IP b \<and> (word_of_int (udp_Port a) :: u16) = word_of_int (udp_Port b)"
  using assms by (simp add: natd_data_def ip_To4_def be16.put_inject)

text \<open>
  C35: NAT detection reports what the peer's notifications show. If the peer sent one
  \<open>NAT_DETECTION_SOURCE_IP\<close> notification with the hash of the address it sent from, then the UE is
  reported behind a NAT exactly when the IPv4 address or the port (modulo 65536) from which the
  packet arrived is another one, provided SHA-1 does not collide on the two 22-octet inputs; the
  same holds of the N3IWF's own address and the destination notification.
\<close>

theorem NAT_detection_exact:
  assumes src: "n_NotifyMessageType ns = NAT_DETECTION_SOURCE_IP"
      "n_NotificationData ns = generateNATDetectHash sha1 ispi rspi peerSrc"
    and dst: "n_NotifyMessageType nd = NAT_DETECTION_DESTINATION_IP"
      "n_NotificationData nd = generateNATDetectHash sha1 ispi rspi peerDst"
    and ipv4: "length (udp_IP peerSrc) = 4" "length (udp_IP ueAddr) = 4"
      "length (udp_IP peerDst) = 4" "length (udp_IP n3iwfAddr) = 4"
    and nocoll: "inj_on sha1 {natd_data ispi rspi peerSrc, natd_data ispi rspi ueAddr,
      natd_data ispi rspi peerDst, natd_data ispi rspi n3iwfAddr}"
  shows "handleNATDetect sha1 ispi rspi [ns, nd] ueAddr n3iwfAddr =
    (\<not> (udp_IP peerSrc = udp_IP ueAddr \<and> (word_of_int (udp_Port peerSrc) :: u16) = word_of_int (udp_Port ueAddr)),
     \<not> (udp_IP peerDst = udp_IP n3iwfAddr \<and> (word_of_int (udp_Port peerDst) :: u16) = word_of_int (udp_Port n3iwfAddr)))"
proof -
  have "sha1 (natd_data ispi rspi peerSrc) = sha1 (natd_data ispi rspi ueAddr) \<longleftrightarrow>
      natd_data ispi rspi peerSrc = natd_data ispi rspi ueAddr"
    "sha1 (natd_data ispi rspi peerDst) = sha1 (natd_data ispi rspi n3iwfAddr) \<longleftrightarrow>
      natd_data ispi rspi peerDst = natd_data ispi rspi n3iwfAddr"
    by (rule inj_on_eq_iff [OF nocoll]; simp)+
  moreover have "handleNATDetect sha1 ispi rspi [ns, nd] ueAddr n3iwfAddr =
      (sha1 (natd_data ispi rspi peerSrc) \<noteq> sha1 (natd_data ispi rspi ueAddr),
       sha1 (natd_data ispi rspi peerDst) \<noteq> sha1 (natd_data ispi rspi n3iwfAddr))"
    using src dst unfolding handleNATDetect_def Let_def nat_detect_fold
    by (simp add: generateNATDetectHash_def)
  ultimately show ?thesis
    by (simp only: natd_data_inject [OF ipv4(1,2)] natd_data_inject [OF ipv4(3,4)])
qed

theorem NAT_detection_exact_witness:
  "handleNATDetect id 1 0
     [BuildNotification 0 NAT_DETECTION_SOURCE_IP [] (generateNATDetectHash id 1 0 \<lparr>udp_IP = [10, 0, 0, 9], udp_Port = 500\<rparr>),
      BuildNotification 0 NAT_DETECTION_DESTINATION_IP [] (generateNATDetectHash id 1 0 \<lparr>udp_IP = [192, 0, 2, 1], udp_Port = 500\<rparr>)]
     \<lparr>udp_IP = [203, 0, 113, 5], udp_Port = 4001\<rparr> \<lparr>udp_IP = [192, 0, 2, 1], udp_Port = 500\<rparr> = (True, False)"
  by (subst NAT_detection_exact [where peerSrc = "\<lparr>udp_IP = [10, 0, 0, 9], udp_Port = 500\<rparr>"
        and peerDst = "\<lparr>udp_IP = [192, 0, 2, 1], udp_Port = 500\<rparr>"])
    (simp_all add: BuildNotification_def)

lemma handleNattMsg_unfold:
  "handleNattMsg m r l h w =
     (if length m = 1 \<and> m ! 0 = 0xFF then (Val None, w)
      else if length m < 4 then (Err ''Received msg is too short'', w)
      else if take 4 m \<noteq> [0, 0, 0, 0] then
        (case h of None \<Rightarrow> (Val None, w)
         | Some f \<Rightarrow> (case f r l m w of (Val _, w') \<Rightarrow> (Val None, w')
             | (Err _, w') \<Rightarrow> (Err ''Handle ESP'', w') | (Crash p, w') \<Rightarrow> (Crash p, w')))
      else (Val (Some (drop 4 m)), w))"
proof -
  have "length [0, 0, 0, 0 :: byte] = 4" by simp
  then show ?thesis unfolding handleNattMsg_def Let_def by (simp only:)
qed

text \<open>
  On port 4500, a message that carries the four zero octets of the non-ESP marker is handed on
  without them and the ESP handler is not run; any other packet of at least four octets goes to the
  ESP handler and never reaches the IKE message decoder; a lone \<open>0xFF\<close> keepalive and packets that
  are too short reach neither.
\<close>

lemma handleNattMsg_separates:
  "handleNattMsg ([0, 0, 0, 0] @ pkt) r l h w = (Val (Some pkt), w)
   \<and> (if length m < 4 then snd (handleNattMsg m r l h w) = w \<and> (\<forall>p. fst (handleNattMsg m r l h w) \<noteq> Val (Some p))
      else if take 4 m \<noteq> [0, 0, 0, 0]
      then (\<forall>p. fst (handleNattMsg m r l h w) \<noteq> Val (Some p))
        \<and> snd (handleNattMsg m r l h w) = (case h of None \<Rightarrow> w | Some f \<Rightarrow> snd (f r l m w))
      else fst (handleNattMsg m r l h w) = Val (Some (drop 4 m)))"
proof -
  have "handleNattMsg m r l h w = (if length m = 1 \<and> m ! 0 = 0xFF then (Val None, w)
      else (Err ''Received msg is too short'', w))" if "length m < 4"
    using that by (simp add: handleNattMsg_unfold)
  moreover have "fst (handleNattMsg m r l h w) \<noteq> Val (Some p)
      \<and> snd (handleNattMsg m r l h w) = (case h of None \<Rightarrow> w | Some f \<Rightarrow> snd (f r l m w))"
    if "\<not> length m < 4" "take 4 m \<noteq> [0, 0, 0, 0]" for p
    using that by (cases h) (auto simp: handleNattMsg_unfold split: gores.splits prod.splits)
  moreover have "fst (handleNattMsg m r l h w) = Val (Some (drop 4 m))"
    if "\<not> length m < 4" "take 4 m = [0, 0, 0, 0]"
    using that by (simp add: handleNattMsg_unfold)
  moreover have "handleNattMsg ([0, 0, 0, 0] @ pkt) r l h w = (Val (Some pkt), w)"
    by (simp add: handleNattMsg_unfold)
  ultimately show ?thesis by auto
qed

end
