(* ===== verification/Ike_Props.thy ===== *)
theory Ike_Props
  imports Frames Ike_Select_Props
begin

text \<open>
  The theorems about the IKE server: replayed requests and messages for unknown SAs are dropped,
  IKE_SA_INIT never leaves an unfinished SA behind, no child SA exists before the UE has proved
  knowledge of its key, datagrams are read back as they were sent, and the set-up of PDU session
  child SAs ends.
\<close>

section \<open>Message IDs\<close>

text \<open>The message ID of the next request that SA \<open>s\<close> accepts.\<close>

definition next_request :: "addr \<Rightarrow> u32 \<Rightarrow> 'x world \<Rightarrow> bool" where
  "next_request s k w = (map_option isa_InitiatorMessageID (ikesas w s) = Some k)"

interpretation imid: auth_pred "next_request s k"
proof
  fix f :: "IKESecurityAssociation \<Rightarrow> IKESecurityAssociation" and w :: "'x world" and p
  assume "\<And>sa. isa_InitiatorMessageID (f sa) = isa_InitiatorMessageID sa" "next_request s k w"
  then show "next_request s k (snd (upd_ikesa p f w))"
    by (cases p) (auto simp: next_request_def upd_ikesa_def modify_def deref_def split: option.split)
qed (simp_all add: next_request_def)

lemma HandleIKEAUTH_next:
  assumes "ikesas w s = Some sa"
  shows "next_request s (im_MessageID m + 1) (snd (HandleIKEAUTH env c a b m (Some s) w))"
proof -
  let ?w = "w\<lparr>ikesas := (ikesas w)(s \<mapsto> sa\<lparr>isa_InitiatorMessageID := im_MessageID m + 1\<rparr>)\<rparr>"
  have "next_request s (im_MessageID m + 1) ?w"
    by (simp add: next_request_def)
  then show ?thesis
    using assms unfolding HandleIKEAUTH_def Let_def
    by (simp add: upd_ikesa_def imid.handle imid.auth_keeps)
qed

lemma Dispatch_unexpected:
  assumes "ikesas w s = Some sa" "im_ExchangeType m \<noteq> IKE_SA_INIT"
    and "\<not> hasExpectedMessageID (im_Response m) (im_MessageID m) sa"
  shows "Dispatch env c a b m msg (Some s) w = (Val (), w)"
  using assms by (simp add: Dispatch_def recovered_def)

text \<open>
  C7: An IKE_AUTH request is handled at most once: after it has been dispatched, dispatching it
  again, from whatever address it comes, changes nothing at all, whether the first run finished,
  failed or panicked.
\<close>

theorem IKE_AUTH_replay_dropped:
  assumes request: "im_ExchangeType m = IKE_AUTH" "\<not> im_Response m"
    and first: "Dispatch env c a b m msg (Some s) w = (Val (), w')"
  shows "Dispatch env c' a' b' m msg' (Some s) w' = (Val (), w')"
proof (cases "ikesas w s")
  case None
  with first request have "w' = w" by (simp add: Dispatch_def recovered_def)
  with None request show ?thesis by (simp add: Dispatch_def recovered_def)
next
  case (Some sa)
  show ?thesis
  proof (cases "hasExpectedMessageID False (im_MessageID m) sa")
    case False
    with Some request first have "w' = w"
      using Dispatch_unexpected [of w s sa m env c a b msg] by simp
    with Some False request show ?thesis by (simp add: Dispatch_unexpected)
  next
    case True
    have "snd (Dispatch env c a b m msg (Some s) w) = snd (HandleIKEAUTH env c a b m (Some s) w)"
      using Some True request by (simp add: Dispatch_def recovered_state)
    then have "next_request s (im_MessageID m + 1) w'"
      using HandleIKEAUTH_next [OF Some] first by simp
    then obtain sa' where "ikesas w' s = Some sa'" "isa_InitiatorMessageID sa' = im_MessageID m + 1"
      by (auto simp: next_request_def)
    with request show ?thesis
      by (simp add: Dispatch_unexpected hasExpectedMessageID_def)
  qed
qed

text \<open>
  An environment for the evaluations: generators count upwards from a counter kept outside, the library encodes a message as
  its exchange type and message ID, and every call succeeds.
\<close>

definition counting_env :: "('x \<Rightarrow> nat) \<Rightarrow> ('x \<Rightarrow> 'x) \<Rightarrow> 'x ike_env" where
  "counting_env count up =
     \<lparr>e_IPSecGatewayAddr = ''10.0.0.1'', e_RanUeNgapId_Allocate = (\<lambda>n. (Some (int (count n)), up n)),
      e_TEID_Allocate = (\<lambda>n. (Some (int (count n) + 1), up n)), e_TEID_FreeID = (\<lambda>_ n. n),
      e_IP_Allocate = (\<lambda>n. (Some [10, 0, 0, of_nat (count n)], up n)), e_IP_Release = (\<lambda>_ n. (True, n)),
      e_rand_SPI = (\<lambda>n. (Some (of_nat (count n)), up n)), e_TCP_Close = (\<lambda>_ n. (True, n)),
      e_XfrmStateDel = (\<lambda>_ n. (True, n)), e_XfrmPolicyDel = (\<lambda>_ n. (True, n)), e_LinkDel = (\<lambda>_ n. (True, n)),
      e_aper_Marshal_GUAMI = (\<lambda>g. map_option guami_PLMNIdentity g), e_IPAddressToString = (\<lambda>_. ([], [])),
      e_NewChildSAKeyByProposal = (\<lambda>_. Some demo_childkey),
      e_XfrmStateAdd = (\<lambda>_ n. (True, n)), e_XfrmPolicyAdd = (\<lambda>_ n. (True, n)), e_LinkByName = (\<lambda>_ n. (None, n)),
      e_LinkAdd = (\<lambda>_ _ _ n. (True, n)), e_AddrAdd = (\<lambda>_ _ n. (True, n)), e_LinkSetUp = (\<lambda>_ n. (True, n)),
      e_FQDN = [], e_NasTcpPort = 20000, e_IKEBindAddr = [10, 0, 0, 9], e_GatewayIP = [10, 0, 0, 1],
      e_InnerMask = [255, 255, 255, 0], e_ResolveIPAddr = Some, e_XfrmIfaceId = 7, e_XfrmIfaceName = ''xfrmi'',
      e_XfrmParentIfaceName = ''eth0'', e_LivenessEnable = False, e_LivenessMaxRetryTimes = 4,
      e_N3IWFCertificate = [], e_transforms = \<lparr>dh_DecodeTransform = (\<lambda>_. True), encr_DecodeTransform = (\<lambda>_. True),
        integ_DecodeTransform = (\<lambda>_. True), prf_DecodeTransform = (\<lambda>_. True)\<rparr>,
      e_EAP5GStop = 4, e_EapCodeResponse = 2, e_VendorId3GPP = 10415, e_VendorTypeEAP5G = 3,
      e_ParseHeader = (\<lambda>m. if length m < 28 then None else
         Some \<lparr>ih_InitiatorSPI = Uint64 m, ih_ResponderSPI = Uint64 (drop 8 m), ih_MajorVersion = 2,
               ih_ExchangeType = m ! 18, ih_MessageID = Uint32 (drop 20 m)\<rparr>),
      e_DecodeDecrypt = (\<lambda>_ _ _. None),
      e_EncodeEncrypt = (\<lambda>m _ n. (Some (PutUint64 (im_InitiatorSPI m) @ PutUint64 (im_ResponderSPI m)
          @ [0, 32, im_ExchangeType m, 0] @ PutUint32 (im_MessageID m) @ [0, 0, 0, 28]), n)),
      e_EncodeMessage = (\<lambda>m. Some (PutUint32 (im_MessageID m))), e_EncodePayloads = (\<lambda>_. Some [0, 0, 0, 4]),
      e_NewIKESAKey = (\<lambda>_ _ _ _ _ n. (Some ([1], [2]), n)), e_Prf_i = (\<lambda>k d. k @ d), e_Prf_r = (\<lambda>k d. k @ d),
      e_PrfInfo = (\<lambda>_ k d. k @ d), e_EncrToTransform = (\<lambda>_. Some esn_disabled), e_IntegToTransform = (\<lambda>_. esn_disabled),
      e_GenerateKeyForChildSA = (\<lambda>k _ _. Some k), e_BuildEAP5GStart = (\<lambda>i. POther i []),
      e_BuildEAP5GNAS = (\<lambda>i d. Some (POther i d)), e_BuildEAPSuccess = (\<lambda>i. POther i []),
      e_BuildEAPfailure = (\<lambda>i. POther i []), e_BuildNotifyNAS_IP4_ADDRESS = (\<lambda>_. POther 41 []),
      e_BuildNotifyNAS_TCP_PORT = (\<lambda>_. POther 41 []), e_BuildNotifyUP_IP4_ADDRESS = (\<lambda>_. POther 41 []),
      e_BuildNotify5G_QOS_INFO = (\<lambda>_ _. Some (POther 41 [])), e_sha1 = (\<lambda>d. d), e_Sign = (\<lambda>d n. (Some d, n)),
      e_GenerateRandomNumber = (\<lambda>n. (Some [of_nat (count n)], up n)), e_GenerateRandomUint8 = (\<lambda>n. (Some (of_nat (count n)), up n)),
      e_rand_uint32 = (\<lambda>n. (Some (of_nat (count n)), up n)), e_WriteToUDP = (\<lambda>_ p _ n. (Some (length p), n))\<rparr>"

definition demo_env :: "nat ike_env" where
  demo_env_counting: "demo_env = counting_env (\<lambda>n. n) Suc"

lemmas demo_env_def = counting_env_def [of "\<lambda>n. n" Suc, folded demo_env_counting]

definition demo_addr :: UDPAddr where
  "demo_addr = \<lparr>udp_IP = [192, 0, 2, 1], udp_Port = 500\<rparr>"

definition demo_auth :: "u32 \<Rightarrow> ike_payload list \<Rightarrow> IKEMessage" where
  "demo_auth i ps = NewMessage 1 5 IKE_AUTH False True i ps"

text \<open>A world with one IKE SA (address 0) in the given state whose UE context is at address 1.\<close>

definition demo_sa_world :: "u8 \<Rightarrow> nat world" where
  "demo_sa_world st = (world_init 2)\<lparr>IKESA := [(5, 0)], next_addr := 2, NGAPIdToIKESPI := [(9, 5)], IKESPIToNGAPId := [(5, 9)],
     ikesas := [0 \<mapsto> IKESecurityAssociation_new\<lparr>isa_IKESAKey := Some [1], isa_LocalSPI := 5, isa_RemoteSPI := 1,
       isa_InitiatorMessageID := 1, isa_State := st, isa_IkeUE := Some 1,
       isa_IKEAuthResponseSA := Some [demo_esp]\<rparr>],
     ikeues := [1 \<mapsto> IkeUe_init\<lparr>iu_N3IWFIKESecurityAssociation := Some 0, iu_Kn3iwf := [3]\<rparr>]\<rparr>"

theorem IKE_AUTH_replay_dropped_witness:
  "\<exists>w'. Dispatch demo_env 0 demo_addr demo_addr (demo_auth 1 []) [] (Some 0) (demo_sa_world 2) = (Val (), w')
     \<and> w' \<noteq> demo_sa_world 2
     \<and> Dispatch demo_env 1 demo_addr demo_addr (demo_auth 1 []) [] (Some 0) w' = (Val (), w')"
proof -
  obtain w' where w': "Dispatch demo_env 0 demo_addr demo_addr (demo_auth 1 []) [] (Some 0) (demo_sa_world 2) = (Val (), w')"
    "map_option isa_InitiatorMessageID (ikesas w' 0) = Some 2"
    by (simp add: Dispatch_def recovered_def demo_sa_world_def demo_auth_def NewMessage_def hasExpectedMessageID_def
        HandleIKEAUTH_def upd_ikesa_def Let_def auth_post_def sakey_of_def last_payload_def reply_notify_def
        handler_def SendIKEMessageToUE_def ext_opt_def demo_env_def demo_addr_def)
  have "Dispatch demo_env 1 demo_addr demo_addr (demo_auth 1 []) [] (Some 0) w' = (Val (), w')"
    by (rule IKE_AUTH_replay_dropped [OF _ _ w'(1)]) (simp_all add: demo_auth_def NewMessage_def)
  moreover have "w' \<noteq> demo_sa_world 2"
    using w'(2) by (auto simp: demo_sa_world_def)
  ultimately show ?thesis using w'(1) by blast
qed

section \<open>IKE_SA_INIT\<close>

text \<open>
  The pool of IKE SAs is \<open>m\<close>, and the SA at \<open>s\<close> is set up for the UE with initiator SPI \<open>ini\<close>; with its
  keys when \<open>keyed\<close>.
\<close>

definition init_sa :: "bool \<Rightarrow> addr \<Rightarrow> u64 \<Rightarrow> u64 \<Rightarrow> (u64, addr) gomap \<Rightarrow> 'x world \<Rightarrow> bool" where
  "init_sa keyed s spi ini m w =
     (IKESA w = m \<and> (case ikesas w s of None \<Rightarrow> False
        | Some sa \<Rightarrow> isa_LocalSPI sa = spi \<and> isa_RemoteSPI sa = ini \<and> isa_InitiatorMessageID sa = 1
            \<and> isa_ResponderMessageID sa = 0 \<and> isa_State sa = PreSignalling \<and> (keyed \<longrightarrow> isa_IKESAKey sa \<noteq> None)))"

interpretation init: world_pred "init_sa keyed s spi ini m"
  by unfold_locales (simp_all add: init_sa_def)

lemma init_sa_upd:
  assumes "init_sa keyed s spi ini m w"
    and "\<And>sa. isa_LocalSPI (f sa) = isa_LocalSPI sa \<and> isa_RemoteSPI (f sa) = isa_RemoteSPI sa
      \<and> isa_InitiatorMessageID (f sa) = isa_InitiatorMessageID sa \<and> isa_State (f sa) = isa_State sa
      \<and> isa_ResponderMessageID (f sa) = isa_ResponderMessageID sa \<and> isa_IKESAKey (f sa) = isa_IKESAKey sa"
  shows "init_sa keyed s spi ini m (snd (upd_ikesa (Some s) f w))"
  using assms by (auto simp: init_sa_def upd_ikesa_def modify_def deref_def split: option.splits)

lemma init_sa_key:
  assumes "init_sa False s spi ini m w"
  shows "init_sa True s spi ini m (snd (upd_ikesa (Some s) (\<lambda>sa. sa\<lparr>isa_IKESAKey := Some key,
        isa_ConcatenatedNonce := isa_ConcatenatedNonce sa @ n, isa_UeBehindNAT := u, isa_N3iwfBehindNAT := b,
        isa_InitiatorSignedOctets := x\<rparr>) w))"
  using assms by (auto simp: init_sa_def upd_ikesa_def modify_def deref_def split: option.splits)

lemma init_sa_weaken: "init_sa True s spi ini m w \<Longrightarrow> init_sa False s spi ini m w"
  by (auto simp: init_sa_def split: option.splits)

lemma init_reply_keeps:
  "init_sa True s spi ini m w \<Longrightarrow> init_sa True s spi ini m (snd (init_reply env c a b msg ch g nd ln s sa k w))"
  unfolding init_reply_def Let_def by (intro init.steps init.send init_sa_upd) simp_all

lemma init_respond_keeps:
  assumes sa: "ikesas w s = Some (IKESecurityAssociation_new\<lparr>isa_LocalSPI := spi\<rparr>)"
    and run: "init_respond env c a b msg rm ch kd g nd ln un nn s w = (r, w')"
  shows "init_sa (r = Val ()) s spi (im_InitiatorSPI msg) (IKESA w) w'"
proof -
  let ?P = "\<lambda>k. init_sa k s spi (im_InitiatorSPI msg) (IKESA w)"
  let ?sa = "IKESecurityAssociation_new\<lparr>isa_LocalSPI := spi, isa_RemoteSPI := im_InitiatorSPI msg,
    isa_InitiatorMessageID := 1, isa_ResponderMessageID := 0\<rparr>"
  define w1 where "w1 = w\<lparr>ikesas := (ikesas w)(s \<mapsto> ?sa)\<rparr>"
  have P1: "?P False w1"
    by (simp add: w1_def init_sa_def IKESecurityAssociation_new_def)
  obtain k x where k: "e_NewIKESAKey env (hd ch) kd (nd @ ln) (im_InitiatorSPI msg) spi (ext w1) = (k, x)"
    by (meson surj_pair)
  have P2: "?P False (w1\<lparr>ext := x\<rparr>)" using P1 by (rule init.P_ext)
  have w1: "ikesas w1 s = Some ?sa" by (simp add: w1_def)
  have "init_respond env c a b msg rm ch kd g nd ln un nn s w =
      gbind (ext_opt (e_NewIKESAKey env (hd ch) kd (nd @ ln) (im_InitiatorSPI msg) spi) ''NewIKESAKey'' w1) (\<lambda>keys w.
      gbind (upd_ikesa (Some s) (\<lambda>sa. sa\<lparr>isa_IKESAKey := Some (fst keys),
        isa_ConcatenatedNonce := isa_ConcatenatedNonce sa @ (nd @ ln), isa_UeBehindNAT := un, isa_N3iwfBehindNAT := nn,
        isa_InitiatorSignedOctets := rm @ ln\<rparr>) w) (\<lambda>_ w. init_reply env c a b msg ch g nd ln s ?sa keys w))"
    using sa by (simp add: init_respond_def upd_ikesa_def w1_def Let_def)
  with run have run: "(r, w') = \<dots>" by simp
  show ?thesis
  proof (cases k)
    case None
    with run k P2 show ?thesis by (simp add: ext_opt_def)
  next
    case (Some keys)
    have "?P True w'"
    proof -
      have "w' = snd (gbind (upd_ikesa (Some s) (\<lambda>sa. sa\<lparr>isa_IKESAKey := Some (fst keys),
        isa_ConcatenatedNonce := isa_ConcatenatedNonce sa @ (nd @ ln), isa_UeBehindNAT := un, isa_N3iwfBehindNAT := nn,
        isa_InitiatorSignedOctets := rm @ ln\<rparr>) (w1\<lparr>ext := x\<rparr>)) (\<lambda>_ w. init_reply env c a b msg ch g nd ln s ?sa keys w))"
        using run k Some by (simp add: ext_opt_def) (metis snd_conv)
      then show ?thesis
        by (simp only:) (intro init.bind init_sa_key [OF P2] init_reply_keeps)
    qed
    then show ?thesis by (cases "r = Val ()") (auto intro: init_sa_weaken)
  qed
qed

text \<open>The pool after the handler: as before, or with one finished SA more.\<close>

definition sa_added :: "IKEMessage \<Rightarrow> 'x world \<Rightarrow> 'x world \<Rightarrow> bool" where
  "sa_added msg w w' = (\<exists>spi s. gm_load (IKESA w) spi = None
     \<and> init_sa True s spi (im_InitiatorSPI msg) (gm_store spi s (IKESA w)) w')"

lemma delete_unless_kept_pool:
  assumes r: "init_sa (r = Val ()) s spi ini (gm_store spi s m) w" and m: "gm_load m spi = None"
    and run: "delete_unless_kept s (r, w) = (r', w')"
  shows "(r' = Val () \<and> w' = w \<and> r = Val ()) \<or> r' = Crash NoReturn \<or> gm_load (IKESA w') = gm_load m"
proof -
  obtain sa where sa: "ikesas w s = Some sa" "isa_LocalSPI sa = spi" "IKESA w = gm_store spi s m"
    using r by (auto simp: init_sa_def split: option.splits)
  then have "gm_load (IKESA (DeleteIKESecurityAssociation (isa_LocalSPI sa) w)) = gm_load m"
    using m pool.delete_undoes_store by (simp add: DeleteIKESecurityAssociation_def)
  with run sa(1) show ?thesis
    by (auto simp: delete_unless_kept_def Let_def split: gores.splits if_splits)
qed

lemma init_respond_returns: "returns (init_respond env c a b msg rm ch kd g nd ln un nn s w)"
  unfolding init_respond_def init_reply_def Let_def by (intro returns_rules returns_send)

definition sa_pool :: "(u64, addr) gomap \<Rightarrow> 'x world \<Rightarrow> bool" where
  "sa_pool m w = (IKESA w = m)"

interpretation pool_kept: world_pred "sa_pool m"
  by unfold_locales (simp_all add: sa_pool_def)

lemma init_new_sa:
  assumes run: "gbind (NewIKESecurityAssociation env w) (\<lambda>sa w. case sa of None \<Rightarrow> (Val (), w)
      | Some s \<Rightarrow> delete_unless_kept s (init_respond env c a b msg rm ch kd g nd ln un nn s w)) = (r, w')"
  shows "gm_load (IKESA w') = gm_load (IKESA w) \<or> r = Val () \<and> sa_added msg w w'"
proof -
  define s where "s = next_addr w"
  define w1 where "w1 = w\<lparr>ikesas := (ikesas w)(s \<mapsto> IKESecurityAssociation_new), next_addr := Suc s\<rparr>"
  have w1: "IKESA w1 = IKESA w" by (simp add: w1_def)
  have new: "NewIKESecurityAssociation env w = (case draw_spi env s w1 of
           None \<Rightarrow> (Crash NoReturn, w1)
         | Some (None, w2) \<Rightarrow> (Val None, w2)
         | Some (Some spi, w2) \<Rightarrow>
             (Val (Some s), w2\<lparr>ikesas := (ikesas w2)(s \<mapsto> IKESecurityAssociation_new\<lparr>isa_LocalSPI := spi\<rparr>)\<rparr>))"
    unfolding NewIKESecurityAssociation_def s_def w1_def Let_def ..
  show ?thesis
  proof (cases "\<exists>spi w2. draw_spi env s w1 = Some (Some spi, w2)")
    case True
    then obtain spi w2 where d: "draw_spi env s w1 = Some (Some spi, w2)" by blast
    from draw_spi_spec [OF d] obtain x where fresh: "gm_load (IKESA w) spi = None"
      and w2: "w2 = w1\<lparr>ext := x, IKESA := gm_store spi s (IKESA w)\<rparr>" by (auto simp: w1)
    let ?w3 = "w2\<lparr>ikesas := (ikesas w2)(s \<mapsto> IKESecurityAssociation_new\<lparr>isa_LocalSPI := spi\<rparr>)\<rparr>"
    obtain r1 w4 where resp: "init_respond env c a b msg rm ch kd g nd ln un nn s ?w3 = (r1, w4)" by (meson surj_pair)
    have inv: "init_sa (r1 = Val ()) s spi (im_InitiatorSPI msg) (gm_store spi s (IKESA w)) w4"
      using init_respond_keeps [OF _ resp, of spi] by (simp add: w2)
    have "r1 \<noteq> Crash NoReturn"
      using init_respond_returns [of env c a b msg rm ch kd g nd ln un nn s ?w3] resp by (simp add: returns_def)
    moreover have del: "delete_unless_kept s (r1, w4) = (r, w')"
      using run by (simp add: new d resp)
    ultimately have "r \<noteq> Crash NoReturn"
      by (auto simp: delete_unless_kept_def Let_def split: gores.splits if_splits)
    then consider "gm_load (IKESA w') = gm_load (IKESA w)" | "r = Val ()" "w' = w4" "r1 = Val ()"
      using delete_unless_kept_pool [OF inv fresh del] by blast
    then show ?thesis
    proof cases
      case 2
      with inv fresh have "sa_added msg w w'" unfolding sa_added_def by auto
      with 2 show ?thesis by simp
    qed simp
  next
    case False
    then show ?thesis
      using run draw_spi_spec [of env s w1] w1 by (auto simp: new split: option.splits)
  qed
qed

text \<open>
  C13: An IKE_SA_INIT request leaves the pool of IKE SAs as it was, or it adds exactly one SA, under
  an SPI that was not in use: an SA with its keys, in the state that waits for IKE_AUTH, which
  expects message ID 1 next and knows the SPI of the UE. The latter happens only when the handler
  ends normally; however it fails, the half-made SA is gone.
\<close>

theorem INIT_adds_or_leaves:
  "gm_load (IKESA (snd (HandleIKESAINIT env c a b msg rm w))) = gm_load (IKESA w)
   \<or> fst (HandleIKESAINIT env c a b msg rm w) = Val () \<and> sa_added msg w (snd (HandleIKESAINIT env c a b msg rm w))"
  (is "?A (HandleIKESAINIT env c a b msg rm w)")
proof -
  have notify: "?A (reply_notify env c a b msg e k t d w)" for e k t d
    using pool_kept.notify [of "IKESA w" w env c a b msg e k t d] by (simp add: sa_pool_def)
  have "?A (handler (gbind (ext_opt (e_GenerateRandomNumber env) ''GenerateRandomNumber'' w) (\<lambda>ln w.
        case handleNATDetect (e_sha1 env) (im_InitiatorSPI msg) (im_ResponderSPI msg) (the_Notifications (im_Payloads msg)) b a of
          (un, nn) \<Rightarrow> gbind (NewIKESecurityAssociation env w) (\<lambda>sa w. case sa of None \<Rightarrow> (Val (), w)
            | Some s \<Rightarrow> delete_unless_kept s (init_respond env c a b msg rm ch kd g nd ln un nn s w)))))" for ch kd g nd
  proof (cases "e_GenerateRandomNumber env (ext w)")
    case (Pair l x)
    obtain un nn where nat: "handleNATDetect (e_sha1 env) (im_InitiatorSPI msg) (im_ResponderSPI msg)
        (the_Notifications (im_Payloads msg)) b a = (un, nn)" by (meson surj_pair)
    have "?A (handler (gbind (NewIKESecurityAssociation env (w\<lparr>ext := x\<rparr>)) (\<lambda>sa w. case sa of None \<Rightarrow> (Val (), w)
        | Some s \<Rightarrow> delete_unless_kept s (init_respond env c a b msg rm ch kd g nd ln un nn s w))))" for ln
    proof -
      obtain r w' where run: "gbind (NewIKESecurityAssociation env (w\<lparr>ext := x\<rparr>)) (\<lambda>sa w. case sa of None \<Rightarrow> (Val (), w)
        | Some s \<Rightarrow> delete_unless_kept s (init_respond env c a b msg rm ch kd g nd ln un nn s w)) = (r, w')"
        by (meson surj_pair)
      from init_new_sa [OF run] have "gm_load (IKESA w') = gm_load (IKESA w) \<or> r = Val () \<and> sa_added msg w w'"
        by (simp add: sa_added_def)
      then show ?thesis
        by (simp only: run) (cases r; auto simp: handler_def)
    qed
    with Pair nat show ?thesis
      by (cases l) (simp_all add: ext_opt_def handler_def)
  qed
  with notify show ?thesis
    by (auto simp: HandleIKESAINIT_def Let_def split: option.split)
qed

section \<open>Unauthenticated messages\<close>

text \<open>
  C5: In the state that waits for the UE's AUTH payload, an IKE_AUTH message without the AUTH value
  computed from \<open>Kn3iwf\<close> changes nothing but the expected message ID and the outside (the refusal that
  is sent): no inner address is assigned, no child SA is made, no event goes to the NGAP server.
\<close>

theorem no_child_without_AUTH:
  assumes sa: "ikesas w s = Some sa" "isa_State sa = PostSignalling" "isa_IKESAKey sa = Some key"
    and ue: "isa_IkeUE sa = Some u" "ikeues w u = Some ue"
    and auth: "last_payload the_AUTH (im_Payloads m) \<noteq> Some (auth_value env key (iu_Kn3iwf ue) (isa_InitiatorSignedOctets sa))"
  shows "\<exists>x. HandleIKEAUTH env c a b m (Some s) w =
    (Val (), w\<lparr>ikesas := (ikesas w)(s \<mapsto> sa\<lparr>isa_InitiatorMessageID := im_MessageID m + 1\<rparr>), ext := x\<rparr>)"
proof -
  let ?w = "w\<lparr>ikesas := (ikesas w)(s \<mapsto> sa\<lparr>isa_InitiatorMessageID := im_MessageID m + 1\<rparr>)\<rparr>"
  have "HandleIKEAUTH env c a b m (Some s) w =
    handler (reply_notify env c a b m IKE_AUTH (Some key) AUTHENTICATION_FAILED [] ?w)"
    using sa ue auth
    by (auto simp: HandleIKEAUTH_def upd_ikesa_def auth_post_def sakey_of_def Let_def split: option.split)
  moreover have "\<exists>x. handler (reply_notify env c a b m IKE_AUTH (Some key) AUTHENTICATION_FAILED [] v) = (Val (), v\<lparr>ext := x\<rparr>)" for v
    unfolding reply_notify_def SendIKEMessageToUE_def Let_def
    by (auto simp: ext_opt_def handler_def split: prod.split option.split)
  ultimately show ?thesis by auto
qed

theorem no_child_without_AUTH_witness:
  "\<exists>x. HandleIKEAUTH demo_env 0 demo_addr demo_addr (demo_auth 1 [PAUTH 2 [9]]) (Some 0) (demo_sa_world 2) =
    (Val (), (demo_sa_world 2)\<lparr>ikesas := (ikesas (demo_sa_world 2))(0 \<mapsto>
       (the (ikesas (demo_sa_world 2) 0))\<lparr>isa_InitiatorMessageID := 2\<rparr>), ext := x\<rparr>)
   \<and> last_payload the_AUTH [PAUTH 2 [9]] = Some [9]"
proof -
  let ?w = "demo_sa_world 2" and ?m = "demo_auth 1 [PAUTH 2 [9]]"
  let ?sa = "the (ikesas ?w 0)"
  have "last_payload the_AUTH (im_Payloads ?m) \<noteq> Some (auth_value demo_env [1] (iu_Kn3iwf (the (ikeues ?w 1)))
      (isa_InitiatorSignedOctets ?sa))"
    by (simp add: demo_auth_def NewMessage_def last_payload_def the_AUTH_def auth_value_def demo_env_def
        demo_sa_world_def key_pad_def IKESecurityAssociation_new_def)
  from no_child_without_AUTH [where s = 0 and sa = ?sa and u = 1 and w = ?w and c = 0 and a = demo_addr
      and b = demo_addr, OF _ _ _ _ _ this]
  show ?thesis
    by (simp add: demo_sa_world_def demo_auth_def NewMessage_def last_payload_def the_AUTH_def)
qed

text \<open>
  C34: A datagram that names an IKE SA the N3IWF does not have is answered or dropped; nothing but
  the outside changes.
\<close>

theorem unknown_SPI_rejected:
  assumes "e_ParseHeader env msg = Some hdr" "ih_ExchangeType hdr \<noteq> IKE_SA_INIT"
    and "gm_load (IKESA w) (ih_ResponderSPI hdr) = None"
  shows "\<exists>x. serve_packet env msg c a b w = (Val (), w\<lparr>ext := x\<rparr>)"
proof -
  have rej: "\<exists>x. handler (gbind (reject_header env c a b hdr t e w) f) = (Val (), w\<lparr>ext := x\<rparr>)"
    for t e and f :: "IKEMessage \<times> nat option \<Rightarrow> 'a world \<Rightarrow> unit gores \<times> 'a world"
    unfolding reject_header_def SendIKEMessageToUE_def Let_def
    by (auto simp: ext_opt_def handler_def split: prod.split option.split)
  show ?thesis
    using assms rej unfolding serve_packet_def checkIKEMessage_def
    by (simp add: IKESALoad_def split: if_split)
qed

theorem unknown_SPI_rejected_witness:
  "\<exists>x. serve_packet demo_env (replicate 18 0 @ [35, 0] @ replicate 8 0) 0 demo_addr demo_addr (demo_sa_world 0)
     = (Val (), (demo_sa_world 0)\<lparr>ext := x\<rparr>)"
proof (rule unknown_SPI_rejected)
  show "e_ParseHeader demo_env (replicate 18 0 @ [35, 0] @ replicate 8 0) =
    Some \<lparr>ih_InitiatorSPI = 0, ih_ResponderSPI = 0, ih_MajorVersion = 2, ih_ExchangeType = 35, ih_MessageID = 0\<rparr>"
    by (simp add: demo_env_def Uint64_def Uint32_def numeral_eq_Suc)
qed (simp_all add: demo_sa_world_def gm_load_def)

section \<open>Datagrams\<close>

text \<open>
  C16: What \<open>SendIKEMessageToUE\<close> writes from a port is what a receiver on that port, having taken off
  the non-ESP marker of port 4500 if there is one, queues as the message.
\<close>

theorem sent_datagram_received:
  assumes enc: "e_EncodeEncrypt env m k (ext w) = (Some pkt, x)"
    and written: "\<forall>p. e_WriteToUDP env c p dst x = (Some (length p), sent p)"
    and "headerLen \<le> int (length pkt)" "udp_Port loc = udp_Port src"
  shows "\<exists>d. SendIKEMessageToUE env c src dst m k w = (Val (), w\<lparr>ext := sent d\<rparr>)
    \<and> receive_datagram headerLen d remote loc esp v = (Val (Some pkt), v)"
proof (rule exI [of _ "(if udp_Port src = 4500 then [0, 0, 0, 0] else []) @ pkt"])
  have marker: "replicate 4 0 = [0, 0, 0, 0 :: byte]" by (simp add: numeral_eq_Suc)
  show "SendIKEMessageToUE env c src dst m k w
      = (Val (), w\<lparr>ext := sent ((if udp_Port src = 4500 then [0, 0, 0, 0] else []) @ pkt)\<rparr>)
    \<and> receive_datagram headerLen ((if udp_Port src = 4500 then [0, 0, 0, 0] else []) @ pkt) remote loc esp v
      = (Val (Some pkt), v)"
    using assms by (simp add: SendIKEMessageToUE_def ext_opt_def receive_datagram_def handleNattMsg_def marker Let_def)
qed

theorem sent_datagram_received_witness:
  "\<exists>d. SendIKEMessageToUE demo_env 0 (demo_addr\<lparr>udp_Port := 4500\<rparr>) demo_addr (demo_auth 1 []) None (world_init 0)
      = (Val (), world_init 0)
    \<and> receive_datagram 28 d demo_addr (demo_addr\<lparr>udp_Port := 4500\<rparr>) None (world_init 0)
      = (Val (Some [0, 0, 0, 0, 0, 0, 0, 1, 0, 0, 0, 0, 0, 0, 0, 5, 0, 32, 35, 0, 0, 0, 0, 1, 0, 0, 0, 28]), world_init (0::nat))"
  using sent_datagram_received [of demo_env "demo_auth 1 []" None "world_init 0"
      "[0, 0, 0, 0, 0, 0, 0, 1, 0, 0, 0, 0, 0, 0, 0, 5, 0, 32, 35, 0, 0, 0, 0, 1, 0, 0, 0, 28]" 0 0 demo_addr
      "\<lambda>_. 0" 28 "demo_addr\<lparr>udp_Port := 4500\<rparr>" "demo_addr\<lparr>udp_Port := 4500\<rparr>" demo_addr None "world_init 0"]
  by (simp add: demo_env_def demo_auth_def NewMessage_def PutUint64_def PutUint32_def world_init_def)

section \<open>PDU session child SAs\<close>

text \<open>
  What the set-up needs of a world: the UE context, its IKE SA with keys and connection, and the
  sessions of the list are there.
\<close>

definition pdu_ready :: "addr \<Rightarrow> addr list \<Rightarrow> 'x world \<Rightarrow> bool" where
  "pdu_ready u ps w =
     ((case ikeues w u of None \<Rightarrow> False | Some ue \<Rightarrow>
        (case iu_N3IWFIKESecurityAssociation ue of None \<Rightarrow> False | Some s \<Rightarrow>
          (case ikesas w s of None \<Rightarrow> False | Some sa \<Rightarrow> isa_IKESAKey sa \<noteq> None \<and> isa_IKEConnection sa \<noteq> None)))
      \<and> list_all (\<lambda>p. sessions w p \<noteq> None) ps)"

lemma pdu_ready_field [simp]:
  "pdu_ready u ps (w\<lparr>ext := x\<rparr>) = pdu_ready u ps w" "pdu_ready u ps (w\<lparr>tmps := T\<rparr>) = pdu_ready u ps w"
  by (simp_all add: pdu_ready_def cong: option.case_cong)

text \<open>The temporary data after the sessions of the verdicts \<open>es\<close> have been taken.\<close>

definition noted :: "EvtError list \<Rightarrow> PDUSessionSetupTemporaryData \<Rightarrow> PDUSessionSetupTemporaryData" where
  "noted es tmp = tmp\<lparr>tmp_Index := tmp_Index tmp + length es, tmp_FailedErrStr := tmp_FailedErrStr tmp @ es\<rparr>"

lemma noted_simps [simp]:
  "noted [] tmp = tmp" "noted es (noted [e] tmp) = noted (e # es) tmp"
  "tmp_Index (noted es tmp) = tmp_Index tmp + length es"
  "tmp_UnactivatedPDUSession (noted es tmp) = tmp_UnactivatedPDUSession tmp"
  by (simp_all add: noted_def)

lemma send_ext: "\<exists>r x. SendIKEMessageToUE env c a b m k w = (r, w\<lparr>ext := x\<rparr>) \<and> \<not> is_Crash r"
  unfolding SendIKEMessageToUE_def ext_opt_def Let_def
  by (auto split: prod.split option.split)

text \<open>
  One round of the loop does not panic. It goes on after noting that the request could not be sent; it
  ends after noting that it was, or with nothing noted; and when all sessions have been taken, with the response.
\<close>

definition pdu_round :: "addr \<Rightarrow> PDUSessionSetupTemporaryData \<Rightarrow> addr \<Rightarrow> int \<Rightarrow> 'x world \<Rightarrow> bool gores \<times> 'x world \<Rightarrow> bool" where
  "pdu_round t tmp u i w r =
     (let left = length (tmp_UnactivatedPDUSession tmp) - tmp_Index tmp; same = (ngap_evts (snd r) = ngap_evts w) in
      if left = 0 then fst r = Val False \<and> tmps (snd r) t = Some tmp
        \<and> ngap_evts (snd r) = ngap_evts w @ [SendPDUSessionResourceSetupResEvt i]
      else (case fst r of
        Val True \<Rightarrow> tmps (snd r) t = Some (noted [ErrTransportResourceUnavailable] tmp) \<and> same
          \<and> pdu_ready u (tmp_UnactivatedPDUSession tmp) (snd r) \<and> ChildSA (snd r) = ChildSA w
      | Val False \<Rightarrow> (tmps (snd r) t = Some tmp \<or> tmps (snd r) t = Some (noted [ErrNil] tmp)) \<and> same
      | Err _ \<Rightarrow> tmps (snd r) t = Some tmp \<and> same
      | Crash _ \<Rightarrow> False))"

lemma pdu_round_send:
  assumes "tmps w1 t = Some tmp" "tmp_Index tmp < length (tmp_UnactivatedPDUSession tmp)"
    and "ngap_evts w1 = ngap_evts w" "pdu_ready u (tmp_UnactivatedPDUSession tmp) w1" "ChildSA w1 = ChildSA w"
  shows "pdu_round t tmp u i w (gbind (upd_tmp (Some t) (\<lambda>tmp. tmp\<lparr>tmp_Index := tmp_Index tmp + 1\<rparr>) w1) (\<lambda>_ w.
     gbind (conn_of (Some co) w) (\<lambda>c w.
     gtry (SendIKEMessageToUE env (sock_Conn c) (sock_N3IWFAddr c) (sock_UEAddr c) m k w) (\<lambda>sent w. case sent of
         None \<Rightarrow> gbind (failed_err (Some t) ErrTransportResourceUnavailable w) (\<lambda>_ w. (Val True, w))
       | Some _ \<Rightarrow> gbind (failed_err (Some t) ErrNil w) (\<lambda>_ w. (Val False, w))))))"
proof -
  let ?w = "w1\<lparr>tmps := (tmps w1)(t \<mapsto> tmp\<lparr>tmp_Index := tmp_Index tmp + 1\<rparr>)\<rparr>"
  obtain r x where "SendIKEMessageToUE env (sock_Conn co) (sock_N3IWFAddr co) (sock_UEAddr co) m k ?w = (r, ?w\<lparr>ext := x\<rparr>)"
    "\<not> is_Crash r"
    using send_ext [of env "sock_Conn co" "sock_N3IWFAddr co" "sock_UEAddr co" m k ?w] by auto
  with assms show ?thesis
    by (cases r) (simp_all add: pdu_round_def upd_tmp_def conn_of_def failed_err_def noted_def Let_def)
qed

lemma pdu_child_body_round:
  assumes tmp: "tmps w t = Some tmp" and ready: "pdu_ready u (tmp_UnactivatedPDUSession tmp) w"
    and spi: "draw_child_spi env w \<noteq> None"
  shows "pdu_round t tmp u i w (pdu_child_body env u (Some t) i w)"
proof (cases "tmp_Index tmp < length (tmp_UnactivatedPDUSession tmp)")
  case False
  with tmp show ?thesis by (simp add: pdu_child_body_def pdu_round_def SendNgapEvt_def)
next
  case idx: True
  let ?p = "tmp_UnactivatedPDUSession tmp ! tmp_Index tmp"
  from ready obtain ue s sa key co where ue: "ikeues w u = Some ue" "iu_N3IWFIKESecurityAssociation ue = Some s"
    "ikesas w s = Some sa" "isa_IKESAKey sa = Some key" "isa_IKEConnection sa = Some co"
    and all: "list_all (\<lambda>p. sessions w p \<noteq> None) (tmp_UnactivatedPDUSession tmp)"
    by (auto simp: pdu_ready_def split: option.splits)
  from all idx have "sessions w ?p \<noteq> None" by (simp add: list_all_length)
  then obtain ps where ps: "sessions w ?p = Some ps" by auto
  obtain d w1 where draw: "draw_child_spi env w = Some (d, w1)" using spi by auto
  then obtain x where w1: "w1 = w\<lparr>ext := x\<rparr>" using draw_child_spi_spec by blast
  have idx': "\<not> length (tmp_UnactivatedPDUSession tmp) \<le> tmp_Index tmp" using idx by simp
  note base = pdu_child_body_def idx' new_child_spi_def draw w1 sakey_of_def idx tmp ue ps Let_def CreateHalfChildSA_def
    ext_opt_def upd_ikesa_def upd_ikeue_def
  show ?thesis
  proof (cases d)
    case None
    then show ?thesis by (simp add: base pdu_round_def)
  next
    case spi: (Some spi)
    show ?thesis
    proof (cases "e_EncrToTransform env key")
      case None
      then show ?thesis by (simp add: base spi pdu_round_def)
    next
      case tr: (Some tr)
      obtain nonce x' where n: "e_GenerateRandomNumber env x = (nonce, x')" by fastforce
      show ?thesis
      proof (cases nonce)
        case None
        then show ?thesis by (simp add: base spi tr n pdu_round_def)
      next
        case (Some nonceData)
        let ?w = "w\<lparr>childsas := (childsas w)(next_addr w \<mapsto> ChildSecurityAssociation_new\<lparr>csa_InboundSPI := spi,
            csa_PDUSessionIds := [ps_Id ps], csa_IkeUE := Some u\<rparr>), next_addr := Suc (next_addr w),
          ikeues := (ikeues w)(u \<mapsto> ue\<lparr>iu_TemporaryExchangeMsgIDChildSAMapping :=
            gm_store (isa_ResponderMessageID sa) (next_addr w) (iu_TemporaryExchangeMsgIDChildSAMapping ue)\<rparr>),
          ext := x', ikesas := (ikesas w)(s \<mapsto> sa\<lparr>isa_ConcatenatedNonce := nonceData\<rparr>)\<rparr>"
        have "pdu_ready u (tmp_UnactivatedPDUSession tmp) ?w" using ue all by (simp add: pdu_ready_def)
        then have "pdu_round t tmp u i w (gbind (upd_tmp (Some t) (\<lambda>tmp. tmp\<lparr>tmp_Index := tmp_Index tmp + 1\<rparr>) ?w) (\<lambda>_ w.
           gbind (conn_of (Some co) w) (\<lambda>c w.
           gtry (SendIKEMessageToUE env (sock_Conn c) (sock_N3IWFAddr c) (sock_UEAddr c) m (Some key) w) (\<lambda>sent w. case sent of
               None \<Rightarrow> gbind (failed_err (Some t) ErrTransportResourceUnavailable w) (\<lambda>_ w. (Val True, w))
             | Some _ \<Rightarrow> gbind (failed_err (Some t) ErrNil w) (\<lambda>_ w. (Val False, w))))))" for m
          using tmp idx by (intro pdu_round_send) simp_all
        moreover have "pdu_round t tmp u i w (Val False, ?w)"
          using tmp idx' by (simp add: pdu_round_def)
        ultimately show ?thesis
          using Some by (simp add: base spi tr n split: option.split)
      qed
    qed
  qed
qed

text \<open>How the set-up ends, from the temporary data \<open>tmp\<close> and the events \<open>es\<close> it began with.\<close>

definition pdu_outcome :: "addr \<Rightarrow> PDUSessionSetupTemporaryData \<Rightarrow> int \<Rightarrow> NgapEvt list \<Rightarrow> 'x world \<Rightarrow> bool" where
  "pdu_outcome t tmp i es w =
     (\<exists>n. let left = length (tmp_UnactivatedPDUSession tmp) - tmp_Index tmp;
             failed = replicate n ErrTransportResourceUnavailable in
        n < left \<and> tmps w t = Some (noted (failed @ [ErrNil]) tmp) \<and> ngap_evts w = es
      \<or> n < left \<and> tmps w t = Some (noted failed tmp) \<and> ngap_evts w = es
      \<or> n = left \<and> tmps w t = Some (noted failed tmp) \<and> ngap_evts w = es @ [SendPDUSessionResourceSetupResEvt i])"

lemma pdu_outcome_Suc:
  assumes "pdu_outcome t (noted [ErrTransportResourceUnavailable] tmp) i es w"
    and "tmp_Index tmp < length (tmp_UnactivatedPDUSession tmp)"
  shows "pdu_outcome t tmp i es w"
proof -
  from assms(1) obtain n where n: "let left = length (tmp_UnactivatedPDUSession tmp) - Suc (tmp_Index tmp);
       failed = replicate n ErrTransportResourceUnavailable in
        n < left \<and> tmps w t = Some (noted (ErrTransportResourceUnavailable # failed @ [ErrNil]) tmp) \<and> ngap_evts w = es
      \<or> n < left \<and> tmps w t = Some (noted (ErrTransportResourceUnavailable # failed) tmp) \<and> ngap_evts w = es
      \<or> n = left \<and> tmps w t = Some (noted (ErrTransportResourceUnavailable # failed) tmp)
          \<and> ngap_evts w = es @ [SendPDUSessionResourceSetupResEvt i]"
    by (auto simp: pdu_outcome_def)
  with assms(2) show ?thesis
    unfolding pdu_outcome_def by (intro exI [of _ "Suc n"]) (auto simp: Let_def)
qed

lemma pdu_child_loop_ends:
  assumes "tmps w t = Some tmp" "pdu_ready u (tmp_UnactivatedPDUSession tmp) w"
    and "\<And>v. ChildSA v = ChildSA w \<Longrightarrow> draw_child_spi env v \<noteq> None"
  shows "\<exists>r w'. pdu_child_loop env u (Some t) i w = Some (r, w') \<and> \<not> is_Crash r \<and> pdu_outcome t tmp i (ngap_evts w) w'"
  using assms
proof (induction "length (tmp_UnactivatedPDUSession tmp) - tmp_Index tmp" arbitrary: w tmp rule: less_induct)
  case less
  obtain b w' where body: "pdu_child_body env u (Some t) i w = (b, w')" by (meson surj_pair)
  have round: "pdu_round t tmp u i w (b, w')"
    using pdu_child_body_round [OF less.prems(1,2), of env i] less.prems(3) body by simp
  show ?case
  proof (cases "tmp_Index tmp < length (tmp_UnactivatedPDUSession tmp)")
    case False
    with round have "b = Val False" "pdu_outcome t tmp i (ngap_evts w) w'"
      by (simp_all add: pdu_round_def pdu_outcome_def)
    with body show ?thesis by (subst pdu_child_loop.simps) simp
  next
    case idx: True
    show ?thesis
    proof (cases "b = Val True")
      case True
      with round idx have step: "tmps w' t = Some (noted [ErrTransportResourceUnavailable] tmp)"
        "ngap_evts w' = ngap_evts w" "pdu_ready u (tmp_UnactivatedPDUSession tmp) w'" "ChildSA w' = ChildSA w"
        by (simp_all add: pdu_round_def)
      have "length (tmp_UnactivatedPDUSession (noted [ErrTransportResourceUnavailable] tmp)) -
          tmp_Index (noted [ErrTransportResourceUnavailable] tmp) < length (tmp_UnactivatedPDUSession tmp) - tmp_Index tmp"
        using idx by simp
      from less.hyps [OF this step(1)] step(2-4) less.prems(3) obtain r v where
        "pdu_child_loop env u (Some t) i w' = Some (r, v)" "\<not> is_Crash r"
        "pdu_outcome t (noted [ErrTransportResourceUnavailable] tmp) i (ngap_evts w) v" by auto
      with body True pdu_outcome_Suc [OF _ idx] show ?thesis by (subst pdu_child_loop.simps) auto
    next
      case False
      with round idx have "\<not> is_Crash b \<and> (tmps w' t = Some tmp \<or> tmps w' t = Some (noted [ErrNil] tmp)) \<and> ngap_evts w' = ngap_evts w"
        by (cases b) (auto simp: pdu_round_def split: bool.splits)
      moreover from this idx have "pdu_outcome t tmp i (ngap_evts w) w'"
        unfolding pdu_outcome_def by (intro exI [of _ 0]) auto
      ultimately show ?thesis
        using body False by (subst pdu_child_loop.simps) (cases b; auto)
    qed
  qed
qed

text \<open>
  C20: The set-up of PDU session child SAs ends, without a panic, provided the random source yields an
  SPI that is not in use (or fails) and the UE has an IKE SA with keys and a connection. It takes sessions from the
  list in order; for each of them that could not be asked for it notes that the transport failed, and goes
  on. It ends in one of three ways: a request was sent, for which no error is noted as the last verdict; or it
  gave up on a session (no SPI, nonce, transform or QoS information, or an identifier over 255) with nothing noted; or every session
  of the list has failed, and then, and only then, the NGAP server is told to send the response.
\<close>

theorem CreatePDUSessionChildSA_returns:
  assumes "tmps w t = Some tmp" and "pdu_ready u (tmp_UnactivatedPDUSession tmp) w"
    and "ikeues w u = Some ue" "iu_N3IWFIKESecurityAssociation ue = Some s" "ikesas w s = Some sa"
    and "NgapIdLoad (isa_LocalSPI sa) w = Some i"
    and "\<forall>v. ChildSA v = ChildSA w \<longrightarrow> draw_child_spi env v \<noteq> None"
  shows "\<exists>w' n. CreatePDUSessionChildSA env (Some u) (Some t) w = (Val (), w') \<and>
    (let left = length (tmp_UnactivatedPDUSession tmp) - tmp_Index tmp;
         failed = replicate n ErrTransportResourceUnavailable in
       n < left \<and> tmps w' t = Some (noted (failed @ [ErrNil]) tmp) \<and> ngap_evts w' = ngap_evts w
     \<or> n < left \<and> tmps w' t = Some (noted failed tmp) \<and> ngap_evts w' = ngap_evts w
     \<or> n = left \<and> tmps w' t = Some (noted failed tmp)
         \<and> ngap_evts w' = ngap_evts w @ [SendPDUSessionResourceSetupResEvt i])"
proof -
  from assms(7) have "\<And>v. ChildSA v = ChildSA w \<Longrightarrow> draw_child_spi env v \<noteq> None" by blast
  with pdu_child_loop_ends [OF assms(1,2)] obtain r w' where
    loop: "pdu_child_loop env u (Some t) i w = Some (r, w')" "\<not> is_Crash r" "pdu_outcome t tmp i (ngap_evts w) w'"
    by blast
  have "CreatePDUSessionChildSA env (Some u) (Some t) w = (Val (), w')"
    using assms(3-6) loop(1,2) by (cases r) (simp_all add: CreatePDUSessionChildSA_def handler_def)
  with loop(3) show ?thesis unfolding pdu_outcome_def by blast
qed

text \<open>Two sessions; the connection refuses the first datagram and takes the second.\<close>

definition demo_pdu_world :: "nat world" where
  "demo_pdu_world = (demo_sa_world 3)\<lparr>
     ikesas := [0 \<mapsto> IKESecurityAssociation_new\<lparr>isa_IKESAKey := Some [1], isa_LocalSPI := 5, isa_RemoteSPI := 1, isa_IkeUE := Some 1,
       isa_IKEConnection := Some \<lparr>sock_Conn = 0, sock_N3IWFAddr = demo_addr, sock_UEAddr = demo_addr\<rparr>\<rparr>],
     sessions := [3 \<mapsto> PDUSession_new 1 \<lparr>sst = [1], sd = None\<rparr>, 5 \<mapsto> PDUSession_new 2 \<lparr>sst = [1], sd = None\<rparr>],
     tmps := [4 \<mapsto> PDUSessionSetupTemporaryData_new\<lparr>tmp_UnactivatedPDUSession := [3, 5]\<rparr>], next_addr := 6\<rparr>"

definition demo_pdu_tmp :: PDUSessionSetupTemporaryData where
  "demo_pdu_tmp = PDUSessionSetupTemporaryData_new\<lparr>tmp_UnactivatedPDUSession := [3, 5]\<rparr>"

definition demo_pdu_env :: "nat ike_env" where
  "demo_pdu_env = demo_env\<lparr>e_WriteToUDP := \<lambda>_ p _ n. (if n < 5 then None else Some (length p), n)\<rparr>"

lemma demo_draw: "ChildSA v = [] \<Longrightarrow> draw_child_spi demo_pdu_env v = Some (Some (of_nat (ext v)), v\<lparr>ext := Suc (ext v)\<rparr>)"
  by (subst draw_child_spi.simps) (simp add: demo_pdu_env_def demo_env_def)

lemma demo_pdu_fields:
  "e_EncrToTransform demo_pdu_env k = Some esn_disabled" "e_GenerateRandomNumber demo_pdu_env n = (Some [of_nat n], Suc n)"
  "e_BuildNotify5G_QOS_INFO demo_pdu_env b q = Some (POther 41 [])"
  "\<exists>p. e_EncodeEncrypt demo_pdu_env m k' n = (Some p, n)"
  "e_WriteToUDP demo_pdu_env c p a n = (if n < 5 then None else Some (length p), n)"
  by (simp_all add: demo_pdu_env_def demo_env_def)

lemma demo_pdu_send:
  "SendIKEMessageToUE demo_pdu_env c a b m k w = (if ext w < 5 then Err ''SendIKEMessageToUE'' else Val (), w)"
proof -
  obtain p where "e_EncodeEncrypt demo_pdu_env m k (ext w) = (Some p, ext w)" using demo_pdu_fields(4) by blast
  then show ?thesis by (simp add: SendIKEMessageToUE_def ext_opt_def Let_def demo_pdu_fields)
qed

lemma demo_pdu_run:
  "tmps (snd (CreatePDUSessionChildSA demo_pdu_env (Some 1) (Some 4) demo_pdu_world)) 4 =
     Some (noted [ErrTransportResourceUnavailable, ErrNil] demo_pdu_tmp)"
proof -
  note defs = pdu_child_body_def new_child_spi_def demo_draw sakey_of_def Let_def CreateHalfChildSA_def conn_of_def
    ext_opt_def upd_ikesa_def upd_ikeue_def upd_tmp_def failed_err_def demo_pdu_send demo_pdu_fields(1-3)
    demo_pdu_world_def demo_sa_world_def world_init_def demo_pdu_tmp_def PDUSession_new_def
    PDUSessionSetupTemporaryData_new_def noted_def IkeUe_init_def IKESecurityAssociation_new_def
  show ?thesis
    by (simp add: CreatePDUSessionChildSA_def handler_def NgapIdLoad_def gm_load_def defs)
      (subst pdu_child_loop.simps, simp add: defs, subst pdu_child_loop.simps, simp add: defs)
qed

theorem CreatePDUSessionChildSA_returns_witness:
  "\<exists>w'. CreatePDUSessionChildSA demo_pdu_env (Some 1) (Some 4) demo_pdu_world = (Val (), w')
    \<and> tmps w' 4 = Some (noted [ErrTransportResourceUnavailable, ErrNil] demo_pdu_tmp) \<and> ngap_evts w' = []"
proof -
  have spi: "\<forall>v. ChildSA v = ChildSA demo_pdu_world \<longrightarrow> draw_child_spi demo_pdu_env v \<noteq> None"
    by (simp add: demo_pdu_world_def demo_sa_world_def world_init_def demo_draw)
  have w: "tmps demo_pdu_world 4 = Some demo_pdu_tmp" "ngap_evts demo_pdu_world = []"
    "pdu_ready 1 (tmp_UnactivatedPDUSession demo_pdu_tmp) demo_pdu_world"
    by (simp_all add: demo_pdu_world_def demo_pdu_tmp_def demo_sa_world_def world_init_def pdu_ready_def)
  obtain ue sa where ue: "ikeues demo_pdu_world 1 = Some ue" "iu_N3IWFIKESecurityAssociation ue = Some 0"
      "ikesas demo_pdu_world 0 = Some sa" "NgapIdLoad (isa_LocalSPI sa) demo_pdu_world = Some 9"
    by (simp add: demo_pdu_world_def demo_sa_world_def NgapIdLoad_def gm_load_def)
  have left: "length (tmp_UnactivatedPDUSession demo_pdu_tmp) - tmp_Index demo_pdu_tmp = 2"
    by (simp add: demo_pdu_tmp_def PDUSessionSetupTemporaryData_new_def)
  obtain w' n where run: "CreatePDUSessionChildSA demo_pdu_env (Some 1) (Some 4) demo_pdu_world = (Val (), w')"
    and out: "n < 2 \<and> tmps w' 4 = Some (noted (replicate n ErrTransportResourceUnavailable @ [ErrNil]) demo_pdu_tmp) \<and> ngap_evts w' = []
      \<or> n < 2 \<and> tmps w' 4 = Some (noted (replicate n ErrTransportResourceUnavailable) demo_pdu_tmp) \<and> ngap_evts w' = []
      \<or> n = 2 \<and> tmps w' 4 = Some (noted (replicate n ErrTransportResourceUnavailable) demo_pdu_tmp)
          \<and> ngap_evts w' = [] @ [SendPDUSessionResourceSetupResEvt 9]"
    using CreatePDUSessionChildSA_returns [OF w(1,3) ue spi] unfolding Let_def left w(2) by blast
  from run demo_pdu_run have "tmps w' 4 = Some (noted [ErrTransportResourceUnavailable, ErrNil] demo_pdu_tmp)" by simp
  with out have "ngap_evts w' = []"
    by (auto simp: noted_def demo_pdu_tmp_def PDUSessionSetupTemporaryData_new_def numeral_2_eq_2)
  with run \<open>tmps w' 4 = _\<close> show ?thesis by blast
qed

section \<open>Removal of a UE\<close>

text \<open>
  An outside that takes every deletion and records, in order, the states, policies and interfaces deleted
  from the kernel; the other calls of the removal leave the record alone.
\<close>

datatype xfrm_delete = DelState XfrmState | DelPolicy XfrmPolicy | DelLink link

definition records_deletes :: "('x, 'm) ike_env_scheme \<Rightarrow> ('x \<Rightarrow> xfrm_delete list) \<Rightarrow> bool" where
  "records_deletes env log =
     (\<forall>x. (\<forall>s. fst (e_XfrmStateDel env s x) \<and> log (snd (e_XfrmStateDel env s x)) = log x @ [DelState s])
        \<and> (\<forall>p. fst (e_XfrmPolicyDel env p x) \<and> log (snd (e_XfrmPolicyDel env p x)) = log x @ [DelPolicy p])
        \<and> (\<forall>l. fst (e_LinkDel env l x) \<and> log (snd (e_LinkDel env l x)) = log x @ [DelLink l])
        \<and> (\<forall>a. fst (e_IP_Release env a x) \<and> log (snd (e_IP_Release env a x)) = log x)
        \<and> (\<forall>m k. log (snd (e_EncodeEncrypt env m k x)) = log x)
        \<and> (\<forall>c p a. log (snd (e_WriteToUDP env c p a x)) = log x))"

text \<open>
  A child SA with an interface of its own can be taken down when it has a state, with the interface
  identifier in the range of \<open>uint32\<close>.
\<close>

definition removable :: "ChildSecurityAssociation \<Rightarrow> bool" where
  "removable child = (case csa_XfrmIface child of None \<Rightarrow> True
     | Some iface \<Rightarrow> link_Name iface = ''xfrmi-default''
         \<or> (case csa_XfrmStateList child of [] \<Rightarrow> False | st # _ \<Rightarrow> 0 \<le> xs_Ifid st \<and> xs_Ifid st \<le> 4294967295))"

text \<open>
  What has to leave the kernel with a child SA: its states, its policies and its interface, unless
  this is the one named \<open>xfrmi-default\<close>.
\<close>

definition child_link :: "ChildSecurityAssociation \<Rightarrow> xfrm_delete list" where
  "child_link child = (case csa_XfrmIface child of None \<Rightarrow> []
     | Some iface \<Rightarrow> if link_Name iface = ''xfrmi-default'' then [] else [DelLink iface])"

definition child_deletes :: "ChildSecurityAssociation \<Rightarrow> xfrm_delete list" where
  "child_deletes child =
     map DelState (csa_XfrmStateList child) @ map DelPolicy (csa_XfrmPolicyList child) @ child_link child"

definition ruleless :: "ChildSecurityAssociation \<Rightarrow> ChildSecurityAssociation" where
  "ruleless child = child\<lparr>csa_XfrmStateList := [], csa_XfrmPolicyList := []\<rparr>"

lemma delete_loops:
  assumes "records_deletes env log"
  shows "\<exists>x. gloop (\<lambda>s. ext_call (e_XfrmStateDel env s) m) ss w = (Val (), w\<lparr>ext := x\<rparr>) \<and> log x = log (ext w) @ map DelState ss"
    and "\<exists>x. gloop (\<lambda>p. ext_call (e_XfrmPolicyDel env p) m) ps w = (Val (), w\<lparr>ext := x\<rparr>) \<and> log x = log (ext w) @ map DelPolicy ps"
proof -
  show "\<exists>x. gloop (\<lambda>s. ext_call (e_XfrmStateDel env s) m) ss w = (Val (), w\<lparr>ext := x\<rparr>) \<and> log x = log (ext w) @ map DelState ss"
  proof (induction ss arbitrary: w)
    case Nil
    show ?case by (intro exI [of _ "ext w"]) simp
  next
    case (Cons s ss)
    obtain x where x: "e_XfrmStateDel env s (ext w) = (True, x)" "log x = log (ext w) @ [DelState s]"
      using assms unfolding records_deletes_def by (metis prod.collapse)
    with Cons [of "w\<lparr>ext := x\<rparr>"] show ?case by (auto simp: ext_call_def)
  qed
  show "\<exists>x. gloop (\<lambda>p. ext_call (e_XfrmPolicyDel env p) m) ps w = (Val (), w\<lparr>ext := x\<rparr>) \<and> log x = log (ext w) @ map DelPolicy ps"
  proof (induction ps arbitrary: w)
    case Nil
    show ?case by (intro exI [of _ "ext w"]) simp
  next
    case (Cons p ps)
    obtain x where x: "e_XfrmPolicyDel env p (ext w) = (True, x)" "log x = log (ext w) @ [DelPolicy p]"
      using assms unfolding records_deletes_def by (metis prod.collapse)
    with Cons [of "w\<lparr>ext := x\<rparr>"] show ?case by (auto simp: ext_call_def)
  qed
qed

text \<open>What deleting child SAs of one UE may write besides the child SAs themselves.\<close>

definition deletes_only :: "addr \<Rightarrow> 'x world \<Rightarrow> 'x world \<Rightarrow> bool" where
  "deletes_only u w w' = (\<exists>x m h i. w' = w\<lparr>ext := x, XfrmIfaces := m, childsas := h, ikeues := (ikeues w)(u \<mapsto> i)\<rparr>)"

lemma DeleteChildSA_effect:
  assumes rec: "records_deletes env log" and c: "childsas w c = Some child" "removable child" and u: "ikeues w u \<noteq> None"
  shows "\<exists>w'. DeleteChildSA env u c w = (Val (), w') \<and> deletes_only u w w'
    \<and> childsas w' = (childsas w)(c \<mapsto> ruleless child) \<and> log (ext w') = log (ext w) @ child_deletes child"
proof -
  obtain x1 where x1: "gloop (\<lambda>s. ext_call (e_XfrmStateDel env s) ''Delete xfrmstate'') (csa_XfrmStateList child) w = (Val (), w\<lparr>ext := x1\<rparr>)"
    "log x1 = log (ext w) @ map DelState (csa_XfrmStateList child)" using delete_loops(1) [OF rec] by blast
  obtain x2 where x2: "gloop (\<lambda>p. ext_call (e_XfrmPolicyDel env p) ''Delete xfrmPolicy'') (csa_XfrmPolicyList child) (w\<lparr>ext := x1\<rparr>)
      = (Val (), w\<lparr>ext := x2\<rparr>)" "log x2 = log x1 @ map DelPolicy (csa_XfrmPolicyList child)"
    using delete_loops(2) [OF rec, of "''Delete xfrmPolicy''" "csa_XfrmPolicyList child" "w\<lparr>ext := x1\<rparr>"] by auto
  define l where "l i = snd (e_LinkDel env i x2)" for i
  have "fst (e_LinkDel env i x2)" "log (l i) = log x2 @ [DelLink i]" for i using rec by (simp_all add: records_deletes_def l_def)
  then have x3: "e_LinkDel env i x2 = (True, l i)" "log (l i) = log x2 @ [DelLink i]" for i by (simp_all add: l_def prod_eq_iff)
  obtain ue where ue: "ikeues w u = Some ue" using u by auto
  have "\<exists>x m. DeleteChildSAXfrm env c w = (Val (), w\<lparr>ext := x, XfrmIfaces := m, childsas := (childsas w)(c \<mapsto> ruleless child)\<rparr>)
      \<and> log x = log x2 @ child_link child"
  proof (cases "csa_XfrmIface child = None \<or> (\<exists>i. csa_XfrmIface child = Some i \<and> link_Name i = ''xfrmi-default'')")
    case True
    then show ?thesis
      using c x1(1) x2(1) by (intro exI [of _ x2] exI [of _ "XfrmIfaces w"])
        (auto simp: DeleteChildSAXfrm_def upd_childsa_def ruleless_def child_link_def)
  next
    case False
    with c(2) obtain i st sts where i: "csa_XfrmIface child = Some i" "link_Name i \<noteq> ''xfrmi-default''"
      "csa_XfrmStateList child = st # sts" "0 \<le> xs_Ifid st" "xs_Ifid st \<le> 4294967295"
      by (auto simp: removable_def split: option.splits list.splits)
    then show ?thesis
      using c(1) x1(1) x2(1) x3
      by (intro exI [of _ "l i"] exI [of _ "gm_delete (word_of_int (xs_Ifid st)) (XfrmIfaces w)"])
        (simp add: DeleteChildSAXfrm_def ext_call_def upd_childsa_def ruleless_def child_link_def)
  qed
  then obtain x m where x: "DeleteChildSAXfrm env c w = (Val (), w\<lparr>ext := x, XfrmIfaces := m, childsas := (childsas w)(c \<mapsto> ruleless child)\<rparr>)"
    "log x = log x2 @ child_link child" by blast
  let ?i = "ue\<lparr>iu_N3IWFChildSecurityAssociation := gm_delete (csa_InboundSPI child) (iu_N3IWFChildSecurityAssociation ue)\<rparr>"
  let ?w = "w\<lparr>ext := x, XfrmIfaces := m, childsas := (childsas w)(c \<mapsto> ruleless child), ikeues := (ikeues w)(u \<mapsto> ?i)\<rparr>"
  have "DeleteChildSA env u c w = (Val (), ?w)"
    using x(1) ue by (simp add: DeleteChildSA_def upd_ikeue_def ruleless_def)
  moreover have "deletes_only u w ?w"
    unfolding deletes_only_def by blast
  ultimately show ?thesis using x(2) x1(2) x2(2) by (intro exI [of _ ?w]) (simp add: child_deletes_def)
qed

lemma deletes_only_trans: "deletes_only u w v \<Longrightarrow> deletes_only u v w' \<Longrightarrow> deletes_only u w w'"
  unfolding deletes_only_def by (elim exE, simp) blast

lemma deletes_only_ue: "deletes_only u w v \<Longrightarrow> ikeues v u \<noteq> None"
  unfolding deletes_only_def by auto

lemma DeleteChildSA_loop:
  assumes "records_deletes env log" "distinct cs" "ikeues w u \<noteq> None"
    and "list_all (\<lambda>c. case childsas w c of None \<Rightarrow> False | Some child \<Rightarrow> removable child) cs"
  shows "\<exists>w'. gloop (DeleteChildSA env u) cs w = (Val (), w') \<and> (cs = [] \<and> w' = w \<or> deletes_only u w w')
    \<and> (\<forall>c. childsas w' c = (if c \<in> set cs then map_option ruleless (childsas w c) else childsas w c))
    \<and> log (ext w') = log (ext w) @ concat (map (\<lambda>c. child_deletes (the (childsas w c))) cs)"
  using assms(2-)
proof (induction cs arbitrary: w)
  case (Cons c cs)
  then obtain child where child: "childsas w c = Some child" "removable child" by (auto split: option.splits)
  obtain v where v: "DeleteChildSA env u c w = (Val (), v)" "deletes_only u w v" "childsas v = (childsas w)(c \<mapsto> ruleless child)"
    "log (ext v) = log (ext w) @ child_deletes child"
    using DeleteChildSA_effect [OF assms(1) child Cons.prems(2)] by blast
  have "ikeues v u \<noteq> None" by (rule deletes_only_ue [OF v(2)])
  moreover have same: "childsas v d = childsas w d" if "d \<in> set cs" for d
    using that v(3) Cons.prems(1) by auto
  ultimately obtain w' where w': "gloop (DeleteChildSA env u) cs v = (Val (), w')" "cs = [] \<and> w' = v \<or> deletes_only u v w'"
    "\<forall>d. childsas w' d = (if d \<in> set cs then map_option ruleless (childsas v d) else childsas v d)"
    "log (ext w') = log (ext v) @ concat (map (\<lambda>c. child_deletes (the (childsas v c))) cs)"
    using Cons.IH [of v] Cons.prems by (auto simp: list_all_iff)
  have "concat (map (\<lambda>c. child_deletes (the (childsas v c))) cs) = concat (map (\<lambda>c. child_deletes (the (childsas w c))) cs)"
    by (intro arg_cong [where f = concat] map_cong) (simp_all add: same)
  with v w' child Cons.prems(1) deletes_only_trans show ?case
    by (intro exI [of _ w']) auto
qed simp

lemma deletes_only_pools:
  "deletes_only u w w' \<Longrightarrow> IKESA w' = IKESA w \<and> IKEUePool w' = IKEUePool w \<and> AllocatedUEIPAddress w' = AllocatedUEIPAddress w
     \<and> IKESPIToNGAPId w' = IKESPIToNGAPId w \<and> ChildSA w' = ChildSA w"
  unfolding deletes_only_def by auto

lemma send_log:
  assumes "records_deletes env log"
  shows "\<exists>x. SendUEInformationExchange env sa k p i r n c a b w = (Val (), w\<lparr>ext := x\<rparr>) \<and> log x = log (ext w)"
proof -
  have keep: "log (snd (e_EncodeEncrypt env m k x)) = log x" "log (snd (e_WriteToUDP env c p a x)) = log x" for m k x c p a
    using assms by (simp_all add: records_deletes_def)
  have "\<exists>r x. SendIKEMessageToUE env c b a m k w = (r, w\<lparr>ext := x\<rparr>) \<and> \<not> is_Crash r \<and> log x = log (ext w)" for m
  proof -
    obtain p x where e: "e_EncodeEncrypt env m k (ext w) = (p, x)" by fastforce
    with keep(1) [of m k "ext w"] have x: "log x = log (ext w)" by simp
    show ?thesis
    proof (cases p)
      case None
      with e x show ?thesis by (simp add: SendIKEMessageToUE_def ext_opt_def) blast
    next
      case (Some pkt)
      let ?pkt = "if udp_Port b = 4500 then replicate 4 0 @ pkt else pkt"
      obtain q y where y: "e_WriteToUDP env c ?pkt a x = (q, y)" by fastforce
      with keep(2) [of c ?pkt a x] x have "log y = log (ext w)" by simp
      define r where "r = fst (SendIKEMessageToUE env c b a m k w)"
      have "SendIKEMessageToUE env c b a m k w = (r, w\<lparr>ext := y\<rparr>) \<and> \<not> is_Crash r"
        using e y Some unfolding r_def by (cases q) (simp_all add: SendIKEMessageToUE_def ext_opt_def Let_def)
      with \<open>log y = log (ext w)\<close> show ?thesis by blast
    qed
  qed
  then obtain r' x where s: "SendIKEMessageToUE env c b a (NewMessage (isa_RemoteSPI sa) (isa_LocalSPI sa) INFORMATIONAL r i n p) k w
      = (r', w\<lparr>ext := x\<rparr>)" "\<not> is_Crash r'" "log x = log (ext w)" by blast
  have "SendUEInformationExchange env sa k p i r n c a b w = (Val (), w\<lparr>ext := x\<rparr>)"
    using s(1,2) by (cases r') (simp_all add: SendUEInformationExchange_def handler_def)
  with s(3) show ?thesis by blast
qed

text \<open>The UE context, SA and child SAs are there, and the DPD goroutine has not been stopped before.\<close>

lemma IkeUe_Remove_effect:
  assumes rec: "records_deletes env log"
    and ue: "ikeues w u = Some ue" "iu_N3IWFIKESecurityAssociation ue = Some s" "ikesas w s = Some sa"
    and dpd: "\<not> (isa_IsUseDPD sa \<and> isa_IKESAClosed sa)"
    and cs: "cs = gm_values (iu_N3IWFChildSecurityAssociation ue)" "distinct cs"
      "list_all (\<lambda>c. case childsas w c of None \<Rightarrow> False | Some child \<Rightarrow> removable child) cs"
  shows "\<exists>w'. IkeUe_Remove env u w = (Val (), w')
    \<and> IKESA w' = gm_delete (isa_LocalSPI sa) (IKESA w) \<and> IKEUePool w' = gm_delete (isa_LocalSPI sa) (IKEUePool w)
    \<and> IKESPIToNGAPId w' = gm_delete (isa_LocalSPI sa) (IKESPIToNGAPId w)
    \<and> AllocatedUEIPAddress w' = gm_delete (ip_String (iu_IPSecInnerIP ue)) (AllocatedUEIPAddress w)
    \<and> (\<forall>c. childsas w' c = (if c \<in> set cs then map_option ruleless (childsas w c) else childsas w c))
    \<and> log (ext w') = log (ext w) @ concat (map (\<lambda>c. child_deletes (the (childsas w c))) cs)
    \<and> ChildSA w' = ChildSA w"
proof -
  let ?ip = "iu_IPSecInnerIP ue" and ?spi = "isa_LocalSPI sa"
  let ?w1 = "if isa_IsUseDPD sa then w\<lparr>ikesas := (ikesas w)(s \<mapsto> sa\<lparr>isa_IKESAClosed := True\<rparr>)\<rparr> else w"
  let ?w2 = "DeleteInternalUEIPAddr (ip_String ?ip) (DeleteIKESecurityAssociation ?spi ?w1)"
  define x where "x = snd (e_IP_Release env (ip_To4 ?ip) (ext w))"
  have "fst (e_IP_Release env (ip_To4 ?ip) (ext w))" "log x = log (ext w)"
    using rec by (simp_all add: records_deletes_def x_def)
  then have rel: "e_IP_Release env (ip_To4 ?ip) (ext w) = (True, x)" "log x = log (ext w)" by (simp_all add: x_def prod_eq_iff)
  let ?w3 = "?w2\<lparr>ext := x\<rparr>"
  have w3: "childsas ?w3 = childsas w" "ikeues ?w3 = ikeues w" "ext ?w3 = x" "ext ?w2 = ext w"
    by (simp_all add: DeleteInternalUEIPAddr_def DeleteIKESecurityAssociation_def)
  obtain v where v: "gloop (DeleteChildSA env u) cs ?w3 = (Val (), v)" "cs = [] \<and> v = ?w3 \<or> deletes_only u ?w3 v"
    "\<forall>c. childsas v c = (if c \<in> set cs then map_option ruleless (childsas w c) else childsas w c)"
    "log (ext v) = log (ext w) @ concat (map (\<lambda>c. child_deletes (the (childsas w c))) cs)"
    using DeleteChildSA_loop [OF rec cs(2), of ?w3 u] ue(1) cs(3) rel(2) unfolding w3 by auto
  have pools: "IKESA v = gm_delete ?spi (IKESA w)" "IKEUePool v = IKEUePool w" "IKESPIToNGAPId v = IKESPIToNGAPId w"
    "AllocatedUEIPAddress v = gm_delete (ip_String ?ip) (AllocatedUEIPAddress w)" "ChildSA v = ChildSA w"
    using v(2) deletes_only_pools [of u ?w3 v]
    by (auto simp: DeleteInternalUEIPAddr_def DeleteIKESecurityAssociation_def split: if_splits)
  have "IkeUe_Remove env u w = (Val (), DeleteIKEUe ?spi v)"
    using ue dpd rel(1) v(1) w3(4) unfolding cs(1)
    by (simp add: IkeUe_Remove_def ext_call_def upd_ikesa_def Let_def split: if_splits)
  then show ?thesis
    using v(3,4) pools by (intro exI [of _ "DeleteIKEUe ?spi v"]) (simp add: DeleteIKEUe_def DeleteNgapIdFromIkeSPI_def)
qed

text \<open>
  C12: The order to delete an IKE SA, which the NGAP server queues when it releases a UE, removes the UE
  on the IKE side and no other. If the outside takes the deletions, the handler returns; after it the SA and the
  UE context are not in their pools, the NGAP identifier is not found from the SPI and the inner address is free, all other
  SPIs and addresses being as before; of the kernel exactly the states, policies and interfaces of the
  child SAs of the UE have been deleted (the interface named \<open>xfrmi-default\<close> is spared), and those child SAs
  hold no rules any more. The child SAs stay, however, in
  the pool of all child SAs, so their SPIs are never used again.
\<close>

theorem IKE_delete_removes:
  assumes rec: "records_deletes env log"
    and ue: "IkeUePoolLoad spi w = Some u" "ikeues w u = Some ue" "iu_N3IWFIKESecurityAssociation ue = Some s"
      "ikesas w s = Some sa" "isa_LocalSPI sa = spi" "iu_IKEConnection ue = Some conn"
    and dpd: "\<not> (isa_IsUseDPD sa \<and> isa_IKESAClosed sa)"
    and cs: "cs = gm_values (iu_N3IWFChildSecurityAssociation ue)" "distinct cs"
      "list_all (\<lambda>c. case childsas w c of None \<Rightarrow> False | Some child \<Rightarrow> removable child) cs"
  shows "\<exists>w'. HandleEvent env (IKEDeleteRequestEvt spi) w = (Val (), w')
    \<and> (\<forall>j. IKESALoad j w' = (if j = spi then None else IKESALoad j w))
    \<and> (\<forall>j. IkeUePoolLoad j w' = (if j = spi then None else IkeUePoolLoad j w))
    \<and> (\<forall>j. NgapIdLoad j w' = (if j = spi then None else NgapIdLoad j w))
    \<and> (\<forall>a. AllocatedUEIPAddressLoad a w' =
         (if a = ip_String (iu_IPSecInnerIP ue) then None else AllocatedUEIPAddressLoad a w))
    \<and> (\<forall>c. childsas w' c = (if c \<in> set cs
         then map_option (\<lambda>child. child\<lparr>csa_XfrmStateList := [], csa_XfrmPolicyList := []\<rparr>) (childsas w c) else childsas w c))
    \<and> log (ext w') = log (ext w) @ concat (map (\<lambda>c. child_deletes (the (childsas w c))) cs)
    \<and> ChildSA w' = ChildSA w"
proof -
  obtain x where x: "SendIKEDeleteRequest env spi w = (Val (), w\<lparr>ext := x\<rparr>)" "log x = log (ext w)"
    using send_log [OF rec] ue by (fastforce simp: SendIKEDeleteRequest_def conn_of_def)
  have "IkeUePoolLoad spi (w\<lparr>ext := x\<rparr>) = Some u" using ue(1) by (simp add: IkeUePoolLoad_def)
  moreover obtain w' where w': "IkeUe_Remove env u (w\<lparr>ext := x\<rparr>) = (Val (), w')"
    "IKESA w' = gm_delete spi (IKESA w)" "IKEUePool w' = gm_delete spi (IKEUePool w)"
    "IKESPIToNGAPId w' = gm_delete spi (IKESPIToNGAPId w)"
    "AllocatedUEIPAddress w' = gm_delete (ip_String (iu_IPSecInnerIP ue)) (AllocatedUEIPAddress w)"
    "\<forall>c. childsas w' c = (if c \<in> set cs then map_option ruleless (childsas w c) else childsas w c)"
    "log (ext w') = log x @ concat (map (\<lambda>c. child_deletes (the (childsas w c))) cs)" "ChildSA w' = ChildSA w"
    using IkeUe_Remove_effect [OF rec, of "w\<lparr>ext := x\<rparr>" u ue s sa cs] ue dpd cs by auto
  ultimately have "HandleEvent env (IKEDeleteRequestEvt spi) w = (Val (), w')"
    using x(1) by (simp add: HandleEvent_def HandleIKEDeleteEvt_def removeIkeUe_def handler_def)
  with w'(2-) x(2) show ?thesis
    by (intro exI [of _ w']) (simp add: IKESALoad_def IkeUePoolLoad_def NgapIdLoad_def AllocatedUEIPAddressLoad_def
        ruleless_def [abs_def])
qed

text \<open>A UE with one child SA, whose rules are taken out of a kernel that records the deletions.\<close>

definition recording_env :: "xfrm_delete list ike_env" where
  "recording_env = (counting_env length (\<lambda>x. x))\<lparr>e_XfrmStateDel := (\<lambda>s x. (True, x @ [DelState s])),
     e_XfrmPolicyDel := (\<lambda>p x. (True, x @ [DelPolicy p])), e_LinkDel := (\<lambda>l x. (True, x @ [DelLink l]))\<rparr>"

lemma recording_env_records: "records_deletes recording_env (\<lambda>x. x)"
  by (simp add: records_deletes_def recording_env_def counting_env_def)

definition demo_rule :: XfrmState where
  "demo_rule = \<lparr>xs_Src = [192, 0, 2, 1], xs_Dst = [10, 0, 0, 9], xs_Spi = 8, xs_Ifid = 7, xs_Auth = None,
     xs_Crypt = \<lparr>algo_Name = ''cbc(aes)'', algo_Key = [2], algo_TruncateLen = 0\<rparr>, xs_ESN = False, xs_ReplayWindow = 0,
     xs_Encap = None\<rparr>"

definition demo_remove_world :: "xfrm_delete list world" where
  "demo_remove_world = (world_init [])\<lparr>IKESA := [(5, 0), (6, 4)], IKEUePool := [(5, 1), (6, 3)],
     IKESPIToNGAPId := [(5, 9), (6, 10)], AllocatedUEIPAddress := [(''10.0.0.1'', 1), (''10.0.0.2'', 3)], ChildSA := [(8, 2)],
     ikesas := [0 \<mapsto> IKESecurityAssociation_new\<lparr>isa_LocalSPI := 5, isa_IsUseDPD := True\<rparr>],
     ikeues := [1 \<mapsto> IkeUe_init\<lparr>iu_N3IWFIKESecurityAssociation := Some 0, iu_IPSecInnerIP := [10, 0, 0, 1],
        iu_N3IWFChildSecurityAssociation := [(8, 2)],
        iu_IKEConnection := Some \<lparr>sock_Conn = 0, sock_N3IWFAddr = demo_addr, sock_UEAddr = demo_addr\<rparr>\<rparr>],
     childsas := [2 \<mapsto> demo_xfrm_child\<lparr>csa_XfrmStateList := [demo_rule],
        csa_XfrmIface := Some \<lparr>link_Name = ''xfrmi-1'', link_Index = 3\<rparr>\<rparr>]\<rparr>"

theorem IKE_delete_removes_witness:
  "\<exists>w'. HandleEvent recording_env (IKEDeleteRequestEvt 5) demo_remove_world = (Val (), w')
    \<and> IkeUePoolLoad 5 w' = None \<and> IkeUePoolLoad 6 w' = Some 3 \<and> AllocatedUEIPAddressLoad ''10.0.0.1'' w' = None
    \<and> AllocatedUEIPAddressLoad ''10.0.0.2'' w' = Some 3 \<and> ext w' = [DelState demo_rule, DelLink \<lparr>link_Name = ''xfrmi-1'', link_Index = 3\<rparr>]
    \<and> ChildSA w' = [(8, 2)]"
proof -
  let ?w = demo_remove_world
  have ip: "ip_String (iu_IPSecInnerIP (the (ikeues ?w 1))) = ''10.0.0.1''"
    by (simp add: demo_remove_world_def) code_simp
  obtain w' where "HandleEvent recording_env (IKEDeleteRequestEvt 5) ?w = (Val (), w')"
    "\<forall>j. IkeUePoolLoad j w' = (if j = 5 then None else IkeUePoolLoad j ?w)"
    "\<forall>a. AllocatedUEIPAddressLoad a w' =
       (if a = ip_String (iu_IPSecInnerIP (the (ikeues ?w 1))) then None else AllocatedUEIPAddressLoad a ?w)"
    "ext w' = ext ?w @ concat (map (\<lambda>c. child_deletes (the (childsas ?w c))) [2])" "ChildSA w' = ChildSA ?w"
    using IKE_delete_removes [OF recording_env_records, of 5 ?w 1 "the (ikeues ?w 1)" 0 "the (ikesas ?w 0)"
        "\<lparr>sock_Conn = 0, sock_N3IWFAddr = demo_addr, sock_UEAddr = demo_addr\<rparr>" "[2]"]
    by (auto simp: demo_remove_world_def IkeUePoolLoad_def gm_load_def gm_values_def removable_def demo_rule_def
        IKESecurityAssociation_new_def demo_xfrm_child_def ChildSecurityAssociation_new_def)
  then show ?thesis
    unfolding ip by (intro exI [of _ w']) (simp add: demo_remove_world_def world_init_def IkeUePoolLoad_def
        AllocatedUEIPAddressLoad_def gm_load_def child_deletes_def child_link_def demo_xfrm_child_def
        ChildSecurityAssociation_new_def)
qed

section \<open>Dead peer detection\<close>

text \<open>
  C39: A UE that does not answer one probe is given up: at the first tick of the retransmission timer,
  whatever \<open>maxRetryTimes\<close> is and whatever the timer would receive later, exactly one request to release
  the UE, as lost, is queued for the NGAP server, the SA forgets its timer and the goroutine ends. The
  configured number of retries has no effect. A timer that is stopped first changes nothing.
\<close>

theorem dpd_cancels_at_first_tick:
  assumes "ikesas w s = Some sa" and "NgapIdLoad (isa_LocalSPI sa) w = Some ranNgapId"
    and "0 \<le> isa_CurrentRetryTimes sa" and "isa_CurrentRetryTimes sa < 2 ^ 31 - 1"
  shows "NewDPDPeriodicTimer maxRetryTimes s (Tick # inputs) w =
      (Val (), w\<lparr>ngap_evts := ngap_evts w @ [SendUEContextReleaseRequestEvt ranNgapId ErrRadioConnWithUeLost],
         ikesas := (ikesas w)(s \<mapsto> sa\<lparr>isa_CurrentRetryTimes := isa_CurrentRetryTimes sa + 1,
           isa_DPDReqRetransTimer := False\<rparr>)\<rparr>)
    \<and> NewDPDPeriodicTimer maxRetryTimes s (Done # inputs) w = (Val (), w)"
proof -
  have "signed_take_bit 31 (isa_CurrentRetryTimes sa + 1) = isa_CurrentRetryTimes sa + 1"
    using assms(3,4) by (simp add: signed_take_bit_int_eq_self)
  with assms show ?thesis
    by (simp add: dpd_timer_tick_def dpd_tick_def StartDPD_cancel_def upd_ikesa_def modify_def deref_def
        NgapIdLoad_def SendNgapEvt_def Let_def)
qed

definition demo_dpd_world :: "nat world" where
  "demo_dpd_world = IkeSpiNgapIdMapping 7 5 ((world_init 0)\<lparr>ikesas :=
     [2 \<mapsto> IKESecurityAssociation_new\<lparr>isa_LocalSPI := 7, isa_DPDReqRetransTimer := True\<rparr>]\<rparr>)"

theorem dpd_cancels_at_first_tick_witness:
  "fst (NewDPDPeriodicTimer 4 2 [Tick, Tick] demo_dpd_world) = Val ()
   \<and> ngap_evts (snd (NewDPDPeriodicTimer 4 2 [Tick, Tick] demo_dpd_world)) =
       [SendUEContextReleaseRequestEvt 5 ErrRadioConnWithUeLost]"
proof -
  let ?sa = "IKESecurityAssociation_new\<lparr>isa_LocalSPI := 7, isa_DPDReqRetransTimer := True\<rparr>"
  have "ikesas demo_dpd_world 2 = Some ?sa" "NgapIdLoad (isa_LocalSPI ?sa) demo_dpd_world = Some 5"
    "ngap_evts demo_dpd_world = []"
    by (simp_all add: demo_dpd_world_def IkeSpiNgapIdMapping_def NgapIdLoad_def world_init_def)
  with dpd_cancels_at_first_tick [of demo_dpd_world 2 ?sa 5 4 "[Tick]"] show ?thesis
    by (simp add: IKESecurityAssociation_new_def)
qed

end
