(* ===== verification/Demo_Env.thy ===== *)
theory Demo_Env
  imports Servers Ike_Props
begin

text \<open>
  A concrete outside for the whole program, on which the properties of the NGAP server and of the
  whole system are instantiated: every call succeeds, the counter of the outside is the number of
  calls that drew from it, the one AMF answers the set-up request.
\<close>

definition demo_setup_response :: NGAPPDU where
  "demo_setup_response = new_pdu SuccessfulOutcome ProcNGSetup CriticalityReject NGSetupResponse
     [new_ie IdAMFName CriticalityReject (VString ''AMF''), new_ie IdServedGUAMIList CriticalityReject (VGUAMIList []),
      new_ie IdPLMNSupportList CriticalityReject (VPLMNSupport [])]"

definition demo_ngap :: "nat ngap_env" where
  "demo_ngap = ike_env.extend (demo_env\<lparr>e_LinkByName := (\<lambda>l n. (Some \<lparr>link_Name = l, link_Index = 0\<rparr>, n))\<rparr>) (ngap_env.fields
     \<lparr>gn_PLMNID = Some \<lparr>Mcc = ''208'', Mnc = ''93''\<rparr>, gn_N3IWFID = 135\<rparr> ''n3iwf'' [] ''10.200.200.2''
     \<lparr>aper_Unmarshal_GUAMI = (\<lambda>_. None), aper_Unmarshal_PLMNIdentity = (\<lambda>b. Some b)\<rparr>
     (\<lambda>_. (\<lparr>bs_Bytes = [], bs_BitLength = 0\<rparr>, \<lparr>bs_Bytes = [], bs_BitLength = 0\<rparr>, \<lparr>bs_Bytes = [], bs_BitLength = 0\<rparr>))
     (\<lambda>_ _. \<lparr>bs_Bytes = [], bs_BitLength = 0\<rparr>) (\<lambda>_. [])
     (\<lambda>_. Some [0]) (\<lambda>b. if b = [1] then Some demo_setup_response else None) (\<lambda>_. ([], True))
     (\<lambda>_. [ULTunnel (Some (Some ([192, 0, 2, 1], [0, 0, 0, 77]))), SessionQosFlows (Some [(9, [])])])
     (\<lambda>_. Val ()) (\<lambda>_. None) (\<lambda>_. None) (\<lambda>_. None) Some '':2152'' (\<lambda>_. ''192.0.2.9'')
     (\<lambda>_ _ n. (True, Suc n)) (\<lambda>_ _ n. (True, Suc n)))"

definition demo_srv :: "nat srv_env" where
  "demo_srv = ngap_env.extend demo_ngap (srv_env.fields (\<lambda>_ n. (Some 0, n)) (\<lambda>_ n. (True, n)) (\<lambda>_ n. (True, n))
     (\<lambda>_ n. (True, n)) (\<lambda>_ n. (True, n)) [''192.0.2.9''] (\<lambda>_ n. (True, n)) (\<lambda>n. (True, n)) (\<lambda>n. (True, n)) (\<lambda>n. (True, n))
     (\<lambda>_ n. (True, n)) (\<lambda>_ n. (True, n)) (\<lambda>n. (True, n)) (\<lambda>_ b. Some b) (\<lambda>_ _ _ n. (True, n)) (\<lambda>n. (True, n)) (\<lambda>_ n. (True, n)))"

definition demo_up :: "nat up_env" where
  "demo_up = \<lparr>up_gtp = demo_lib, up_WriteTo = (\<lambda>_ _ n. (True, n)), up_WriteToGTP = (\<lambda>_ _ _ n. (True, n)),
     up_GreWriteTo = (\<lambda>_ _ _ n. (True, n))\<rparr>"

lemmas demo_defs = demo_srv_def demo_ngap_def demo_env_def ngap_env.defs srv_env.defs ike_env.defs

text \<open>The AMF of the set-up response, at the first free address.\<close>

lemma demo_setup:
  "NGAPDispatch demo_srv 0 [1] w =
     upd_amf (Some (fst (NewN3iwfAmf ''192.0.2.9'' 0 w))) (\<lambda>m. m\<lparr>amf_AMFName := Some ''AMF'',
        amf_ServedGUAMIList := Some [], amf_PLMNSupportList := Some []\<rparr>) (snd (NewN3iwfAmf ''192.0.2.9'' 0 w))"
  by (simp add: NGAPDispatch_def demo_defs demo_setup_response_def new_pdu_def new_ie_def HandleNGSetupResponse_def
      ies_of_def missing_ies_def has_def as_defs last_ie_def split: prod.split)

end
