(* ===== verification/Ike_Frames.thy ===== *)
theory Ike_Frames
  imports Frames
begin

text \<open>
  The writes of the IKE server. The locale lists every kind of write its handlers make, with what
  the code guarantees of it (an SA keeps its local SPI, a child SA its inbound SPI, an inner address
  is given to a live UE context); a predicate that survives them survives every packet and every
  event the IKE server takes, whichever way the handler ends; the phase of an SA is written by four
  handlers only, which the second locale adds. Two such predicates: the well-formedness of the
  context, and the state of the NGAP side being what it was.
\<close>

lemma deref_state_bind:
  assumes "Q w" "\<And>a v. p = Some a \<Longrightarrow> sel w a = Some v \<Longrightarrow> Q (snd (f v w))"
  shows "Q (snd (gbind (deref sel p w) f))"
  using assms by (cases p) (auto simp: deref_def split: option.split)

lemma gbind_last: "snd (gbind r (\<lambda>_ w. (Val a, w))) = snd r"
  by (cases r; cases "fst r") auto

locale ike_ops = world_pred P for P :: "'x world \<Rightarrow> bool" +
  fixes env :: "('x, 'm) ike_env_scheme"
  assumes P_ikesa: "(\<And>sa. isa_LocalSPI (f sa) = isa_LocalSPI sa) \<Longrightarrow> (\<And>sa. isa_State (f sa) = isa_State sa) \<Longrightarrow> P w
      \<Longrightarrow> P (snd (upd_ikesa p f w))"
    and P_ikeue: "(\<And>ue. iu_N3IWFIKESecurityAssociation (g ue) = iu_N3IWFIKESecurityAssociation ue)
      \<Longrightarrow> (\<And>ue. iu_N3IWFChildSecurityAssociation (g ue) = iu_N3IWFChildSecurityAssociation ue)
      \<Longrightarrow> (\<And>ue. iu_TemporaryExchangeMsgIDChildSAMapping (g ue) = iu_TemporaryExchangeMsgIDChildSAMapping ue)
      \<Longrightarrow> P w \<Longrightarrow> P (snd (upd_ikeue p g w))"
    and P_childsa: "(\<And>c. csa_InboundSPI (h c) = csa_InboundSPI c) \<Longrightarrow> P w \<Longrightarrow> P (snd (upd_childsa p h w))"
    and P_tmp: "P w \<Longrightarrow> P (snd (upd_tmp p k w))"
    and P_half: "P w \<Longrightarrow> P (snd (CreateHalfChildSA u m spi i w))"
    and P_complete: "P w \<Longrightarrow> P (snd (CompleteChildSA env u m spi sa w))"
    and P_delete_child: "P w \<Longrightarrow> P (snd (DeleteChildSA env u c w))"
    and P_xfrmi: "P w \<Longrightarrow> P (w\<lparr>XfrmIfaces := x\<rparr>)" "P w \<Longrightarrow> P (w\<lparr>XfrmIfaceIdOffsetForUP := n\<rparr>)"
    and P_remove: "P w \<Longrightarrow> P (snd (IkeUe_Remove env u w))"
    and P_new_sa: "P w \<Longrightarrow> P (snd (NewIKESecurityAssociation env w))"
    and P_delete_sa: "P w \<Longrightarrow> P (DeleteIKESecurityAssociation lspi w)"
    and P_new_ue: "P w \<Longrightarrow> P (snd (NewN3iwfIkeUe lspi w))"
    and P_bind_sa: "P w \<Longrightarrow> ikesas w s \<noteq> None \<Longrightarrow> P (snd (upd_ikeue p
      (\<lambda>ue. ue\<lparr>iu_N3IWFIKESecurityAssociation := Some s, iu_IKEConnection := con\<rparr>) w))"
    and P_mapping: "P w \<Longrightarrow> P (IkeSpiNgapIdMapping lspi ngapId w)"
    and P_address: "P w \<Longrightarrow> ikeues w u \<noteq> None \<Longrightarrow> NewIPsecInnerUEIP env u w = Some (r, w') \<Longrightarrow> P w'"
begin

section \<open>IKE_SA_INIT\<close>

lemma init_reply: "P w \<Longrightarrow> P (snd (init_reply env c a b msg ch g nd ln s sa keys w))"
  unfolding init_reply_def Let_def by (intro steps send P_ikesa) simp_all

lemma init_respond: "P w \<Longrightarrow> P (snd (init_respond env c a b msg rm ch kd g nd ln un nn s w))"
  unfolding init_respond_def Let_def by (intro steps init_reply P_ikesa) simp_all

lemma unless_kept: "P (snd r) \<Longrightarrow> P (snd (delete_unless_kept s r))"
  by (cases r; cases "fst r") (auto simp: delete_unless_kept_def P_delete_sa Let_def split: option.split)

lemma sa_init: "P w \<Longrightarrow> P (snd (HandleIKESAINIT env c a b msg rm w))"
  unfolding HandleIKESAINIT_def Let_def
  by (intro steps notify P_new_sa unless_kept init_respond)

section \<open>IKE_AUTH\<close>

lemma eap_id: "P w \<Longrightarrow> P (snd (new_identifier env s w))"
  unfolding new_identifier_def
  by (intro bind deref_pred)
    (auto split: option.split dest!: draw_identifier_spec intro!: bind P_ikesa P_ext)

lemma xfrm: "P w \<Longrightarrow> P (snd (ApplyXFRMRule env i x c w))"
  unfolding ApplyXFRMRule_def Let_def by (intro steps P_childsa) simp_all

lemma parsed_ip: "P w \<Longrightarrow> P (snd (parseIPAddressInformationToChildSecurityAssociation env c a l r w))"
  unfolding parseIPAddressInformationToChildSecurityAssociation_def by (intro steps P_childsa) simp_all

lemma child_key: "P w \<Longrightarrow> P (snd (child_keys env c k n w))"
  unfolding child_keys_def by (intro steps P_childsa) simp_all

lemma nat_child: "P w \<Longrightarrow> P (snd (child_nat b c i j w))"
  unfolding child_nat_def by (intro steps P_childsa) simp_all

lemmas child_ops = steps send child_spi ngap_evt xfrm parsed_ip child_key nat_child eap_id notify
  P_ikesa P_ikeue P_childsa P_tmp P_half P_complete

lemma auth_eap: "P w \<Longrightarrow> P (snd (auth_eap env c a b m s w))"
  unfolding auth_eap_def Let_def
  by (intro bind deref_pred opt) (auto split: eap_type_data.split intro!: child_ops)

lemma auth_child: "P w \<Longrightarrow> P (snd (auth_child env a b s u i r w))"
  unfolding auth_child_def Let_def by (intro child_ops) simp_all

lemma address:
  assumes "P w" "ikeues w u \<noteq> None" shows "P (snd (assign_inner_ip env u w))"
proof (cases "NewIPsecInnerUEIP env u w")
  case (Some r)
  then have "P (snd r)" using P_address [OF assms] by (cases r) simp
  then show ?thesis
    using Some unfolding assign_inner_ip_def Let_def by (simp, intro steps P_ikeue) simp_all
qed (simp add: assign_inner_ip_def assms)

section \<open>The other exchanges\<close>

lemma create_child: "P w \<Longrightarrow> P (snd (HandleCREATECHILDSA env c a b m sa w))"
  unfolding HandleCREATECHILDSA_def Let_def by (intro child_ops) simp_all

lemma delete_list: "P w \<Longrightarrow> P (snd (deleteChildSAFromSPIList env u l spis ids w))"
  by (induction l arbitrary: spis ids w) (auto intro!: steps P_delete_child split: option.split)

lemma delete_payload: "P w \<Longrightarrow> P (snd (handleDeletePayload env d r sa w))"
  unfolding handleDeletePayload_def Let_def by (intro steps ngap_evt P_remove delete_list)

lemma informational: "P w \<Longrightarrow> P (snd (HandleInformational env c a b m sa w))"
  unfolding HandleInformational_def by (intro steps send_info delete_payload P_ikesa) simp_all

lemma check_message: "P w \<Longrightarrow> P (snd (checkIKEMessage env msg c a b w))"
  unfolding checkIKEMessage_def by (intro steps reject)

section \<open>Events\<close>

lemma failed: "P w \<Longrightarrow> P (snd (failed_err t e w))"
  unfolding failed_err_def by (rule P_tmp)

lemma pdu_child: "P w \<Longrightarrow> P (snd (pdu_child_body env u t i w))"
  unfolding pdu_child_body_def Let_def by (intro child_ops failed) simp_all

lemma pdu_children:
  assumes "pdu_child_loop env u t i w = Some r" "P w" shows "P (snd r)"
proof -
  have "P w \<longrightarrow> P (snd r)"
  proof (induction rule: pdu_child_loop.raw_induct [where P = "\<lambda>e u t i w r. e = env \<longrightarrow> P w \<longrightarrow> P (snd r)", THEN mp, OF _ assms(1)])
    case (1 loop e u t i w r)
    have body: "e = env \<Longrightarrow> P w \<Longrightarrow> P (snd (pdu_child_body e u t i w))" using pdu_child by simp
    show ?case
    proof (cases "pdu_child_body e u t i w")
      case (Pair res w')
      with 1(1) [of e u t i w' r] 1(2) body show ?thesis by (cases res) (auto split: if_splits)
    qed
  qed simp
  with assms show ?thesis by simp
qed

lemma pdu_run: "P w \<Longrightarrow> P (snd (case pdu_child_loop env u t i w of None \<Rightarrow> (Crash NoReturn, w) | Some r \<Rightarrow> r))"
  by (auto split: option.split dest: pdu_children)

lemma pdu_create: "P w \<Longrightarrow> P (snd (CreatePDUSessionChildSA env u t w))"
  unfolding CreatePDUSessionChildSA_def by (intro pdu_run handle bind deref_pred opt result)

lemma own_iface: "P w \<Longrightarrow> P (snd (SetupIPsecXfrmi env n p i a w))"
  unfolding SetupIPsecXfrmi_def by (intro steps pair) (auto intro!: steps P_ext split: option.split)

lemma child_iface: "P w \<Longrightarrow> P (snd (child_xfrmi env c n w))"
  unfolding child_xfrmi_def Let_def by (intro steps own_iface P_childsa P_xfrmi) simp_all

lemma continue_child: "P w \<Longrightarrow> P (snd (continueCreateChildSA env s t w))"
  unfolding continueCreateChildSA_def Let_def
  by (intro child_ops child_iface failed pdu_create) simp_all

lemma dpd:
  assumes "P w"
  shows "P (snd (StartDPD env u w))" "P (snd (StartDPD_tick env a w))" "P (snd (dpd_timer_tick n s w))"
  using assms unfolding StartDPD_def StartDPD_tick_def dpd_timer_tick_def StartDPD_cancel_def
  by (intro steps send_info ngap_evt P_ikesa; simp add: dpd_tick_def Let_def)+

lemma respond: "P w \<Longrightarrow> P (snd (auth_response env s l w))"
  unfolding auth_response_def by (intro steps send)

lemma released: "P w \<Longrightarrow> P (snd (release_child env u i c spis w))"
  unfolding release_child_def by (intro steps P_delete_child)

lemma released_sessions: "P w \<Longrightarrow> P (snd (release_sessions env u l spis w))"
  by (induction l arbitrary: spis w) (auto intro!: bind released)

lemma released_list: "P w \<Longrightarrow> P (snd (release_list env u l spis w))"
  by (induction l arbitrary: spis w) (auto intro!: bind released_sessions)

lemma delete_children: "P w \<Longrightarrow> P (snd (SendChildSADeleteRequest env u l w))"
  unfolding SendChildSADeleteRequest_def by (intro steps send_info released_list)

lemma new_ue:
  assumes "P w" shows "P (snd (HandleUnmarshalEAP5GDataResponse spi i nas w))"
proof -
  obtain u w1 where n: "NewN3iwfIkeUe spi w = (u, w1)" by fastforce
  with P_new_ue [OF assms, of spi] have "P w1" by simp
  then show ?thesis
    unfolding HandleUnmarshalEAP5GDataResponse_def Let_def n prod.case
    by (intro gbind_state [where P = P] P_ikesa)
      (auto elim!: deref_Val intro!: gbind_state [where P = P] P_bind_sa P_mapping ngap_evt conn)
qed

lemma other_message: "im_ExchangeType m \<noteq> IKE_AUTH \<Longrightarrow> P w \<Longrightarrow> P (snd (Dispatch env c a b m msg sa w))"
  unfolding Dispatch_def by (simp only: if_False) (intro steps sa_init create_child informational)

lemma other_event:
  assumes "P w" "\<And>spi k l. e \<noteq> SendEAPSuccessMsgEvt spi k l" "\<And>spi ns cs. e \<noteq> GetNGAPContextRepEvt spi ns cs"
  shows "P (snd (HandleEvent env e w))"
  using assms unfolding HandleEvent_def HandleSendEAP5GFailureMsg_def HandleSendEAPNASMsg_def
    HandleCreatePDUSession_def HandleIKEDeleteEvt_def removeIkeUe_def HandleSendChildSADeleteRequest_def
    HandleIKEContextUpdate_def Let_def
  by (cases e; simp only: IkeEvt.case simp_thms; intro steps new_ue eap_id respond delete_req delete_children
      pdu_create continue_child dpd P_remove P_ikesa P_ikeue; simp add: P_ext)

end

section \<open>The phases of an SA\<close>

lemma HandleEvent_moves:
  "HandleEvent env (SendEAPSuccessMsgEvt spi k l) w = HandleSendEAPSuccessMsg env spi k l w"
  "HandleEvent env (GetNGAPContextRepEvt spi ns cs) w = HandleGetNGAPContextResponse env spi ns cs w"
  by (simp_all add: HandleEvent_def)

text \<open>
  The four handlers that move an SA to its next phase; a predicate that survives that too survives
  every packet and every event.
\<close>

locale ike_pred = ike_ops P env for P :: "'x world \<Rightarrow> bool" and env :: "('x, 'm) ike_env_scheme" +
  assumes P_phase: "P w \<Longrightarrow> P (snd (upd_ikesa p (\<lambda>sa. sa\<lparr>isa_State := isa_State sa + 1\<rparr>) w))"
begin

lemma auth_start: "P w \<Longrightarrow> P (snd (auth_start env c a b m s k w))"
  unfolding auth_start_def Let_def by (intro P_phase child_ops) simp_all

lemma auth_pre: "P w \<Longrightarrow> P (snd (auth_pre env c a b m s w))"
  unfolding auth_pre_def Let_def by (intro P_phase child_ops auth_start) simp_all

lemma auth_accept:
  assumes "P w" "ikeues w u \<noteq> None" shows "P (snd (auth_accept env c a b m s u l w))"
  using assms unfolding auth_accept_def Let_def
  by (intro ite result bind address) (assumption+, (intro P_phase child_ops auth_child; simp)+)

lemma auth_post:
  assumes "P w" shows "P (snd (auth_post env c a b m s w))"
  unfolding auth_post_def
  by (rule bind [OF deref_pred [OF assms]], rule bind [OF sakey], assumption, rule deref_state_bind [where Q = P], assumption)
    (intro opt ite notify auth_accept; simp)

lemma auth: "P w \<Longrightarrow> P (snd (HandleIKEAUTH env c a b m sa w))"
  unfolding HandleIKEAUTH_def Let_def by (intro steps auth_pre auth_eap auth_post P_ikesa) simp_all

lemma dispatch: "P w \<Longrightarrow> P (snd (Dispatch env c a b m msg sa w))"
  unfolding Dispatch_def by (intro steps sa_init auth create_child informational)

lemma packet: "P w \<Longrightarrow> P (snd (serve_packet env msg c a b w))"
  unfolding serve_packet_def by (intro steps check_message dispatch)

lemma success: "P w \<Longrightarrow> P (snd (HandleSendEAPSuccessMsg env spi k l w))"
  unfolding HandleSendEAPSuccessMsg_def by (intro steps eap_id respond P_phase P_ikeue; simp)

lemma context_reply: "P w \<Longrightarrow> P (snd (HandleGetNGAPContextResponse env spi ns cs w))"
  unfolding HandleGetNGAPContextResponse_def Let_def by (intro steps pdu_create continue_child dpd P_phase)

lemma event: "P w \<Longrightarrow> P (snd (HandleEvent env e w))"
  by (cases "\<exists>spi k l. e = SendEAPSuccessMsgEvt spi k l"; cases "\<exists>spi ns cs. e = GetNGAPContextRepEvt spi ns cs")
    (auto intro: other_event simp: HandleEvent_moves success context_reply)

end

section \<open>The invariant and the NGAP side\<close>

lemma ctx_wf_field:
  assumes "ctx_wf w"
  shows "ctx_wf (w\<lparr>ngap_evts := es\<rparr>)" "ctx_wf (w\<lparr>ike_evts := fs\<rparr>)" "ctx_wf (w\<lparr>timers := ts\<rparr>)"
    "ctx_wf (w\<lparr>XfrmIfaces := x\<rparr>)" "ctx_wf (w\<lparr>XfrmIfaceIdOffsetForUP := n\<rparr>)"
    "ctx_wf (w\<lparr>AMFReInitAvailableList := r\<rparr>)"
  by (rule ctx_wf_pools [OF assms];
      use assms in \<open>auto simp: same_stores_def ctx_wf_def pools_ok_def\<close>)+

lemma upd_ikeue_plain_wf:
  assumes "\<And>ue. iu_N3IWFIKESecurityAssociation (g ue) = iu_N3IWFIKESecurityAssociation ue"
    "\<And>ue. iu_N3IWFChildSecurityAssociation (g ue) = iu_N3IWFChildSecurityAssociation ue"
    "\<And>ue. iu_TemporaryExchangeMsgIDChildSAMapping (g ue) = iu_TemporaryExchangeMsgIDChildSAMapping ue"
    and "ctx_wf w"
  shows "ctx_wf (snd (upd_ikeue p g w))"
  by (rule upd_ikeue_wf [OF assms(4)]) (simp add: ikeue_ok_def assms)

interpretation ike_wf: ike_pred ctx_wf env for env
proof
  fix w :: "'x world" and s p con assume "ctx_wf w" "ikesas w s \<noteq> None"
  then show "ctx_wf (snd (upd_ikeue p
      (\<lambda>ue. ue\<lparr>iu_N3IWFIKESecurityAssociation := Some s, iu_IKEConnection := con\<rparr>) w))"
    by (intro upd_ikeue_wf) (auto simp: ikeue_ok_def)
qed (simp_all add: ctx_wf_ext ctx_wf_field upd_plain_wf upd_ikeue_plain_wf CreateHalfChildSA_wf CompleteChildSA_wf
    DeleteChildSA_wf IkeUe_Remove_wf NewIKESecurityAssociation_wf NewN3iwfIkeUe_wf pool_ops_wf NewIPsecInnerUEIP_wf)

text \<open>What belongs to the NGAP side: its UEs, sessions, AMFs, TEIDs, timers.\<close>

definition ran_side where
  "ran_side w = (ranues w, sessions w, amfs w, RANUePool w, AMFPool w, AllocatedUETEID w,
     AMFReInitAvailableList w, timers w)"

lemma ran_side_upd:
  "ran_side (snd (upd_ikesa p f w)) = ran_side w" "ran_side (snd (upd_ikeue p g w)) = ran_side w"
  "ran_side (snd (upd_childsa p h w)) = ran_side w" "ran_side (snd (upd_tmp p k w)) = ran_side w"
  by (cases p; auto simp: ran_side_def upd_defs modify_def deref_def split: option.split)+

lemma ran_side_field [simp]:
  "ran_side (w\<lparr>ext := e\<rparr>) = ran_side w" "ran_side (w\<lparr>ngap_evts := es\<rparr>) = ran_side w"
  "ran_side (w\<lparr>ike_evts := fs\<rparr>) = ran_side w"
  "ran_side (w\<lparr>XfrmIfaces := x\<rparr>) = ran_side w" "ran_side (w\<lparr>XfrmIfaceIdOffsetForUP := n\<rparr>) = ran_side w"
  "ran_side (w\<lparr>childsas := c\<rparr>) = ran_side w" "ran_side (w\<lparr>ikeues := u\<rparr>) = ran_side w"
  "ran_side (w\<lparr>ikesas := s\<rparr>) = ran_side w" "ran_side (w\<lparr>next_addr := a\<rparr>) = ran_side w"
  "ran_side (w\<lparr>ChildSA := cp\<rparr>) = ran_side w" "ran_side (w\<lparr>AllocatedUEIPAddress := ap\<rparr>) = ran_side w"
  "ran_side (w\<lparr>IKESA := sp\<rparr>) = ran_side w" "ran_side (w\<lparr>IKEUePool := ip\<rparr>) = ran_side w"
  "ran_side (w\<lparr>IKESPIToNGAPId := m\<rparr>) = ran_side w" "ran_side (w\<lparr>NGAPIdToIKESPI := m'\<rparr>) = ran_side w"
  by (simp_all add: ran_side_def)

interpretation ran_child: child_pred "\<lambda>w. ran_side w = R" for R
  by unfold_locales simp_all

lemma ran_side_delete_child: "ran_side w = R \<Longrightarrow> ran_side (snd (DeleteChildSA env u c w)) = R"
  unfolding DeleteChildSA_def DeleteChildSAXfrm_def
  by (intro ran_child.steps ran_child.loop ran_child.childsa ran_child.ikeue) simp_all

lemma ran_side_remove: "ran_side w = R \<Longrightarrow> ran_side (snd (IkeUe_Remove env u w)) = R"
  unfolding IkeUe_Remove_def Let_def
  by (intro ran_child.steps ran_child.loop ran_side_delete_child)
    (simp_all add: ran_side_upd DeleteInternalUEIPAddr_def DeleteIKESecurityAssociation_def DeleteIKEUe_def
      DeleteNgapIdFromIkeSPI_def)

lemma ran_side_new_sa: "ran_side (snd (NewIKESecurityAssociation env w)) = ran_side w"
  by (auto simp: NewIKESecurityAssociation_def Let_def dest!: draw_spi_spec split: option.splits)

lemma ran_side_address:
  "NewIPsecInnerUEIP env u w = Some (r, w') \<Longrightarrow> ran_side w' = ran_side w"
  by (auto dest!: inner_ip_spec split: gores.splits)

interpretation ran_frame: ike_pred "\<lambda>w. ran_side w = R" env for R env
  by unfold_locales
    (simp_all add: ran_side_upd ran_side_delete_child ran_side_remove ran_side_new_sa ran_side_address
      ran_child.half_child ran_child.complete_child NewN3iwfIkeUe_def Let_def DeleteIKESecurityAssociation_def
      IkeSpiNgapIdMapping_def)

end
