(* ===== verification/Ngap_Frames.thy ===== *)
theory Ngap_Frames
  imports Ngap_Events Ike_Frames
begin

text \<open>
  The writes of the NGAP server, as \<open>Ike_Frames\<close> lists those of the IKE server: a predicate that
  survives them survives every message of the AMF, every event and every timer the NGAP server
  handles. The code's guarantees are in the assumptions: a UE context keeps its identifier and its
  temporary data, a PDU session its identifier, a TEID is given to a live UE context, the AMF of a
  UE is a live one.
\<close>

section \<open>Sessions keep their identifiers\<close>

lemma apply_security_id [simp]: "ps_Id (fst (apply_security sec s)) = ps_Id s"
  by (auto simp: apply_security_def Let_def split: option.split prod.split)

lemma setup_qos_flows_id [simp]: "ps_Id (fst (setup_qos_flows fs s)) = ps_Id s"
  by (induction fs s rule: setup_qos_flows.induct) (auto simp: Let_def)

lemma modify_flows_id: "ps_Id (snd (modify_flows fs s ok failed)) = ps_Id s"
  by (induction fs s ok failed rule: modify_flows.induct) (auto split: option.split)

lemma release_flows_id: "ps_Id (snd (release_flows fs s)) = ps_Id s"
proof (induction fs s rule: release_flows.induct)
  case (2 qfi cause flows s)
  then show ?case by (cases "printAndGetCause (Some cause)") (auto split: option.split)
qed simp

lemma modify_session_id: "ps_Id (snd (modify_session env t s)) = ps_Id s"
  unfolding modify_session_def Let_def
  by (auto intro!: gbind_state [where P = "\<lambda>s'. ps_Id s' = ps_Id s"] simp: release_flows_id modify_flows_id
      split: prod.split)

lemma upd_session_Val:
  "upd_session (Some s) f w = (Val r, w') \<Longrightarrow> \<exists>v. sessions w s = Some v \<and> sessions w' s = Some (f v)"
  by (auto simp: upd_session_def modify_def deref_def split: option.splits)

lemma upd_session_ranues [simp]: "ranues (snd (upd_session p f w)) = ranues w"
  by (cases p) (auto simp: upd_session_def modify_def deref_def split: option.split)

lemma NewTEID_ranues [simp]: "ranues (snd (NewTEID env u w)) = ranues w"
  by (auto simp: NewTEID_def Let_def split: prod.split option.split)

lemma CreatePDUSession_live:
  "CreatePDUSession u i n w = (Val s, w') \<Longrightarrow> ranues w' u \<noteq> None"
  by (auto simp: CreatePDUSession_def upd_ranue_def modify_def deref_def Let_def split: option.splits if_splits)

lemma AMFSelection_live: "amf_range env g p w d as = Val (Some a) \<Longrightarrow> (\<And>b. d = Some b \<Longrightarrow> amfs w b \<noteq> None)
    \<Longrightarrow> amfs w a \<noteq> None"
proof (induction as arbitrary: d)
  case (Cons b as)
  show ?case
  proof (cases "amfs w b")
    case (Some m)
    with Cons show ?thesis
      by (cases "FindAvalibleAMFByCompareGUAMI env m g"; cases "FindAvalibleAMFByCompareSelectedPLMNId m p")
        (auto simp: Let_def split: if_splits)
  qed (use Cons in simp)
qed simp

lemma tnl_keys [simp]:
  "amf_SCTPAddr (tnl_add env m i) = amf_SCTPAddr m" "amf_N3iwfRanUeList (tnl_add env m i) = amf_N3iwfRanUeList m"
  "amf_SCTPAddr (tnl_update env m i) = amf_SCTPAddr m" "amf_N3iwfRanUeList (tnl_update env m i) = amf_N3iwfRanUeList m"
  "amf_SCTPAddr (DeleteAMFTNLAssociationItem env b m) = amf_SCTPAddr m"
  "amf_N3iwfRanUeList (DeleteAMFTNLAssociationItem env b m) = amf_N3iwfRanUeList m"
  by (auto simp: tnl_add_def tnl_update_def AddAMFTNLAssociationItem_def DeleteAMFTNLAssociationItem_def Let_def
      split: prod.split option.split)

lemma foldl_keys: "(\<And>m i. k (f m i) = k m) \<Longrightarrow> k (foldl f m l) = k m"
  by (induction l arbitrary: m) simp_all

lemmas fold_amf_keys = foldl_keys [where k = amf_SCTPAddr] foldl_keys [where k = amf_N3iwfRanUeList]

section \<open>The locale\<close>

locale ngap_pred = world_pred P for P :: "'x world \<Rightarrow> bool" +
  fixes env :: "('x, 'm) ngap_env_scheme"
  assumes P_fields: "P w \<Longrightarrow> P (w\<lparr>ike_evts := es\<rparr>)" "P w \<Longrightarrow> P (w\<lparr>timers := ts\<rparr>)"
      "P w \<Longrightarrow> P (w\<lparr>AMFReInitAvailableList := l\<rparr>)"
    and P_tmp: "P w \<Longrightarrow> P (snd (upd_tmp p k w))"
    and P_session: "(\<And>s v. p = Some s \<Longrightarrow> sessions w s = Some v \<Longrightarrow> ps_Id (f v) = ps_Id v) \<Longrightarrow> P w
      \<Longrightarrow> P (snd (upd_session p f w))"
    and P_amf: "(\<And>m. amf_SCTPAddr (g m) = amf_SCTPAddr m) \<Longrightarrow> (\<And>m. amf_N3iwfRanUeList (g m) = amf_N3iwfRanUeList m)
      \<Longrightarrow> P w \<Longrightarrow> P (snd (upd_amf p g w))"
    and P_ranue: "(\<And>ue. ru_RanUeNgapId (h ue) = ru_RanUeNgapId ue)
      \<Longrightarrow> (\<And>ue. ru_PduSessionList (h ue) = ru_PduSessionList ue)
      \<Longrightarrow> (\<And>ue. ru_TemporaryPDUSessionSetupData (h ue) = ru_TemporaryPDUSessionSetupData ue)
      \<Longrightarrow> (\<And>ue. ru_AMF (h ue) = ru_AMF ue) \<Longrightarrow> P w \<Longrightarrow> P (snd (upd_ranue p h w))"
    and P_attach: "P w \<Longrightarrow> amfs w a \<noteq> None \<Longrightarrow> P (snd (upd_ranue p (\<lambda>ue. ue\<lparr>ru_AMF := Some a\<rparr>) w))"
    and P_ids: "P w \<Longrightarrow> RanUePoolLoad i w = Some u
      \<Longrightarrow> P (snd (upd_ranue (Some u) (\<lambda>ue. ue\<lparr>ru_AmfUeNgapId := j, ru_RanUeNgapId := i\<rparr>) w))"
    and P_drop: "P w \<Longrightarrow> P (snd (upd_ranue p (\<lambda>ue. ue\<lparr>ru_PduSessionList := gm_delete i (ru_PduSessionList ue)\<rparr>) w))"
    and P_create: "P w \<Longrightarrow> P (snd (CreatePDUSession u i sn w))"
    and P_new_ranue: "P w \<Longrightarrow> P (snd (NewN3iwfRanUe env w))"
    and P_new_amf: "P w \<Longrightarrow> P (snd (NewN3iwfAmf s c w))"
    and P_teid: "P w \<Longrightarrow> ranues w u \<noteq> None \<Longrightarrow> P (snd (NewTEID env u w))"
    and P_remove: "P w \<Longrightarrow> P (snd (RanUe_Remove env u w))"
begin

section \<open>Sending\<close>

lemma sctp: "P w \<Longrightarrow> P (sctp_write env c b w)"
  by (simp add: sctp_write_def P_ext)

lemma ike_evt: "P w \<Longrightarrow> P (SendIkeEvt e w)"
  by (simp add: SendIkeEvt_def P_fields)

lemma reinit: "P w \<Longrightarrow> P (AMFReInitAvailableListStore s b w)"
  by (simp add: AMFReInitAvailableListStore_def P_fields)

lemma to_amf: "P w \<Longrightarrow> P (snd (SendToAmf env a b w))"
  unfolding SendToAmf_def by (intro steps sctp)

lemma gor: "(\<And>a. P (snd (f a))) \<Longrightarrow> (\<And>e. P (snd (g e))) \<Longrightarrow> (\<And>p. P (snd (h p)))
    \<Longrightarrow> P (snd (case r of Val a \<Rightarrow> f a | Err e \<Rightarrow> g e | Crash p \<Rightarrow> h p))"
  by (simp split: gores.split)

lemma built: "P w \<Longrightarrow> P (snd (send_built env a r w))"
  unfolding send_built_def by (intro steps gor to_amf)

lemma to_ue: "P w \<Longrightarrow> P (snd (send_ue env u b w))"
  unfolding send_ue_def by (intro steps built)

lemma setup_request: "P w \<Longrightarrow> P (snd (SendNGSetupRequest env c w))"
  unfolding SendNGSetupRequest_def by (intro steps gor sctp)

lemma error_conn: "P w \<Longrightarrow> P (snd (SendErrorIndicationWithSctpConn env c i j e d w))"
  unfolding SendErrorIndicationWithSctpConn_def by (intro steps gor sctp)

lemma ran_update: "P w \<Longrightarrow> P (snd (SendRANConfigurationUpdate env a w))"
  unfolding SendRANConfigurationUpdate_def by (intro steps built)

lemma sends:
  assumes "P w"
  shows "P (snd (SendNGResetAcknowledge env a l d w))" "P (snd (SendInitialContextSetupResponse env u r f d w))"
    "P (snd (SendInitialContextSetupFailure env u ca f d w))" "P (snd (SendUEContextModificationResponse env u d w))"
    "P (snd (SendUEContextReleaseComplete env u d w))" "P (snd (SendUEContextReleaseRequest env u ca w))"
    "P (snd (SendInitialUEMessage env a u nas w))" "P (snd (SendUplinkNASTransport env u nas w))"
    "P (snd (SendPDUSessionResourceSetupResponse env u r f d w))"
    "P (snd (SendPDUSessionResourceModifyResponse env u r f d w))"
    "P (snd (SendPDUSessionResourceReleaseResponse env u rl d w))" "P (snd (SendErrorIndication env a i j oc d w))"
    "P (snd (SendAMFConfigurationUpdateAcknowledge env a sl fl d w))"
  unfolding SendNGResetAcknowledge_def SendInitialContextSetupResponse_def SendInitialContextSetupFailure_def
    SendUEContextModificationResponse_def SendUEContextReleaseComplete_def SendUEContextReleaseRequest_def
    SendInitialUEMessage_def SendUplinkNASTransport_def SendPDUSessionResourceSetupResponse_def
    SendPDUSessionResourceModifyResponse_def SendPDUSessionResourceReleaseResponse_def SendErrorIndication_def
    SendAMFConfigurationUpdateAcknowledge_def
  by (intro steps built to_ue assms)+

lemma cause: "P w \<Longrightarrow> P (snd (print_cause c w))"
  unfolding print_cause_def by (intro steps)

lemma opt_cause: "P w \<Longrightarrow> P (snd (print_opt_cause c w))"
  unfolding print_opt_cause_def by (intro steps cause)

lemma tcp: "P w \<Longrightarrow> P (snd (tcp_write env c b w))"
  unfolding tcp_write_def by (auto simp: P_ext split: option.split prod.split)

lemmas ngap_steps = steps sends cause opt_cause tcp ike_evt reinit

section \<open>Set-up, reset and release\<close>

lemma setup_response: "P w \<Longrightarrow> P (snd (HandleNGSetupResponse env s c pdu w))"
proof -
  assume "P w"
  obtain a w1 where n: "NewN3iwfAmf s c w = (a, w1)" by fastforce
  with P_new_amf [OF \<open>P w\<close>, of s c] have "P w1" by simp
  then show ?thesis
    unfolding HandleNGSetupResponse_def Let_def n prod.case
    using \<open>P w\<close> by (intro opt ite result error_conn P_amf) simp_all
qed

lemma setup_failure: "P w \<Longrightarrow> P (snd (HandleNGSetupFailure env s c pdu w))"
  unfolding HandleNGSetupFailure_def Let_def by (intro ngap_steps error_conn P_fields)

lemma reset_items: "P w \<Longrightarrow> P (snd (reset_loop env a u items w))"
proof (induction items arbitrary: u w)
  case (Cons item items)
  then show ?case by (cases item) (auto intro!: steps P_remove split: option.split)
qed simp

lemma remove_all: "P w \<Longrightarrow> P (snd (RemoveAllRelatedUe env a w))"
  unfolding RemoveAllRelatedUe_def by (intro steps loop P_remove)

lemma reset: "P w \<Longrightarrow> P (snd (HandleNGReset env a pdu w))"
  unfolding HandleNGReset_def Let_def
  by (auto intro!: ngap_steps reset_items remove_all split: option.split ResetType.split)

lemma release_both: "P w \<Longrightarrow> P (snd (releaseIkeUeAndRanUe env u w))"
  unfolding releaseIkeUeAndRanUe_def Let_def by (intro steps P_remove) (auto intro: ike_evt split: option.split)

section \<open>Sessions\<close>

lemma write_session:
  assumes "P w" "ranues w u \<noteq> None" "\<And>v. sessions w s = Some v \<Longrightarrow> ps_Id (f v) = ps_Id v"
    and "\<And>w' v. P w' \<Longrightarrow> ranues w' u \<noteq> None \<Longrightarrow> sessions w s = Some v \<Longrightarrow> sessions w' s = Some (f v) \<Longrightarrow> P (snd (k () w'))"
  shows "P (snd (gbind (upd_session (Some s) f w) k))"
proof (cases "sessions w s")
  case (Some v)
  let ?w = "w\<lparr>sessions := (sessions w)(s \<mapsto> f v)\<rparr>"
  have w: "upd_session (Some s) f w = (Val (), ?w)" using Some by (simp add: upd_session_def)
  have "P (snd (upd_session (Some s) f w))" by (rule P_session) (use assms in auto)
  with assms(2) Some show ?thesis unfolding w by (auto intro: assms(4))
qed (use assms(1) in \<open>simp add: upd_session_def\<close>)

lemma tunnel:
  assumes "P w" "ranues w u \<noteq> None" shows "P (snd (setup_tunnel env u s t w))"
proof -
  obtain i w1 where n: "NewTEID env u w = (i, w1)" by fastforce
  with P_teid [OF assms] have "P w1" by (metis snd_conv)
  with assms show ?thesis
    unfolding setup_tunnel_def Let_def n prod.case
    by (auto split: option.split intro!: steps P_session)
qed

lemma flows:
  assumes "P w" "ranues w u \<noteq> None" "sessions w s = Some ps"
  shows "P (snd (case setup_qos_flows fs ps of (ps, inrange) \<Rightarrow>
    gbind (upd_session (Some s) (\<lambda>_. ps) w) (\<lambda>_ w.
      if \<not> inrange then (Val (False, []), w) else setup_tunnel env u s t w)))"
  using assms setup_qos_flows_id [of fs ps]
  by (cases "setup_qos_flows fs ps") (auto intro!: write_session tunnel)

lemma transfer:
  assumes "P w" "ranues w u \<noteq> None"
  shows "P (snd (handlePDUSessionResourceSetupRequestTransfer env u s t w))"
  unfolding handlePDUSessionResourceSetupRequestTransfer_def Let_def
proof (intro ite result assms(1), rule write_session [OF assms])
  fix w assume w: "P w" "ranues w u \<noteq> None"
  let ?sec = "last_setup (\<lambda>ie. case ie of SessionSecurity v \<Rightarrow> Some v | _ \<Rightarrow> None) t"
  show "P (snd (gbind (deref sessions (Some s) w) (\<lambda>ps w. case apply_security ?sec ps of (ps, secured) \<Rightarrow>
        gbind (upd_session (Some s) (\<lambda>_. ps) w) (\<lambda>_ w.
        if \<not> secured then
          (Val (False, fst (BuildPDUSessionResourceSetupUnsuccessfulTransfer env
             (BuildCause CausePresentProtocol SemanticError) None)), w)
        else
          case last_setup (\<lambda>ie. case ie of SessionQosFlows v \<Rightarrow> Some v | _ \<Rightarrow> None) t of None \<Rightarrow> (Crash NilPointer, w)
          | Some fs \<Rightarrow>
              (case setup_qos_flows fs ps of (ps, inrange) \<Rightarrow>
                 gbind (upd_session (Some s) (\<lambda>_. ps) w) (\<lambda>_ w.
                   if \<not> inrange then (Val (False, []), w)
                   else setup_tunnel env u s (last_setup (\<lambda>ie. case ie of ULTunnel v \<Rightarrow> Some v | _ \<Rightarrow> None) t) w))))))"
  proof (rule deref_state_bind [where Q = P], fact w(1))
    fix a v assume "Some s = Some a" "sessions w a = Some v"
    with w apply_security_id [of ?sec v] show "P (snd (case apply_security ?sec v of (ps, secured) \<Rightarrow>
        gbind (upd_session (Some s) (\<lambda>_. ps) w) (\<lambda>_ w.
        if \<not> secured then
          (Val (False, fst (BuildPDUSessionResourceSetupUnsuccessfulTransfer env
             (BuildCause CausePresentProtocol SemanticError) None)), w)
        else
          case last_setup (\<lambda>ie. case ie of SessionQosFlows v \<Rightarrow> Some v | _ \<Rightarrow> None) t of None \<Rightarrow> (Crash NilPointer, w)
          | Some fs \<Rightarrow>
              (case setup_qos_flows fs ps of (ps, inrange) \<Rightarrow>
                 gbind (upd_session (Some s) (\<lambda>_. ps) w) (\<lambda>_ w.
                   if \<not> inrange then (Val (False, []), w)
                   else setup_tunnel env u s (last_setup (\<lambda>ie. case ie of ULTunnel v \<Rightarrow> Some v | _ \<Rightarrow> None) t) w)))))"
      by (cases "apply_security ?sec v") (auto intro!: write_session opt flows)
  qed
qed simp

lemma item:
  assumes "P w" shows "P (snd (setup_item env u t add i w))"
proof -
  let ?c = "CreatePDUSession u (sri_PDUSessionID i) (sri_SNSSAI i) w"
  obtain r w1 where c: "?c = (r, w1)" by fastforce
  with P_create [OF assms] have w1: "P w1" by (metis snd_conv)
  show ?thesis
  proof (cases r)
    case (Val s)
    with c have "ranues w1 u \<noteq> None" using CreatePDUSession_live by blast
    with c Val w1 show ?thesis
      unfolding setup_item_def Let_def
      by (simp, intro bind transfer pair_fn) (auto intro!: ite bind P_tmp P_drop simp: DeletePDUSession_def)
  qed (use c w1 in \<open>auto simp: setup_item_def Let_def P_tmp\<close>)
qed

lemma found: "P w \<Longrightarrow> P (snd (find_ue a r w))"
  unfolding find_ue_def by (auto split: option.split intro!: steps)

lemma found_in_pool: "find_ue a r w = (Val (Some u), w') \<Longrightarrow> r \<noteq> None \<and> RanUePoolLoad (the r) w' = Some u \<and> w' = w"
  unfolding find_ue_def by (cases a; cases r) (auto simp: deref_def split: option.splits if_splits)

lemma context_sessions: "P w \<Longrightarrow> P (snd (icsr_sessions env u b l w))"
  unfolding icsr_sessions_def Let_def by (intro ngap_steps loop item P_tmp P_ranue) simp_all

lemma context_setup:
  assumes "P w" shows "P (snd (HandleInitialContextSetupRequest env a pdu w))"
proof (cases "ies_of InitiatingMessage InitialContextSetupRequest pdu")
  case (Some ies)
  let ?j = "last_ie as_Int IdAMFUENGAPID ies" and ?i = "last_ie as_Int IdRANUENGAPID ies"
  obtain r w1 where f: "find_ue ?j ?i w = (r, w1)" by fastforce
  have "P w1" using found [OF assms, of ?j ?i] f by simp
  then have ids: "r = Val (Some u) \<Longrightarrow> P (snd (upd_ranue (Some u)
      (\<lambda>ue. ue\<lparr>ru_AmfUeNgapId := the ?j, ru_RanUeNgapId := the ?i\<rparr>) w1))" for u
    using found_in_pool [of ?j ?i w u w1] f by (intro P_ids) auto
  show ?thesis
    unfolding HandleInitialContextSetupRequest_def Some option.case Let_def f
    using \<open>P w1\<close> assms
    by (cases r)
      (auto split: option.split intro!: handle bind ids ngap_steps context_sessions P_ranue)
qed (use assms in \<open>simp add: HandleInitialContextSetupRequest_def\<close>)

lemma context_modify: "P w \<Longrightarrow> P (snd (HandleUEContextModificationRequest env a pdu w))"
  unfolding HandleUEContextModificationRequest_def by (intro ngap_steps found P_ranue) simp_all

lemma find_by_amf: "P w \<Longrightarrow> P (snd (released_ue a ids w))"
  unfolding released_ue_def by (auto split: option.split UENGAPIDs.split intro!: steps)

lemma release: "P w \<Longrightarrow> P (snd (HandleUEContextReleaseCommand env a pdu w))"
  unfolding HandleUEContextReleaseCommand_def
  by (intro ngap_steps find_by_amf release_both P_ranue) simp_all

lemma to_ue_nas: "P w \<Longrightarrow> P (snd (downlink_nas env u nas w))"
  unfolding downlink_nas_def by (intro ngap_steps P_ranue) simp_all

lemma downlink: "P w \<Longrightarrow> P (snd (HandleDownlinkNASTransport env a pdu w))"
  unfolding HandleDownlinkNASTransport_def Let_def by (intro ngap_steps to_ue_nas P_ranue) simp_all

lemma forward: "P w \<Longrightarrow> P (snd (forward_nas env u nas w))"
  unfolding forward_nas_def by (intro ngap_steps)

lemma start: "P w \<Longrightarrow> P (snd (start_sessions u t acc w))"
  unfolding start_sessions_def Let_def by (intro ngap_steps P_ranue) simp_all

lemma session_setup: "P w \<Longrightarrow> P (snd (HandlePDUSessionResourceSetupRequest env a pdu w))"
  unfolding HandlePDUSessionResourceSetupRequest_def Let_def
  by (intro ngap_steps found forward start loop item P_tmp)

section \<open>The other procedures\<close>

lemma modify_transfer: "P w \<Longrightarrow> P (snd (handlePDUSessionResourceModifyRequestTransfer env s t w))"
  unfolding handlePDUSessionResourceModifyRequestTransfer_def
proof (rule deref_state_bind [where Q = P])
  fix a v assume "P w" and v: "Some s = Some a" "sessions w a = Some v"
  obtain r ps where m: "modify_session env t v = (r, ps)" by fastforce
  with modify_session_id [of env t v] have "ps_Id ps = ps_Id v" by simp
  with v \<open>P w\<close> show "P (snd (case modify_session env t v of (r, ps') \<Rightarrow>
      gbind (upd_session (Some s) (\<lambda>_. ps') w) (\<lambda>_ w. (r, w))))"
    unfolding m prod.case by (intro bind P_session result) auto
qed

lemma modify_items: "P w \<Longrightarrow> P (snd (modify_loop env u items ok failed w))"
proof (induction items arbitrary: ok failed w)
  case (Cons i items)
  then show ?case
    by (cases i) (auto split: option.split prod.split intro!: tries bind modify_transfer)
qed simp

lemma session_modify: "P w \<Longrightarrow> P (snd (HandlePDUSessionResourceModifyRequest env a pdu w))"
  unfolding HandlePDUSessionResourceModifyRequest_def Let_def by (intro ngap_steps found modify_items)

lemma confirm: "P w \<Longrightarrow> P (snd (HandlePDUSessionResourceModifyConfirm env a pdu w))"
  unfolding HandlePDUSessionResourceModifyConfirm_def confirm_ue_def confirm_item_def confirm_failed_item_def
  by (intro ngap_steps loop P_session P_drop) simp_all

lemma session_release: "P w \<Longrightarrow> P (snd (HandlePDUSessionResourceReleaseCommand env a pdu w))"
  unfolding HandlePDUSessionResourceReleaseCommand_def release_command_def release_item_def Let_def
  by (intro ngap_steps loop P_ranue P_drop) simp_all

lemma error_indication: "P w \<Longrightarrow> P (snd (HandleErrorIndication env a pdu w))"
  unfolding HandleErrorIndication_def Let_def by (intro ngap_steps release_both)

lemma capability: "P w \<Longrightarrow> P (snd (HandleUERadioCapabilityCheckRequest env a pdu w))"
  unfolding HandleUERadioCapabilityCheckRequest_def Let_def by (intro ngap_steps P_ranue) simp_all

lemma ran_failure: "P w \<Longrightarrow> P (snd (HandleRANConfigurationUpdateFailure env a pdu w))"
  unfolding HandleRANConfigurationUpdateFailure_def Let_def by (intro ngap_steps ran_update P_fields)

lemma timer: "P w \<Longrightarrow> P (snd (fire_timer env t w))"
  unfolding fire_timer_def by (cases t) (auto intro!: steps setup_request ran_update reinit)

lemma overload: "P w \<Longrightarrow> P (snd (HandleOverloadStart a pdu w))" "P w \<Longrightarrow> P (snd (HandleOverloadStop a pdu w))"
  unfolding HandleOverloadStart_def HandleOverloadStop_def
  by (intro steps P_amf; simp add: StartOverload_def StopOverload_def Let_def)+

lemma amf_update: "P w \<Longrightarrow> P (snd (HandleAMFConfigurationUpdate env a pdu w))"
  unfolding HandleAMFConfigurationUpdate_def Let_def
  by (intro ngap_steps P_amf) (simp_all add: fold_amf_keys)

lemma ngap_message:
  assumes "P w" shows "P (snd (NGAPDispatch env c b w))"
proof -
  have "P (snd (dispatch_initiating env a code pdu w))" for a code pdu
    unfolding dispatch_initiating_def
    by (cases code; simp add: assms reset context_setup context_modify release downlink session_setup session_modify
        session_release error_indication capability amf_update overload)
  with assms show ?thesis
    unfolding NGAPDispatch_def Let_def HandleNGResetAcknowledge_def HandleRANConfigurationUpdateAcknowledge_def
    by (auto split: option.split pdu_kind.split ProcedureCode.split intro: setup_response setup_failure confirm ran_failure)
qed

section \<open>Events\<close>

lemma ue: "P w \<Longrightarrow> (\<And>u. P (snd (f u w))) \<Longrightarrow> P (snd (with_ue i f w))"
  unfolding with_ue_def by (intro opt result)

lemma attach:
  assumes "P w" "AMFSelection env g p w = Val (Some a)"
  shows "P (snd (upd_ranue (fst (NewN3iwfRanUe env w)) (\<lambda>ue. ue\<lparr>ru_AMF := Some a\<rparr>) (snd (NewN3iwfRanUe env w))))"
proof (rule P_attach [OF P_new_ranue [OF assms(1)]])
  have "amfs w a \<noteq> None" using assms(2) AMFSelection_live unfolding AMFSelection_def by blast
  then show "amfs (snd (NewN3iwfRanUe env w)) a \<noteq> None"
    by (auto simp: NewN3iwfRanUe_def Let_def split: prod.split option.split)
qed

lemma selected:
  assumes "P w" "AMFSelection env g p w = Val (Some a)"
    and "\<And>n w. P w \<Longrightarrow> P (snd (k n w))"
  shows "P (snd (case NewN3iwfRanUe env w of (n, w) \<Rightarrow>
    gbind (upd_ranue n (\<lambda>ue. ue\<lparr>ru_AMF := Some a\<rparr>) w) (\<lambda>_ w. k n w)))"
  using attach [OF assms(1,2)] by (auto split: prod.split intro!: bind assms(3))

lemma eap5g:
  assumes "P w" shows "P (snd (HandleUnmarshalEAP5GData env spi d initial i w))"
proof -
  have sel: "P (snd (gbind (AMFSelection env g p w, w) (\<lambda>selectedAMF w.
      if selectedAMF = None then (Val (), SendIkeEvt (SendEAP5GFailureMsgEvt spi ErrAMFSelection) w)
      else case NewN3iwfRanUe env w of (n, w) \<Rightarrow>
        gbind (upd_ranue n (\<lambda>ue. ue\<lparr>ru_AMF := selectedAMF\<rparr>) w) (\<lambda>_ w. k n w))))"
    if "\<And>n w. P w \<Longrightarrow> P (snd (k n w))" for g p k
    using assms selected [OF assms _ that] by (cases "AMFSelection env g p w") (auto intro: ike_evt)
  show ?thesis
    unfolding HandleUnmarshalEAP5GData_def
    by (intro sel opt gor pair ite ue ngap_steps P_ranue assms) simp_all
qed

lemma append: "P w \<Longrightarrow> P (snd (append_to t sel put i w))"
  unfolding append_to_def by (intro steps P_tmp)

lemma response_items: "P w \<Longrightarrow> P (snd (response_loop env t n ss w))"
proof (induction ss arbitrary: n w)
  case (Cons s ss)
  have "P (snd (response_item env t n s w))"
    unfolding response_item_def Let_def by (intro steps append Cons.prems)
  with Cons.IH show ?case by (auto intro!: bind)
qed simp

lemma ngap_event: "P w \<Longrightarrow> P (snd (NGAP_HandleEvent env e w))"
  unfolding NGAP_HandleEvent_def HandleSendInitialUEMessage_def HandleSendPDUSessionResourceSetupResponse_def
    HandleSendNASMsg_def HandleStartTCPSignalNASMsg_def HandleNASTCPConnEstablishedComplete_def
    HandleSendUEContextReleaseRequest_def HandleSendUEContextReleaseComplete_def HandleSendPDUSessionResourceReleaseRes_def
    HandleSendUplinkNASTransport_def HandleSendInitialContextSetupResponse_def HandleSendSendUEContextRelease_def
    HandleSendSendPDUSessionResourceRelease_def HandleGetNGAPContext_def DeletePDUSession_def Let_def
  by (cases e; simp only: NgapEvt.case; intro ue eap5g ngap_steps response_items loop P_remove P_drop P_ranue; simp)

end

section \<open>The invariant and the IKE side\<close>

lemma upd_ranue_plain_wf:
  assumes "\<And>ue. ru_RanUeNgapId (h ue) = ru_RanUeNgapId ue" "\<And>ue. ru_PduSessionList (h ue) = ru_PduSessionList ue"
    "\<And>ue. ru_TemporaryPDUSessionSetupData (h ue) = ru_TemporaryPDUSessionSetupData ue"
    "\<And>ue. ru_AMF (h ue) = ru_AMF ue" and "ctx_wf w"
  shows "ctx_wf (snd (upd_ranue p h w))"
  by (rule upd_ranue_wf [OF assms(5)]) (simp_all add: ranue_ok_def assms)

lemma upd_amf_plain_wf:
  assumes "\<And>m. amf_SCTPAddr (g m) = amf_SCTPAddr m" "\<And>m. amf_N3iwfRanUeList (g m) = amf_N3iwfRanUeList m"
    and "ctx_wf w"
  shows "ctx_wf (snd (upd_amf p g w))"
  by (rule upd_amf_wf [OF assms(3)]) (simp_all add: amf_ok_def assms)

lemma upd_session_at_wf:
  assumes "\<And>s v. p = Some s \<Longrightarrow> sessions w s = Some v \<Longrightarrow> ps_Id (f v) = ps_Id v" and wf: "ctx_wf w"
  shows "ctx_wf (snd (upd_session p f w))"
proof (cases "\<exists>s v. p = Some s \<and> sessions w s = Some v")
  case True
  then obtain s v where v: "p = Some s" "sessions w s = Some v" by blast
  have "ctx_wf (snd (upd_session p (\<lambda>x. (f v)\<lparr>ps_Id := ps_Id x\<rparr>) w))"
    by (rule upd_plain_wf(3) [OF wf]) simp
  moreover have "(f v)\<lparr>ps_Id := ps_Id v\<rparr> = f v" using assms(1) [OF v] by simp
  ultimately show ?thesis using v by (simp add: upd_session_def)
next
  case False
  with wf show ?thesis by (cases p) (auto simp: upd_session_def modify_def deref_def split: option.split)
qed

lemma upd_ids_wf:
  assumes wf: "ctx_wf w" and u: "RanUePoolLoad i w = Some u"
  shows "ctx_wf (snd (upd_ranue (Some u) (\<lambda>ue. ue\<lparr>ru_AmfUeNgapId := j, ru_RanUeNgapId := i\<rparr>) w))"
proof -
  obtain v where v: "ranues w u = Some v" "ru_RanUeNgapId v = i"
    using wf u by (auto simp: ctx_wf_def pools_ok_def filed_def RanUePoolLoad_def)
  have "ctx_wf (snd (upd_ranue (Some u) (\<lambda>ue. ue\<lparr>ru_AmfUeNgapId := j\<rparr>) w))"
    by (rule upd_ranue_plain_wf [OF _ _ _ _ wf]) simp_all
  with v show ?thesis by (auto simp: upd_ranue_def)
qed

interpretation ngap_wf: ngap_pred ctx_wf env for env
proof
  fix w :: "'x world" and a p assume "ctx_wf w" "amfs w a \<noteq> None"
  then show "ctx_wf (snd (upd_ranue p (\<lambda>ue. ue\<lparr>ru_AMF := Some a\<rparr>) w))"
    by (intro upd_ranue_wf) (auto simp: ranue_ok_def)
next
  fix w :: "'x world" and p i assume "ctx_wf w"
  then show "ctx_wf (snd (upd_ranue p (\<lambda>ue. ue\<lparr>ru_PduSessionList := gm_delete i (ru_PduSessionList ue)\<rparr>) w))"
    by (intro upd_ranue_wf) (auto simp: ranue_ok_def intro: wf_intros)
next
  fix p w and f :: "PDUSession \<Rightarrow> PDUSession" assume "\<And>s v. p = Some s \<Longrightarrow> sessions w s = Some v \<Longrightarrow> ps_Id (f v) = ps_Id v" "ctx_wf w"
  then show "ctx_wf (snd (upd_session p f w))" by (rule upd_session_at_wf)
qed (simp_all add: ctx_wf_ext ctx_wf_field upd_plain_wf upd_amf_plain_wf upd_ranue_plain_wf upd_ids_wf CreatePDUSession_wf
    NewN3iwfRanUe_wf NewN3iwfAmf_wf NewTEID_wf RanUe_Remove_wf)

text \<open>What belongs to the IKE side: its SAs, child SAs, UEs, inner addresses and interfaces.\<close>

definition ike_side where
  "ike_side w = (IKESA w, ikesas w, childsas w, ChildSA w, ikeues w, IKEUePool w, AllocatedUEIPAddress w,
     XfrmIfaces w, XfrmIfaceIdOffsetForUP w, IKESPIToNGAPId w)"

lemma ike_side_upd:
  "ike_side (snd (upd_ranue p f w)) = ike_side w" "ike_side (snd (upd_session p g w)) = ike_side w"
  "ike_side (snd (upd_amf p h w)) = ike_side w" "ike_side (snd (upd_tmp p k w)) = ike_side w"
  by (cases p; auto simp: ike_side_def upd_defs modify_def deref_def split: option.split)+

lemma ike_side_field [simp]:
  "ike_side (w\<lparr>ext := e\<rparr>) = ike_side w" "ike_side (w\<lparr>ngap_evts := es\<rparr>) = ike_side w"
  "ike_side (w\<lparr>ike_evts := fs\<rparr>) = ike_side w" "ike_side (w\<lparr>timers := ts\<rparr>) = ike_side w"
  "ike_side (w\<lparr>AMFReInitAvailableList := l\<rparr>) = ike_side w" "ike_side (w\<lparr>ranues := r\<rparr>) = ike_side w"
  "ike_side (w\<lparr>tmps := t\<rparr>) = ike_side w" "ike_side (w\<lparr>sessions := s\<rparr>) = ike_side w"
  "ike_side (w\<lparr>amfs := m\<rparr>) = ike_side w" "ike_side (w\<lparr>next_addr := a\<rparr>) = ike_side w"
  "ike_side (w\<lparr>RANUePool := rp\<rparr>) = ike_side w" "ike_side (w\<lparr>AMFPool := ap\<rparr>) = ike_side w"
  "ike_side (w\<lparr>AllocatedUETEID := tp\<rparr>) = ike_side w" "ike_side (w\<lparr>NGAPIdToIKESPI := np\<rparr>) = ike_side w"
  by (simp_all add: ike_side_def)

interpretation ike_calls: world_pred "\<lambda>w. ike_side w = I" for I
  by unfold_locales simp_all

lemma ike_side_create: "ike_side w = I \<Longrightarrow> ike_side (snd (CreatePDUSession u i sn w)) = I"
  unfolding CreatePDUSession_def Let_def by (intro ike_calls.steps) (simp_all add: ike_side_upd)

lemma ike_side_removed: "ike_side w = I \<Longrightarrow> ike_side (snd (RanUe_Remove env u w)) = I"
  unfolding RanUe_Remove_def DetachAMF_def free_session_teid_def Let_def
  by (intro ike_calls.steps ike_calls.loop)
    (simp_all add: ike_side_upd DeleteTEID_def DeleteRanUe_def DeleteIkeSPIFromNgapId_def)

lemma ike_side_new:
  "ike_side (snd (NewN3iwfRanUe env w)) = ike_side w" "ike_side (snd (NewN3iwfAmf s c w)) = ike_side w"
  "ike_side (snd (NewTEID env u w)) = ike_side w"
  by (auto simp: NewN3iwfRanUe_def NewN3iwfAmf_def NewTEID_def gm_load_or_store_def Let_def split: prod.split option.split)

interpretation ike_frame: ngap_pred "\<lambda>w. ike_side w = I" env for I env
  by unfold_locales (simp_all add: ike_side_upd ike_side_create ike_side_new ike_side_removed)

end
