(* ===== verification/System.thy ===== *)
theory System
  imports Demo_Env Ngap_Frames
begin

text \<open>
  The whole N3IWF as one transition system: the IKE server, the NGAP server, the NAS listener, the
  user plane and the timers act on the shared context in any order. A predicate that survives the
  writes of the IKE server and those of the NGAP server survives every step of the system; the
  properties that follow are instances.
\<close>

section \<open>Steps\<close>

text \<open>
  One call of a goroutine: a datagram or an event in the IKE server, a packet or an event in the NGAP
  server, a timer that fires, dead peer detection, a NAS connection that is accepted, carries a
  message or ends, a user plane packet in either direction. A call that panics leaves the world it
  had reached.
\<close>

inductive n3iwf_step :: "('x, 'm) srv_env_scheme \<Rightarrow> ('x, 'n) up_env_scheme \<Rightarrow> 'x world \<Rightarrow> 'x world \<Rightarrow> bool" for env up where
  ike_packet: "n3iwf_step env up w (snd (serve_packet env msg conn localAddr remoteAddr w))"
| ike_event: "n3iwf_step env up w (snd (ike_take_event env w))"
| ngap_packet: "n3iwf_step env up w (snd (ngap_take_packet env conn buf w))"
| ngap_event: "n3iwf_step env up w (snd (ngap_take_event env w))"
| timer: "t \<in> set (timers w) \<Longrightarrow> n3iwf_step env up w (snd (fire_timer env t (w\<lparr>timers := remove1 t (timers w)\<rparr>)))"
| dpd_probe: "n3iwf_step env up w (snd (StartDPD_tick env u w))"
| dpd_retransmission: "n3iwf_step env up w (snd (dpd_timer_tick n s w))"
| nas_accept: "n3iwf_step env up w (snd (accept_nas tcp addr w))"
| nas_uplink: "n3iwf_step env up w (snd (forward_uplink env r nas w))"
| nas_end: "n3iwf_step env up w (snd (serveConn_ends env r tcp w))"
| user_uplink: "n3iwf_step env up w (snd (forwardUL up ip ifIndex raw w))"
| user_downlink: "n3iwf_step env up w (snd (handleQoSTPDU up tpdu w))"

text \<open>The worlds the program can reach after it has started.\<close>

definition n3iwf_reachable :: "('x, 'm) srv_env_scheme \<Rightarrow> ('x, 'n) up_env_scheme \<Rightarrow> 'x \<Rightarrow> 'x world \<Rightarrow> bool" where
  "n3iwf_reachable env up x w = (n3iwf_step env up)\<^sup>*\<^sup>* (snd (N3iwfApp_Run env (world_init x))) w"

text \<open>The NAS connections and the user plane write what the NGAP server writes.\<close>

context ngap_pred
begin

lemma accept: "P w \<Longrightarrow> P (snd (accept_nas c a w))"
  unfolding accept_nas_def
  by (intro opt result bind deref_pred gor P_ranue ngap_evt) simp_all

lemma conn_ends: "P w \<Longrightarrow> P (snd (serveConn_ends env r c w))"
  unfolding serveConn_ends_def ext_do_def
  by (intro result bind P_ext P_ranue) simp_all

lemma logged: "P w \<Longrightarrow> P (snd (logged_write f w))"
  by (simp add: logged_write_def P_ext)

lemma user_up: "P w \<Longrightarrow> P (snd (forwardUL up ip i raw w))"
proof -
  have "P (snd (ul_send up ps raw w))" if "P w" for ps w
    using that unfolding ul_send_def Let_def by (auto intro!: logged split: prod.split gores.split option.split)
  then show "P w \<Longrightarrow> ?thesis"
    unfolding forwardUL_def by (intro gor steps)
qed

lemma user_down: "P w \<Longrightarrow> P (snd (handleQoSTPDU up tpdu w))"
proof -
  have "P (snd (forwardDL up pkt w))" if "P w" for pkt w
    using that unfolding forwardDL_def by (intro gor steps logged)
  then show "P w \<Longrightarrow> ?thesis"
    unfolding handleQoSTPDU_def by (auto split: prod.split gores.split)
qed

lemma uplink_nas: "P w \<Longrightarrow> P (snd (forward_uplink env r nas w))"
  unfolding forward_uplink_def by (rule sends)

lemma taken_event: "P w \<Longrightarrow> P (snd (ngap_take_event env w))"
  unfolding ngap_take_event_def by (intro lst result ngap_event P_ngap_evts)

lemma taken_packet: "P w \<Longrightarrow> P (snd (ngap_take_packet env conn buf w))"
  unfolding ngap_take_packet_def by (intro ite result ngap_message)

lemmas server_steps = accept conn_ends user_up user_down uplink_nas taken_event taken_packet

end

locale system_pred = ike: ike_pred P env + ngap: ngap_pred P env
  for P :: "'x world \<Rightarrow> bool" and env :: "('x, 'm) srv_env_scheme"
begin

lemma system_step: "n3iwf_step env up w w' \<Longrightarrow> P w \<Longrightarrow> P w'"
proof (induction rule: n3iwf_step.induct)
  case (ike_event w)
  then show ?case unfolding ike_take_event_def by (intro ike.lst ike.result ike.event ngap.P_fields)
qed (auto intro: ike.packet ngap.timer ngap.P_fields ike.dpd ngap.server_steps)

lemma dialled: "P w \<Longrightarrow> P (snd (dial_amf env a n w))"
  by (induction n arbitrary: w) (auto simp: ike.P_ext split: prod.split option.split)

lemma started: "P w \<Longrightarrow> P (snd (N3iwfApp_Run env w))"
  unfolding N3iwfApp_Run_def initDefaultXfrmInterface_def Ngap_Run_def connect_amf_def sctp_param_def Nwucp_Run_def Nwuup_Run_def Ike_Run_def
    ext_do_def Let_def
  by (intro ike.steps ike.own_iface ike.loop dialled ngap.setup_request ike.P_ext ike.P_xfrmi)

lemma system_reachable:
  assumes "n3iwf_reachable env up x w" "P (world_init x)" shows "P w"
proof -
  have "(n3iwf_step env up)\<^sup>*\<^sup>* (snd (N3iwfApp_Run env (world_init x))) w" using assms(1) by (simp add: n3iwf_reachable_def)
  then show ?thesis
    by (induction rule: rtranclp_induct) (auto intro: started assms(2) system_step)
qed

end

section \<open>A run\<close>

text \<open>The program starts, sends the set-up request and takes the response of the AMF.\<close>

lemma dial_first: "s_DialSCTP env a (ext w) = (Some c, x) \<Longrightarrow> dial_amf env a 3 w = (Val c, w\<lparr>ext := x\<rparr>)"
  by (simp add: numeral_3_eq_3)

lemma demo_start:
  "N3iwfApp_Run demo_srv (world_init 0) = (Val (), (world_init 1)\<lparr>XfrmIfaceIdOffsetForUP := 1,
     XfrmIfaces := [(7, \<lparr>link_Name = ''xfrmi-default'', link_Index = 0\<rparr>)]\<rparr>)"
  by (simp add: N3iwfApp_Run_def initDefaultXfrmInterface_def SetupIPsecXfrmi_def Ngap_Run_def connect_amf_def sctp_param_def
      SendNGSetupRequest_def AMFReInitAvailableListLoad_def Nwucp_Run_def Nwuup_Run_def Ike_Run_def ext_call_def ext_do_def demo_defs world_init_def gm_load_or_store_def gm_store_def gm_load_def BuildNGSetupRequest_def PlmnIdToNgap_def index_at_def encode_pdu_def sctp_write_def dial_first)

definition demo_run :: "nat world" where
  "demo_run = snd (ngap_take_packet demo_srv 0 [1] (snd (N3iwfApp_Run demo_srv (world_init 0))))"

lemma demo_run_reachable: "n3iwf_reachable demo_srv demo_up 0 demo_run"
  unfolding n3iwf_reachable_def demo_run_def by (rule r_into_rtranclp) (rule ngap_packet)

lemma demo_run_amf: "AMFPool demo_run = [(''192.0.2.9'', 0)]" "amfs demo_run 0 \<noteq> None" "next_addr demo_run = 1"
  unfolding demo_run_def demo_start
  by (simp_all add: ngap_take_packet_def demo_setup NewN3iwfAmf_def Let_def upd_amf_def
      gm_load_or_store_def gm_load_def gm_store_def world_init_def)

section \<open>The invariant of the context\<close>

interpretation all_wf: system_pred ctx_wf env for env
  by (intro system_pred.intro ike_wf.ike_pred_axioms ngap_wf.ngap_pred_axioms)

text \<open>
  C2: Whatever packets, events, timers, NAS connections and user plane packets arrive and in
  whatever order the servers handle them, panics and errors included, every world the program reaches
  is well-formed: every pointer in a pool or in a UE context refers to a live object, every UE, SA,
  child SA, session and AMF is filed under its own identifier, and no object has an address that
  could be allocated again.
\<close>

theorem system_wf:
  assumes "n3iwf_reachable env up x w" shows "ctx_wf w"
  using assms world_init_wf by (rule all_wf.system_reachable)

theorem system_wf_witness: "ctx_wf demo_run \<and> AMFPoolLoad ''192.0.2.9'' demo_run = Some 0"
  using system_wf [OF demo_run_reachable] by (simp add: AMFPoolLoad_def demo_run_amf gm_load_def)

section \<open>The servers do not interfere\<close>

text \<open>
  C3: The two servers share the context but not their parts of it. Whatever the IKE server does with
  a datagram or an event, the RAN UEs, PDU sessions, AMFs, TEIDs and timers of the NGAP side are
  unchanged; whatever the NGAP server does with a packet, an event or a timer, the IKE SAs, child
  SAs, IKE UEs, inner addresses and interfaces are unchanged. They affect each other only through
  events, the temporary PDU session data and the map from NGAP identifiers to SPIs.
\<close>

theorem servers_separated:
  "ran_side (snd (serve_packet env msg conn localAddr remoteAddr w)) = ran_side w
   \<and> ran_side (snd (ike_take_event env w)) = ran_side w
   \<and> ike_side (snd (ngap_take_packet env conn buf w)) = ike_side w
   \<and> ike_side (snd (ngap_take_event env w)) = ike_side w
   \<and> ike_side (snd (fire_timer env t w)) = ike_side w"
proof (intro conjI)
  show "ran_side (snd (ike_take_event env w)) = ran_side w"
    unfolding ike_take_event_def by (intro ran_child.lst ran_child.result ran_frame.event) simp_all
qed (simp_all add: ran_frame.packet ike_frame.timer ike_frame.taken_event ike_frame.taken_packet)

end
