(* ===== verification/Heap_Typing.thy ===== *)
theory Heap_Typing
  imports System
begin

text \<open>
  The types of the program's objects. The model keeps one store per type of object and one supply of
  addresses; the program keeps one heap. The theory shows that the model is adequate in this, that its
  stores behave as that heap: in
  every reachable world an address holds an object of one type at most, and the type is fixed when
  the object is allocated.
\<close>

section \<open>Kinds of object\<close>

text \<open>The kinds of object, and the addresses that hold one.\<close>

datatype kind = KRanUe | KIkeUe | KIkeSA | KChildSA | KSession | KTmp | KAmf

definition holds :: "'x world \<Rightarrow> kind \<Rightarrow> addr set" where
  "holds w k = (case k of KRanUe \<Rightarrow> dom (ranues w) | KIkeUe \<Rightarrow> dom (ikeues w) | KIkeSA \<Rightarrow> dom (ikesas w)
     | KChildSA \<Rightarrow> dom (childsas w) | KSession \<Rightarrow> dom (sessions w) | KTmp \<Rightarrow> dom (tmps w) | KAmf \<Rightarrow> dom (amfs w))"

definition heap :: "'x world \<Rightarrow> (kind \<Rightarrow> addr set) \<times> addr" where
  "heap w = (holds w, next_addr w)"

text \<open>
  Addresses below the next free one hold at most one kind of object, and still hold what they held
  in \<open>H\<close>.
\<close>

definition typed_from :: "(kind \<Rightarrow> addr set) \<Rightarrow> (kind \<Rightarrow> addr set) \<times> addr \<Rightarrow> bool" where
  "typed_from H h = ((\<forall>k. \<forall>a \<in> fst h k. a < snd h) \<and> (\<forall>k l. k \<noteq> l \<longrightarrow> fst h k \<inter> fst h l = {})
     \<and> (\<forall>k. H k \<subseteq> fst h k))"

lemma typed_alloc:
  assumes "typed_from H (h, n)" shows "typed_from H (h(k := insert n (h k)), Suc n)"
proof -
  have "n \<notin> h l" for l using assms by (auto simp: typed_from_def)
  with assms show ?thesis by (auto simp: typed_from_def less_Suc_eq subset_iff disjoint_iff)
qed


section \<open>Writes\<close>

lemma heap_upd [simp]:
  "heap (snd (upd_ranue p f1 w)) = heap w" "heap (snd (upd_ikeue p f2 w)) = heap w" "heap (snd (upd_ikesa p f3 w)) = heap w"
  "heap (snd (upd_childsa p f4 w)) = heap w" "heap (snd (upd_session p f5 w)) = heap w"
  "heap (snd (upd_tmp p f6 w)) = heap w" "heap (snd (upd_amf p f7 w)) = heap w"
  by (cases p; auto simp: heap_def holds_def upd_defs modify_def deref_def fun_eq_iff insert_absorb domI
      split: option.split kind.split)+

lemma heap_field [simp]:
  "heap (w\<lparr>ext := e\<rparr>) = heap w" "heap (w\<lparr>ngap_evts := es\<rparr>) = heap w" "heap (w\<lparr>ike_evts := fs\<rparr>) = heap w"
  "heap (w\<lparr>timers := ts\<rparr>) = heap w" "heap (w\<lparr>XfrmIfaces := x\<rparr>) = heap w" "heap (w\<lparr>XfrmIfaceIdOffsetForUP := n\<rparr>) = heap w"
  "heap (w\<lparr>AMFReInitAvailableList := l\<rparr>) = heap w" "heap (w\<lparr>RANUePool := rp\<rparr>) = heap w" "heap (w\<lparr>AMFPool := ap\<rparr>) = heap w"
  "heap (w\<lparr>AllocatedUETEID := tp\<rparr>) = heap w" "heap (w\<lparr>NGAPIdToIKESPI := np\<rparr>) = heap w"
  "heap (w\<lparr>IKESPIToNGAPId := ip\<rparr>) = heap w" "heap (w\<lparr>IKEUePool := up\<rparr>) = heap w" "heap (w\<lparr>IKESA := sp\<rparr>) = heap w"
  "heap (w\<lparr>ChildSA := cp\<rparr>) = heap w" "heap (w\<lparr>AllocatedUEIPAddress := aip\<rparr>) = heap w"
  by (simp_all add: heap_def holds_def fun_eq_iff split: kind.split)

interpretation heap_calls: world_pred "\<lambda>w. heap w = h" for h
  by unfold_locales simp_all

lemma heap_pools [simp]:
  "heap (DeleteTEID env t w) = heap w" "heap (DeleteRanUe i w) = heap w" "heap (DeleteIkeSPIFromNgapId i w) = heap w"
  "heap (DeleteInternalUEIPAddr ip w) = heap w" "heap (DeleteIKESecurityAssociation spi w) = heap w"
  "heap (DeleteIKEUe spi w) = heap w" "heap (DeleteNgapIdFromIkeSPI spi w) = heap w"
  "heap (IkeSpiNgapIdMapping spi i w) = heap w"
  by (simp_all add: DeleteTEID_def DeleteRanUe_def DeleteIkeSPIFromNgapId_def DeleteInternalUEIPAddr_def
      DeleteIKESecurityAssociation_def DeleteIKEUe_def DeleteNgapIdFromIkeSPI_def IkeSpiNgapIdMapping_def)

lemma heap_delete_child: "heap w = h \<Longrightarrow> heap (snd (DeleteChildSA env u c w)) = h"
  unfolding DeleteChildSA_def DeleteChildSAXfrm_def by (intro heap_calls.steps heap_calls.loop) simp_all

lemma heap_removes:
  assumes "heap w = h"
  shows "heap (snd (IkeUe_Remove env u w)) = h" "heap (snd (RanUe_Remove env u w)) = h"
  using assms unfolding IkeUe_Remove_def RanUe_Remove_def DetachAMF_def free_session_teid_def Let_def
  by (intro heap_calls.steps heap_calls.loop heap_delete_child; simp)+

section \<open>Allocation\<close>

definition alloc :: "kind \<Rightarrow> (kind \<Rightarrow> addr set) \<times> addr \<Rightarrow> (kind \<Rightarrow> addr set) \<times> addr" where
  "alloc k h = ((fst h)(k := insert (snd h) (fst h k)), Suc (snd h))"

lemma typed_allocs: "typed_from H h \<Longrightarrow> typed_from H (alloc k h)"
  by (cases h) (simp add: alloc_def typed_alloc)

lemma heap_alloc:
  "heap (w\<lparr>ikeues := (ikeues w)(next_addr w \<mapsto> v1), next_addr := Suc (next_addr w)\<rparr>) = alloc KIkeUe (heap w)"
  "heap (w\<lparr>ikesas := (ikesas w)(next_addr w \<mapsto> v2), next_addr := Suc (next_addr w)\<rparr>) = alloc KIkeSA (heap w)"
  "heap (w\<lparr>childsas := (childsas w)(next_addr w \<mapsto> v3), next_addr := Suc (next_addr w)\<rparr>) = alloc KChildSA (heap w)"
  "heap (w\<lparr>sessions := (sessions w)(next_addr w \<mapsto> v4), next_addr := Suc (next_addr w)\<rparr>) = alloc KSession (heap w)"
  "heap (w\<lparr>amfs := (amfs w)(next_addr w \<mapsto> v5), next_addr := Suc (next_addr w)\<rparr>) = alloc KAmf (heap w)"
  "heap (w\<lparr>ranues := (ranues w)(next_addr w \<mapsto> v6), tmps := (tmps w)(Suc (next_addr w) \<mapsto> v7),
      next_addr := Suc (Suc (next_addr w))\<rparr>) = alloc KTmp (alloc KRanUe (heap w))"
  by (auto simp: heap_def alloc_def holds_def fun_eq_iff split: kind.split)

lemma heap_create:
  "heap (snd (CreateHalfChildSA u m spi i w)) = alloc KChildSA (heap w)"
  "heap (snd (NewN3iwfIkeUe spi64 w)) = alloc KIkeUe (heap w)"
  "heap (snd (NewN3iwfAmf s c w)) = alloc KAmf (heap w)"
  by (simp_all add: CreateHalfChildSA_def NewN3iwfIkeUe_def NewN3iwfAmf_def Let_def heap_alloc gm_load_or_store_def
      split: option.split)

lemma heap_new_ranue:
  "heap (snd (NewN3iwfRanUe env w)) \<in> {heap w, alloc KTmp (alloc KRanUe (heap w))}"
  by (auto simp: NewN3iwfRanUe_def Let_def heap_def alloc_def holds_def fun_eq_iff
      split: prod.split option.split kind.split)

lemma heap_new_session:
  "heap (snd (CreatePDUSession u i sn w)) \<in> {heap w, alloc KSession (heap w)}"
proof (cases "ranues w u")
  case (Some ue)
  then have "heap (snd (upd_ranue (Some u) f v)) = heap v" for f and v :: "'a world" by simp
  with Some show ?thesis by (simp add: CreatePDUSession_def Let_def gbind_last heap_alloc)
qed (simp add: CreatePDUSession_def)

lemma heap_new_sa:
  "heap (snd (NewIKESecurityAssociation env w)) = alloc KIkeSA (heap w)"
proof -
  let ?w = "w\<lparr>ikesas := (ikesas w)(next_addr w \<mapsto> IKESecurityAssociation_new), next_addr := Suc (next_addr w)\<rparr>"
  have h: "heap ?w = alloc KIkeSA (heap w)" by (rule heap_alloc)
  have s: "heap (v\<lparr>ikesas := (ikesas v)(next_addr w \<mapsto> sa)\<rparr>) = heap v" if "ikesas v (next_addr w) \<noteq> None" for v :: "'a world" and sa
    using that by (auto simp: heap_def holds_def fun_eq_iff insert_absorb domI split: kind.split)
  show ?thesis
  proof (cases "draw_spi env (next_addr w) ?w")
    case (Some r)
    obtain o' w2 where r: "r = (o', w2)" by (cases r)
    note d = draw_spi_spec [OF Some [unfolded r]]
    show ?thesis
    proof (cases o')
      case (Some spi)
      with d obtain x where x: "w2 = ?w\<lparr>ext := x, IKESA := gm_store spi (next_addr w) (IKESA ?w)\<rparr>" by auto
      then have "heap w2 = alloc KIkeSA (heap w)" "ikesas w2 (next_addr w) \<noteq> None" using h by simp_all
      with Some \<open>draw_spi env (next_addr w) ?w = Some r\<close> r show ?thesis
        by (simp add: NewIKESecurityAssociation_def Let_def s)
    qed (use d h Some r in \<open>auto simp: NewIKESecurityAssociation_def Let_def\<close>)
  qed (use h in \<open>simp add: NewIKESecurityAssociation_def Let_def\<close>)
qed

lemma heap_complete: "heap w = h \<Longrightarrow> heap (snd (CompleteChildSA env u m spi sa w)) = h"
  unfolding CompleteChildSA_def record_childsa_def by (intro heap_calls.steps) simp_all

lemma heap_addresses:
  "NewIPsecInnerUEIP env u w = Some (r, w') \<Longrightarrow> heap w' = heap w" "heap (snd (NewTEID env u w)) = heap w"
  by (auto dest!: inner_ip_spec simp: NewTEID_def Let_def split: gores.splits option.split prod.split)

section \<open>The whole program\<close>

lemma typed_grows:
  assumes "typed_from H (heap w)"
  shows "typed_from H (heap (snd (NewN3iwfRanUe env w)))" "typed_from H (heap (snd (CreatePDUSession u i sn w)))"
    "typed_from H (heap (snd (NewIKESecurityAssociation env' w)))" "typed_from H (heap (snd (NewN3iwfAmf s c w)))"
    "typed_from H (heap (snd (NewN3iwfIkeUe spi w)))" "typed_from H (heap (snd (CreateHalfChildSA v m spi32 j w)))"
  using heap_new_ranue [of env w] heap_new_session [of u i sn w] assms
  by (auto simp: heap_new_sa heap_create typed_allocs)

interpretation system_typed: system_pred "\<lambda>w. typed_from H (heap w)" env for H env
  by unfold_locales (simp_all add: typed_grows heap_removes heap_delete_child heap_complete heap_addresses)

text \<open>
  Adequacy of the model: its stores behave as one typed heap. In every world the program reaches, an
  address is that of an object of one type at most (a RAN UE, an IKE UE, an IKE SA, a child SA, a PDU
  session, temporary session data or an AMF) and is below the next free address; and whatever step
  comes next, each address keeps the type of its object: objects are never freed under a pointer and
  an address is never used again for an object of another type.
\<close>

lemma heap_typed:
  assumes "n3iwf_reachable env up x w" "(n3iwf_step env up)\<^sup>*\<^sup>* w w'"
  shows "(\<forall>k l. k \<noteq> l \<longrightarrow> holds w k \<inter> holds w l = {}) \<and> (\<forall>k. holds w k \<subseteq> {..< next_addr w} \<inter> holds w' k)"
proof -
  have "typed_from (\<lambda>_. {}) (heap w)"
    by (rule system_typed.system_reachable [OF assms(1)])
      (simp add: typed_from_def heap_def holds_def world_init_def split: kind.split)
  then have t: "typed_from (holds w) (heap w)" by (auto simp: typed_from_def heap_def)
  from assms(2) have "typed_from (holds w) (heap w')"
    by (induction rule: rtranclp_induct) (auto intro: t system_typed.system_step)
  with t show ?thesis by (fastforce simp: typed_from_def heap_def)
qed

end
