(* ===== verification/Ngap_Convert.thy ===== *)
theory Ngap_Convert
  imports Ngap_Build
begin

text \<open>
  The PLMN identity of a message (\<open>PlmnIdToNgap\<close> of \<open>src/internal/util/ngap_convert.go\<close>) against
  the reading of its receiver.
\<close>

unbundle bit_operations_syntax

text \<open>
  The receiver reads the digits of an octet from the low to the high nibble: the three digits of
  the MCC first, then a filler and two digits of the MNC or its three digits.
\<close>

definition nibble_char :: "byte \<Rightarrow> char" where
  "nibble_char x = char_of (48 + unat x)"

definition low_nibble :: "byte \<Rightarrow> byte" where "low_nibble b = b AND 0xF"

definition high_nibble :: "byte \<Rightarrow> byte" where "high_nibble b = drop_bit 4 b"

fun NgapToPlmnId :: "octets \<Rightarrow> PLMNID option" where
  "NgapToPlmnId [a, b, c] =
     Some \<lparr>Mcc = map nibble_char [low_nibble a, high_nibble a, low_nibble b],
           Mnc = map nibble_char (if high_nibble b = 0xF then [low_nibble c, high_nibble c] else [high_nibble b, low_nibble c, high_nibble c])\<rparr>"
| "NgapToPlmnId _ = None"

definition is_digit :: "char \<Rightarrow> bool" where
  "is_digit c = (48 \<le> (of_char c :: nat) \<and> (of_char c :: nat) \<le> 57)"

lemma small_bits:
  fixes x :: byte
  assumes "x < 16" shows "take_bit 4 x = x"
  using assms by (simp add: word_unat_eq_iff unsigned_take_bit_eq take_bit_nat_eq_self word_less_nat_alt)

lemma nibbles:
  fixes x y :: byte
  assumes "x < 16" "y < 16"
  shows "low_nibble (push_bit 4 x OR y) = y" "high_nibble (push_bit 4 x OR y) = x"
proof -
  have high_bits: "n < 4" if "bit z n" "z < 16" for z :: byte and n
    using small_bits [OF that(2)] that(1) by (metis bit_take_bit_iff)
  have m: "(0xF :: byte) = mask 4" by (simp add: mask_eq_exp_minus_1)
  show "low_nibble (push_bit 4 x OR y) = y"
    unfolding low_nibble_def m by (rule bit_word_eqI) (auto simp: bit_simps dest: high_bits [OF _ assms(2)])
  show "high_nibble (push_bit 4 x OR y) = x"
    unfolding high_nibble_def by (rule bit_word_eqI) (auto simp: bit_simps dest: high_bits [OF _ assms(2)] high_bits [OF _ assms(1)])
qed

lemma digit_hex:
  assumes "is_digit c" obtains x where "fromHexChar c = Some x" "x < 10" "nibble_char x = c"
proof -
  define k where "k = (of_char c :: nat) - 48"
  have k: "k < 10" "(of_char c :: nat) = 48 + k" using assms by (auto simp: is_digit_def k_def)
  have u: "unat (of_nat k :: byte) = k" using k by (simp add: unat_of_nat)
  have "c = char_of (48 + k)" using k(2) by (metis char_of_char)
  then show thesis
    using that [of "of_nat k"] k u by (simp add: fromHexChar_def word_less_nat_alt nibble_char_def)
qed

text \<open>
  C32: The PLMN of the configuration reaches the AMF unchanged: for every MCC of three digits and MNC
  of two or three digits \<open>PlmnIdToNgap\<close> returns three octets, without a panic, from which the
  receiver reads the same MCC and MNC, the two-digit MNC kept apart from the three-digit one.
\<close>

theorem PLMN_roundtrip:
  assumes "list_all is_digit (Mcc p)" "list_all is_digit (Mnc p)" "length (Mcc p) = 3" "length (Mnc p) \<in> {2, 3}"
  shows "\<exists>b. PlmnIdToNgap p = Val b \<and> length b = 3 \<and> NgapToPlmnId b = Some p"
proof -
  obtain a b c where mcc: "Mcc p = [a, b, c]" using assms(3) by (auto simp: length_Suc_conv numeral_3_eq_3)
  with assms(1) obtain x y z where h: "fromHexChar a = Some x" "fromHexChar b = Some y" "fromHexChar c = Some z"
    "x < 10" "y < 10" "z < 10" "nibble_char x = a" "nibble_char y = b" "nibble_char z = c"
    by (auto elim!: digit_hex)
  have f: "fromHexChar (CHR ''f'') = Some 0xF" by (simp add: fromHexChar_def)
  have less: "v < 16" "v \<noteq> 15" if "v < 10" for v :: byte
    using that by (auto simp: word_less_nat_alt)
  have filler: "low_nibble (240 OR v) = v" "high_nibble (240 OR v) = 15" if "v < 10" for v
    using nibbles [of 15 v] less(1) [OF that] by simp_all
  note n = nibbles [OF less(1) less(1)] filler
  show ?thesis
  proof (cases "length (Mnc p) = 2")
    case True
    then obtain d e where mnc: "Mnc p = [d, e]" by (auto simp: length_Suc_conv numeral_2_eq_2)
    with assms(2) obtain u v where "fromHexChar d = Some u" "fromHexChar e = Some v" "u < 10" "v < 10" "nibble_char u = d" "nibble_char v = e"
      by (auto elim!: digit_hex)
    with h f mcc mnc show ?thesis by (cases p) (simp add: PlmnIdToNgap_def n)
  next
    case False
    then obtain d e g where mnc: "Mnc p = [d, e, g]" using assms(4) by (auto simp: length_Suc_conv numeral_3_eq_3)
    with assms(2) obtain u v t where "fromHexChar d = Some u" "fromHexChar e = Some v" "fromHexChar g = Some t"
      "u < 10" "v < 10" "t < 10" "nibble_char u = d" "nibble_char v = e" "nibble_char t = g"
      by (auto elim!: digit_hex)
    with h mcc mnc show ?thesis by (cases p) (simp add: PlmnIdToNgap_def n less)
  qed
qed

theorem PLMN_roundtrip_witness:
  "\<exists>b. PlmnIdToNgap \<lparr>Mcc = ''208'', Mnc = ''93''\<rparr> = Val b \<and> NgapToPlmnId b = Some \<lparr>Mcc = ''208'', Mnc = ''93''\<rparr>"
  using PLMN_roundtrip [of "\<lparr>Mcc = ''208'', Mnc = ''93''\<rparr>"] by (auto simp: is_digit_def)
section \<open>Checksums\<close>

text \<open>
  \<open>HashCRC32\<close> of \<open>src/internal/util/hash.go\<close>: the CRC-32 of IEEE 802.3 (\<open>crc32.NewIEEE\<close>), bit by bit,
  low bit first. Writing to a hash does not fail.
\<close>

definition crc32_bit :: "u32 \<Rightarrow> u32" where
  "crc32_bit c = (if bit c 0 then drop_bit 1 c XOR 0xEDB88320 else drop_bit 1 c)"

definition crc32_byte :: "u32 \<Rightarrow> byte \<Rightarrow> u32" where
  "crc32_byte c b = (crc32_bit ^^ 8) (c XOR ucast b)"

definition HashCRC32 :: "octets \<Rightarrow> u32 gores" where
  "HashCRC32 text = Val (foldl crc32_byte 0xFFFFFFFF text XOR 0xFFFFFFFF)"

text \<open>The check value of the CRC catalogue: that of the digits 1 to 9.\<close>

lemma crc32_bit_numeral:
  "crc32_bit (numeral n) = (if bit (numeral n :: u32) 0 then drop_bit 1 (numeral n) XOR 0xEDB88320 else drop_bit 1 (numeral n))"
  by (simp add: crc32_bit_def)

lemma crc32_byte_steps:
  "crc32_byte c b = crc32_bit (crc32_bit (crc32_bit (crc32_bit (crc32_bit (crc32_bit (crc32_bit (crc32_bit (c XOR ucast b))))))))"
  by (simp add: crc32_byte_def eval_nat_numeral)

lemma HashCRC32_check: "HashCRC32 [0x31, 0x32, 0x33, 0x34, 0x35, 0x36, 0x37, 0x38, 0x39] = Val 0xCBF43926"
  by (simp add: HashCRC32_def crc32_byte_steps crc32_bit_numeral)

end
