(* ===== verification/Ngap_Props.thy ===== *)
theory Ngap_Props
  imports System
begin

text \<open>
  Properties of the NGAP server: what its messages do to the UEs, sessions and AMFs, and what they
  fail to do.
\<close>

section \<open>What a message writes\<close>

text \<open>Nothing but the outside is different.\<close>

definition same_context :: "'x world \<Rightarrow> 'x world \<Rightarrow> bool" where
  "same_context w v = (v\<lparr>ext := ext w\<rparr> = w)"

lemma same_context_simps [simp]: "same_context w w" "same_context w (w\<lparr>ext := x\<rparr>)"
  by (simp_all add: same_context_def)

lemma send_built_context [simp]: "same_context w (snd (send_built env amf r w))"
  by (cases r; cases amf; cases "amfs w (the amf)") (simp_all add: send_built_def SendToAmf_def sctp_write_def)

lemma SendErrorIndication_context [simp]: "same_context w (snd (SendErrorIndication env amf i j c d w))"
  by (simp add: SendErrorIndication_def)

lemma pool_ranue:
  assumes "ctx_wf w" "RanUePoolLoad r w = Some u" shows "\<exists>ue. ranues w u = Some ue \<and> ru_RanUeNgapId ue = r"
  using assms unfolding ctx_wf_def pools_ok_def filed_def RanUePoolLoad_def by blast

section \<open>NG reset\<close>

text \<open>No AMF has a UE in its list.\<close>

definition amfs_unlisted where
  "amfs_unlisted R = (case R of (_, _, am, _) \<Rightarrow> \<forall>a m. am a = Some m \<longrightarrow> amf_N3iwfRanUeList m = [])"

interpretation unlisted: world_pred "\<lambda>w. amfs_unlisted (ran_side w)"
  by unfold_locales simp_all

text \<open>
  A predicate on the NGAP side alone survives whatever the IKE server does.
\<close>

interpretation ran_view: child_pred "\<lambda>w. F (ran_side w)" for F
  by unfold_locales simp_all

interpretation ran_views: ike_pred "\<lambda>w. F (ran_side w)" env for F env
  by unfold_locales
    (simp_all add: ran_side_upd ran_side_delete_child [OF refl] ran_side_remove [OF refl] ran_side_new_sa ran_side_address
      ran_view.half_child ran_view.complete_child NewN3iwfIkeUe_def Let_def DeleteIKESecurityAssociation_def
      IkeSpiNgapIdMapping_def)

lemma unlisted_iff: "amfs_unlisted (ran_side w) = (\<forall>a m. amfs w a = Some m \<longrightarrow> amf_N3iwfRanUeList m = [])"
  by (simp add: amfs_unlisted_def ran_side_def)

lemma unlisted_amf:
  assumes "\<And>m. amf_N3iwfRanUeList m = [] \<Longrightarrow> amf_N3iwfRanUeList (g m) = []" "amfs_unlisted (ran_side w)"
  shows "amfs_unlisted (ran_side (snd (upd_amf p g w)))"
  using assms by (cases p) (auto simp: unlisted_iff upd_amf_def modify_def deref_def split: option.split)

lemma unlisted_same: "amfs_unlisted (ran_side w) \<Longrightarrow> amfs w' = amfs w \<Longrightarrow> amfs_unlisted (ran_side w')"
  by (simp add: unlisted_iff)

lemma amfs_upd [simp]:
  "amfs (snd (upd_ranue p f w)) = amfs w" "amfs (snd (upd_session p g w)) = amfs w" "amfs (snd (upd_tmp p h w)) = amfs w"
  by (cases p; auto simp: upd_defs modify_def deref_def split: option.split)+

lemma amfs_create:
  "amfs (snd (CreatePDUSession u i sn w)) = amfs w" "amfs (snd (NewN3iwfRanUe env w)) = amfs w" "amfs (snd (NewTEID env u w)) = amfs w"
  by (auto simp: CreatePDUSession_def NewN3iwfRanUe_def NewTEID_def upd_ranue_def modify_def deref_def Let_def
      split: option.split prod.split)

lemma unlisted_remove:
  assumes "amfs_unlisted (ran_side w)" shows "amfs_unlisted (ran_side (snd (RanUe_Remove env u w)))"
  using assms unfolding RanUe_Remove_def DetachAMF_def free_session_teid_def Let_def
  by (intro unlisted.steps unlisted.loop unlisted_amf)
    (auto simp: unlisted_iff DeleteTEID_def DeleteRanUe_def DeleteIkeSPIFromNgapId_def gm_delete_def)

lemma unlisted_new:
  "amfs_unlisted (ran_side w) \<Longrightarrow> amfs_unlisted (ran_side (snd (NewN3iwfAmf s c w)))"
  by (auto simp: unlisted_iff NewN3iwfAmf_def N3IWFAMF_init_def gm_load_or_store_def Let_def split: option.split)

interpretation unlisted_frame: ngap_pred "\<lambda>w. amfs_unlisted (ran_side w)" env for env
  by unfold_locales
    (assumption | rule unlisted_amf unlisted_remove unlisted_new | erule unlisted_same | simp add: amfs_create)+

interpretation all_unlisted: system_pred "\<lambda>w. amfs_unlisted (ran_side w)" env for env
  by (intro system_pred.intro ran_views.ike_pred_axioms unlisted_frame.ngap_pred_axioms)

lemma reachable_unlisted:
  assumes "n3iwf_reachable env up x w" "amfs w a = Some m" shows "amf_N3iwfRanUeList m = []"
  using all_unlisted.system_reachable [OF assms(1)] assms(2)
  by (simp add: unlisted_iff world_init_def)

text \<open>
  C28: An AMF that resets the whole NG interface resets nothing. No UE is ever put in the list of its
  AMF, so in every world the program reaches \<open>HandleNGReset\<close> with a reset of the whole interface
  finds no UE to remove: at most the acknowledgement is written, and the context (every UE context,
  session, TEID and pool) stays as it was.
\<close>

theorem NGReset_removes_nothing:
  assumes "n3iwf_reachable env up x w"
    and "ies_of InitiatingMessage MsgNGReset pdu = Some ies"
    and "last_ie as_Reset IdResetType ies = Some ResetNGInterface"
  shows "same_context w (snd (HandleNGReset env amf pdu w))"
proof (cases amf)
  case (Some a)
  have loop: "RemoveAllRelatedUe env a w = (case amfs w a of None \<Rightarrow> (Crash NilPointer, w) | Some _ \<Rightarrow> (Val (), w))"
    using reachable_unlisted [OF assms(1)] by (cases "amfs w a") (simp_all add: RemoveAllRelatedUe_def gm_values_def)
  show ?thesis
  proof (cases "printAndGetCause (last_ie as_Cause IdCause ies)")
    case (Val c)
    then show ?thesis
      using assms(2,3) Some loop
      by (cases "amfs w a") (simp_all add: HandleNGReset_def SendNGResetAcknowledge_def print_cause_def Let_def)
  qed (use assms(2,3) Some in \<open>simp_all add: HandleNGReset_def print_cause_def Let_def\<close>)
qed (simp add: HandleNGReset_def)

definition demo_reset :: NGAPPDU where
  "demo_reset = new_pdu InitiatingMessage ProcNGReset CriticalityReject MsgNGReset
     [new_ie IdCause CriticalityIgnore (VCause (BuildCause CausePresentMisc AbstractSyntaxErrorReject)),
      new_ie IdResetType CriticalityReject (VReset ResetNGInterface)]"

theorem NGReset_removes_nothing_witness:
  "same_context demo_run (snd (HandleNGReset demo_srv (Some 0) (Some demo_reset) demo_run)) \<and> amfs demo_run 0 \<noteq> None"
proof -
  have "ies_of InitiatingMessage MsgNGReset (Some demo_reset) = Some
     [new_ie IdCause CriticalityIgnore (VCause (BuildCause CausePresentMisc AbstractSyntaxErrorReject)),
      new_ie IdResetType CriticalityReject (VReset ResetNGInterface)]"
    by (simp add: ies_of_def demo_reset_def new_pdu_def)
  from NGReset_removes_nothing [OF demo_run_reachable this] show ?thesis
    by (simp add: last_ie_def new_ie_def as_defs demo_run_amf)
qed

section \<open>Session modification\<close>

lemma modify_empty [simp]: "snd (modify_session env [] s) = s"
  by (simp add: modify_session_def empty_modify_ies_def last_modify_def Let_def)

lemma modify_transfer_empty: "snd (handlePDUSessionResourceModifyRequestTransfer env s [] w) = w"
proof (cases "sessions w s")
  case (Some ps)
  then show ?thesis
    using modify_empty [of env ps]
    by (cases "modify_session env [] ps")
      (simp add: handlePDUSessionResourceModifyRequestTransfer_def upd_session_def map_upd_triv)
qed (simp add: handlePDUSessionResourceModifyRequestTransfer_def)

lemmas stays = gbind_state [where P = "\<lambda>v. v = w" for w] gtry_state [where P = "\<lambda>v. v = w" for w]

lemma modify_loop_state: "snd (modify_loop env u items d f w) = w"
proof (induction items arbitrary: d f)
  case (Cons item items)
  show ?case
    by (cases item)
      (auto intro!: stays simp: Cons.IH modify_transfer_empty split: option.split)
qed simp

lemma find_ue_state [simp]: "snd (find_ue i j w) = w"
  by (cases i; cases j; cases "RanUePoolLoad (the j) w"; cases "ranues w (the (RanUePoolLoad (the j) w))")
    (auto simp: find_ue_def)

lemma send_ue_context [simp]: "same_context w (snd (send_ue env u b w))"
  by (cases u; cases "ranues w (the u)") (simp_all add: send_ue_def)

lemma modify_request_context:
  "same_context w (snd (HandlePDUSessionResourceModifyRequest env amf pdu w))"
proof -
  let ?send = "\<lambda>u (done, failed). SendPDUSessionResourceModifyResponse env u (Some done) (Some failed) None"
  have "same_context w (snd (gbind (modify_loop env u items [] [] w) (?send u)))" for u items
    using modify_loop_state [of env u items "[]" "[]" w]
    by (cases "modify_loop env u items [] [] w"; cases "fst (modify_loop env u items [] [] w)")
      (auto simp: SendPDUSessionResourceModifyResponse_def)
  then have "same_context w (snd (gbind (find_ue i j w) (\<lambda>u w. gbind (modify_loop env u items [] [] w) (?send u))))" for i j items
    using find_ue_state [of i j w] by (cases "find_ue i j w"; cases "fst (find_ue i j w)") auto
  then show ?thesis
    by (simp add: HandlePDUSessionResourceModifyRequest_def SendPDUSessionResourceModifyResponse_def [of _ None] handler_state Let_def
        split: option.split)
qed

text \<open>
  C29: A request of the AMF to modify PDU sessions modifies nothing. The transfer of each session is
  decoded into a copy, so the handler works on an empty one: whatever the request says, every
  session (its QoS flows, bit rate and network instance) and the rest of the context stay as they
  were and only the response is written.
\<close>

theorem modify_request_ignored:
  "same_context w (snd (HandlePDUSessionResourceModifyRequest env amf pdu w))"
  by (rule modify_request_context)

section \<open>NG set-up\<close>


definition demo_setup_failure :: NGAPPDU where
  "demo_setup_failure = new_pdu UnsuccessfulOutcome ProcNGSetup CriticalityReject NGSetupFailure
     [new_ie IdCause CriticalityIgnore (VCause (BuildCause CausePresentMisc AbstractSyntaxErrorReject)),
      new_ie IdTimeToWait CriticalityIgnore (VTimeToWait V5s)]"


lemma downlink_cached:
  assumes "ranues w u = Some ue" "IkeSpiLoad (ru_RanUeNgapId ue) w = Some spi"
    "ru_IsNASTCPConnEstablished ue" "\<not> ru_IsNASTCPConnEstablishedComplete ue"
  shows "downlink_nas env u m w = (Val (), w\<lparr>ranues := (ranues w)(u \<mapsto>
    ue\<lparr>ru_TemporaryCachedNASMessage := Some (EncapNasMsgToEnvelope m)\<rparr>)\<rparr>)"
  using assms by (simp add: downlink_nas_def upd_ranue_def)

lemma downlinks_cached:
  assumes "ranues w u = Some ue" "IkeSpiLoad (ru_RanUeNgapId ue) w = Some spi"
    "ru_IsNASTCPConnEstablished ue" "\<not> ru_IsNASTCPConnEstablishedComplete ue"
  shows "gloop (downlink_nas env u) (ms @ [m]) w = (Val (), w\<lparr>ranues := (ranues w)(u \<mapsto>
    ue\<lparr>ru_TemporaryCachedNASMessage := Some (EncapNasMsgToEnvelope m)\<rparr>)\<rparr>)"
  using assms
proof (induction ms arbitrary: w ue)
  case (Cons n ms)
  let ?ue = "ue\<lparr>ru_TemporaryCachedNASMessage := Some (EncapNasMsgToEnvelope n)\<rparr>"
  have "IkeSpiLoad (ru_RanUeNgapId ?ue) (w\<lparr>ranues := (ranues w)(u \<mapsto> ?ue)\<rparr>) = Some spi"
    using Cons.prems by (simp add: IkeSpiLoad_def)
  with Cons.IH [of "w\<lparr>ranues := (ranues w)(u \<mapsto> ?ue)\<rparr>" ?ue] Cons.prems show ?case
    by (simp add: downlink_cached [OF Cons.prems] cong: if_cong)
qed (simp add: downlink_cached)

text \<open>
  C27: Between the announcement of the NAS TCP connection and its completion a UE's downlink NAS
  messages wait in a place for one. Whatever messages \<open>ms\<close> and at last \<open>m\<close> the AMF sends in that
  time, nothing is written; when the connection completes, the envelope of \<open>m\<close>, and of no other
  message, is written on it and the place is empty again: the messages before \<open>m\<close> are lost.
\<close>

theorem cached_NAS_last_only:
  assumes "ranues w u = Some ue" "RanUePoolLoad (ru_RanUeNgapId ue) w = Some u" "IkeSpiLoad (ru_RanUeNgapId ue) w = Some spi"
    "ru_IsNASTCPConnEstablished ue" "\<not> ru_IsNASTCPConnEstablishedComplete ue" "ru_TCPConnection ue = Some c"
  shows "\<exists>w1 w2. gloop (downlink_nas env u) (ms @ [m]) w = (Val (), w1) \<and> ext w1 = ext w
    \<and> NGAP_HandleEvent env (NASTCPConnEstablishedCompleteEvt (ru_RanUeNgapId ue)) w1 = (Val (), w2)
    \<and> ext w2 = snd (e_TCP_Write env c (EncapNasMsgToEnvelope m) (ext w))
    \<and> ranues w2 u = Some (ue\<lparr>ru_TemporaryCachedNASMessage := None, ru_IsNASTCPConnEstablishedComplete := True\<rparr>)"
proof -
  let ?ue = "ue\<lparr>ru_TemporaryCachedNASMessage := Some (EncapNasMsgToEnvelope m)\<rparr>"
  let ?w = "w\<lparr>ranues := (ranues w)(u \<mapsto> ?ue)\<rparr>"
  have "RanUePoolLoad (ru_RanUeNgapId ue) ?w = Some u" using assms(2) by (simp add: RanUePoolLoad_def)
  then obtain w2 where "NGAP_HandleEvent env (NASTCPConnEstablishedCompleteEvt (ru_RanUeNgapId ue)) ?w = (Val (), w2)"
    "ext w2 = snd (e_TCP_Write env c (EncapNasMsgToEnvelope m) (ext w))"
    "ranues w2 u = Some (ue\<lparr>ru_TemporaryCachedNASMessage := None, ru_IsNASTCPConnEstablishedComplete := True\<rparr>)"
    using assms(6)
    by (cases "e_TCP_Write env c (EncapNasMsgToEnvelope m) (ext w)")
      (simp add: NGAP_HandleEvent_def HandleNASTCPConnEstablishedComplete_def with_ue_def upd_ranue_def tcp_write_def)
  then show ?thesis
    using downlinks_cached [OF assms(1,3,4,5), of env ms m] by (intro exI [of _ ?w] exI [of _ w2]) simp
qed

definition demo_nas_world :: "nat world" where
  "demo_nas_world = demo_ue_world\<lparr>ranues := [0 \<mapsto> (RanUe_init 1 1)\<lparr>ru_IsNASTCPConnEstablished := True,
     ru_TCPConnection := Some 4\<rparr>]\<rparr>"

theorem cached_NAS_last_only_witness:
  "\<exists>w1 w2. gloop (downlink_nas demo_srv 0) [[1], [2]] demo_nas_world = (Val (), w1)
    \<and> NGAP_HandleEvent demo_srv (NASTCPConnEstablishedCompleteEvt 1) w1 = (Val (), w2) \<and> ext w2 = Suc (ext demo_nas_world)"
proof -
  let ?ue = "(RanUe_init 1 1)\<lparr>ru_IsNASTCPConnEstablished := True, ru_TCPConnection := Some 4\<rparr>"
  have "ranues demo_nas_world 0 = Some ?ue" "RanUePoolLoad (ru_RanUeNgapId ?ue) demo_nas_world = Some 0"
    "IkeSpiLoad (ru_RanUeNgapId ?ue) demo_nas_world = Some 5"
    by (simp_all add: demo_nas_world_def demo_ue_world_def RanUePoolLoad_def IkeSpiLoad_def gm_load_def RanUe_init_def)
  moreover have "e_TCP_Write demo_srv c b n = (True, Suc n)" for c b n by (simp add: demo_defs)
  ultimately show ?thesis
    using cached_NAS_last_only [of demo_nas_world 0 ?ue 5 4 demo_srv "[[1]]" "[2]"] by (simp add: RanUe_init_def) blast
qed

section \<open>Release of a UE\<close>

lemma session_ids_Val: "list_all (\<lambda>s. session_teid w s \<noteq> None) ss \<Longrightarrow> \<exists>ids. session_ids w ss = Val ids"
  by (induction ss) (auto simp: session_teid_def split: option.splits)

lemma release_complete_built:
  assumes "list_all (\<lambda>s. session_teid w s \<noteq> None) (gm_values (ru_PduSessionList ue))"
  shows "BuildUEContextReleaseComplete env ue d w \<noteq> Crash p"
proof -
  obtain ids where "session_ids w (gm_values (ru_PduSessionList ue)) = Val ids" using session_ids_Val [OF assms] by blast
  then show ?thesis by (simp add: BuildUEContextReleaseComplete_def opt_session_ids_def encode_pdu_def split: option.split)
qed

lemma send_ue_Val:
  assumes "ranues w u = Some ue" "\<forall>a. ru_AMF ue = Some a \<longrightarrow> amfs w a \<noteq> None" "\<And>p. build ue w \<noteq> Crash p"
  shows "\<exists>x. send_ue env (Some u) build w = (Val (), w\<lparr>ext := x\<rparr>)"
proof (cases "build ue w")
  case (Val pkt)
  then show ?thesis
  proof (cases "ru_AMF ue")
    case None
    then have "send_ue env (Some u) build w = (Val (), w\<lparr>ext := ext w\<rparr>)"
      using assms(1) Val by (simp add: send_ue_def send_built_def SendToAmf_def)
    then show ?thesis by blast
  next
    case (Some a)
    then show ?thesis
      using assms(1,2) Val by (auto simp: send_ue_def send_built_def SendToAmf_def sctp_write_def)
  qed
next
  case (Err e)
  then have "send_ue env (Some u) build w = (Val (), w\<lparr>ext := ext w\<rparr>)"
    using assms(1) by (simp add: send_ue_def send_built_def)
  then show ?thesis by blast
qed (use assms(3) in simp)

interpretation ike_queue: world_pred "\<lambda>w. ike_evts w = E" for E
  by unfold_locales simp_all

lemma Remove_ike_evts: "ike_evts w = E \<Longrightarrow> ike_evts (snd (RanUe_Remove env u w)) = E"
  unfolding RanUe_Remove_def DetachAMF_def free_session_teid_def Let_def
  by (intro ike_queue.steps ike_queue.loop)
    (auto simp: upd_amf_def modify_def deref_def DeleteTEID_def DeleteRanUe_def DeleteIkeSPIFromNgapId_def split: option.split)

text \<open>
  C11: A release command of the AMF that names a registered UE by its pair of identifiers, with or without
  a cause and whatever other information elements it has, removes that UE on both sides and no other. Whatever
  the outcome of closing its TCP connection, the handler does not panic. After it the UE is not in
  the pool and its SPI is not found from its identifier; the other UEs are in the pool and their SPIs are
  found as before; of the TEIDs exactly those of its sessions are free; the contexts of all UEs are unchanged but for
  the release state of this one, all sessions and the whole IKE side are unchanged (with the identifiers
  found from SPIs), and the IKE server has been told to delete the IKE SA of the UE, by one event at the
  end of its queue.
\<close>

theorem UEContextRelease_removes:
  assumes wf: "ctx_wf w" and amf: "AMFPoolLoad (e_RemoteAddr env conn) w = Some a"
    and u: "RanUePoolLoad r w = Some u" and ue: "ranues w u = Some ue"
    and teids: "list_all (\<lambda>s. session_teid w s \<noteq> None) (gm_values (ru_PduSessionList ue))"
    and spi: "IkeSpiLoad r w = Some spi"
    and dec: "e_ngap_Decoder env buf = Some pdu"
    and pdu: "pdu_Present pdu = InitiatingMessage" "pdu_Outcome pdu = Some out" "out_ProcedureCode out = ProcUEContextRelease"
      "out_Message out = Some (UEContextReleaseCommand, ies)"
    and ids: "missing_ies [(IdUENGAPIDs, has as_UENGAPIDs)] ies = []"
      "last_ie as_UENGAPIDs IdUENGAPIDs ies = Some (UENGAPIDPair (Some (i, r)))"
    and cause: "case last_ie as_Cause IdCause ies of None \<Rightarrow> True | Some c \<Rightarrow> (\<exists>v. printAndGetCause (Some c) = Val v)"
  shows "\<exists>w'. NGAPDispatch env conn buf w = (Val (), w')
    \<and> (\<forall>j. RanUePoolLoad j w' = (if j = r then None else RanUePoolLoad j w))
    \<and> (\<forall>j. IkeSpiLoad j w' = (if j = r then None else IkeSpiLoad j w))
    \<and> (\<forall>t. AllocatedUETEIDLoad t w' =
         (if \<exists>s \<in> set (gm_values (ru_PduSessionList ue)). session_teid w s = Some t then None
          else AllocatedUETEIDLoad t w))
    \<and> ranues w' = (ranues w)(u \<mapsto> ue\<lparr>ru_UeCtxRelState := True\<rparr>) \<and> sessions w' = sessions w
    \<and> ike_side w' = ike_side w
    \<and> ike_evts w' = ike_evts w @ [IKEDeleteRequestEvt spi]"
proof -
  let ?ue = "ue\<lparr>ru_UeCtxRelState := True\<rparr>"
  let ?w1 = "w\<lparr>ranues := (ranues w)(u \<mapsto> ?ue)\<rparr>"
  have id: "ru_RanUeNgapId ue = r" using pool_ranue [OF wf u] ue by simp
  have up: "upd_ranue (Some u) (\<lambda>ue. ue\<lparr>ru_UeCtxRelState := True\<rparr>) w = (Val (), ?w1)" using ue by (simp add: upd_ranue_def)
  have wf1: "ctx_wf ?w1"
    using upd_ranue_plain_wf [OF _ _ _ _ wf, of "\<lambda>ue. ue\<lparr>ru_UeCtxRelState := True\<rparr>" "Some u"] by (simp add: up)
  have teid1: "session_teid ?w1 = session_teid w" by (simp add: session_teid_def fun_eq_iff)
  have "\<exists>x. SendUEContextReleaseComplete env (Some u) None ?w1 = (Val (), ?w1\<lparr>ext := x\<rparr>)"
    unfolding SendUEContextReleaseComplete_def
  proof (rule send_ue_Val)
    show "ranues ?w1 u = Some ?ue" by simp
    show "\<forall>a. ru_AMF ?ue = Some a \<longrightarrow> amfs ?w1 a \<noteq> None"
      using objects_okD(1) [OF wf ue] by (simp add: ranue_ok_def)
    show "BuildUEContextReleaseComplete env ?ue None ?w1 \<noteq> Crash p" for p
      using teids by (intro release_complete_built) (simp add: teid1)
  qed
  then obtain x where sent: "SendUEContextReleaseComplete env (Some u) None ?w1 = (Val (), ?w1\<lparr>ext := x\<rparr>)" by blast
  let ?w3 = "SendIkeEvt (IKEDeleteRequestEvt spi) (?w1\<lparr>ext := x\<rparr>)"
  have "session_teid ?w3 = session_teid w" by (simp add: session_teid_def fun_eq_iff SendIkeEvt_def)
  moreover have "ctx_wf ?w3" using wf1 by (simp add: SendIkeEvt_def ctx_wf_ext ctx_wf_field)
  moreover have "ranues ?w3 u = Some ?ue" by (simp add: SendIkeEvt_def)
  ultimately obtain res w' where rem: "RanUe_Remove env u ?w3 = (res, w')" "res = Val () \<or> res = Err ''Close TCP conn error''"
    "\<forall>j. RanUePoolLoad j w' = (if j = r then None else RanUePoolLoad j ?w3)"
    "\<forall>j. IkeSpiLoad j w' = (if j = r then None else IkeSpiLoad j ?w3)" "ranues w' = ranues ?w3" "sessions w' = sessions ?w3"
    "\<forall>t. AllocatedUETEIDLoad t w' = (if \<exists>s \<in> set (gm_values (ru_PduSessionList ue)). session_teid w s = Some t then None
       else AllocatedUETEIDLoad t ?w3)"
    using RanUe_Remove_effect [of ?w3 u ?ue env] teids by (auto simp: id)
  have "releaseIkeUeAndRanUe env u (?w1\<lparr>ext := x\<rparr>) = (res, w')"
    using rem(1) spi by (simp add: releaseIkeUeAndRanUe_def id IkeSpiLoad_def)
  moreover have "print_opt_cause (last_ie as_Cause IdCause ies) w = (Val (), w)"
    using cause by (auto simp: print_opt_cause_def print_cause_def split: option.splits)
  moreover have "ies_of InitiatingMessage UEContextReleaseCommand (Some pdu) = Some ies"
    using pdu by (simp add: ies_of_def)
  ultimately have run: "NGAPDispatch env conn buf w = (Val (), w')"
    using amf dec u up sent rem(2) pdu ids
    by (auto simp: NGAPDispatch_def dispatch_initiating_def HandleUEContextReleaseCommand_def released_ue_def handler_def)
  have "ike_evts w' = ike_evts w @ [IKEDeleteRequestEvt spi]"
    using Remove_ike_evts [OF refl, of env u ?w3] rem(1) by (simp add: SendIkeEvt_def)
  moreover have "ike_side w' = ike_side w"
    using ike_frame.ngap_message [OF refl, of env conn buf w] run by simp
  ultimately show ?thesis
    using run rem(3-)
    by (intro exI [of _ w']) (simp add: SendIkeEvt_def RanUePoolLoad_def AllocatedUETEIDLoad_def IkeSpiLoad_def)
qed

definition demo_release_world :: "nat world" where
  "demo_release_world = demo_ue_world\<lparr>AMFPool := [(''192.0.2.9'', 3)], amfs := [3 \<mapsto> N3IWFAMF_init ''192.0.2.9'' 0], next_addr := 4\<rparr>"

lemma demo_release_world_wf: "ctx_wf demo_release_world"
  by (auto simp: ctx_wf_def stores_ok_def objects_ok_def pools_ok_def demo_release_world_def demo_ue_world_def world_init_def
      below_def filed_def live_def ranue_ok_def amf_ok_def RanUe_init_def PDUSession_new_def N3IWFAMF_init_def gm_load_def
      split: if_splits)

text \<open>A release command with a cause.\<close>

definition demo_release :: NGAPPDU where
  "demo_release = new_pdu InitiatingMessage ProcUEContextRelease CriticalityReject UEContextReleaseCommand
     [new_ie IdUENGAPIDs CriticalityReject (VUENGAPIDs (UENGAPIDPair (Some (2, 1)))),
      new_ie IdCause CriticalityIgnore (VCause (BuildCause CausePresentMisc AbstractSyntaxErrorReject))]"

theorem UEContextRelease_removes_witness:
  "\<exists>w'. NGAPDispatch (demo_srv\<lparr>e_ngap_Decoder := \<lambda>_. Some demo_release\<rparr>) 0 [7] demo_release_world = (Val (), w')
    \<and> RanUePoolLoad 1 w' = None \<and> IkeSpiLoad 1 w' = None \<and> AllocatedUETEIDLoad 9 w' = None
    \<and> ike_evts w' = [IKEDeleteRequestEvt 5]"
proof -
  let ?env = "demo_srv\<lparr>e_ngap_Decoder := \<lambda>_. Some demo_release\<rparr>"
  let ?ue = "(RanUe_init 1 1)\<lparr>ru_PduSessionList := [(3, 2)]\<rparr>"
  let ?c = "BuildCause CausePresentMisc AbstractSyntaxErrorReject"
  let ?ies = "[new_ie IdUENGAPIDs CriticalityReject (VUENGAPIDs (UENGAPIDPair (Some (2, 1)))),
      new_ie IdCause CriticalityIgnore (VCause ?c)]"
  have w: "AMFPoolLoad (e_RemoteAddr ?env 0) demo_release_world = Some 3" "RanUePoolLoad 1 demo_release_world = Some 0"
    "ranues demo_release_world 0 = Some ?ue"
    "list_all (\<lambda>s. session_teid demo_release_world s \<noteq> None) (gm_values (ru_PduSessionList ?ue))"
    "IkeSpiLoad 1 demo_release_world = Some 5" "e_ngap_Decoder ?env [7] = Some demo_release"
    and t: "\<exists>s \<in> set (gm_values (ru_PduSessionList ?ue)). session_teid demo_release_world s = Some 9"
    and e: "ike_evts demo_release_world = []"
    by (simp_all add: demo_release_world_def demo_ue_world_def demo_defs AMFPoolLoad_def RanUePoolLoad_def IkeSpiLoad_def
        gm_load_def gm_values_def session_teid_def demo_gtp_def world_init_def)
  obtain out where out: "pdu_Present demo_release = InitiatingMessage" "pdu_Outcome demo_release = Some out"
    "out_ProcedureCode out = ProcUEContextRelease" "out_Message out = Some (UEContextReleaseCommand, ?ies)"
    by (simp add: demo_release_def new_pdu_def)
  have "missing_ies [(IdUENGAPIDs, has as_UENGAPIDs)] ?ies = []"
    "last_ie as_UENGAPIDs IdUENGAPIDs ?ies = Some (UENGAPIDPair (Some (2, 1)))"
    "case last_ie as_Cause IdCause ?ies of None \<Rightarrow> True | Some c \<Rightarrow> (\<exists>v. printAndGetCause (Some c) = Val v)"
    by (simp_all add: new_ie_def missing_ies_def has_def as_defs last_ie_def printAndGetCause_def BuildCause_def)
  from UEContextRelease_removes [OF demo_release_world_wf w out this] t e show ?thesis by auto
qed

end
