(* ===== verification/Ngap_Isolation.thy ===== *)
theory Ngap_Isolation
  imports Ngap_Props
begin

text \<open>
  Messages of the AMF act on the UE they name. \<open>only_ue u w0 v\<close> says that between the worlds \<open>w0\<close>
  and \<open>v\<close> no UE context but the one at \<open>u\<close> has changed, the pool of UEs is the same, and every PDU
  session there was is as it was.
\<close>

definition only_ue :: "addr \<Rightarrow> 'x world \<Rightarrow> 'x world \<Rightarrow> bool" where
  "only_ue u w0 v = ((\<forall>a. a \<noteq> u \<longrightarrow> ranues v a = ranues w0 a) \<and> RANUePool v = RANUePool w0
     \<and> (\<forall>s ps. sessions w0 s = Some ps \<longrightarrow> sessions v s = Some ps) \<and> next_addr w0 \<le> next_addr v)"

lemma only_ue_refl [simp]: "only_ue u w w"
  by (simp add: only_ue_def)

lemma only_ue_fields [simp]:
  "only_ue u w0 (v\<lparr>ext := x\<rparr>) = only_ue u w0 v" "only_ue u w0 (v\<lparr>ngap_evts := es\<rparr>) = only_ue u w0 v"
  "only_ue u w0 (v\<lparr>ike_evts := fs\<rparr>) = only_ue u w0 v" "only_ue u w0 (v\<lparr>AllocatedUETEID := t\<rparr>) = only_ue u w0 v"
  by (simp_all add: only_ue_def)

interpretation one_ue: world_pred "only_ue u w0" for u w0
  by unfold_locales simp_all

lemma only_ue_ranue: "only_ue u w0 v \<Longrightarrow> only_ue u w0 (snd (upd_ranue (Some u) f v))"
  by (auto simp: only_ue_def upd_ranue_def modify_def deref_def split: option.split)

lemma only_ue_tmp: "only_ue u w0 v \<Longrightarrow> only_ue u w0 (snd (upd_tmp p f v))"
  by (cases p) (auto simp: only_ue_def upd_tmp_def modify_def deref_def split: option.split)

lemma only_ue_session: "only_ue u w0 v \<Longrightarrow> sessions w0 s = None \<Longrightarrow> only_ue u w0 (snd (upd_session (Some s) f v))"
  by (auto simp: only_ue_def upd_session_def modify_def deref_def split: option.split)

lemma only_ue_evt: "only_ue u w0 v \<Longrightarrow> only_ue u w0 (SendIkeEvt e v)"
  by (simp add: SendIkeEvt_def)

lemma same_context_eq: "same_context v v' \<Longrightarrow> \<exists>x. v' = v\<lparr>ext := x\<rparr>"
proof (intro exI)
  assume "same_context v v'"
  then have "(v'\<lparr>ext := ext v\<rparr>)\<lparr>ext := ext v'\<rparr> = v\<lparr>ext := ext v'\<rparr>" by (simp only: same_context_def)
  then show "v' = v\<lparr>ext := ext v'\<rparr>" by simp
qed

lemma only_ue_context: "same_context v v' \<Longrightarrow> only_ue u w0 v \<Longrightarrow> only_ue u w0 v'"
  by (auto dest!: same_context_eq)

lemma only_ue_sends:
  assumes "only_ue u w0 v"
  shows "only_ue u w0 (snd (send_ue env p b v))" "only_ue u w0 (snd (send_built env p r v))"
    "only_ue u w0 (snd (SendErrorIndication env p i j c d v))"
  using assms by (auto intro: only_ue_context [OF send_ue_context] only_ue_context [OF send_built_context]
      only_ue_context [OF SendErrorIndication_context])

lemma only_ue_tcp: "only_ue u w0 v \<Longrightarrow> only_ue u w0 (snd (tcp_write env c b v))"
  by (simp add: tcp_write_def split: option.split prod.split)

lemma only_ue_teid: "only_ue u w0 v \<Longrightarrow> only_ue u w0 (snd (NewTEID env p v))"
  by (simp add: NewTEID_def Let_def split: option.split prod.split)

lemma only_ue_drop: "only_ue u w0 v \<Longrightarrow> only_ue u w0 (snd (DeletePDUSession u i v))"
  by (simp add: DeletePDUSession_def only_ue_ranue)

lemma fresh_session: "below (sessions w0) (next_addr w0) \<Longrightarrow> only_ue u w0 v \<Longrightarrow> sessions w0 (next_addr v) = None"
  by (auto simp: only_ue_def intro: below_fresh)

lemma only_ue_create:
  assumes "only_ue u w0 v" "below (sessions w0) (next_addr w0)"
  shows "only_ue u w0 (snd (CreatePDUSession u i sn v))"
proof (cases "ranues v u")
  case (Some ue)
  let ?v = "v\<lparr>sessions := (sessions v)(next_addr v \<mapsto> PDUSession_new i sn), next_addr := Suc (next_addr v)\<rparr>"
  have "only_ue u w0 ?v" using assms fresh_session [OF assms(2,1)] by (auto simp: only_ue_def)
  with Some assms(1) show ?thesis by (simp add: CreatePDUSession_def Let_def gbind_last only_ue_ranue)
qed (use assms in \<open>simp add: CreatePDUSession_def\<close>)

lemma created_at: "CreatePDUSession u i sn v = (Val s, v') \<Longrightarrow> s = next_addr v"
  by (auto simp: CreatePDUSession_def Let_def upd_ranue_def modify_def deref_def split: option.splits if_splits)

lemma only_ue_tunnel:
  assumes "only_ue u w0 v" "sessions w0 s = None" shows "only_ue u w0 (snd (setup_tunnel env u s t v))"
proof -
  obtain teid v1 where n: "NewTEID env u v = (teid, v1)" by fastforce
  then have "only_ue u w0 v1" using only_ue_teid [OF assms(1)] by (metis snd_conv)
  with assms show ?thesis
    unfolding setup_tunnel_def Let_def n prod.case by (intro one_ue.steps only_ue_session)
qed

lemma only_ue_transfer:
  "only_ue u w0 v \<Longrightarrow> sessions w0 s = None \<Longrightarrow> only_ue u w0 (snd (handlePDUSessionResourceSetupRequestTransfer env u s t v))"
  unfolding handlePDUSessionResourceSetupRequestTransfer_def Let_def
  by (intro one_ue.steps only_ue_session only_ue_tunnel)

lemma only_ue_item:
  assumes "only_ue u w0 v" "below (sessions w0) (next_addr w0)"
  shows "only_ue u w0 (snd (setup_item env u t f item v))"
proof -
  obtain r v1 where c: "CreatePDUSession u (sri_PDUSessionID item) (sri_SNSSAI item) v = (r, v1)" by fastforce
  then have v1: "only_ue u w0 v1" using only_ue_create [OF assms] by (metis snd_conv)
  show ?thesis
  proof (cases r)
    case (Val s)
    then have "sessions w0 s = None" using c created_at fresh_session [OF assms(2,1)] by metis
    with v1 Val show ?thesis
      unfolding setup_item_def Let_def c
      by (simp, intro one_ue.steps only_ue_transfer only_ue_tmp only_ue_drop)
  qed (use v1 c in \<open>simp_all add: setup_item_def Let_def only_ue_tmp\<close>)
qed

section \<open>The handlers\<close>

lemmas only_ue_steps = one_ue.steps only_ue_ranue only_ue_tmp only_ue_sends only_ue_tcp only_ue_evt

lemma only_ue_icsr:
  assumes "only_ue u w0 v" "below (sessions w0) (next_addr w0)" shows "only_ue u w0 (snd (icsr_sessions env u b items v))"
  using assms unfolding icsr_sessions_def SendInitialContextSetupFailure_def Let_def
  by (intro only_ue_steps one_ue.loop only_ue_item)

lemma only_ue_downlink: "only_ue u w0 v \<Longrightarrow> only_ue u w0 (snd (downlink_nas env u m v))"
  unfolding downlink_nas_def by (intro only_ue_steps)

lemma only_ue_start: "only_ue u w0 v \<Longrightarrow> only_ue u w0 (snd (start_sessions u t m v))"
  unfolding start_sessions_def Let_def by (intro only_ue_steps)

lemma only_ue_release: "only_ue u w0 v \<Longrightarrow> only_ue u w0 (snd (release_command env u r items v))"
  unfolding release_command_def release_item_def print_cause_def by (intro only_ue_steps one_ue.loop)

text \<open>The UE a message names: a handler that goes on has found this one.\<close>

definition named :: "int \<Rightarrow> 'x world \<Rightarrow> addr \<Rightarrow> bool" where
  "named r w u = (RanUePoolLoad r w = None \<or> RanUePoolLoad r w = Some u)"

lemma find_ue_named:
  assumes "named r w u" "find_ue i (Some r) w = (res, w')"
  shows "w' = w \<and> (\<forall>p. res = Val p \<longrightarrow> p = None \<or> p = Some u)"
  using assms find_ue_state [of i "Some r" w]
  by (cases i) (auto simp: find_ue_def named_def deref_def split: option.splits if_splits)

lemma only_ue_find:
  assumes "named r w u" "only_ue u w (snd (f None w))" "only_ue u w (snd (f (Some u) w))"
  shows "only_ue u w (snd (gbind (find_ue i (Some r) w) f))"
proof -
  obtain res w' where f: "find_ue i (Some r) w = (res, w')" by fastforce
  with find_ue_named [OF assms(1) f] assms show ?thesis by (cases res) auto
qed

lemma only_ue_none [simp]: "only_ue u w0 v \<Longrightarrow> only_ue u w0 (snd (upd_ranue None f v))"
  by (simp add: upd_ranue_def)

lemmas to_ue = one_ue.ite one_ue.handle only_ue_find

lemma initial_context_one_ue:
  assumes "named r w u" "below (sessions w) (next_addr w)" "last_ie as_Int IdRANUENGAPID ies = Some r"
    "ies_of InitiatingMessage InitialContextSetupRequest pdu = Some ies"
  shows "only_ue u w (snd (HandleInitialContextSetupRequest env amf pdu w))"
  unfolding HandleInitialContextSetupRequest_def Let_def SendInitialContextSetupFailure_def assms(3,4) option.case
  by (intro to_ue assms(1); (simp only: option.case)?; intro only_ue_steps only_ue_icsr only_ue_refl assms(2))

lemma modification_one_ue:
  assumes "named r w u" "last_ie as_Int IdRANUENGAPID ies = Some r"
    "ies_of InitiatingMessage UEContextModificationRequest pdu = Some ies"
  shows "only_ue u w (snd (HandleUEContextModificationRequest env amf pdu w))"
  unfolding HandleUEContextModificationRequest_def SendUEContextModificationResponse_def assms(2,3) option.case
  by (intro to_ue assms(1); intro only_ue_steps only_ue_none only_ue_refl)

lemma sessions_one_ue:
  assumes "named r w u" "below (sessions w) (next_addr w)" "last_ie as_Int IdRANUENGAPID ies = Some r"
    "ies_of InitiatingMessage PDUSessionResourceSetupRequest pdu = Some ies"
  shows "only_ue u w (snd (HandlePDUSessionResourceSetupRequest env amf pdu w))"
  unfolding HandlePDUSessionResourceSetupRequest_def forward_nas_def Let_def assms(3,4) option.case
  by (intro to_ue assms(1); (simp only: option.case option.sel go_simps)?; intro only_ue_steps only_ue_start one_ue.loop only_ue_item assms(2) only_ue_refl)

lemma release_one_ue:
  assumes "named r w u" "last_ie as_Int IdRANUENGAPID ies = Some r"
    "ies_of InitiatingMessage PDUSessionResourceReleaseCommand pdu = Some ies"
  shows "only_ue u w (snd (HandlePDUSessionResourceReleaseCommand env amf pdu w))"
proof (cases "RanUePoolLoad r w")
  case None
  show ?thesis
    unfolding HandlePDUSessionResourceReleaseCommand_def Let_def assms(2,3) None option.case
    by (intro only_ue_steps only_ue_refl)
next
  case (Some v)
  with assms(1) have "v = u" by (simp add: named_def)
  show ?thesis
    unfolding HandlePDUSessionResourceReleaseCommand_def Let_def assms(2,3) Some \<open>v = u\<close> option.case
    by (intro only_ue_steps only_ue_release only_ue_refl)
qed

lemma capability_one_ue:
  assumes "named r w u" "last_ie as_Int IdRANUENGAPID ies = Some r"
    "ies_of InitiatingMessage UERadioCapabilityCheckRequest pdu = Some ies"
  shows "only_ue u w (snd (HandleUERadioCapabilityCheckRequest env amf pdu w))"
proof (cases "RanUePoolLoad r w")
  case None
  show ?thesis
    unfolding HandleUERadioCapabilityCheckRequest_def Let_def assms(2,3) None option.case
    by (intro only_ue_steps only_ue_refl)
next
  case (Some v)
  with assms(1) have "v = u" by (simp add: named_def)
  show ?thesis
    unfolding HandleUERadioCapabilityCheckRequest_def Let_def assms(2,3) Some \<open>v = u\<close> option.case
    by (intro only_ue_steps only_ue_refl)
qed

lemma nas_one_ue:
  assumes "named r w u" "last_ie as_Int IdRANUENGAPID ies = Some r"
    "ies_of InitiatingMessage DownlinkNASTransport pdu = Some ies"
  shows "only_ue u w (snd (HandleDownlinkNASTransport env amf pdu w))"
proof (cases "RanUePoolLoad r w")
  case None
  show ?thesis
    unfolding HandleDownlinkNASTransport_def Let_def assms(2,3) None option.case
    by (intro only_ue_steps only_ue_refl)
next
  case (Some v)
  with assms(1) have "v = u" by (simp add: named_def)
  show ?thesis
    unfolding HandleDownlinkNASTransport_def Let_def assms(2,3) Some \<open>v = u\<close> option.case
    by (intro only_ue_steps only_ue_downlink only_ue_refl)
qed

text \<open>The procedures whose messages carry the RAN UE NGAP ID of one UE.\<close>

definition ue_procedures :: "ProcedureCode set" where
  "ue_procedures = {ProcInitialContextSetup, ProcUEContextModification, ProcDownlinkNASTransport,
     ProcPDUSessionResourceSetup, ProcPDUSessionResourceModify, ProcPDUSessionResourceRelease, ProcUERadioCapabilityCheck}"

lemma unexpected_message:
  assumes "pdu_Outcome pdu = Some out" "out_Message out = Some (m, ies)"
  shows "ies_of InitiatingMessage m' (Some pdu) = None \<or> ies_of InitiatingMessage m' (Some pdu) = Some ies"
  using assms by (simp add: ies_of_def)

lemma no_message:
  "ies_of InitiatingMessage InitialContextSetupRequest pdu = None \<Longrightarrow> HandleInitialContextSetupRequest env amf pdu w = (Val (), w)"
  "ies_of InitiatingMessage UEContextModificationRequest pdu = None \<Longrightarrow> HandleUEContextModificationRequest env amf pdu w = (Val (), w)"
  "ies_of InitiatingMessage DownlinkNASTransport pdu = None \<Longrightarrow> HandleDownlinkNASTransport env amf pdu w = (Val (), w)"
  "ies_of InitiatingMessage PDUSessionResourceSetupRequest pdu = None \<Longrightarrow> HandlePDUSessionResourceSetupRequest env amf pdu w = (Val (), w)"
  "ies_of InitiatingMessage PDUSessionResourceReleaseCommand pdu = None \<Longrightarrow> HandlePDUSessionResourceReleaseCommand env amf pdu w = (Val (), w)"
  "ies_of InitiatingMessage UERadioCapabilityCheckRequest pdu = None \<Longrightarrow> HandleUERadioCapabilityCheckRequest env amf pdu w = (Val (), w)"
  by (simp_all add: HandleInitialContextSetupRequest_def HandleUEContextModificationRequest_def HandleDownlinkNASTransport_def
      HandlePDUSessionResourceSetupRequest_def HandlePDUSessionResourceReleaseCommand_def HandleUERadioCapabilityCheckRequest_def)

text \<open>
  C6: A message of the AMF about one UE acts on that UE only. Whatever initiating message of the UE
  procedures carries the RAN UE NGAP ID \<open>r\<close> of the UE at \<open>u\<close> (or an identifier that no UE has, then for
  every \<open>u\<close>), and however its handling ends, errors and panics included: every other UE context and the
  pool of UEs are unchanged, and so is every PDU session that existed, of this UE or another.
\<close>

theorem AMF_message_one_UE:
  assumes wf: "ctx_wf w" and code: "code \<in> ue_procedures"
    and pdu: "pdu_Outcome pdu = Some out" "out_Message out = Some (m, ies)"
    and r: "last_ie as_Int IdRANUENGAPID ies = Some r" and u: "named r w u"
  shows "only_ue u w (snd (dispatch_initiating env amf code pdu w))"
proof -
  note msg = unexpected_message [OF pdu]
  have b: "below (sessions w) (next_addr w)" using wf by (simp add: ctx_wf_def stores_ok_def)
  have "only_ue u w (snd (HandleInitialContextSetupRequest env amf (Some pdu) w))"
    using msg [of InitialContextSetupRequest] initial_context_one_ue [OF u b r] by (auto simp: no_message)
  moreover have "only_ue u w (snd (HandleUEContextModificationRequest env amf (Some pdu) w))"
    using msg [of UEContextModificationRequest] modification_one_ue [OF u r] by (auto simp: no_message)
  moreover have "only_ue u w (snd (HandleDownlinkNASTransport env amf (Some pdu) w))"
    using msg [of DownlinkNASTransport] nas_one_ue [OF u r] by (auto simp: no_message)
  moreover have "only_ue u w (snd (HandlePDUSessionResourceSetupRequest env amf (Some pdu) w))"
    using msg [of PDUSessionResourceSetupRequest] sessions_one_ue [OF u b r] by (auto simp: no_message)
  moreover have "only_ue u w (snd (HandlePDUSessionResourceModifyRequest env amf (Some pdu) w))"
    by (rule only_ue_context [OF modify_request_context only_ue_refl])
  moreover have "only_ue u w (snd (HandlePDUSessionResourceReleaseCommand env amf (Some pdu) w))"
    using msg [of PDUSessionResourceReleaseCommand] release_one_ue [OF u r] by (auto simp: no_message)
  moreover have "only_ue u w (snd (HandleUERadioCapabilityCheckRequest env amf (Some pdu) w))"
    using msg [of UERadioCapabilityCheckRequest] capability_one_ue [OF u r] by (auto simp: no_message)
  ultimately show ?thesis using code by (auto simp: ue_procedures_def dispatch_initiating_def)
qed

theorem AMF_message_one_UE_witness:
  "only_ue 0 demo_release_world (snd (dispatch_initiating demo_srv (Some 3) ProcDownlinkNASTransport
     (new_pdu InitiatingMessage ProcDownlinkNASTransport CriticalityIgnore DownlinkNASTransport
       [new_ie IdRANUENGAPID CriticalityReject (VInt 1), new_ie IdNASPDU CriticalityReject (VOctets [126])])
     demo_release_world)) \<and> RanUePoolLoad 1 demo_release_world = Some 0"
proof -
  have "RanUePoolLoad 1 demo_release_world = Some 0"
    by (simp add: demo_release_world_def demo_ue_world_def RanUePoolLoad_def gm_load_def)
  with AMF_message_one_UE [OF demo_release_world_wf, of ProcDownlinkNASTransport
      "new_pdu InitiatingMessage ProcDownlinkNASTransport CriticalityIgnore DownlinkNASTransport
       [new_ie IdRANUENGAPID CriticalityReject (VInt 1), new_ie IdNASPDU CriticalityReject (VOctets [126])]" _ _ _ 1 0 demo_srv "Some 3"]
  show ?thesis
    by (simp add: ue_procedures_def new_pdu_def new_ie_def last_ie_def as_defs named_def)
qed

end
