(* ===== verification/Ngap_Sessions.thy ===== *)
theory Ngap_Sessions
  imports Ngap_Isolation
begin

text \<open>
  Setting up PDU sessions: every session the AMF asks for is either on its way to the IKE server,
  with a tunnel to the UPF, or in the list of failed ones.
\<close>

section \<open>One transfer\<close>

text \<open>What the set-up of the session at \<open>s\<close> for the UE at \<open>u\<close> leaves as it was.\<close>

definition session_frame :: "addr \<Rightarrow> addr \<Rightarrow> 'x world \<Rightarrow> 'x world \<Rightarrow> bool" where
  "session_frame u s w v = (tmps v = tmps w \<and> next_addr v = next_addr w \<and> (\<forall>a. a \<noteq> s \<longrightarrow> sessions v a = sessions w a)
     \<and> (\<forall>t. AllocatedUETEIDLoad t w = Some u \<longrightarrow> AllocatedUETEIDLoad t v = Some u)
     \<and> map_option ps_Id (sessions v s) = map_option ps_Id (sessions w s))"

lemma session_frame_refl [simp]: "session_frame u s w w"
  by (simp add: session_frame_def)

interpretation one_session: world_pred "session_frame u s w0" for u s w0
  by unfold_locales (simp_all add: session_frame_def AllocatedUETEIDLoad_def)

lemma session_frame_upd:
  assumes "session_frame u s w v" "\<And>ps. sessions v s = Some ps \<Longrightarrow> ps_Id (f ps) = ps_Id ps"
  shows "session_frame u s w (snd (upd_session (Some s) f v))"
  using assms by (cases "sessions v s") (auto simp: session_frame_def upd_session_def AllocatedUETEIDLoad_def)

lemma session_frame_teid: "session_frame u s w v \<Longrightarrow> session_frame u s w (snd (NewTEID env u v))"
  by (auto simp: session_frame_def NewTEID_def AllocatedUETEIDLoad_def Let_def split: option.split prod.split)

lemma NewTEID_given: "NewTEID env u v = (t, v') \<Longrightarrow> t \<noteq> 0 \<Longrightarrow> AllocatedUETEIDLoad t v' = Some u"
  by (auto simp: NewTEID_def AllocatedUETEIDLoad_def Let_def split: option.splits prod.splits if_splits)

lemma session_frame_tunnel:
  assumes "session_frame u s w v" shows "session_frame u s w (snd (setup_tunnel env u s t v))"
proof -
  obtain teid v1 where n: "NewTEID env u v = (teid, v1)" by fastforce
  then have "session_frame u s w v1" using session_frame_teid [OF assms] by (metis snd_conv)
  with assms show ?thesis
    unfolding setup_tunnel_def Let_def n prod.case by (intro one_session.steps session_frame_upd) simp_all
qed

text \<open>The session has a tunnel whose incoming TEID belongs to the UE.\<close>

definition tunnelled :: "addr \<Rightarrow> 'x world \<Rightarrow> addr \<Rightarrow> bool" where
  "tunnelled u w s = (\<exists>ps g. sessions w s = Some ps \<and> ps_GTPConnInfo ps = Some g \<and> gtp_IncomingTEID g \<noteq> 0
     \<and> AllocatedUETEIDLoad (gtp_IncomingTEID g) w = Some u)"

lemma tunnel_success:
  assumes "setup_tunnel env u s t v = (Val (True, b), v')" shows "tunnelled u v' s"
proof -
  obtain teid v1 where n: "NewTEID env u v = (teid, v1)" by fastforce
  with assms NewTEID_given [OF n] show ?thesis
    by (auto simp: setup_tunnel_def tunnelled_def AllocatedUETEIDLoad_def Let_def upd_session_def modify_def deref_def
        split: option.splits if_splits)
qed

text \<open>The writes before the tunnel change the session only.\<close>

lemma transfer_cases:
  assumes "handlePDUSessionResourceSetupRequestTransfer env u s t v = (r, v')"
  obtains "v' = v" "\<forall>b. r \<noteq> Val (True, b)"
  | ps ps0 where "sessions v s = Some ps0" "ps_Id ps = ps_Id ps0" "v' = v\<lparr>sessions := (sessions v)(s \<mapsto> ps)\<rparr>" "\<forall>b. r \<noteq> Val (True, b)"
  | ps ps0 tunnel where "sessions v s = Some ps0" "ps_Id ps = ps_Id ps0"
      "setup_tunnel env u s tunnel (v\<lparr>sessions := (sessions v)(s \<mapsto> ps)\<rparr>) = (r, v')"
proof (cases "sessions v s")
  case (Some ps0)
  let ?ps1 = "ps0\<lparr>ps_Ambr := last_setup (\<lambda>ie. case ie of SessionAMBR v \<Rightarrow> Some v | _ \<Rightarrow> None) t,
      ps_Type := last_setup (\<lambda>ie. case ie of SessionType v \<Rightarrow> Some v | _ \<Rightarrow> None) t,
      ps_NetworkInstance := last_setup (\<lambda>ie. case ie of SessionNetworkInstance v \<Rightarrow> Some v | _ \<Rightarrow> None) t\<rparr>"
  obtain ps2 secured where sec: "apply_security (last_setup (\<lambda>ie. case ie of SessionSecurity v \<Rightarrow> Some v | _ \<Rightarrow> None) t) ?ps1 = (ps2, secured)"
    by fastforce
  then have id2: "ps_Id ps2 = ps_Id ps0" using apply_security_id [of "last_setup (\<lambda>ie. case ie of SessionSecurity v \<Rightarrow> Some v | _ \<Rightarrow> None) t" ?ps1] by simp
  note run = assms [unfolded handlePDUSessionResourceSetupRequestTransfer_def Let_def upd_session_def]
  let ?upd = "\<lambda>ps. v\<lparr>sessions := (sessions v)(s \<mapsto> ps)\<rparr>" and ?fails = "\<forall>b. r \<noteq> Val (True, b)"
  show thesis
  proof (cases "last_setup (\<lambda>ie. case ie of SessionQosFlows v \<Rightarrow> Some v | _ \<Rightarrow> None) t")
    case None
    with run sec Some have "v' = v \<and> ?fails \<or> v' = ?upd ps2 \<and> ?fails" by (auto split: if_splits)
    with that(1) that(2) [OF Some id2] show thesis by blast
  next
    case (Some fs)
    obtain ps3 ok where q: "setup_qos_flows fs ps2 = (ps3, ok)" by fastforce
    have "setup_qos_flows fs ps2 = (ps3, ok) \<Longrightarrow> ps_Id ps3 = ps_Id ps2" using setup_qos_flows_id [of fs ps2] by simp
    with q id2 have id3: "ps_Id ps3 = ps_Id ps0" by simp
    from run sec q \<open>sessions v s = Some ps0\<close> Some have "v' = v \<and> ?fails \<or> v' = ?upd ps2 \<and> ?fails \<or> v' = ?upd ps3 \<and> ?fails
      \<or> setup_tunnel env u s (last_setup (\<lambda>ie. case ie of ULTunnel v \<Rightarrow> Some v | _ \<Rightarrow> None) t) (?upd ps3) = (r, v')"
      by (auto split: if_splits)
    with that(1) that(2) [OF \<open>sessions v s = Some ps0\<close> id2] that(2,3) [OF \<open>sessions v s = Some ps0\<close> id3] show thesis by blast
  qed
next
  case None
  with assms have "v' = v \<and> (\<forall>b. r \<noteq> Val (True, b))"
    by (auto simp: handlePDUSessionResourceSetupRequestTransfer_def upd_session_def Let_def split: if_splits)
  with that(1) show thesis by blast
qed

lemma session_frame_transfer:
  "session_frame u s v (snd (handlePDUSessionResourceSetupRequestTransfer env u s t v))"
proof -
  obtain r v' where run: "handlePDUSessionResourceSetupRequestTransfer env u s t v = (r, v')" by fastforce
  have upd: "session_frame u s v (v\<lparr>sessions := (sessions v)(s \<mapsto> ps)\<rparr>)" if "sessions v s = Some ps0" "ps_Id ps = ps_Id ps0" for ps ps0
    using that by (simp add: session_frame_def AllocatedUETEIDLoad_def)
  from run show ?thesis
  proof (cases rule: transfer_cases)
    case (3 ps ps0 tunnel)
    with session_frame_tunnel [OF upd [OF 3(1,2)], of env tunnel] show ?thesis by (simp add: run)
  qed (simp_all add: run upd)
qed

lemma transfer_success:
  assumes "handlePDUSessionResourceSetupRequestTransfer env u s t v = (Val (True, b), v')" shows "tunnelled u v' s"
  using assms by (cases rule: transfer_cases) (auto dest: tunnel_success)

section \<open>The loop over the sessions\<close>

text \<open>From one item to the next: sessions that exist stay, and so do the TEIDs of the UE.\<close>

definition grows :: "addr \<Rightarrow> 'x world \<Rightarrow> 'x world \<Rightarrow> bool" where
  "grows u w v = (next_addr w \<le> next_addr v \<and> (\<forall>a < next_addr w. sessions v a = sessions w a)
     \<and> (\<forall>t. AllocatedUETEIDLoad t w = Some u \<longrightarrow> AllocatedUETEIDLoad t v = Some u))"

lemma grows_refl [simp]: "grows u w w"
  by (simp add: grows_def)

lemma grows_trans: "grows u w v \<Longrightarrow> grows u v x \<Longrightarrow> grows u w x"
  by (simp add: grows_def)

lemma grows_fields [simp]:
  "grows u w (v\<lparr>tmps := t\<rparr>) = grows u w v" "grows u w (v\<lparr>ranues := r\<rparr>) = grows u w v"
  by (simp_all add: grows_def AllocatedUETEIDLoad_def)

lemma tunnelled_fields [simp]:
  "tunnelled u (v\<lparr>tmps := t\<rparr>) s = tunnelled u v s" "tunnelled u (v\<lparr>ranues := r\<rparr>) s = tunnelled u v s"
  by (simp_all add: tunnelled_def AllocatedUETEIDLoad_def)

lemma tunnelled_grows: "tunnelled u w s \<Longrightarrow> s < next_addr w \<Longrightarrow> grows u w v \<Longrightarrow> tunnelled u v s"
  by (auto simp: tunnelled_def grows_def)

lemma created:
  assumes "CreatePDUSession u i sn w = (r, w1)"
  shows "tmps w1 = tmps w \<and> grows u w w1
    \<and> (\<forall>s. r = Val s \<longrightarrow> s = next_addr w \<and> next_addr w1 = Suc s \<and> map_option ps_Id (sessions w1 s) = Some i)"
  using assms by (cases "ranues w u")
    (auto simp: CreatePDUSession_def Let_def upd_ranue_def PDUSession_new_def grows_def AllocatedUETEIDLoad_def split: if_splits)

lemma session_frame_grows:
  assumes "grows u w v" "session_frame u s v v'" "next_addr w \<le> s" shows "grows u w v'"
  using assms by (auto simp: grows_def session_frame_def)

lemma upd_tmp_Val: "upd_tmp (Some t) f w = (Val (), w') \<Longrightarrow> \<exists>tmp. tmps w t = Some tmp \<and> w' = w\<lparr>tmps := (tmps w)(t \<mapsto> f tmp)\<rparr>"
  by (auto simp: upd_tmp_def modify_def deref_def split: option.splits)

lemma gbind_Val: "gbind r f = (Val b, w') \<Longrightarrow> \<exists>a w1. r = (Val a, w1) \<and> f a w1 = (Val b, w')"
  by (cases r; cases "fst r") auto

lemma setup_item_outcome:
  assumes run: "setup_item env u (Some t) add item w = (Val (), w')" and tmp: "tmps w t = Some tmp"
  shows "grows u w w' \<and> ((\<exists>s < next_addr w'. tmps w' t = Some (tmp\<lparr>tmp_UnactivatedPDUSession := tmp_UnactivatedPDUSession tmp @ [s]\<rparr>)
        \<and> tunnelled u w' s \<and> map_option ps_Id (sessions w' s) = Some (sri_PDUSessionID item))
      \<or> (\<exists>x. tmps w' t = Some (add (sri_PDUSessionID item, x) tmp)))"
proof -
  let ?tr = "e_aper_SetupRequestTransfer env (sri_Transfer item)"
  obtain r w1 where c: "CreatePDUSession u (sri_PDUSessionID item) (sri_SNSSAI item) w = (r, w1)" by fastforce
  note c1 = created [OF c]
  show ?thesis
  proof (cases r)
    case (Val s)
    with run c obtain ok b w2 where tr: "handlePDUSessionResourceSetupRequestTransfer env u s ?tr w1 = (Val (ok, b), w2)"
      and rest: "(if ok then upd_tmp (Some t) (\<lambda>tmp. tmp\<lparr>tmp_UnactivatedPDUSession := tmp_UnactivatedPDUSession tmp @ [s]\<rparr>) w2
         else gbind (DeletePDUSession u (sri_PDUSessionID item) w2) (\<lambda>_ w. upd_tmp (Some t) (add (sri_PDUSessionID item, b)) w)) = (Val (), w')"
      by (auto simp: setup_item_def Let_def dest!: gbind_Val)
    have fr: "session_frame u s w1 w2" using session_frame_transfer [of u s w1 env ?tr] by (simp add: tr)
    have s: "s = next_addr w" "s < next_addr w2" "map_option ps_Id (sessions w2 s) = Some (sri_PDUSessionID item)" "tmps w2 t = Some tmp"
      using c1 fr Val tmp by (auto simp: session_frame_def)
    have g: "grows u w w2" using session_frame_grows [OF _ fr] c1 s by blast
    show ?thesis
    proof (cases ok)
      case True
      with rest upd_tmp_Val s(4) have "w' = w2\<lparr>tmps := (tmps w2)(t \<mapsto> tmp\<lparr>tmp_UnactivatedPDUSession := tmp_UnactivatedPDUSession tmp @ [s]\<rparr>)\<rparr>"
        by fastforce
      moreover have "tunnelled u w2 s" using transfer_success [of env u s ?tr w1 b w2] tr True by simp
      ultimately show ?thesis using g s by auto
    next
      case False
      with rest have "\<exists>x. gbind (DeletePDUSession u (sri_PDUSessionID item) w2) (\<lambda>_ w. upd_tmp (Some t) (add (sri_PDUSessionID item, b)) w) = (Val (), w')" by simp
      then obtain q where "w' = w2\<lparr>ranues := q, tmps := (tmps w2)(t \<mapsto> add (sri_PDUSessionID item, b) tmp)\<rparr>"
        using s(4) by (auto simp: DeletePDUSession_def upd_ranue_def upd_tmp_def modify_def deref_def dest!: gbind_Val split: option.splits)
      then show ?thesis using g by auto
    qed
  next
    case (Err e)
    with run c obtain x where "upd_tmp (Some t) (add (sri_PDUSessionID item, x)) w1 = (Val (), w')"
      by (simp add: setup_item_def Let_def)
    from upd_tmp_Val [OF this] c1 tmp show ?thesis by auto
  qed (use run c in \<open>simp add: setup_item_def Let_def\<close>)
qed

definition session_id :: "'x world \<Rightarrow> addr \<Rightarrow> int option" where
  "session_id w s = map_option ps_Id (sessions w s)"

lemma session_id_grows: "s < next_addr w \<Longrightarrow> grows u w v \<Longrightarrow> session_id v s = session_id w s"
  by (simp add: grows_def session_id_def)

lemma setup_loop:
  assumes "gloop (setup_item env u (Some t) add) items w = (Val (), w')" "tmps w t = Some tmp" "sel tmp = Some F"
    and add: "\<And>i tmp. sel (add i tmp) = map_option (\<lambda>l. l @ [i]) (sel tmp)"
      "\<And>i tmp. tmp_UnactivatedPDUSession (add i tmp) = tmp_UnactivatedPDUSession tmp"
      "\<And>tmp ss. sel (tmp\<lparr>tmp_UnactivatedPDUSession := ss\<rparr>) = sel tmp"
  shows "\<exists>tmp' ok failed. tmps w' t = Some tmp' \<and> sel tmp' = Some (F @ failed) \<and> grows u w w'
    \<and> tmp_UnactivatedPDUSession tmp' = tmp_UnactivatedPDUSession tmp @ ok
    \<and> (\<forall>s \<in> set ok. tunnelled u w' s)
    \<and> map (\<lambda>i. Some (sri_PDUSessionID i)) items \<in> shuffles (map (session_id w') ok) (map (\<lambda>f. Some (fst f)) failed)"
  using assms(1-3)
proof (induction items arbitrary: w tmp F)
  case (Cons item items)
  from Cons.prems(1) obtain w1 where i: "setup_item env u (Some t) add item w = (Val (), w1)"
    and rest: "gloop (setup_item env u (Some t) add) items w1 = (Val (), w')"
    by (auto dest!: gbind_Val)
  from setup_item_outcome [OF i Cons.prems(2)] have g: "grows u w w1" by blast
  from setup_item_outcome [OF i Cons.prems(2)] consider
    (ok) s where "s < next_addr w1" "tmps w1 t = Some (tmp\<lparr>tmp_UnactivatedPDUSession := tmp_UnactivatedPDUSession tmp @ [s]\<rparr>)"
      "tunnelled u w1 s" "session_id w1 s = Some (sri_PDUSessionID item)"
    | (failed) x where "tmps w1 t = Some (add (sri_PDUSessionID item, x) tmp)"
    by (auto simp: session_id_def)
  then show ?case
  proof cases
    case ok
    from Cons.IH [OF rest ok(2), of F] Cons.prems(3) obtain tmp' oks failed where ih: "tmps w' t = Some tmp'"
      "sel tmp' = Some (F @ failed)" "grows u w1 w'" "tmp_UnactivatedPDUSession tmp' = tmp_UnactivatedPDUSession tmp @ s # oks"
      "\<forall>s \<in> set oks. tunnelled u w' s"
      "map (\<lambda>i. Some (sri_PDUSessionID i)) items \<in> shuffles (map (session_id w') oks) (map (\<lambda>f. Some (fst f)) failed)"
      by (auto simp: add(3))
    have "tunnelled u w' s" "session_id w' s = Some (sri_PDUSessionID item)"
      using tunnelled_grows [OF ok(3,1) ih(3)] session_id_grows [OF ok(1) ih(3)] ok(4) by simp_all
    then show ?thesis
      using ih g grows_trans [OF g ih(3)]
      by (intro exI [of _ tmp'] exI [of _ "s # oks"] exI [of _ failed]) (simp add: Cons_in_shuffles_leftI)
  next
    case failed
    from Cons.IH [OF rest failed, of "F @ [(sri_PDUSessionID item, x)]"] Cons.prems(3) obtain tmp' oks fails where ih: "tmps w' t = Some tmp'"
      "sel tmp' = Some (F @ (sri_PDUSessionID item, x) # fails)" "grows u w1 w'"
      "tmp_UnactivatedPDUSession tmp' = tmp_UnactivatedPDUSession tmp @ oks" "\<forall>s \<in> set oks. tunnelled u w' s"
      "map (\<lambda>i. Some (sri_PDUSessionID i)) items \<in> shuffles (map (session_id w') oks) (map (\<lambda>f. Some (fst f)) fails)"
      by (auto simp: add(1,2))
    then show ?thesis
      using grows_trans [OF g ih(3)]
      by (intro exI [of _ tmp'] exI [of _ oks] exI [of _ "(sri_PDUSessionID item, x) # fails"]) (simp add: Cons_in_shuffles_rightI)
  qed
qed auto

text \<open>
  C10: No requested PDU session is forgotten. When the loop of a set-up request over the items of the
  AMF is done, the requested identifiers are an interleaving, each in the order of the request, of
  those of the sessions handed to the IKE server and those in the list of failed sessions; and every
  session handed on exists and has a tunnel to the UPF whose incoming TEID is not zero and is
  allocated to this UE.
\<close>

theorem setup_accounts_for_all:
  assumes "gloop (setup_item env u (Some t) add_failed_SU) items w = (Val (), w')" "tmps w t = Some tmp"
    "tmp_FailedListSURes tmp = Some []" "tmp_UnactivatedPDUSession tmp = []"
  shows "\<exists>tmp' failed. tmps w' t = Some tmp' \<and> tmp_FailedListSURes tmp' = Some failed
    \<and> map (\<lambda>i. Some (sri_PDUSessionID i)) items
        \<in> shuffles (map (session_id w') (tmp_UnactivatedPDUSession tmp')) (map (\<lambda>f. Some (fst f)) failed)
    \<and> (\<forall>s \<in> set (tmp_UnactivatedPDUSession tmp'). tunnelled u w' s)"
  using setup_loop [OF assms(1,2), of tmp_FailedListSURes "[]"] assms(3,4)
  by (auto simp: add_failed_SU_def AppendPDUSessionResource_def)

text \<open>Two sessions for the UE of \<open>demo_release_world\<close>, one new and one it has already.\<close>

definition demo_setup_world :: "nat world" where
  "demo_setup_world = demo_release_world\<lparr>tmps := [1 \<mapsto> PDUSessionSetupTemporaryData_new\<lparr>tmp_FailedListSURes := Some []\<rparr>]\<rparr>"

definition demo_items :: "SetupRequestItem list" where
  "demo_items = map (\<lambda>i. \<lparr>sri_PDUSessionID = i, sri_NASPDU = None, sri_SNSSAI = \<lparr>sst = [1], sd = None\<rparr>, sri_Transfer = []\<rparr>) [7, 3]"

lemma demo_setup_runs:
  "\<exists>w'. gloop (setup_item (demo_srv\<lparr>e_IPAddressToString := \<lambda>_. (''192.0.2.1'', [])\<rparr>) 0 (Some 1) add_failed_SU) demo_items demo_setup_world
     = (Val (), w')"
proof -
  have env: "e_aper_SetupRequestTransfer demo_srv b = [ULTunnel (Some (Some ([192, 0, 2, 1], [0, 0, 0, 77]))), SessionQosFlows (Some [(9, [])])]"
    "e_TEID_Allocate demo_srv n = (Some (int n + 1), Suc n)" "e_ResolveUDPAddr demo_srv a = Some a" for b n a
    by (simp_all add: demo_defs)
  show ?thesis
    unfolding demo_items_def demo_setup_world_def demo_release_world_def demo_ue_world_def
    by (simp add: setup_item_def CreatePDUSession_def handlePDUSessionResourceSetupRequestTransfer_def setup_tunnel_def NewTEID_def
        missing_setup_def last_setup_def apply_security_def upd_session_def upd_ranue_def upd_tmp_def Let_def gm_load_def gm_store_def
        world_init_def RanUe_init_def env)
qed

theorem setup_accounts_for_all_witness:
  "\<exists>w' tmp' failed. gloop (setup_item (demo_srv\<lparr>e_IPAddressToString := \<lambda>_. (''192.0.2.1'', [])\<rparr>) 0 (Some 1) add_failed_SU) demo_items demo_setup_world
     = (Val (), w') \<and> tmps w' 1 = Some tmp' \<and> tmp_FailedListSURes tmp' = Some failed
    \<and> [Some 7, Some 3] \<in> shuffles (map (session_id w') (tmp_UnactivatedPDUSession tmp')) (map (\<lambda>f. Some (fst f)) failed)"
proof -
  obtain w' where run: "gloop (setup_item (demo_srv\<lparr>e_IPAddressToString := \<lambda>_. (''192.0.2.1'', [])\<rparr>) 0 (Some 1) add_failed_SU) demo_items
      demo_setup_world = (Val (), w')" using demo_setup_runs by blast
  have "tmps demo_setup_world 1 = Some (PDUSessionSetupTemporaryData_new\<lparr>tmp_FailedListSURes := Some []\<rparr>)"
    by (simp add: demo_setup_world_def)
  from setup_accounts_for_all [OF run this] run show ?thesis
    by (auto simp: demo_items_def PDUSessionSetupTemporaryData_new_def)
qed

end
