(* ===== verification/Attach.thy ===== *)
theory Attach
  imports System
begin

text \<open>
  The attachment of a UE across the two servers: the IKE server hands the first EAP-5G message to the
  NGAP server, which chooses an AMF and creates the RAN UE; the IKE server creates the IKE UE and binds
  the two; the NGAP server sends the Initial UE Message.
\<close>

section \<open>The three events\<close>

text \<open>The new RAN UE when its AMF has been chosen.\<close>

definition attached_ue :: "int \<Rightarrow> addr \<Rightarrow> addr \<Rightarrow> ANParameters \<Rightarrow> RanUe" where
  "attached_ue j t a an = (RanUe_init j t)\<lparr>ru_AMF := Some a,
     ru_RRCEstablishmentCause := (case anp_EstablishmentCause an of None \<Rightarrow> 0 | Some v \<Rightarrow> uint v)\<rparr>"

lemma RanUe_created:
  assumes eap: "UnmarshalEAP5GData (e_aper env) d = Some (Val (Some an, nas))"
    and cause: "\<forall>v. anp_EstablishmentCause an = Some v \<longrightarrow> v \<le> 32767"
    and amf: "AMFSelection env (anp_GUAMI an) (anp_SelectedPLMNID an) w = Val (Some a)"
    and alloc: "e_RanUeNgapId_Allocate env (ext w) = (Some j, x)"
  shows "HandleUnmarshalEAP5GData env spi d False i w = (Val (), w\<lparr>ext := x,
     ranues := (ranues w)(next_addr w \<mapsto> attached_ue j (Suc (next_addr w)) a an),
     tmps := (tmps w)(Suc (next_addr w) \<mapsto> PDUSessionSetupTemporaryData_new), next_addr := Suc (Suc (next_addr w)),
     RANUePool := gm_store j (next_addr w) (RANUePool w), ike_evts := ike_evts w @ [UnmarshalEAP5GDataResponseEvt spi j nas]\<rparr>)"
proof (cases "anp_EstablishmentCause an")
  case None
  then show ?thesis
    using assms by (simp add: HandleUnmarshalEAP5GData_def NewN3iwfRanUe_def upd_ranue_def SendIkeEvt_def attached_ue_def RanUe_init_def Let_def)
next
  case (Some v)
  then have "\<not> v > 32767" using cause by (simp add: not_less)
  with Some show ?thesis
    using assms by (simp add: HandleUnmarshalEAP5GData_def NewN3iwfRanUe_def upd_ranue_def SendIkeEvt_def attached_ue_def RanUe_init_def Let_def)
qed

lemma IkeUe_created:
  assumes "IKESALoad spi w = Some s" "ikesas w s = Some sa" "isa_LocalSPI sa = spi" "isa_IKEConnection sa = Some c"
  shows "HandleUnmarshalEAP5GDataResponse spi j nas w = (Val (), w\<lparr>next_addr := Suc (next_addr w),
     IKEUePool := gm_store spi (next_addr w) (IKEUePool w), ikesas := (ikesas w)(s \<mapsto> sa\<lparr>isa_IkeUE := Some (next_addr w)\<rparr>),
     ikeues := (ikeues w)(next_addr w \<mapsto> IkeUe_init\<lparr>iu_N3IWFIKESecurityAssociation := Some s, iu_IKEConnection := Some c\<rparr>),
     IKESPIToNGAPId := gm_store spi j (IKESPIToNGAPId w), NGAPIdToIKESPI := gm_store j spi (NGAPIdToIKESPI w),
     ngap_evts := ngap_evts w @ [SendInitialUEMessageEvt j (ip_String (ip_To4 (udp_IP (sock_UEAddr c)))) (udp_Port (sock_UEAddr c)) nas]\<rparr>)"
  using assms
  by (simp add: HandleUnmarshalEAP5GDataResponse_def NewN3iwfIkeUe_def upd_ikesa_def upd_ikeue_def IkeSpiNgapIdMapping_def
      conn_of_def SendNgapEvt_def IKESALoad_def Let_def)

lemma Initial_sent:
  assumes "RanUePoolLoad j w = Some r" "ranues w r = Some ue" "ru_AMF ue = Some a" "amfs w a = Some m" "ru_Guti ue = []"
  shows "\<exists>ue' x. ue' = ue\<lparr>ru_IPAddrv4 := ip, ru_PortNumber := sint (word_of_int port :: u32)\<rparr>
    \<and> HandleSendInitialUEMessage env j ip port nas w = (Val (), w\<lparr>ranues := (ranues w)(r \<mapsto> ue'), ext := x\<rparr>)
    \<and> (\<forall>pkt. BuildInitialUEMessage env ue' nas None = Val pkt \<longrightarrow> x = snd (e_SCTP_Write env (amf_SCTPConn m) pkt (ext w)))"
proof -
  let ?ue = "ue\<lparr>ru_IPAddrv4 := ip, ru_PortNumber := sint (word_of_int port :: u32)\<rparr>"
  let ?w = "w\<lparr>ranues := (ranues w)(r \<mapsto> ?ue)\<rparr>"
  have "HandleSendInitialUEMessage env j ip port nas w = send_built env (Some a) (BuildInitialUEMessage env ?ue nas None) ?w"
    using assms by (simp add: HandleSendInitialUEMessage_def with_ue_def upd_ranue_def SendInitialUEMessage_def send_ue_def)
  moreover have "\<exists>x. send_built env (Some a) (BuildInitialUEMessage env ?ue nas None) ?w = (Val (), ?w\<lparr>ext := x\<rparr>)
    \<and> (\<forall>pkt. BuildInitialUEMessage env ?ue nas None = Val pkt \<longrightarrow> x = snd (e_SCTP_Write env (amf_SCTPConn m) pkt (ext w)))"
  proof (cases "BuildInitialUEMessage env ?ue nas None")
    case (Err e)
    then show ?thesis by (intro exI [of _ "ext w"]) (simp add: send_built_def)
  qed (use assms in \<open>simp_all add: send_built_def SendToAmf_def sctp_write_def BuildInitialUEMessage_def guti_ies_def encode_pdu_def
        split: if_splits option.splits\<close>)
  ultimately show ?thesis by auto
qed

lemma amf_range_evts [simp]: "amf_range env g p (w\<lparr>ngap_evts := es\<rparr>) dflt l = amf_range env g p w dflt l"
  by (induction l arbitrary: dflt) (auto simp: Let_def cong: if_cong split: option.split)

lemma AMFSelection_evts [simp]: "AMFSelection env g p (w\<lparr>ngap_evts := es\<rparr>) = AMFSelection env g p w"
  by (simp add: AMFSelection_def)

lemma sa_spi: "ctx_wf w \<Longrightarrow> IKESALoad spi w = Some s \<Longrightarrow> ikesas w s = Some sa \<Longrightarrow> isa_LocalSPI sa = spi"
  unfolding ctx_wf_def pools_ok_def filed_def IKESALoad_def by fastforce

text \<open>
  C1: Attachment of a UE, end to end over the event queues of the two servers. Let the NGAP server
  have one event, the first EAP-5G message of the UE behind the IKE SA \<open>s\<close>; let its AN parameters
  select the AMF at \<open>a\<close> and the identifier allocator give \<open>j\<close>. Then the NGAP server, the IKE server and
  the NGAP server again each take one event, none fails, the queues are empty, and: the RAN UE with
  identifier \<open>j\<close> and the IKE UE of \<open>s\<close> exist and each is found from the other's identifier, the RAN UE has
  the chosen AMF and the UE's own address, and the Initial UE Message built from it, with the NAS message
  of the UE, is written on the connection of that AMF (unless its encoding fails).
\<close>

theorem attach_end_to_end:
  assumes wf: "ctx_wf w" and evts: "ngap_evts w = [UnmarshalEAP5GDataEvt spi d False i]" "ike_evts w = []"
    and eap: "UnmarshalEAP5GData (e_aper env) d = Some (Val (Some an, nas))"
    and cause: "\<forall>v. anp_EstablishmentCause an = Some v \<longrightarrow> v \<le> 32767"
    and amf: "AMFSelection env (anp_GUAMI an) (anp_SelectedPLMNID an) w = Val (Some a)" "amfs w a = Some m"
    and alloc: "e_RanUeNgapId_Allocate env (ext w) = (Some j, x)"
    and sa: "IKESALoad spi w = Some s" "ikesas w s = Some sa" "isa_IKEConnection sa = Some c"
  shows "\<exists>w1 w2 w3 r u ranUe ikeUe.
      ngap_take_event env w = (Val (), w1) \<and> ike_take_event env w1 = (Val (), w2) \<and> ngap_take_event env w2 = (Val (), w3)
    \<and> ngap_evts w3 = [] \<and> ike_evts w3 = []
    \<and> RanUeLoadFromIkeSPI spi w3 = Val r \<and> ranues w3 r = Some ranUe \<and> ru_RanUeNgapId ranUe = j \<and> ru_AMF ranUe = Some a
    \<and> IkeUeLoadFromNgapId j w3 = Val u \<and> ikeues w3 u = Some ikeUe \<and> iu_N3IWFIKESecurityAssociation ikeUe = Some s
    \<and> map_option isa_IkeUE (ikesas w3 s) = Some (Some u)
    \<and> ru_IPAddrv4 ranUe = ip_String (ip_To4 (udp_IP (sock_UEAddr c)))
    \<and> (\<forall>pkt. BuildInitialUEMessage env ranUe nas None = Val pkt \<longrightarrow> ext w3 = snd (e_SCTP_Write env (amf_SCTPConn m) pkt x))"
proof -
  let ?w0 = "w\<lparr>ngap_evts := []\<rparr>" and ?r = "next_addr w" and ?u = "Suc (Suc (next_addr w))"
  obtain w1 where t1: "ngap_take_event env w = (Val (), w1)" and w1: "w1 = ?w0\<lparr>ext := x,
     ranues := (ranues w)(?r \<mapsto> attached_ue j (Suc ?r) a an), tmps := (tmps w)(Suc ?r \<mapsto> PDUSessionSetupTemporaryData_new),
     next_addr := ?u, RANUePool := gm_store j ?r (RANUePool w), ike_evts := [UnmarshalEAP5GDataResponseEvt spi j nas]\<rparr>"
    using RanUe_created [OF eap cause, of ?w0 a j x spi i] amf(1) alloc evts
    by (simp add: ngap_take_event_def NGAP_HandleEvent_def)
  let ?w1 = "w1\<lparr>ike_evts := []\<rparr>"
  have "IKESALoad spi ?w1 = Some s" "ikesas ?w1 s = Some sa" using sa by (simp_all add: w1 IKESALoad_def)
  note ike = IkeUe_created [OF this sa_spi [OF wf sa(1,2)] sa(3), of j nas]
  obtain w2 where t2: "ike_take_event env w1 = (Val (), w2)" and w2: "w2 = ?w1\<lparr>next_addr := Suc ?u,
     IKEUePool := gm_store spi ?u (IKEUePool w), ikesas := (ikesas w)(s \<mapsto> sa\<lparr>isa_IkeUE := Some ?u\<rparr>),
     ikeues := (ikeues w)(?u \<mapsto> IkeUe_init\<lparr>iu_N3IWFIKESecurityAssociation := Some s, iu_IKEConnection := Some c\<rparr>),
     IKESPIToNGAPId := gm_store spi j (IKESPIToNGAPId w), NGAPIdToIKESPI := gm_store j spi (NGAPIdToIKESPI w),
     ngap_evts := [SendInitialUEMessageEvt j (ip_String (ip_To4 (udp_IP (sock_UEAddr c)))) (udp_Port (sock_UEAddr c)) nas]\<rparr>"
    using ike by (simp add: ike_take_event_def HandleEvent_def w1)
  let ?w2 = "w2\<lparr>ngap_evts := []\<rparr>"
  have u2: "RanUePoolLoad j ?w2 = Some ?r" "ranues ?w2 ?r = Some (attached_ue j (Suc ?r) a an)" "amfs ?w2 a = Some m"
    using amf(2) by (simp_all add: w1 w2 RanUePoolLoad_def)
  have ue: "ru_AMF (attached_ue j (Suc ?r) a an) = Some a" "ru_Guti (attached_ue j (Suc ?r) a an) = []"
    "ru_RanUeNgapId (attached_ue j (Suc ?r) a an) = j"
    by (simp_all add: attached_ue_def RanUe_init_def)
  from Initial_sent [OF u2(1,2) ue(1) u2(3) ue(2), where ip = "ip_String (ip_To4 (udp_IP (sock_UEAddr c)))" and port = "udp_Port (sock_UEAddr c)" and env = env and nas = nas]
  obtain ranUe y where third: "ranUe = (attached_ue j (Suc ?r) a an)\<lparr>ru_IPAddrv4 := ip_String (ip_To4 (udp_IP (sock_UEAddr c))),
        ru_PortNumber := sint (word_of_int (udp_Port (sock_UEAddr c)) :: u32)\<rparr>"
    "HandleSendInitialUEMessage env j (ip_String (ip_To4 (udp_IP (sock_UEAddr c)))) (udp_Port (sock_UEAddr c)) nas ?w2 =
       (Val (), ?w2\<lparr>ranues := (ranues ?w2)(?r \<mapsto> ranUe), ext := y\<rparr>)"
    "\<forall>pkt. BuildInitialUEMessage env ranUe nas None = Val pkt \<longrightarrow> y = snd (e_SCTP_Write env (amf_SCTPConn m) pkt (ext ?w2))"
    by blast
  let ?w3 = "?w2\<lparr>ranues := (ranues ?w2)(?r \<mapsto> ranUe), ext := y\<rparr>"
  have "ngap_take_event env w2 = (Val (), ?w3)" using third(2) by (simp add: ngap_take_event_def NGAP_HandleEvent_def w2)
  with t1 t2 have "ngap_take_event env w = (Val (), w1) \<and> ike_take_event env w1 = (Val (), w2) \<and> ngap_take_event env w2 = (Val (), ?w3)"
    by simp
  moreover have "ngap_evts ?w3 = [] \<and> ike_evts ?w3 = [] \<and> RanUeLoadFromIkeSPI spi ?w3 = Val ?r \<and> ranues ?w3 ?r = Some ranUe
     \<and> IkeUeLoadFromNgapId j ?w3 = Val ?u \<and> map_option isa_IkeUE (ikesas ?w3 s) = Some (Some ?u)"
    by (simp add: w1 w2 RanUeLoadFromIkeSPI_def IkeUeLoadFromNgapId_def RanUePoolLoad_def IkeUePoolLoad_def)
  moreover have "ikeues ?w3 ?u = Some (IkeUe_init\<lparr>iu_N3IWFIKESecurityAssociation := Some s, iu_IKEConnection := Some c\<rparr>)"
    by (simp add: w2)
  moreover have "ext ?w2 = x" by (simp add: w1 w2)
  ultimately show ?thesis using third(1,3) ue
    by (intro exI [of _ w1] exI [of _ w2] exI [of _ ?w3] exI [of _ ?r] exI [of _ ?u] exI [of _ ranUe]
        exI [of _ "IkeUe_init\<lparr>iu_N3IWFIKESecurityAssociation := Some s, iu_IKEConnection := Some c\<rparr>"]) simp
qed

text \<open>An IKE SA (SPI 5) whose UE has sent its first EAP-5G message, and one AMF.\<close>

definition demo_eap5g :: octets where
  "demo_eap5g = enc_eap5g [1, 0] [TLV_Cause 3] [126]"

definition demo_an :: ANParameters where
  "demo_an = ANParameters_new\<lparr>anp_EstablishmentCause := Some 3\<rparr>"

definition demo_attach_world :: "nat world" where
  "demo_attach_world = (world_init 4)\<lparr>IKESA := [(5, 0)], AMFPool := [(''192.0.2.9'', 1)], next_addr := 2,
     ikesas := [0 \<mapsto> IKESecurityAssociation_new\<lparr>isa_LocalSPI := 5,
       isa_IKEConnection := Some \<lparr>sock_Conn = 0, sock_N3IWFAddr = demo_addr, sock_UEAddr = demo_addr\<rparr>\<rparr>],
     amfs := [1 \<mapsto> (N3IWFAMF_init ''192.0.2.9'' 0)\<lparr>amf_ServedGUAMIList := Some []\<rparr>],
     ngap_evts := [UnmarshalEAP5GDataEvt 5 demo_eap5g False 0]\<rparr>"

lemma demo_attach_world_wf: "ctx_wf demo_attach_world"
  by (auto simp: ctx_wf_def stores_ok_def objects_ok_def pools_ok_def demo_attach_world_def world_init_def
      below_def filed_def live_def amf_ok_def N3IWFAMF_init_def IKESecurityAssociation_new_def gm_load_def split: if_splits)

lemma demo_eap5g_parses: "UnmarshalEAP5GData (e_aper demo_srv) demo_eap5g = Some (Val (Some demo_an, [126]))"
proof -
  have "list_all (tlv_ok (e_aper demo_srv)) [TLV_Cause 3]" by simp
  from eap5g_parses [of "[1, 0]" "e_aper demo_srv" "[TLV_Cause 3]" "[126]", OF _ this] show ?thesis
    by (simp add: demo_eap5g_def demo_an_def enc_tlv_def establishment_cause_def an_causes)
qed

theorem attach_end_to_end_witness:
  "\<exists>w1 w2 w3 r u ranUe. ngap_take_event demo_srv demo_attach_world = (Val (), w1) \<and> ike_take_event demo_srv w1 = (Val (), w2)
    \<and> ngap_take_event demo_srv w2 = (Val (), w3) \<and> RanUeLoadFromIkeSPI 5 w3 = Val r \<and> ranues w3 r = Some ranUe
    \<and> ru_RanUeNgapId ranUe = 4 \<and> ru_AMF ranUe = Some 1 \<and> IkeUeLoadFromNgapId 4 w3 = Val u"
proof -
  have evts: "ngap_evts demo_attach_world = [UnmarshalEAP5GDataEvt 5 demo_eap5g False 0]" "ike_evts demo_attach_world = []"
    by (simp_all add: demo_attach_world_def world_init_def)
  have cause: "\<forall>v. anp_EstablishmentCause demo_an = Some v \<longrightarrow> v \<le> 32767" by (simp add: demo_an_def)
  have amf: "AMFSelection demo_srv (anp_GUAMI demo_an) (anp_SelectedPLMNID demo_an) demo_attach_world = Val (Some 1)"
    by (simp add: AMFSelection_def demo_attach_world_def demo_an_def ANParameters_new_def gm_values_def
        FindAvalibleAMFByCompareGUAMI_def FindAvalibleAMFByCompareSelectedPLMNId_def)
  have "\<exists>m. amfs demo_attach_world 1 = Some m" by (simp add: demo_attach_world_def)
  then obtain m where m: "amfs demo_attach_world 1 = Some m" ..
  have alloc: "e_RanUeNgapId_Allocate demo_srv (ext demo_attach_world) = (Some 4, 5)"
    by (simp add: demo_defs demo_attach_world_def world_init_def)
  have "\<exists>sa c. IKESALoad 5 demo_attach_world = Some 0 \<and> ikesas demo_attach_world 0 = Some sa \<and> isa_IKEConnection sa = Some c"
    by (simp add: demo_attach_world_def IKESALoad_def gm_load_def)
  then obtain sa c where sa: "IKESALoad 5 demo_attach_world = Some 0" "ikesas demo_attach_world 0 = Some sa" "isa_IKEConnection sa = Some c"
    by blast
  from attach_end_to_end [OF demo_attach_world_wf evts demo_eap5g_parses cause amf m alloc sa] show ?thesis by blast
qed

end
