(* ===== verification/Ike_Phases.thy ===== *)
theory Ike_Phases
  imports System
begin

text \<open>
  The phases of an IKE SA as an abstract machine, and the program as a refinement of it: whatever
  the servers do, the phase of an SA moves only along the machine, on the input that the machine
  names.
\<close>

section \<open>The machine\<close>

text \<open>
  Its inputs are an IKE_AUTH request of the UE, with or without the proof that the UE knows the key
  of its context, the order of the NGAP server to send EAP success, and the answer of the NGAP server
  with the PDU sessions to set up.
\<close>

datatype phase_input = Request bool | Success | ContextReply

inductive phase_step :: "phase_input \<Rightarrow> u8 \<Rightarrow> u8 \<Rightarrow> bool" where
  start: "phase_step (Request proved) PreSignalling EAPSignalling"
| proof_given: "phase_step (Request True) PostSignalling EndSignalling"
| success: "phase_step Success n (n + 1)"
| reply: "phase_step ContextReply EndSignalling HandleCreateChildSA"

inductive_cases phase_stepE: "phase_step i n m"

text \<open>The AUTH payload of the message proves the key of the UE context of the SA.\<close>

definition proves :: "('x, 'm) ike_env_scheme \<Rightarrow> 'x world \<Rightarrow> IKESecurityAssociation \<Rightarrow> IKEMessage \<Rightarrow> bool" where
  "proves env w sa m =
     (case (isa_IKESAKey sa, isa_IkeUE sa, last_payload the_AUTH (im_Payloads m)) of
        (Some key, Some u, Some d) \<Rightarrow>
          (case ikeues w u of None \<Rightarrow> False
           | Some ue \<Rightarrow> d = auth_value env key (iu_Kn3iwf ue) (isa_InitiatorSignedOctets sa))
      | _ \<Rightarrow> False)"

section \<open>The phase of one SA\<close>

definition state_in :: "addr \<Rightarrow> u8 set \<Rightarrow> 'x world \<Rightarrow> bool" where
  "state_in s S w = (s < next_addr w \<and> (\<exists>sa. ikesas w s = Some sa \<and> isa_State sa \<in> S))"

lemma state_in_mono: "state_in s S w \<Longrightarrow> S \<subseteq> T \<Longrightarrow> state_in s T w"
  by (auto simp: state_in_def)

lemma state_in_fields [simp]:
  "state_in s S (w\<lparr>ext := e\<rparr>) = state_in s S w" "state_in s S (w\<lparr>ngap_evts := es\<rparr>) = state_in s S w"
  "state_in s S (w\<lparr>ike_evts := fs\<rparr>) = state_in s S w"
  "state_in s S (w\<lparr>XfrmIfaces := x\<rparr>) = state_in s S w" "state_in s S (w\<lparr>XfrmIfaceIdOffsetForUP := n\<rparr>) = state_in s S w"
  "state_in s S (w\<lparr>childsas := c\<rparr>) = state_in s S w" "state_in s S (w\<lparr>ikeues := u\<rparr>) = state_in s S w"
  "state_in s S (w\<lparr>tmps := t\<rparr>) = state_in s S w"
  "state_in s S (w\<lparr>ChildSA := cp\<rparr>) = state_in s S w" "state_in s S (w\<lparr>AllocatedUEIPAddress := ap\<rparr>) = state_in s S w"
  "state_in s S (w\<lparr>IKESA := sp\<rparr>) = state_in s S w" "state_in s S (w\<lparr>IKEUePool := ip\<rparr>) = state_in s S w"
  "state_in s S (w\<lparr>IKESPIToNGAPId := m\<rparr>) = state_in s S w" "state_in s S (w\<lparr>NGAPIdToIKESPI := m'\<rparr>) = state_in s S w"
  by (simp_all add: state_in_def)

interpretation state_child: child_pred "state_in s S" for s S
  by unfold_locales (auto simp: state_in_def)

lemma state_upd:
  assumes "\<And>sa. isa_State (f sa) = isa_State sa" "state_in s S w"
  shows "state_in s S (snd (upd_ikesa p f w))"
  using assms by (cases p) (auto simp: state_in_def upd_ikesa_def modify_def deref_def split: option.split)

lemma state_tmp: "state_in s S w \<Longrightarrow> state_in s S (snd (upd_tmp p k w))"
  by (cases p) (auto simp: upd_tmp_def modify_def deref_def split: option.split)

lemma state_delete_child: "state_in s S w \<Longrightarrow> state_in s S (snd (DeleteChildSA env u c w))"
  unfolding DeleteChildSA_def DeleteChildSAXfrm_def
  by (intro state_child.steps state_child.loop state_child.childsa state_child.ikeue) simp_all

lemma state_remove: "state_in s S w \<Longrightarrow> state_in s S (snd (IkeUe_Remove env u w))"
  unfolding IkeUe_Remove_def Let_def
  by (intro state_child.steps state_child.loop state_delete_child state_upd)
    (simp_all add: DeleteInternalUEIPAddr_def DeleteIKESecurityAssociation_def DeleteIKEUe_def
      DeleteNgapIdFromIkeSPI_def)

lemma state_new_sa: "state_in s S w \<Longrightarrow> state_in s S (snd (NewIKESecurityAssociation env w))"
  by (auto simp: state_in_def NewIKESecurityAssociation_def Let_def dest!: draw_spi_spec split: option.splits)

lemma state_address: "NewIPsecInnerUEIP env u w = Some (r, w') \<Longrightarrow> state_in s S w \<Longrightarrow> state_in s S w'"
  by (auto dest!: inner_ip_spec split: gores.splits)

lemma state_new_ue: "state_in s S w \<Longrightarrow> state_in s S (snd (NewN3iwfIkeUe spi w))"
  by (auto simp: state_in_def NewN3iwfIkeUe_def Let_def)

interpretation state_ops: ike_ops "state_in s S" env for s S env
  by unfold_locales
    (simp_all add: state_upd state_tmp state_child.ikeue state_child.childsa state_delete_child state_remove state_new_sa
      state_new_ue state_address state_child.half_child state_child.complete_child
      DeleteIKESecurityAssociation_def IkeSpiNgapIdMapping_def)

section \<open>One move\<close>

text \<open>The phase of SA \<open>s\<close> is still \<open>n\<close>, or the next one if \<open>s\<close> is the SA that \<open>p\<close> points to.\<close>

definition moved :: "addr option \<Rightarrow> addr \<Rightarrow> u8 \<Rightarrow> 'x world \<Rightarrow> bool" where
  "moved p s n = state_in s (insert n (if p = Some s then {n + 1} else {}))"

lemma moved_stays: "state_in s {n} w \<Longrightarrow> moved p s n w"
  by (auto simp: moved_def elim!: state_in_mono)

lemma moved_inc: "state_in s {n} w \<Longrightarrow> moved p s n (snd (upd_ikesa p (\<lambda>sa. sa\<lparr>isa_State := isa_State sa + 1\<rparr>) w))"
  by (cases p) (auto simp: moved_def state_in_def upd_ikesa_def modify_def deref_def split: option.split)

lemma moved_inc_bind:
  assumes "state_in s {n} w" "\<And>w. moved p s n w \<Longrightarrow> moved p s n (snd (f () w))"
  shows "moved p s n (snd (gbind (upd_ikesa p (\<lambda>sa. sa\<lparr>isa_State := isa_State sa + 1\<rparr>) w) f))"
  using assms by (intro gbind_state [where P = "moved p s n"] moved_inc) auto

lemma moved_bind:
  assumes "state_in s {n} (snd r)" "\<And>a w. state_in s {n} w \<Longrightarrow> moved p s n (snd (f a w))"
  shows "moved p s n (snd (gbind r f))"
  using assms moved_stays by (cases r; cases "fst r") auto

lemma moved_try:
  assumes "state_in s {n} (snd r)" "\<And>a w. state_in s {n} w \<Longrightarrow> moved p s n (snd (f a w))"
  shows "moved p s n (snd (gtry r f))"
  using assms moved_stays by (cases r; cases "fst r") auto

lemma moved_cases:
  "moved p s n (snd x) \<Longrightarrow> moved p s n (snd y) \<Longrightarrow> moved p s n (snd (if c then x else y))"
  "moved p s n (snd x) \<Longrightarrow> (\<And>y. moved p s n (snd (f y))) \<Longrightarrow> moved p s n (snd (case o1 of None \<Rightarrow> x | Some y \<Rightarrow> f y))"
  "(\<And>a b. moved p s n (snd (g a b w))) \<Longrightarrow> moved p s n (snd ((case q of (a, b) \<Rightarrow> g a b) w))"
  "(\<And>a b. moved p s n (snd (h a b))) \<Longrightarrow> moved p s n (snd (case q of (a, b) \<Rightarrow> h a b))"
  by (simp_all split: option.split prod.split)

lemma moved_handle: "moved p s n (snd r) \<Longrightarrow> moved p s n (snd (handler r))"
  by (simp add: handler_state)

lemma moved_after:
  assumes "moved p s n w"
  shows "moved p s n (snd (SendIKEMessageToUE env c a b m k w))" "moved p s n (snd (r, SendNgapEvt e (SendNgapEvt e' w)))"
    "moved p s n (snd (StartDPD env u w))"
  using assms unfolding moved_def by (simp_all add: state_child.send state_child.ngap_evt state_ops.dpd)

lemmas moved_rules = moved_inc_bind moved_bind moved_try moved_cases moved_handle

section \<open>The four handlers that move\<close>

lemma moved_start: "state_in s {n} w \<Longrightarrow> moved (Some t) s n (snd (auth_start env c a b m t k w))"
  unfolding auth_start_def Let_def
  by (intro moved_rules state_child.steps state_ops.eap_id moved_after)

lemma moved_pre: "state_in s {n} w \<Longrightarrow> moved (Some t) s n (snd (auth_pre env c a b m t w))"
  unfolding auth_pre_def Let_def
  by (intro moved_rules moved_start; (rule moved_stays)?; (intro state_child.steps state_child.notify state_ops.P_ikesa)?; simp)

lemma moved_accept: "state_in s {n} w \<Longrightarrow> moved (Some t) s n (snd (auth_accept env c a b m t u l w))"
  unfolding auth_accept_def Let_def
  by (intro moved_rules; (rule moved_after | rule moved_stays)?;
      (intro state_child.child_steps state_ops.auth_child state_ops.P_ikesa)?; (simp add: moved_after)?)

lemma moved_post: "state_in s {n} w \<Longrightarrow> moved (Some t) s n (snd (auth_post env c a b m t w))"
  unfolding auth_post_def
  by (intro moved_rules moved_accept; (rule moved_stays)?; (intro state_child.steps state_child.notify)?; simp)

lemma unproved_post:
  assumes "ikesas w t = Some sa" "\<not> proves env w sa m" "state_in s S w"
  shows "state_in s S (snd (auth_post env c a b m t w))"
proof (cases "isa_IKESAKey sa")
  case (Some key)
  show ?thesis
  proof (cases "isa_IkeUE sa")
    case (Some u)
    with assms \<open>isa_IKESAKey sa = Some key\<close> show ?thesis
      by (cases "ikeues w u"; cases "last_payload the_AUTH (im_Payloads m)")
        (simp_all add: auth_post_def sakey_of_def proves_def state_child.notify)
  qed (use assms \<open>isa_IKESAKey sa = Some key\<close> in \<open>simp add: auth_post_def sakey_of_def deref_def\<close>)
qed (use assms in \<open>simp add: auth_post_def sakey_of_def\<close>)

lemma moved_success: "state_in s {n} w \<Longrightarrow> moved (IKESALoad spi w) s n (snd (HandleSendEAPSuccessMsg env spi k l w))"
  unfolding HandleSendEAPSuccessMsg_def
  by (cases "IKESALoad spi w"; simp add: moved_stays)
    (intro moved_rules moved_inc; (intro state_child.steps state_ops.eap_id state_ops.respond state_ops.P_ikeue)?; simp)

lemma moved_reply:
  assumes "state_in s {n} w"
  shows "moved (IKESALoad spi w) s n (snd (HandleGetNGAPContextResponse env spi ns cs w))"
    and "IKESALoad spi w = Some s \<Longrightarrow> n \<noteq> EndSignalling
      \<Longrightarrow> state_in s {n} (snd (HandleGetNGAPContextResponse env spi ns cs w))"
proof -
  let ?p = "IKESALoad spi w"
  have "moved ?p s n (snd (HandleGetNGAPContextResponse env spi ns cs w))
    \<and> (?p = Some s \<longrightarrow> n \<noteq> EndSignalling \<longrightarrow> state_in s {n} (snd (HandleGetNGAPContextResponse env spi ns cs w)))"
  proof (cases "\<exists>t a sa. requested_tmp ns cs 0 None = Val t \<and> ?p = Some a \<and> ikesas w a = Some sa")
    case True
    then obtain t a sa where run: "requested_tmp ns cs 0 None = Val t" "?p = Some a" "ikesas w a = Some sa" by blast
    have "moved ?p s n (snd (gbind (CreatePDUSessionChildSA env (isa_IkeUE sa) t w) (\<lambda>_ w.
         gbind (upd_ikesa ?p (\<lambda>sa. sa\<lparr>isa_State := isa_State sa + 1\<rparr>) w) (\<lambda>_ w. StartDPD env (isa_IkeUE sa) w))))"
      by (intro moved_rules state_ops.pdu_create moved_after assms)
    moreover have "state_in s {n} (snd (continueCreateChildSA env a t w))" by (intro state_ops.continue_child assms)
    moreover have "a = s \<Longrightarrow> isa_State sa = n" using run assms by (simp add: state_in_def)
    ultimately show ?thesis
      using run assms by (auto simp: HandleGetNGAPContextResponse_def Let_def moved_stays)
  next
    case False
    with assms show ?thesis
      by (cases "requested_tmp ns cs 0 None"; cases ?p; cases "ikesas w (the ?p)")
        (auto simp: HandleGetNGAPContextResponse_def moved_stays deref_def)
  qed
  then show "moved ?p s n (snd (HandleGetNGAPContextResponse env spi ns cs w))"
    "?p = Some s \<Longrightarrow> n \<noteq> EndSignalling \<Longrightarrow> state_in s {n} (snd (HandleGetNGAPContextResponse env spi ns cs w))"
    by blast+
qed

section \<open>Packets and events\<close>

text \<open>What \<open>moved\<close> says about the SA itself.\<close>

lemma movedE:
  assumes "moved p s n w"
  obtains sa' where "ikesas w s = Some sa'" "isa_State sa' = n \<or> p = Some s \<and> isa_State sa' = n + 1"
  using assms by (auto simp: moved_def state_in_def split: if_splits)

lemma state_inE:
  assumes "state_in s {n} w" obtains sa' where "ikesas w s = Some sa'" "isa_State sa' = n"
  using assms by (auto simp: state_in_def)

text \<open>The phase of the SA at \<open>s\<close> is what it was, or has moved on the input \<open>i\<close>.\<close>

definition follows :: "addr \<Rightarrow> phase_input \<Rightarrow> u8 \<Rightarrow> 'x world \<Rightarrow> bool" where
  "follows s i n w = (\<exists>sa'. ikesas w s = Some sa' \<and> (isa_State sa' = n \<or> phase_step i n (isa_State sa')))"

lemma follows_stays: "state_in s {n} w \<Longrightarrow> follows s i n w"
  by (auto simp: follows_def state_in_def)

lemma auth_other: 
  assumes "state_in s {n} w" "p \<noteq> Some s" shows "state_in s {n} (snd (HandleIKEAUTH env c a b m p w))"
proof -
  have "moved p s n (snd (HandleIKEAUTH env c a b m p w))"
  proof (cases p)
    case (Some t)
    show ?thesis
      unfolding HandleIKEAUTH_def Let_def Some option.sel
      by (intro moved_rules moved_pre moved_post; (rule moved_stays)?;
          (intro state_child.steps state_ops.auth_eap state_ops.P_ikesa)?; simp add: assms)
  qed (simp add: HandleIKEAUTH_def upd_ikesa_def modify_def deref_def moved_stays assms)
  with assms(2) show ?thesis by (simp add: moved_def)
qed

lemma auth_self:
  assumes sa: "ikesas w s = Some sa" and s: "s < next_addr w"
  shows "follows s (Request (proves env w sa m)) (isa_State sa) (snd (HandleIKEAUTH env c a b m (Some s) w))"
proof -
  let ?sa = "sa\<lparr>isa_InitiatorMessageID := im_MessageID m + 1\<rparr>"
  let ?w = "w\<lparr>ikesas := (ikesas w)(s \<mapsto> ?sa)\<rparr>" and ?n = "isa_State sa"
  have w: "state_in s {?n} ?w" using s by (simp add: state_in_def)
  have proves: "proves env ?w ?sa m = proves env w sa m" by (simp add: proves_def split: option.split)
  have run: "snd (HandleIKEAUTH env c a b m (Some s) w) =
    snd (if ?n = PreSignalling then auth_pre env c a b m s ?w else if ?n = EAPSignalling then auth_eap env c a b m s ?w
         else if ?n = PostSignalling then auth_post env c a b m s ?w else (Val (), ?w))"
    using sa by (simp add: HandleIKEAUTH_def upd_ikesa_def handler_state)
  consider "?n = PreSignalling" | "?n = PostSignalling" "proves env w sa m"
    | "?n \<noteq> PreSignalling" "\<not> (?n = PostSignalling \<and> proves env w sa m)" by blast
  then show ?thesis
  proof cases
    case 1
    with moved_pre [OF w, of s env c a b m] show ?thesis
      by (auto simp: run follows_def intro: phase_step.intros elim!: movedE)
  next
    case 2
    with moved_post [OF w, of s env c a b m] show ?thesis
      by (auto simp: run follows_def intro: phase_step.intros elim!: movedE)
  next
    case 3
    have "state_in s {?n} (snd (HandleIKEAUTH env c a b m (Some s) w))"
      using 3 w unproved_post [of ?w s ?sa env m] proves state_ops.auth_eap [OF w] by (auto simp: run)
    then show ?thesis by (rule follows_stays)
  qed
qed

lemma dispatched_auth:
  "im_ExchangeType m = IKE_AUTH \<Longrightarrow>
    snd (Dispatch env c a b m msg p w) = w \<or> snd (Dispatch env c a b m msg p w) = snd (HandleIKEAUTH env c a b m p w)"
  by (cases p; cases "ikesas w (the p)") (auto simp: Dispatch_def recovered_state deref_def)

lemma checked_message:
  assumes "checkIKEMessage env msg c a b w = (Val (m, p), w')"
  shows "w' = w \<and> (p = None \<or> (\<exists>hdr t sa. p = Some t \<and> e_ParseHeader env msg = Some hdr
    \<and> IKESALoad (ih_ResponderSPI hdr) w = Some t \<and> ikesas w t = Some sa \<and> e_DecodeDecrypt env msg hdr (isa_IKESAKey sa) = Some m))"
proof (cases "e_ParseHeader env msg")
  case (Some hdr)
  have no: "reject_header env c a b hdr ty err w \<noteq> (Val x, v)" for ty err and x :: "IKEMessage \<times> addr option" and v
    by (auto simp: reject_header_def gbind_def split: prod.split gores.split)
  show ?thesis
  proof (cases "IKESALoad (ih_ResponderSPI hdr) w")
    case None
    with assms Some no show ?thesis by (auto simp: checkIKEMessage_def split: if_splits option.splits)
  next
    case (Some t)
    with assms \<open>e_ParseHeader env msg = Some hdr\<close> no show ?thesis
      by (cases "ikesas w t") (auto simp: checkIKEMessage_def split: if_splits option.splits)
  qed
qed (use assms in \<open>simp add: checkIKEMessage_def\<close>)

section \<open>The program refines the machine\<close>

text \<open>
  When the step from \<open>w\<close> to \<open>w'\<close> gives the SA at \<open>s\<close> an input of the machine: an IKE_AUTH message
  for its SPI that decrypts under its key, or an event for its SPI at the head of the queue of the IKE
  server.
\<close>

definition gives :: "('x, 'm) srv_env_scheme \<Rightarrow> 'x world \<Rightarrow> 'x world \<Rightarrow> addr \<Rightarrow> phase_input \<Rightarrow> bool" where
  "gives env w w' s i = (case i of
     Request proved \<Rightarrow> \<exists>msg c a b hdr sa m. w' = snd (serve_packet env msg c a b w) \<and> e_ParseHeader env msg = Some hdr
       \<and> IKESALoad (ih_ResponderSPI hdr) w = Some s \<and> ikesas w s = Some sa
       \<and> e_DecodeDecrypt env msg hdr (isa_IKESAKey sa) = Some m \<and> im_ExchangeType m = IKE_AUTH \<and> proved = proves env w sa m
   | Success \<Rightarrow> \<exists>spi k l es. w' = snd (ike_take_event env w) \<and> ike_evts w = SendEAPSuccessMsgEvt spi k l # es \<and> IKESALoad spi w = Some s
   | ContextReply \<Rightarrow> \<exists>spi ns cs es. w' = snd (ike_take_event env w) \<and> ike_evts w = GetNGAPContextRepEvt spi ns cs # es
       \<and> IKESALoad spi w = Some s)"

lemma packet_follows:
  assumes sa: "ikesas w s = Some sa" and s: "s < next_addr w" and w': "w' = snd (serve_packet env msg c a b w)"
  shows "state_in s {isa_State sa} w' \<or> (\<exists>i. gives env w w' s i \<and> follows s i (isa_State sa) w')"
proof -
  let ?n = "isa_State sa"
  have w: "state_in s {?n} w" using sa s by (simp add: state_in_def)
  obtain r w1 where check: "checkIKEMessage env msg c a b w = (r, w1)" by fastforce
  show ?thesis
  proof (cases r)
    case (Val mp)
    obtain m p where mp: "mp = (m, p)" by (cases mp)
    have run: "w' = snd (Dispatch env c a b m msg p w1)" by (simp add: w' serve_packet_def check Val mp handler_state)
    have w1: "w1 = w" using check Val mp checked_message by blast
    consider "im_ExchangeType m \<noteq> IKE_AUTH" | "w' = w" | "im_ExchangeType m = IKE_AUTH" "w' = snd (HandleIKEAUTH env c a b m p w)"
      using run w1 dispatched_auth by metis
    then show ?thesis
    proof cases
      case 1
      then show ?thesis using run w1 state_ops.other_message [OF 1 w, of env c a b msg p] by simp
    next
      case 2
      then show ?thesis using w by simp
    next
      case 3
      show ?thesis
      proof (cases "p = Some s")
        case True
        have "gives env w w' s (Request (proves env w sa m))"
          using checked_message [of env msg c a b w m p w1] check Val mp True sa w' 3(1) by (auto simp: gives_def)
        with auth_self [OF sa s, of env m c a b] 3 True show ?thesis by auto
      qed (use 3 auth_other [OF w, of p env c a b m] in simp)
    qed
  qed (use state_ops.check_message [OF w, of env msg c a b] in \<open>simp_all add: w' serve_packet_def check handler_state\<close>)
qed

lemma event_follows:
  assumes sa: "ikesas w s = Some sa" and s: "s < next_addr w" and w': "w' = snd (ike_take_event env w)"
  shows "state_in s {isa_State sa} w' \<or> (\<exists>i. gives env w w' s i \<and> follows s i (isa_State sa) w')"
proof (cases "ike_evts w")
  case Nil
  with assms show ?thesis by (simp add: ike_take_event_def state_in_def)
next
  case (Cons e es)
  let ?n = "isa_State sa" and ?w = "w\<lparr>ike_evts := es\<rparr>"
  have w: "state_in s {?n} ?w" using sa s by (simp add: state_in_def)
  have run: "w' = snd (HandleEvent env e ?w)" by (simp add: w' ike_take_event_def Cons)
  have load: "IKESALoad spi ?w = IKESALoad spi w" for spi by (simp add: IKESALoad_def)
  consider (success) spi k l where "e = SendEAPSuccessMsgEvt spi k l" | (reply) spi ns cs where "e = GetNGAPContextRepEvt spi ns cs"
    | (other) "\<And>spi k l. e \<noteq> SendEAPSuccessMsgEvt spi k l" "\<And>spi ns cs. e \<noteq> GetNGAPContextRepEvt spi ns cs" by metis
  then show ?thesis
  proof cases
    case success
    have "moved (IKESALoad spi w) s ?n w'"
      using moved_success [OF w, of spi env k l] by (simp add: run success HandleEvent_moves load)
    then show ?thesis
      using Cons success w' by (cases "IKESALoad spi w = Some s")
        (auto simp: follows_def gives_def state_in_def moved_def intro!: exI [of _ Success] intro: phase_step.success)
  next
    case reply
    have "moved (IKESALoad spi w) s ?n w'" "IKESALoad spi w = Some s \<Longrightarrow> ?n \<noteq> EndSignalling \<Longrightarrow> state_in s {?n} w'"
      using moved_reply [OF w, of spi env ns cs] by (simp_all add: run reply HandleEvent_moves load)
    then show ?thesis
      using Cons reply w' by (cases "IKESALoad spi w = Some s"; cases "?n = EndSignalling")
        (auto simp: follows_def gives_def state_in_def moved_def intro!: exI [of _ ContextReply] intro: phase_step.intros)
  next
    case other
    then show ?thesis using run state_ops.other_event [OF w other, of env] by simp
  qed
qed

text \<open>
  C4: The phase of an IKE SA follows its machine. In a well-formed world, whatever step the program
  takes, an IKE SA that exists still exists after it, and its phase is the same or has moved along
  the machine on an input the step gives to this very SA: on an IKE_AUTH message that decrypts
  under its key from the first phase to the EAP phase, and out of the phase after EAP only if the AUTH
  payload of the message proves the key of the UE; on the reply of the NGAP server from the end of
  signalling to the phase of child SAs; and on an order to send EAP success from any phase to the next
  one, which the handler does not restrict to the EAP phase: a second order moves the SA past the
  phase in which the proof is asked for.
\<close>

theorem SA_phases_refined:
  assumes wf: "ctx_wf w" and step: "n3iwf_step env up w w'" and sa: "ikesas w s = Some sa"
  shows "\<exists>sa'. ikesas w' s = Some sa'
    \<and> (isa_State sa' = isa_State sa \<or> (\<exists>i. gives env w w' s i \<and> phase_step i (isa_State sa) (isa_State sa')))"
proof -
  have s: "s < next_addr w" using wf sa by (auto simp: ctx_wf_def stores_ok_def below_def)
  then have w: "state_in s {isa_State sa} w" using sa by (simp add: state_in_def)
  have follows: ?thesis if "state_in s {isa_State sa} w' \<or> (\<exists>i. gives env w w' s i \<and> follows s i (isa_State sa) w')"
    using that by (auto simp: follows_def state_in_def)
  have apart: ?thesis if "ike_side w' = ike_side w" using that sa by (simp add: ike_side_def)
  from step show ?thesis
  proof (cases rule: n3iwf_step.cases)
    case ike_packet
    then show ?thesis by (intro follows packet_follows sa s)
  next
    case ike_event
    then show ?thesis by (intro follows event_follows sa s)
  next
    case (timer t)
    then show ?thesis by (intro apart) (simp add: ike_frame.timer)
  next
    case (dpd_probe u)
    then show ?thesis by (intro follows disjI1) (simp add: state_ops.dpd w)
  next
    case (dpd_retransmission n t)
    then show ?thesis by (intro follows disjI1) (simp add: state_ops.dpd w)
  qed (rule apart, simp add: ike_frame.server_steps)+
qed

text \<open>An SA in the EAP phase, and the order to send EAP success.\<close>

definition demo_phase :: "nat world" where
  "demo_phase = (demo_sa_world EAPSignalling)\<lparr>ike_evts := [SendEAPSuccessMsgEvt 5 [7] 0],
     ikesas := [0 \<mapsto> (the (ikesas (demo_sa_world EAPSignalling) 0))\<lparr>isa_IKEConnection :=
       Some \<lparr>sock_Conn = 0, sock_N3IWFAddr = demo_addr, sock_UEAddr = demo_addr\<rparr>\<rparr>]\<rparr>"

lemma demo_phase_wf: "ctx_wf demo_phase"
  by (simp add: demo_phase_def demo_sa_world_def ctx_wf_def stores_ok_def objects_ok_def pools_ok_def below_def filed_def live_def
      world_init_def ikeue_ok_def IkeUe_init_def gm_load_def)

lemma demo_phase_moves:
  "map_option isa_State (ikesas (snd (ike_take_event demo_srv demo_phase)) 0) = Some PostSignalling"
  by (simp add: ike_take_event_def demo_phase_def demo_sa_world_def HandleEvent_def HandleSendEAPSuccessMsg_def IKESALoad_def
      gm_load_def upd_ikeue_def upd_ikesa_def new_identifier_def draw_identifier.simps demo_defs auth_response_def conn_of_def
      SendIKEMessageToUE_def ext_opt_def NewMessage_def world_init_def IKESecurityAssociation_new_def handler_def demo_addr_def)

theorem SA_phases_refined_witness:
  "\<exists>i. gives demo_srv demo_phase (snd (ike_take_event demo_srv demo_phase)) 0 i \<and> phase_step i EAPSignalling PostSignalling"
proof -
  obtain sa where sa: "ikesas demo_phase 0 = Some sa" "isa_State sa = EAPSignalling"
    by (simp add: demo_phase_def demo_sa_world_def)
  from SA_phases_refined [OF demo_phase_wf n3iwf_step.ike_event [of demo_srv demo_up] sa(1)] demo_phase_moves sa(2)
  show ?thesis by auto
qed

end
