(* ===== verification/Spec2Isabelle.thy ===== *)
theory Spec2Isabelle
  imports Start_Up Heap_Typing Ngap_Convert Ngap_Sessions Attach Ike_Phases
begin

text \<open>
  Verification development of the N3IWF, the gateway through which a UE on an untrusted network
  (Wi-Fi) reaches a 5G core.

  \<^bold>\<open>The program.\<close> The N3IWF runs four servers over one shared context (\<open>src/internal/context\<close>).
    \<^item> The IKE server (\<open>src/internal/ike\<close>) receives datagrams of UEs on ports 500 and 4500, sets up an IKE SA
      (IKE_SA_INIT), authenticates the UE with EAP-5G inside IKE_AUTH, creates child SAs and installs
      their IPsec rules in the kernel (\<open>ike/xfrm\<close>).
    \<^item> The NGAP server (\<open>src/internal/ngap\<close>) keeps an SCTP connection to each AMF, handles the messages of the
      AMF and sends NGAP messages. The two servers talk to each other by events on a channel each.
    \<^item> The NAS listener (\<open>src/internal/nwucp\<close>) accepts the TCP connection a UE opens inside its first child
      SA and relays NAS messages in envelopes.
    \<^item> The user plane (\<open>src/internal/nwuup\<close>) turns GRE packets of UEs (\<open>src/internal/gre\<close>) into GTP-U packets for the
      UPF (\<open>src/internal/gtp\<close>) and back.
  \<open>src/pkg/factory\<close> reads and validates the configuration, \<open>src/pkg/service\<close> and \<open>src/cmd\<close> start and stop everything.

  \<^bold>\<open>How Go is modelled\<close> (\<open>N3iwf_Prelude\<close>, \<open>World\<close>). A call has an outcome, \<open>gores\<close>: a value, a returned error
  or no return (a panic with its reason, or \<open>NoReturn\<close>), together with the state it leaves; an error or a
  panic does not undo earlier writes. The state is the record \<open>world\<close>: one store per type of object
  (\<open>RanUe\<close>, \<open>IkeUe\<close>, IKE SAs, child SAs, sessions, temporary session data, AMFs) from addresses to structs,
  the pools of \<open>N3IWFContext\<close> as association lists in the order of their keys' insertion (a \<open>range\<close> over a map, whose order Go leaves
  open, goes in that order), the two event queues, the
  running timers, and \<open>ext\<close>, the state of everything outside. Pointers are addresses, so aliasing is
  as in the program; dereferencing nil or a missing address panics. Machine integers are words of
  their width. Code outside the repository (IKE, NGAP and GTP codecs, cryptography, netlink, sockets,
  random numbers, identifier generators, the struct validator) is a field of an environment record,
  \<open>ctx_env\<close>, \<open>ike_env\<close>, \<open>ngap_env\<close>, \<open>srv_env\<close>, \<open>up_env\<close>, \<open>host\<close>, each extending or standing beside the one before, as
  functions that may read and change \<open>ext\<close>; nothing is assumed of them unless a theorem says so.

  \<^bold>\<open>Theories and sources.\<close>
    \<^item> \<open>Gre\<close>, \<open>Gtp\<close>: \<open>gre/message.go\<close>, \<open>gtp/message/message.go\<close>. Round trips, exact outcome of the decoders on every
      input (indexing and slicing panic out of range, and are shown not to, or exactly when), QFI kept on the uplink.
    \<^item> \<open>Nas\<close>: \<open>nas/nas_security/security.go\<close> and the receive loop of \<open>nwucp/server.go\<close>. The messages delivered are
      a prefix of those sent; the length field wraps.
    \<^item> \<open>Eap5g\<close>: \<open>ngap/eap5g.go\<close>. The parser never panics, returns unless it meets a length octet of 254, reads back
      what was encoded; the inputs on which it never returns.
    \<^item> \<open>Context\<close>, \<open>Context_Props\<close>: the operations of \<open>src/internal/context\<close> and their contract: the invariant \<open>ctx_wf\<close>,
      fresh identifiers and addresses, AMF selection against its specification, removal of a UE, child
      SAs.
    \<^item> \<open>Xfrm\<close>: \<open>ike/xfrm/xfrm.go\<close>, the four kernel calls of a child SA in full. \<open>Ike_Select\<close>, \<open>Ike_Select_Props\<close>: the decisions of \<open>ike/handler.go\<close> and \<open>ike/server.go\<close> that
      need no state, selection of IKE and ESP proposals against reference definitions.
    \<^item> \<open>Ike_Handlers\<close>, \<open>Ike_Events\<close>: the messages and the events of the IKE server (\<open>handler.go\<close>, \<open>dispatcher.go\<close>,
      \<open>send.go\<close>, \<open>server.go\<close>). \<open>Ike_Props\<close>: replay, IKE_SA_INIT, authentication before child SAs, unknown SPIs, end
      of the child SA loop, removal of a UE from the context and the kernel, dead peer detection.
    \<^item> \<open>Ngap_Types\<close>, \<open>Ngap_Build\<close>, \<open>Ngap_Send\<close>, \<open>Ngap_Convert\<close>: values, builders and senders of NGAP messages
      (\<open>ngap/message\<close>, \<open>util\<close>). \<open>Ngap_Handlers\<close>, \<open>Ngap_Procedures\<close>, \<open>Ngap_Events\<close>: the handlers of \<open>ngap/handler.go\<close>, the
      dispatcher and one round of the server. \<open>Ngap_Props\<close>, \<open>Ngap_Isolation\<close>, \<open>Ngap_Sessions\<close>: what a message of the AMF does
      to the UEs and sessions.
    \<^item> \<open>User_Plane\<close>: \<open>nwuup/server.go\<close>, isolation in both directions. \<open>Servers\<close>: the loops (datagrams, SCTP, events),
      start and stop of the servers and of the program (\<open>service/init.go\<close>), and the ESP packets the IKE server
      passes on. \<open>Config\<close>: \<open>factory\<close>, exactly which configurations are accepted. \<open>Start_Up\<close>: \<open>NewContext\<close>, \<open>NewApp\<close>, \<open>cmd/main.go\<close>.
    \<^item> \<open>Frames\<close>, \<open>Ike_Frames\<close>, \<open>Ngap_Frames\<close>: the locales \<open>world_pred\<close>, \<open>half_pred\<close>, \<open>child_pred\<close>, \<open>auth_pred\<close>, \<open>ike_ops\<close>, \<open>ike_pred\<close>, \<open>ngap_pred\<close>
      list the writes of the handlers; a predicate that survives them survives every packet and event.
    \<^item> \<open>System\<close>: the program as the relation \<open>n3iwf_step\<close>, in which the servers act in any order; every
      reachable world is well-formed and the servers do not write each other's part. \<open>Heap_Typing\<close>: the
      model is adequate in that its stores behave as one typed heap. \<open>Ike_Phases\<close>: the phases of an IKE SA as a small state machine, and that
      every step of the program refines it. \<open>Attach\<close>: the attachment of a UE across both servers. \<open>Demo_Env\<close>: a
      concrete outside for the examples.

  \<^bold>\<open>Interfaces.\<close> \<open>field_codec\<close> (big-endian integers), \<open>framed_stream\<close> (length-prefixed messages, interpreted on the
  NAS envelope), \<open>step_invariant\<close>, \<open>keyed_pool\<close> (the laws of \<open>sync.Map\<close>, interpreted on the pools of the world) and the frame
  locales above, each interpreted on the model; \<open>system_pred\<close> joins the last two and is interpreted on
  well-formedness, on the heap typing and on the AMFs' lists of UEs.

  \<^bold>\<open>Loops and termination.\<close> No fuel is used. Loops over lists are structural or have a measure. A loop that may run for
  ever is an option-valued partial function whose \<open>None\<close> is turned into \<open>NoReturn\<close> by its caller: drawing an SPI
  (\<open>draw_spi\<close>, \<open>draw_child_spi\<close>), an EAP identifier (\<open>draw_identifier\<close>) or an inner address (\<open>NewIPsecInnerUEIP\<close>) until it is
  unused, which depends on the random source; the AN-parameter loop (\<open>parse_an_parameters\<close>), which does diverge
  on a length of 254; and \<open>pdu_child_loop\<close>, shown to end always. The loop of a server is a function of the list of inputs it
  receives.

  \<^bold>\<open>Concurrency.\<close> One step of \<open>n3iwf_step\<close> is one whole call of a handler. Each server handles its inputs one after
  another in one goroutine, so this is exact for the two servers by themselves; the NAS and user plane goroutines and
  the timers interleave with them in the program at a finer grain, which is not modelled. A send on a
  closed channel panics, but a send never blocks: not on the channels of events and packets when they are full, and not on the
  unbuffered \<open>IKESAClosedCh\<close> when the goroutine of the dead peer detection has ended before.

  \<^bold>\<open>Not modelled.\<close> The text of log messages and the metrics counters; handlers, senders and builders of
  NGAP that only log or encode an empty message (the dispatcher ignores those messages here too); the wait group, signals, profiling and metrics servers of the
  start-up; the GTP-U listen loop (of the library); the unused event types of \<open>context/nwuup.go\<close> and \<open>context/gtp.go\<close>; of \<open>String\<close> of a
  child SA (\<open>context/ikeue.go\<close>) only whether it panics is modelled, not the text; locks, each access under a lock being one step.
\<close>

end
